(* ===== verification/ServiceApi.thy ===== *)
theory ServiceApi
  imports Prelude
begin

text \<open>
  The crate \<open>service-api\<close>: the error classification, the discovery and offer records that
  every other crate exchanges, the entity tag codec of \<open>discovery.rs\<close>, the expiry rule of
  \<open>offer.rs\<close>, and the LNURL metadata (de)serialiser of \<open>lnurl.rs\<close>. The crates \<open>hex\<close>,
  \<open>base64\<close> and \<open>email_address\<close> are not part of the repository: their functions are
  arguments of the definitions.
\<close>

unbundle bit_operations_syntax

section \<open>Error sources (service.rs)\<close>

datatype service_error_source = Upstream | Downstream | Internal

fun service_error_source_display :: "service_error_source \<Rightarrow> string" where
  "service_error_source_display Upstream = ''Upstream''"
| "service_error_source_display Downstream = ''Downstream''"
| "service_error_source_display Internal = ''Internal''"

fun to_http_status :: "service_error_source \<Rightarrow> nat" where
  "to_http_status Downstream = 400"
| "to_http_status Upstream = 502"
| "to_http_status Internal = 500"

text \<open>The classes of \<open>http::StatusCode\<close>.\<close>

definition is_success :: "nat \<Rightarrow> bool" where
  "is_success st \<longleftrightarrow> 200 \<le> st \<and> st < 300"

definition is_client_error :: "nat \<Rightarrow> bool" where
  "is_client_error st \<longleftrightarrow> 400 \<le> st \<and> st < 500"

definition is_server_error :: "nat \<Rightarrow> bool" where
  "is_server_error st \<longleftrightarrow> 500 \<le> st \<and> st < 600"

lemma to_http_status_client_iff: "is_client_error (to_http_status s) \<longleftrightarrow> s = Downstream"
  by (cases s) (simp_all add: is_client_error_def)

lemma to_http_status_server_iff: "is_server_error (to_http_status s) \<longleftrightarrow> s \<noteq> Downstream"
  by (cases s) (simp_all add: is_server_error_def)

section \<open>Discovery records (discovery.rs)\<close>

text \<open>
  A secp256k1 public key is identified by its compressed serialisation, which is also what its
  \<open>Ord\<close> compares.
\<close>

datatype public_key = PublicKey (pk_serialize: "u8 list")

instantiation public_key :: linorder
begin

definition less_eq_public_key :: "public_key \<Rightarrow> public_key \<Rightarrow> bool" where
  "less_eq_public_key a b \<longleftrightarrow> pk_serialize a \<le> pk_serialize b"

definition less_public_key :: "public_key \<Rightarrow> public_key \<Rightarrow> bool" where
  "less_public_key a b \<longleftrightarrow> pk_serialize a < pk_serialize b"

instance
  by standard (auto simp: less_eq_public_key_def less_public_key_def public_key.expand)

end

record discovery_backend_sparse =
  name :: "string option"
  partitions :: "string set"
  weight :: usize
  enabled :: bool
  implementation :: "u8 list"

record discovery_backend =
  public_key :: public_key
  backend :: discovery_backend_sparse

record discovery_backends =
  etag :: u64
  backends :: "discovery_backend list option"

record discovery_backend_patch_sparse =
  patch_name :: "string option option"
  patch_partitions :: "string set option"
  patch_weight :: "usize option"
  patch_enabled :: "bool option"

record discovery_backend_patch =
  patch_public_key :: public_key
  patch_backend :: discovery_backend_patch_sparse

subsection \<open>Entity tags\<close>

definition to_be_bytes :: "u64 \<Rightarrow> u8 list" where
  "to_be_bytes e = map (\<lambda>i. ucast (drop_bit (8 * (7 - i)) e)) [0..<8]"

definition from_be_bytes :: "u8 list \<Rightarrow> u64" where
  "from_be_bytes bs = foldl (\<lambda>acc b. push_bit 8 acc OR ucast b) 0 bs"

datatype io_error = InvalidHex string | InvalidEtagSize nat

definition etag_string :: "(u8 list \<Rightarrow> string) \<Rightarrow> discovery_backends \<Rightarrow> string" where
  "etag_string hex_encode ds = hex_encode (to_be_bytes (etag ds))"

definition etag_from_str :: "(string \<Rightarrow> string + u8 list) \<Rightarrow> string \<Rightarrow> io_error + u64" where
  "etag_from_str hex_decode s =
     (case hex_decode s of
        Inl e \<Rightarrow> Inl (InvalidHex e)
      | Inr bs \<Rightarrow>
          if length bs = 8 then Inr (from_be_bytes bs) else Inl (InvalidEtagSize (length bs)))"

lemma length_to_be_bytes [simp]: "length (to_be_bytes e) = 8"
  by (simp add: to_be_bytes_def)

lemma push_low_byte: "push_bit 8 (drop_bit 8 x) OR ucast (ucast x :: u8) = (x :: u64)"
  by (rule bit_word_eqI) (auto simp: bit_simps)

text \<open>After \<open>k\<close> bytes the fold has read the \<open>8 * k\<close> leading bits.\<close>

lemma foldl_be_bytes:
  "k \<le> 8 \<Longrightarrow>
     foldl (\<lambda>acc b. push_bit 8 acc OR ucast (b :: u8)) 0
       (map (\<lambda>i. ucast (drop_bit (8 * (7 - i)) e)) [0..<k])
     = (if k = 0 then 0 else drop_bit (8 * (8 - k)) (e :: u64))"
proof (induction k)
  case 0
  show ?case by simp
next
  case (Suc k)
  have split: "8 * (8 - k) = 8 + 8 * (7 - k)"
    using Suc.prems by simp
  have "drop_bit (8 * (8 - k)) e = drop_bit 8 (drop_bit (8 * (7 - k)) e)"
    unfolding split by simp
  moreover have "k = 0 \<Longrightarrow> drop_bit 8 (drop_bit (8 * (7 - k)) e) = 0"
    by (rule bit_word_eqI) (auto simp: bit_simps dest: bit_imp_le_length)
  ultimately show ?case
    using Suc push_low_byte [of "drop_bit (8 * (7 - k)) e"] by (cases "k = 0") simp_all
qed

lemma from_be_bytes_to_be_bytes [simp]: "from_be_bytes (to_be_bytes e) = e"
  using foldl_be_bytes [of 8 e] by (simp add: from_be_bytes_def to_be_bytes_def)

text \<open>\<open>hex\<close>: what \<open>encode\<close> prints, \<open>decode\<close> reads back.\<close>

definition hex_codec :: "(u8 list \<Rightarrow> string) \<Rightarrow> (string \<Rightarrow> string + u8 list) \<Rightarrow> bool" where
  "hex_codec enc dec \<longleftrightarrow> (\<forall>bs. dec (enc bs) = Inr bs)"

lemma etag_from_str_etag_string:
  "hex_codec enc dec \<Longrightarrow> etag_from_str dec (etag_string enc ds) = Inr (etag ds)"
  by (simp add: etag_from_str_def etag_string_def hex_codec_def)


section \<open>Offer records (offer.rs)\<close>

datatype offer_metadata_image = Png "u8 list" | Jpeg "u8 list"

text \<open>A parsed \<open>EmailAddress\<close> is the address it was parsed from.\<close>

datatype email_address = EmailAddress (email: string)

datatype offer_metadata_identifier = IdText email_address | IdEmail email_address

record offer_metadata_sparse =
  md_text :: string
  md_long_text :: "string option"
  md_image :: "offer_metadata_image option"
  md_identifier :: "offer_metadata_identifier option"

record offer_metadata =
  meta_id :: uuid
  meta_partition :: string
  meta_metadata :: offer_metadata_sparse

record offer_record_sparse =
  rec_max_sendable :: u64
  rec_min_sendable :: u64
  rec_metadata_id :: uuid
  rec_metadata :: "offer_metadata_sparse option"
  rec_timestamp :: datetime
  rec_expires :: "datetime option"

record offer_record =
  rec_partition :: string
  rec_id :: uuid
  rec_offer :: offer_record_sparse

record offer =
  partition :: string
  offer_id :: uuid
  max_sendable :: u64
  min_sendable :: u64
  metadata_json_string :: string
  metadata_json_hash :: "u8 list"
  timestamp :: datetime
  expires :: "datetime option"

text \<open>\<open>Offer::is_expired\<close>, with the clock as an argument.\<close>

definition is_expired :: "datetime \<Rightarrow> offer \<Rightarrow> bool" where
  "is_expired now ofr =
     (if now < timestamp ofr then True
      else (case expires ofr of
              Some ex \<Rightarrow> if now > ex then True else False
            | None \<Rightarrow> False))"

lemma not_is_expired_iff:
  "\<not> is_expired now ofr \<longleftrightarrow>
     timestamp ofr \<le> now \<and> (case expires ofr of None \<Rightarrow> True | Some ex \<Rightarrow> now \<le> ex)"
  by (auto simp: is_expired_def split: option.splits)

section \<open>LNURL metadata (lnurl.rs)\<close>

definition entry_text :: string where "entry_text = ''text/plain''"
definition entry_text_long :: string where "entry_text_long = ''text/long-desc''"
definition entry_png :: string where "entry_png = ''image/png;base64''"
definition entry_jpeg :: string where "entry_jpeg = ''image/jpeg;base64''"
definition entry_identifier :: string where "entry_identifier = ''text/identifier''"
definition entry_email :: string where "entry_email = ''text/email''"

lemmas entry_types =
  entry_text_def entry_text_long_def entry_png_def entry_jpeg_def entry_identifier_def entry_email_def

text \<open>The length announced to \<open>serialize_seq\<close>, and the elements then written.\<close>

definition metadata_len :: "offer_metadata_sparse \<Rightarrow> nat" where
  "metadata_len md =
     1 + (if md_long_text md = None then 0 else 1)
       + (if md_image md = None then 0 else 1)
       + (if md_identifier md = None then 0 else 1)"

definition metadata_serialize ::
  "(u8 list \<Rightarrow> string) \<Rightarrow> offer_metadata_sparse \<Rightarrow> string list list" where
  "metadata_serialize b64_encode md =
     [entry_text, md_text md]
     # (case md_long_text md of None \<Rightarrow> [] | Some t \<Rightarrow> [[entry_text_long, t]])
     @ (case md_image md of
          None \<Rightarrow> []
        | Some (Png img) \<Rightarrow> [[entry_png, b64_encode img]]
        | Some (Jpeg img) \<Rightarrow> [[entry_jpeg, b64_encode img]])
     @ (case md_identifier md of
          None \<Rightarrow> []
        | Some (IdText i) \<Rightarrow> [[entry_identifier, email i]]
        | Some (IdEmail i) \<Rightarrow> [[entry_email, email i]])"

datatype metadata_error =
    EntryShape
  | InvalidPng string
  | InvalidJpeg string
  | InvalidEmail string
  | MissingText

text \<open>The four \<open>let mut\<close> variables of \<open>visit_seq\<close>.\<close>

record metadata_acc =
  acc_text :: "string option"
  acc_long_text :: "string option"
  acc_image :: "offer_metadata_image option"
  acc_identifier :: "offer_metadata_identifier option"

definition metadata_acc_empty :: metadata_acc where
  "metadata_acc_empty =
     \<lparr>acc_text = None, acc_long_text = None, acc_image = None, acc_identifier = None\<rparr>"

text \<open>One turn of the loop: an element that is no \<open>[String; 2]\<close> is an error.\<close>

fun metadata_entry ::
  "(string \<Rightarrow> string + u8 list) \<Rightarrow> (string \<Rightarrow> string + email_address)
     \<Rightarrow> metadata_acc \<Rightarrow> string list \<Rightarrow> metadata_error + metadata_acc" where
  "metadata_entry b64_decode parse_email acc [ty, v] =
     (if ty = entry_text then Inr (acc\<lparr>acc_text := Some v\<rparr>)
      else if ty = entry_text_long then Inr (acc\<lparr>acc_long_text := Some v\<rparr>)
      else if ty = entry_png then
        map_ok (\<lambda>d. acc\<lparr>acc_image := Some (Png d)\<rparr>) (map_err InvalidPng (b64_decode v))
      else if ty = entry_jpeg then
        map_ok (\<lambda>d. acc\<lparr>acc_image := Some (Jpeg d)\<rparr>) (map_err InvalidJpeg (b64_decode v))
      else if ty = entry_identifier then
        map_ok (\<lambda>e. acc\<lparr>acc_identifier := Some (IdText e)\<rparr>) (map_err InvalidEmail (parse_email v))
      else if ty = entry_email then
        map_ok (\<lambda>e. acc\<lparr>acc_identifier := Some (IdEmail e)\<rparr>) (map_err InvalidEmail (parse_email v))
      else Inr acc)"
| "metadata_entry b64_decode parse_email acc _ = Inl EntryShape"

fun metadata_visit_seq ::
  "(string \<Rightarrow> string + u8 list) \<Rightarrow> (string \<Rightarrow> string + email_address)
     \<Rightarrow> metadata_acc \<Rightarrow> string list list \<Rightarrow> metadata_error + offer_metadata_sparse" where
  "metadata_visit_seq b64_decode parse_email acc [] =
     (case acc_text acc of
        None \<Rightarrow> Inl MissingText
      | Some t \<Rightarrow> Inr \<lparr>md_text = t, md_long_text = acc_long_text acc,
                      md_image = acc_image acc, md_identifier = acc_identifier acc\<rparr>)"
| "metadata_visit_seq b64_decode parse_email acc (x # xs) =
     and_then (metadata_entry b64_decode parse_email acc x)
       (\<lambda>acc'. metadata_visit_seq b64_decode parse_email acc' xs)"

definition metadata_deserialize ::
  "(string \<Rightarrow> string + u8 list) \<Rightarrow> (string \<Rightarrow> string + email_address)
     \<Rightarrow> string list list \<Rightarrow> metadata_error + offer_metadata_sparse" where
  "metadata_deserialize b64_decode parse_email xs =
     metadata_visit_seq b64_decode parse_email metadata_acc_empty xs"

text \<open>What the code relies on: \<open>decode\<close> inverts \<open>encode\<close>, and an address parses back.\<close>

definition metadata_codec ::
  "(u8 list \<Rightarrow> string) \<Rightarrow> (string \<Rightarrow> string + u8 list) \<Rightarrow> (string \<Rightarrow> string + email_address) \<Rightarrow> bool" where
  "metadata_codec enc dec pe \<longleftrightarrow> (\<forall>bs. dec (enc bs) = Inr bs) \<and> (\<forall>a. pe (email a) = Inr a)"

lemma metadata_len_serialize: "length (metadata_serialize enc md) = metadata_len md"
  by (simp add: metadata_serialize_def metadata_len_def split: option.splits
      offer_metadata_image.splits offer_metadata_identifier.splits)

lemma metadata_entry_known [simp]:
  "metadata_entry dec pe acc [entry_text, v] = Inr (acc\<lparr>acc_text := Some v\<rparr>)"
  "metadata_entry dec pe acc [entry_text_long, v] = Inr (acc\<lparr>acc_long_text := Some v\<rparr>)"
  "metadata_entry dec pe acc [entry_png, v] =
     map_ok (\<lambda>d. acc\<lparr>acc_image := Some (Png d)\<rparr>) (map_err InvalidPng (dec v))"
  "metadata_entry dec pe acc [entry_jpeg, v] =
     map_ok (\<lambda>d. acc\<lparr>acc_image := Some (Jpeg d)\<rparr>) (map_err InvalidJpeg (dec v))"
  "metadata_entry dec pe acc [entry_identifier, v] =
     map_ok (\<lambda>e. acc\<lparr>acc_identifier := Some (IdText e)\<rparr>) (map_err InvalidEmail (pe v))"
  "metadata_entry dec pe acc [entry_email, v] =
     map_ok (\<lambda>e. acc\<lparr>acc_identifier := Some (IdEmail e)\<rparr>) (map_err InvalidEmail (pe v))"
  by (simp_all add: entry_types)

lemma metadata_entry_unknown:
  "ty \<notin> {entry_text, entry_text_long, entry_png, entry_jpeg, entry_identifier, entry_email}
     \<Longrightarrow> metadata_entry dec pe acc [ty, v] = Inr acc"
  by simp

declare metadata_entry.simps(1) [simp del]

lemma metadata_deserialize_serialize:
  assumes "metadata_codec enc dec pe"
  shows "metadata_deserialize dec pe (metadata_serialize enc md) = Inr md"
proof -
  have [simp]: "dec (enc bs) = Inr bs" "pe (email a) = Inr a" for bs a
    using assms by (auto simp: metadata_codec_def)
  show ?thesis
    by (simp add: metadata_deserialize_def metadata_serialize_def metadata_acc_empty_def
        split: option.split offer_metadata_image.split offer_metadata_identifier.split)
qed

text \<open>An entry of an unknown type changes nothing, wherever it stands.\<close>

lemma metadata_visit_seq_append:
  "metadata_visit_seq dec pe acc (xs @ ys) = metadata_visit_seq dec pe acc (xs @ [ty, v] # ys)"
  if "ty \<notin> {entry_text, entry_text_long, entry_png, entry_jpeg, entry_identifier, entry_email}"
proof (induction xs arbitrary: acc)
  case Nil
  from that show ?case by (simp add: metadata_entry_unknown)
next
  case (Cons x xs)
  then show ?case
    by (cases "metadata_entry dec pe acc x") simp_all
qed

section \<open>Properties\<close>

text \<open>
  Entity tags survive the wire: the header text printed for a list of backends parses
  back to its 64-bit tag, and a text whose bytes are not eight is refused with their number.
\<close>

theorem etag_round_trips:
  assumes "hex_codec enc dec"
  shows "etag_from_str dec (etag_string enc ds) = Inr (etag ds)
    \<and> (dec s = Inr bs \<longrightarrow> length bs \<noteq> 8 \<longrightarrow> etag_from_str dec s = Inl (InvalidEtagSize (length bs)))"
  using etag_from_str_etag_string [OF assms] by (simp add: etag_from_str_def)

text \<open>A codec for the witness: two letters per byte.\<close>

definition letter_encode :: "u8 list \<Rightarrow> string" where
  "letter_encode bs =
     concat (map (\<lambda>b. [char_of (65 + unat b div 16), char_of (65 + unat b mod 16)]) bs)"

fun letter_decode :: "string \<Rightarrow> string + u8 list" where
  "letter_decode (a # b # s) =
     map_ok ((#) (word_of_nat (16 * (of_char a - 65) + (of_char b - 65)))) (letter_decode s)"
| "letter_decode [] = Inr []"
| "letter_decode [a] = Inl ''odd number of letters''"

lemma letter_codec: "hex_codec letter_encode letter_decode"
  unfolding hex_codec_def
proof
  fix bs :: "u8 list"
  show "letter_decode (letter_encode bs) = Inr bs"
  proof (induction bs)
    case Nil
    show ?case by (simp add: letter_encode_def)
  next
    case (Cons b bs)
    have small: "unat b < 256"
      using unsigned_less [of b] by simp
    then have "unat b div 16 < 16" by simp
    then have "of_char (char_of (65 + unat b div 16) :: char) = 65 + unat b div 16"
      "of_char (char_of (65 + unat b mod 16) :: char) = 65 + unat b mod 16"
      by simp_all
    with Cons show ?case
      by (simp add: letter_encode_def)
  qed
qed

theorem etag_round_trips_witness:
  "etag_from_str letter_decode (etag_string letter_encode \<lparr>etag = 258, backends = None\<rparr>) = Inr 258
    \<and> etag_from_str letter_decode ''BC'' = Inl (InvalidEtagSize 1)"
  using etag_round_trips [OF letter_codec, of "\<lparr>etag = 258, backends = None\<rparr>" "''BC''" "[18]"]
  by simp



text \<open>
  Forward compatibility of the metadata reader: an entry of a type it does not know
  can stand anywhere in the array without changing what is read, errors included, and the text
  entry is the only one that must be there.
\<close>

theorem metadata_unknown_entry_ignored:
  assumes "ty \<notin> {entry_text, entry_text_long, entry_png, entry_jpeg, entry_identifier, entry_email}"
  shows "metadata_deserialize dec pe (xs @ [ty, v] # ys) = metadata_deserialize dec pe (xs @ ys)
    \<and> metadata_deserialize dec pe [[ty, v]] = Inl MissingText"
  using metadata_visit_seq_append [OF assms, of dec pe metadata_acc_empty xs ys v]
  by (simp add: metadata_deserialize_def metadata_entry_unknown [OF assms]) (simp add: metadata_acc_empty_def)

theorem metadata_unknown_entry_ignored_witness:
  "metadata_deserialize letter_decode (\<lambda>s. Inl s) ([[entry_text, ''t'']] @ [''text/new'', ''v''] # [])
     = metadata_deserialize letter_decode (\<lambda>s. Inl s) ([[entry_text, ''t'']] @ [])"
  using metadata_unknown_entry_ignored
    [of "''text/new''" letter_decode "\<lambda>s. Inl s" "[[entry_text, ''t'']]" "''v''" "[]"]
  by (simp add: entry_types)

end
