(* ===== verification/StoreErrors.thy ===== *)
theory StoreErrors
  imports ServiceApi
begin

text \<open>
  The error types of the stores: \<open>components/src/discovery/error.rs\<close> and
  \<open>components/src/offer/error.rs\<close>. An error of another crate (\<open>sea_orm\<close>, \<open>reqwest\<close>,
  \<open>serde_json\<close>) is carried as the text it displays.
\<close>

section \<open>Discovery store errors\<close>

datatype discovery_error_kind =
    DSqlx string
  | DDatabase string
  | DTransaction string
  | DDeserialization string
  | DHttp string
  | DHttpStatus nat
  | DIo string
  | DJsonSerialization string
  | DInternal string
  | DInvalidInput string

record discovery_store_error =
  dse_context :: string
  dse_source :: discovery_error_kind
  dse_esource :: service_error_source

definition discovery_error_new ::
  "discovery_error_kind \<Rightarrow> service_error_source \<Rightarrow> string \<Rightarrow> discovery_store_error" where
  "discovery_error_new src es ctx = \<lparr>dse_context = ctx, dse_source = src, dse_esource = es\<rparr>"

definition discovery_from_sqlx ::
  "string \<Rightarrow> service_error_source \<Rightarrow> string \<Rightarrow> discovery_store_error" where
  "discovery_from_sqlx e es ctx = discovery_error_new (DSqlx e) es ctx"

definition discovery_from_db ::
  "service_error_source \<Rightarrow> string \<Rightarrow> string \<Rightarrow> discovery_store_error" where
  "discovery_from_db es ctx e = discovery_error_new (DDatabase e) es ctx"

definition discovery_from_tx ::
  "service_error_source \<Rightarrow> string \<Rightarrow> string \<Rightarrow> discovery_store_error" where
  "discovery_from_tx es ctx e = discovery_error_new (DTransaction e) es ctx"

definition discovery_deserialization_error ::
  "service_error_source \<Rightarrow> string \<Rightarrow> string \<Rightarrow> discovery_store_error" where
  "discovery_deserialization_error es ctx e = discovery_error_new (DDeserialization e) es ctx"

definition discovery_http_error ::
  "service_error_source \<Rightarrow> string \<Rightarrow> string \<Rightarrow> discovery_store_error" where
  "discovery_http_error es ctx e = discovery_error_new (DHttp e) es ctx"

definition discovery_http_status_error ::
  "service_error_source \<Rightarrow> string \<Rightarrow> nat \<Rightarrow> discovery_store_error" where
  "discovery_http_status_error es ctx st = discovery_error_new (DHttpStatus st) es ctx"

definition discovery_io_error ::
  "service_error_source \<Rightarrow> string \<Rightarrow> string \<Rightarrow> discovery_store_error" where
  "discovery_io_error es ctx e = discovery_error_new (DIo e) es ctx"

definition discovery_json_serialization_error ::
  "service_error_source \<Rightarrow> string \<Rightarrow> string \<Rightarrow> discovery_store_error" where
  "discovery_json_serialization_error es ctx e = discovery_error_new (DJsonSerialization e) es ctx"

definition discovery_internal_error ::
  "service_error_source \<Rightarrow> string \<Rightarrow> string \<Rightarrow> discovery_store_error" where
  "discovery_internal_error es ctx msg = discovery_error_new (DInternal msg) es ctx"

definition discovery_invalid_input_error :: "string \<Rightarrow> string \<Rightarrow> discovery_store_error" where
  "discovery_invalid_input_error ctx msg = discovery_error_new (DInvalidInput msg) Downstream ctx"

lemmas discovery_error_defs =
  discovery_error_new_def discovery_from_sqlx_def discovery_from_db_def discovery_from_tx_def
  discovery_deserialization_error_def discovery_http_error_def discovery_http_status_error_def
  discovery_io_error_def discovery_json_serialization_error_def discovery_internal_error_def
  discovery_invalid_input_error_def

section \<open>Offer store errors\<close>

datatype offer_error_kind =
    ODatabase string
  | ONotFound
  | OSerialization string
  | ODeserialization string
  | OHashConversion
  | OHttp string
  | OHttpStatus nat
  | OInternal string
  | OInvalidInput string

record offer_store_error =
  ose_context :: string
  ose_source :: offer_error_kind
  ose_esource :: service_error_source

definition offer_error_new ::
  "offer_error_kind \<Rightarrow> service_error_source \<Rightarrow> string \<Rightarrow> offer_store_error" where
  "offer_error_new src es ctx = \<lparr>ose_context = ctx, ose_source = src, ose_esource = es\<rparr>"

definition offer_not_found :: "service_error_source \<Rightarrow> string \<Rightarrow> offer_store_error" where
  "offer_not_found es ctx = offer_error_new ONotFound es ctx"

definition offer_serialization_error ::
  "service_error_source \<Rightarrow> string \<Rightarrow> string \<Rightarrow> offer_store_error" where
  "offer_serialization_error es ctx e = offer_error_new (OSerialization e) es ctx"

definition offer_hash_conversion_error :: "service_error_source \<Rightarrow> string \<Rightarrow> offer_store_error" where
  "offer_hash_conversion_error es ctx = offer_error_new OHashConversion es ctx"

definition offer_deserialization_error ::
  "service_error_source \<Rightarrow> string \<Rightarrow> string \<Rightarrow> offer_store_error" where
  "offer_deserialization_error es ctx e = offer_error_new (ODeserialization e) es ctx"

definition offer_http_error ::
  "service_error_source \<Rightarrow> string \<Rightarrow> string \<Rightarrow> offer_store_error" where
  "offer_http_error es ctx e = offer_error_new (OHttp e) es ctx"

definition offer_http_status_error ::
  "service_error_source \<Rightarrow> string \<Rightarrow> nat \<Rightarrow> offer_store_error" where
  "offer_http_status_error es ctx st = offer_error_new (OHttpStatus st) es ctx"

definition offer_internal_error ::
  "service_error_source \<Rightarrow> string \<Rightarrow> string \<Rightarrow> offer_store_error" where
  "offer_internal_error es ctx msg = offer_error_new (OInternal msg) es ctx"

definition offer_invalid_input_error :: "string \<Rightarrow> string \<Rightarrow> offer_store_error" where
  "offer_invalid_input_error ctx msg = offer_error_new (OInvalidInput msg) Downstream ctx"

definition offer_from_db ::
  "service_error_source \<Rightarrow> string \<Rightarrow> string \<Rightarrow> offer_store_error" where
  "offer_from_db es ctx e = offer_error_new (ODatabase e) es ctx"

lemmas offer_error_defs =
  offer_error_new_def offer_not_found_def offer_serialization_error_def
  offer_hash_conversion_error_def offer_deserialization_error_def offer_http_error_def
  offer_http_status_error_def offer_internal_error_def offer_invalid_input_error_def
  offer_from_db_def

end
