(* ===== verification/OfferContract.thy ===== *)
theory OfferContract
  imports StoreErrors
begin

text \<open>
  The traits \<open>OfferStore\<close> and \<open>OfferMetadataStore\<close> of \<open>service-api/src/offer.rs\<close> as one
  contract over an abstract content: the offers and the metadata, each a map from partition and
  id. A store may or may not hand back, in a sparse answer, the metadata that was posted with
  an offer; the contract compares offers without it.
\<close>

section \<open>Abstract content\<close>

type_synonym offer_key = "string \<times> uuid"

record offer_content =
  oc_offers :: "offer_key \<Rightarrow> offer_record option"
  oc_metadata :: "offer_key \<Rightarrow> offer_metadata option"

definition bare :: "offer_record \<Rightarrow> offer_record" where
  "bare r = r\<lparr>rec_offer := (rec_offer r)\<lparr>rec_metadata := None\<rparr>\<rparr>"

definition with_metadata :: "offer_metadata_sparse \<Rightarrow> offer_record \<Rightarrow> offer_record" where
  "with_metadata m r = r\<lparr>rec_offer := (rec_offer r)\<lparr>rec_metadata := Some m\<rparr>\<rparr>"

definition offer_key_of :: "offer_record \<Rightarrow> offer_key" where
  "offer_key_of r = (rec_partition r, rec_id r)"

definition metadata_key_of :: "offer_record \<Rightarrow> offer_key" where
  "metadata_key_of r = (rec_partition r, rec_metadata_id (rec_offer r))"

definition meta_key_of :: "offer_metadata \<Rightarrow> offer_key" where
  "meta_key_of m = (meta_partition m, meta_id m)"

lemma bare_simps [simp]:
  "bare (bare r) = bare r" "bare (with_metadata m r) = bare r" "with_metadata m (bare r) = with_metadata m r"
  "offer_key_of (bare r) = offer_key_of r" "metadata_key_of (bare r) = metadata_key_of r"
  "rec_metadata_id (rec_offer (bare r)) = rec_metadata_id (rec_offer r)"
  "rec_partition (bare r) = rec_partition r" "rec_id (bare r) = rec_id r"
  by (simp_all add: bare_def with_metadata_def offer_key_of_def metadata_key_of_def)

text \<open>Offers and metadata are stored under their own keys, and every offer has its metadata.\<close>

definition content_ok :: "offer_content \<Rightarrow> bool" where
  "content_ok c \<longleftrightarrow>
     (\<forall>k r. oc_offers c k = Some r \<longrightarrow> offer_key_of r = k \<and> oc_metadata c (metadata_key_of r) \<noteq> None)
     \<and> (\<forall>k m. oc_metadata c k = Some m \<longrightarrow> meta_key_of m = k)"

section \<open>Operations and their effect\<close>

datatype offer_op =
    OPost offer_record
  | OPut offer_record
  | ODelete string uuid
  | MPost offer_metadata
  | MPut offer_metadata
  | MDelete string uuid

definition metadata_in_use :: "offer_content \<Rightarrow> offer_key \<Rightarrow> bool" where
  "metadata_in_use c k \<longleftrightarrow> (\<exists>k' r. oc_offers c k' = Some r \<and> metadata_key_of r = k)"

text \<open>The new content, \<open>None\<close> where the operation must leave the store as it is.\<close>

fun offer_effect :: "offer_op \<Rightarrow> offer_content \<Rightarrow> offer_content option" where
  "offer_effect (OPost r) c =
     (if oc_metadata c (metadata_key_of r) \<noteq> None \<and> oc_offers c (offer_key_of r) = None
      then Some (c\<lparr>oc_offers := (oc_offers c)(offer_key_of r \<mapsto> bare r)\<rparr>) else None)"
| "offer_effect (OPut r) c =
     (if oc_metadata c (metadata_key_of r) \<noteq> None
      then Some (c\<lparr>oc_offers := (oc_offers c)(offer_key_of r \<mapsto> bare r)\<rparr>) else None)"
| "offer_effect (ODelete p i) c =
     (if oc_offers c (p, i) = None then None else Some (c\<lparr>oc_offers := (oc_offers c)((p, i) := None)\<rparr>))"
| "offer_effect (MPost m) c =
     (if oc_metadata c (meta_key_of m) = None
      then Some (c\<lparr>oc_metadata := (oc_metadata c)(meta_key_of m \<mapsto> m)\<rparr>) else None)"
| "offer_effect (MPut m) c = Some (c\<lparr>oc_metadata := (oc_metadata c)(meta_key_of m \<mapsto> m)\<rparr>)"
| "offer_effect (MDelete p i) c =
     (if metadata_in_use c (p, i) \<or> oc_metadata c (p, i) = None then None
      else Some (c\<lparr>oc_metadata := (oc_metadata c)((p, i) := None)\<rparr>))"

lemma offer_effect_ok: "content_ok c \<Longrightarrow> offer_effect x c = Some c' \<Longrightarrow> content_ok c'"
  by (cases x) (auto simp: content_ok_def metadata_in_use_def split: if_splits)

text \<open>What the operations answer: an error, or whether something was created or removed.\<close>

datatype offer_answer = ORefused | OCreated uuid | OExists | ODone bool

fun answer_to :: "offer_op \<Rightarrow> offer_content \<Rightarrow> offer_answer" where
  "answer_to (OPost r) c =
     (if oc_metadata c (metadata_key_of r) = None then ORefused
      else if oc_offers c (offer_key_of r) = None then OCreated (rec_id r) else OExists)"
| "answer_to (OPut r) c =
     (if oc_metadata c (metadata_key_of r) = None then ORefused
      else ODone (oc_offers c (offer_key_of r) = None))"
| "answer_to (ODelete p i) c = ODone (oc_offers c (p, i) \<noteq> None)"
| "answer_to (MPost m) c = (if oc_metadata c (meta_key_of m) = None then OCreated (meta_id m) else OExists)"
| "answer_to (MPut m) c = ODone (oc_metadata c (meta_key_of m) = None)"
| "answer_to (MDelete p i) c =
     (if metadata_in_use c (p, i) then ORefused else ODone (oc_metadata c (p, i) \<noteq> None))"

fun answer_of_post :: "'e + uuid option \<Rightarrow> offer_answer" where
  "answer_of_post (Inl e) = ORefused"
| "answer_of_post (Inr (Some i)) = OCreated i"
| "answer_of_post (Inr None) = OExists"

fun answer_of_bool :: "'e + bool \<Rightarrow> offer_answer" where
  "answer_of_bool (Inl e) = ORefused"
| "answer_of_bool (Inr b) = ODone b"

text \<open>One timed operation of a store, as an answer and the state afterwards.\<close>

fun offer_exec ::
  "(datetime \<Rightarrow> offer_record \<Rightarrow> 's \<Rightarrow> ('e + uuid option) \<times> 's) \<Rightarrow> (datetime \<Rightarrow> offer_record \<Rightarrow> 's \<Rightarrow> ('e + bool) \<times> 's)
     \<Rightarrow> (string \<Rightarrow> uuid \<Rightarrow> 's \<Rightarrow> ('e + bool) \<times> 's)
     \<Rightarrow> (datetime \<Rightarrow> offer_metadata \<Rightarrow> 's \<Rightarrow> ('e + uuid option) \<times> 's)
     \<Rightarrow> (datetime \<Rightarrow> offer_metadata \<Rightarrow> 's \<Rightarrow> ('e + bool) \<times> 's)
     \<Rightarrow> (string \<Rightarrow> uuid \<Rightarrow> 's \<Rightarrow> ('e + bool) \<times> 's)
     \<Rightarrow> datetime \<Rightarrow> offer_op \<Rightarrow> 's \<Rightarrow> offer_answer \<times> 's" where
  "offer_exec po pu de mpo mpu mde now (OPost r) s = apfst answer_of_post (po now r s)"
| "offer_exec po pu de mpo mpu mde now (OPut r) s = apfst answer_of_bool (pu now r s)"
| "offer_exec po pu de mpo mpu mde now (ODelete p i) s = apfst answer_of_bool (de p i s)"
| "offer_exec po pu de mpo mpu mde now (MPost m) s = apfst answer_of_post (mpo now m s)"
| "offer_exec po pu de mpo mpu mde now (MPut m) s = apfst answer_of_bool (mpu now m s)"
| "offer_exec po pu de mpo mpu mde now (MDelete p i) s = apfst answer_of_bool (mde p i s)"

definition offer_run :: "(datetime \<Rightarrow> offer_op \<Rightarrow> 's \<Rightarrow> offer_answer \<times> 's) \<Rightarrow> datetime \<times> offer_op \<Rightarrow> 's \<Rightarrow> 's" where
  "offer_run exec x s = snd (exec (fst x) (snd x) s)"

section \<open>Pages\<close>

text \<open>The pages of \<open>n\<close> consecutive requests of \<open>cnt\<close> entries each.\<close>

definition pages :: "usize \<Rightarrow> nat \<Rightarrow> 'a list \<Rightarrow> 'a list" where
  "pages cnt n xs = concat (map (\<lambda>k. page (of_nat k * cnt) cnt xs) [0..<n])"

lemma pages_take:
  "n * unat cnt < 2 ^ 64 \<Longrightarrow> pages cnt n xs = take (n * unat cnt) xs"
proof (induction n)
  case (Suc n)
  have "unat (of_nat n * cnt :: usize) = n * unat cnt"
    using Suc.prems by (simp add: unat_mult_lem [THEN iffD1] unat_word_ariths unat_of_nat mod_mult_right_eq mult.commute)
  moreover have "n * unat cnt < 2 ^ 64" using Suc.prems by simp
  ultimately show ?case
    using Suc.IH by (simp add: pages_def page_def take_add [symmetric] add.commute)
qed (simp add: pages_def)

lemma pages_complete:
  "n * unat cnt < 2 ^ 64 \<Longrightarrow> length xs \<le> n * unat cnt \<Longrightarrow> pages cnt n xs = xs"
  by (simp add: pages_take)

section \<open>The contract\<close>

locale offer_store =
  fixes get_offer :: "'s \<Rightarrow> string \<Rightarrow> uuid \<Rightarrow> bool option \<Rightarrow> 'e + offer_record option"
    and get_offers :: "'s \<Rightarrow> string \<Rightarrow> usize \<Rightarrow> usize \<Rightarrow> 'e + offer_record list"
    and get_metadata :: "'s \<Rightarrow> string \<Rightarrow> uuid \<Rightarrow> 'e + offer_metadata option"
    and get_all_metadata :: "'s \<Rightarrow> string \<Rightarrow> usize \<Rightarrow> usize \<Rightarrow> 'e + offer_metadata list"
    and exec :: "datetime \<Rightarrow> offer_op \<Rightarrow> 's \<Rightarrow> offer_answer \<times> 's"
    and content :: "'s \<Rightarrow> offer_content"
    and inv :: "'s \<Rightarrow> bool"
  assumes content_law: "inv s \<Longrightarrow> content_ok (content s)"
    and get_sparse: "inv s \<Longrightarrow> sparse \<noteq> Some False \<Longrightarrow>
      \<exists>ro. get_offer s p i sparse = Inr ro \<and> map_option bare ro = oc_offers (content s) (p, i)"
    and get_full: "inv s \<Longrightarrow> get_offer s p i (Some False) =
      Inr (case oc_offers (content s) (p, i) of
             None \<Rightarrow> None
           | Some r \<Rightarrow> map_option (\<lambda>m. with_metadata (meta_metadata m) r) (oc_metadata (content s) (metadata_key_of r)))"
    and offers_law: "inv s \<Longrightarrow> \<exists>rs. (\<forall>start cnt. get_offers s p start cnt = Inr (page start cnt rs))
      \<and> distinct (map rec_id rs)
      \<and> bare ` set rs = {r. \<exists>i. oc_offers (content s) (p, i) = Some r}"
    and metadata_law: "inv s \<Longrightarrow> get_metadata s p i = Inr (oc_metadata (content s) (p, i))"
    and all_metadata_law: "inv s \<Longrightarrow> \<exists>ms. (\<forall>start cnt. get_all_metadata s p start cnt = Inr (page start cnt ms))
      \<and> distinct (map meta_id ms)
      \<and> set ms = {m. \<exists>i. oc_metadata (content s) (p, i) = Some m}"
    and exec_law: "inv s \<Longrightarrow> exec now x s = (ans, s') \<Longrightarrow>
      inv s' \<and> ans = answer_to x (content s)
      \<and> content s' = unwrap_or (content s) (offer_effect x (content s))"
begin

abbreviation run :: "datetime \<times> offer_op \<Rightarrow> 's \<Rightarrow> 's" where
  "run \<equiv> offer_run exec"

lemma run_inv: "inv s \<Longrightarrow> inv (fold run xs s)"
proof (induction xs arbitrary: s)
  case (Cons x xs)
  then show ?case using exec_law [OF _ surjective_pairing, of s "fst x" "snd x"] by (simp add: offer_run_def)
qed simp

text \<open>Two stores of the same content answer a history alike, and end with the same content.\<close>

lemma run_content:
  "inv s \<Longrightarrow> content (fold run xs s) =
     fold (\<lambda>x c. unwrap_or c (offer_effect (snd x) c)) xs (content s)"
proof (induction xs arbitrary: s)
  case (Cons x xs)
  then show ?case using exec_law [OF _ surjective_pairing, of s "fst x" "snd x"] by (simp add: offer_run_def)
qed simp

text \<open>An offer that is stored is always found with its metadata.\<close>

lemma full_offer_found:
  assumes "inv s" and "get_offer s p i sparse = Inr (Some r)" and "sparse \<noteq> Some False"
  shows "\<exists>m. get_metadata s p (rec_metadata_id (rec_offer r)) = Inr (Some m)
    \<and> get_offer s p i (Some False) = Inr (Some (with_metadata (meta_metadata m) r))"
proof -
  from get_sparse [OF assms(1,3), of p i] assms(2)
  have r: "oc_offers (content s) (p, i) = Some (bare r)" by auto
  with content_law [OF assms(1)] obtain m where
    m: "oc_metadata (content s) (metadata_key_of r) = Some m" and "offer_key_of r = (p, i)"
    by (fastforce simp: content_ok_def)
  then have "metadata_key_of r = (p, rec_metadata_id (rec_offer r))"
    by (simp add: metadata_key_of_def offer_key_of_def)
  with r m show ?thesis by (simp add: get_full [OF assms(1)] metadata_law [OF assms(1)])
qed

lemma full_offer_iff:
  assumes "inv s"
  shows "get_offer s p i (Some False) = Inr None \<longleftrightarrow> oc_offers (content s) (p, i) = None"
  using content_law [OF assms]
  by (auto simp: get_full [OF assms] content_ok_def split: option.splits)

text \<open>Metadata in use cannot be deleted, and deleting it once its offers are gone succeeds.\<close>

lemma delete_metadata_refused:
  assumes "inv s" and "oc_offers (content s) (p, i) = Some r"
  shows "exec now (MDelete p (rec_metadata_id (rec_offer r))) s = (ans, s') \<Longrightarrow>
    ans = ORefused \<and> content s' = content s"
proof -
  have "metadata_in_use (content s) (p, rec_metadata_id (rec_offer r))"
    using assms content_law [OF assms(1)]
    by (force simp: metadata_in_use_def content_ok_def metadata_key_of_def offer_key_of_def)
  then show "exec now (MDelete p (rec_metadata_id (rec_offer r))) s = (ans, s') \<Longrightarrow>
    ans = ORefused \<and> content s' = content s"
    using exec_law [OF assms(1)] by fastforce
qed

text \<open>Reading page after page of one state lists every offer of the partition once.\<close>

lemma offers_paged:
  assumes "inv s"
  shows "\<exists>rs. distinct (map rec_id rs)
    \<and> bare ` set rs = {r. \<exists>i. oc_offers (content s) (p, i) = Some r}
    \<and> (\<forall>cnt n. n * unat cnt < 2 ^ 64 \<longrightarrow> length rs \<le> n * unat cnt \<longrightarrow>
         concat (map (\<lambda>k. case get_offers s p (of_nat k * cnt) cnt of Inr pg \<Rightarrow> pg | Inl _ \<Rightarrow> []) [0..<n]) = rs)"
proof -
  obtain rs where rs: "\<forall>start cnt. get_offers s p start cnt = Inr (page start cnt rs)"
      "distinct (map rec_id rs)" "bare ` set rs = {r. \<exists>i. oc_offers (content s) (p, i) = Some r}"
    using offers_law [OF assms] by blast
  then show ?thesis
    using pages_complete [of _ _ rs] by (intro exI [of _ rs]) (simp add: pages_def)
qed

end

end
