(* ===== verification/OfferMemory.thy ===== *)
theory OfferMemory
  imports OfferContract
begin

text \<open>
  \<open>components/src/offer/memory.rs\<close>: the offer store in memory, two hash maps under two mutexes.
  Every method holds its locks to its end, so it is one transition here (the order in which the
  locks are taken is the subject of theory \<open>OfferLocks\<close>). The clock is an argument, and so
  are the \<open>Debug\<close> rendering of an offer and the rendering of an id in error messages.
\<close>

section \<open>State\<close>

record offer_record_timestamped =
  ot_created :: datetime
  ot_offer :: offer_record

record offer_metadata_timestamped =
  mt_created :: datetime
  mt_metadata :: offer_metadata

record mem_offers =
  mo_offer :: "(string \<times> uuid, offer_record_timestamped) hashmap"
  mo_metadata :: "(string \<times> uuid, offer_metadata_timestamped) hashmap"

definition mem_offers_new :: mem_offers where
  "mem_offers_new = \<lparr>mo_offer = [], mo_metadata = []\<rparr>"

section \<open>Offers\<close>

definition mo_get_offer ::
  "mem_offers \<Rightarrow> string \<Rightarrow> uuid \<Rightarrow> bool option \<Rightarrow> offer_store_error + offer_record option" where
  "mo_get_offer s p i sparse =
     (let sp = unwrap_or True sparse
      in Inr (case map_of (mo_offer s) (p, i) of
                None \<Rightarrow> None
              | Some ofr \<Rightarrow>
                  if sp then Some (ot_offer ofr)
                  else map_option
                    (\<lambda>m. (ot_offer ofr)\<lparr>rec_offer :=
                       (rec_offer (ot_offer ofr))\<lparr>rec_metadata := Some (meta_metadata (mt_metadata m))\<rparr>\<rparr>)
                    (map_of (mo_metadata s) (p, rec_metadata_id (rec_offer (ot_offer ofr))))))"

definition offer_order :: "offer_record_timestamped \<Rightarrow> datetime \<times> uuid" where
  "offer_order o1 = (ot_created o1, rec_id (ot_offer o1))"

definition mo_get_offers ::
  "mem_offers \<Rightarrow> string \<Rightarrow> usize \<Rightarrow> usize \<Rightarrow> offer_store_error + offer_record list" where
  "mo_get_offers s p start cnt =
     (let offers = map snd (filter (\<lambda>((p', _), _). p' = p) (mo_offer s));
          offers = sort_key offer_order offers
      in Inr (map ot_offer (take (unat cnt) (drop (unat start) offers))))"

definition mo_post_offer ::
  "(offer_record \<Rightarrow> string) \<Rightarrow> (uuid \<Rightarrow> string) \<Rightarrow> datetime \<Rightarrow> offer_record \<Rightarrow> mem_offers
     \<Rightarrow> (offer_store_error + uuid option) \<times> mem_offers" where
  "mo_post_offer show_offer show_uuid now r s =
     (if map_of (mo_metadata s) (rec_partition r, rec_metadata_id (rec_offer r)) = None
      then (Inl (offer_invalid_input_error (''post offer '' @ show_offer r)
                  (''metadata '' @ show_uuid (rec_metadata_id (rec_offer r)) @ '' not found for offer ''
                     @ show_uuid (rec_id r))), s)
      else if map_of (mo_offer s) (rec_partition r, rec_id r) = None
      then (Inr (Some (rec_id r)),
            s\<lparr>mo_offer := AList.update (rec_partition r, rec_id r) \<lparr>ot_created = now, ot_offer = r\<rparr> (mo_offer s)\<rparr>)
      else (Inr None, s))"

definition mo_put_offer ::
  "(offer_record \<Rightarrow> string) \<Rightarrow> (uuid \<Rightarrow> string) \<Rightarrow> datetime \<Rightarrow> offer_record \<Rightarrow> mem_offers
     \<Rightarrow> (offer_store_error + bool) \<times> mem_offers" where
  "mo_put_offer show_offer show_uuid now r s =
     (if map_of (mo_metadata s) (rec_partition r, rec_metadata_id (rec_offer r)) = None
      then (Inl (offer_invalid_input_error (''put offer '' @ show_offer r)
                  (''metadata '' @ show_uuid (rec_metadata_id (rec_offer r)) @ '' not found for offer ''
                     @ show_uuid (rec_id r))), s)
      else (Inr (map_of (mo_offer s) (rec_partition r, rec_id r) = None),
            s\<lparr>mo_offer := AList.update (rec_partition r, rec_id r) \<lparr>ot_created = now, ot_offer = r\<rparr> (mo_offer s)\<rparr>))"

definition mo_delete_offer ::
  "string \<Rightarrow> uuid \<Rightarrow> mem_offers \<Rightarrow> (offer_store_error + bool) \<times> mem_offers" where
  "mo_delete_offer p i s =
     (Inr (map_of (mo_offer s) (p, i) \<noteq> None), s\<lparr>mo_offer := AList.delete (p, i) (mo_offer s)\<rparr>)"

section \<open>Metadata\<close>

definition mo_get_metadata :: "mem_offers \<Rightarrow> string \<Rightarrow> uuid \<Rightarrow> offer_store_error + offer_metadata option" where
  "mo_get_metadata s p i = Inr (map_option mt_metadata (map_of (mo_metadata s) (p, i)))"

definition metadata_order :: "offer_metadata_timestamped \<Rightarrow> datetime \<times> uuid" where
  "metadata_order m = (mt_created m, meta_id (mt_metadata m))"

definition mo_get_all_metadata ::
  "mem_offers \<Rightarrow> string \<Rightarrow> usize \<Rightarrow> usize \<Rightarrow> offer_store_error + offer_metadata list" where
  "mo_get_all_metadata s p start cnt =
     (let metadata = map snd (filter (\<lambda>((p', _), _). p' = p) (mo_metadata s));
          metadata = sort_key metadata_order metadata
      in Inr (map mt_metadata (take (unat cnt) (drop (unat start) metadata))))"

definition mo_post_metadata ::
  "datetime \<Rightarrow> offer_metadata \<Rightarrow> mem_offers \<Rightarrow> (offer_store_error + uuid option) \<times> mem_offers" where
  "mo_post_metadata now m s =
     (if map_of (mo_metadata s) (meta_partition m, meta_id m) = None
      then (Inr (Some (meta_id m)),
            s\<lparr>mo_metadata := AList.update (meta_partition m, meta_id m)
                \<lparr>mt_created = now, mt_metadata = m\<rparr> (mo_metadata s)\<rparr>)
      else (Inr None, s))"

definition mo_put_metadata ::
  "datetime \<Rightarrow> offer_metadata \<Rightarrow> mem_offers \<Rightarrow> (offer_store_error + bool) \<times> mem_offers" where
  "mo_put_metadata now m s =
     (Inr (map_of (mo_metadata s) (meta_partition m, meta_id m) = None),
      s\<lparr>mo_metadata := AList.update (meta_partition m, meta_id m)
          \<lparr>mt_created = now, mt_metadata = m\<rparr> (mo_metadata s)\<rparr>)"

definition mo_delete_metadata ::
  "(uuid \<Rightarrow> string) \<Rightarrow> string \<Rightarrow> uuid \<Rightarrow> mem_offers \<Rightarrow> (offer_store_error + bool) \<times> mem_offers" where
  "mo_delete_metadata show_uuid p i s =
     (if list_ex (\<lambda>o1. rec_partition (ot_offer o1) = p \<and> rec_metadata_id (rec_offer (ot_offer o1)) = i)
           (hm_values (mo_offer s))
      then (Inl (offer_invalid_input_error (''delete metadata '' @ p @ ''/'' @ show_uuid i)
                  (''metadata '' @ show_uuid i @ '' is referenced by existing offers'')), s)
      else (Inr (map_of (mo_metadata s) (p, i) \<noteq> None),
            s\<lparr>mo_metadata := AList.delete (p, i) (mo_metadata s)\<rparr>))"

lemmas offer_memory_defs [store_defs] =
  mo_get_offer_def mo_get_offers_def mo_post_offer_def mo_put_offer_def mo_delete_offer_def
  mo_get_metadata_def mo_get_all_metadata_def mo_post_metadata_def mo_put_metadata_def
  mo_delete_metadata_def

section \<open>The store implements the contract\<close>

definition mo_content :: "mem_offers \<Rightarrow> offer_content" where
  "mo_content s =
     \<lparr>oc_offers = (\<lambda>k. map_option (bare \<circ> ot_offer) (map_of (mo_offer s) k)),
      oc_metadata = (\<lambda>k. map_option mt_metadata (map_of (mo_metadata s) k))\<rparr>"

definition mo_inv :: "mem_offers \<Rightarrow> bool" where
  "mo_inv s \<longleftrightarrow> hm_wf (mo_offer s) \<and> hm_wf (mo_metadata s) \<and> content_ok (mo_content s)"

lemma mo_inv_new [simp]: "mo_inv mem_offers_new"
  by (simp add: mo_inv_def mem_offers_new_def content_ok_def mo_content_def)

lemma mo_content_simps [simp]:
  "oc_offers (mo_content s) k = map_option (bare \<circ> ot_offer) (map_of (mo_offer s) k)"
  "oc_metadata (mo_content s) k = map_option mt_metadata (map_of (mo_metadata s) k)"
  by (simp_all add: mo_content_def)

lemma mo_content_upd:
  "mo_content (s\<lparr>mo_offer := AList.update k v (mo_offer s)\<rparr>)
     = (mo_content s)\<lparr>oc_offers := (oc_offers (mo_content s))(k \<mapsto> bare (ot_offer v))\<rparr>"
  "mo_content (s\<lparr>mo_offer := AList.delete k (mo_offer s)\<rparr>)
     = (mo_content s)\<lparr>oc_offers := (oc_offers (mo_content s))(k := None)\<rparr>"
  "mo_content (s\<lparr>mo_metadata := AList.update k w (mo_metadata s)\<rparr>)
     = (mo_content s)\<lparr>oc_metadata := (oc_metadata (mo_content s))(k \<mapsto> mt_metadata w)\<rparr>"
  "mo_content (s\<lparr>mo_metadata := AList.delete k (mo_metadata s)\<rparr>)
     = (mo_content s)\<lparr>oc_metadata := (oc_metadata (mo_content s))(k := None)\<rparr>"
  by (auto simp: mo_content_def)

lemma delete_absent: "hm_wf m \<Longrightarrow> map_of m k = None \<Longrightarrow> AList.delete k m = m"
  by (simp add: delete_idem map_of_eq_None_iff)

lemma metadata_in_use_iff:
  assumes "mo_inv s"
  shows "list_ex (\<lambda>o1. rec_partition (ot_offer o1) = p \<and> rec_metadata_id (rec_offer (ot_offer o1)) = i)
      (hm_values (mo_offer s)) \<longleftrightarrow> metadata_in_use (mo_content s) (p, i)"
proof -
  have wf: "hm_wf (mo_offer s)" using assms by (simp add: mo_inv_def)
  have "list_ex (\<lambda>o1. rec_partition (ot_offer o1) = p \<and> rec_metadata_id (rec_offer (ot_offer o1)) = i)
      (hm_values (mo_offer s)) \<longleftrightarrow> (\<exists>v \<in> set (hm_values (mo_offer s)). metadata_key_of (ot_offer v) = (p, i))"
    by (simp add: list_ex_iff metadata_key_of_def)
  also have "\<dots> \<longleftrightarrow> metadata_in_use (mo_content s) (p, i)"
    unfolding Bex_def hm_values_iff [OF wf] metadata_in_use_def mo_content_simps by fastforce
  finally show ?thesis .
qed

text \<open>Listing: one fixed order of the offers of the partition, of which a call returns a page.\<close>

definition mo_offer_listing :: "mem_offers \<Rightarrow> string \<Rightarrow> offer_record list" where
  "mo_offer_listing s p =
     map ot_offer (sort_key offer_order (map snd (filter (\<lambda>((p', _), _). p' = p) (mo_offer s))))"

definition mo_metadata_listing :: "mem_offers \<Rightarrow> string \<Rightarrow> offer_metadata list" where
  "mo_metadata_listing s p =
     map mt_metadata (sort_key metadata_order (map snd (filter (\<lambda>((p', _), _). p' = p) (mo_metadata s))))"

lemma mo_get_offers_page: "mo_get_offers s p start cnt = Inr (page start cnt (mo_offer_listing s p))"
  by (simp add: mo_get_offers_def mo_offer_listing_def page_def take_map drop_map)

lemma mo_get_all_metadata_page:
  "mo_get_all_metadata s p start cnt = Inr (page start cnt (mo_metadata_listing s p))"
  by (simp add: mo_get_all_metadata_def mo_metadata_listing_def page_def take_map drop_map)

text \<open>The values of one partition, in a map whose keys carry the partition and id of their values.\<close>

lemma partition_values:
  assumes "hm_wf m" and "\<And>k v. map_of m k = Some v \<Longrightarrow> (part v, idn v) = k"
  shows "distinct (map idn (map snd (filter (\<lambda>((p', _), _). p' = p) m)))"
    and "set (map snd (filter (\<lambda>((p', _), _). p' = p) m)) = {v. \<exists>i. map_of m (p, i) = Some v}"
proof -
  let ?F = "filter (\<lambda>((p', _), _). p' = p) m"
  have fst_eq: "\<forall>x \<in> set ?F. (part (snd x), idn (snd x)) = fst x"
    using assms hm_mem_iff [OF assms(1)] by (metis filter_is_subset prod.collapse subsetD)
  then have "map (\<lambda>v. (part v, idn v)) (map snd ?F) = map fst ?F"
    by simp
  moreover have "distinct (map fst ?F)"
    using assms(1) by (simp add: hm_wf_def distinct_map_filter)
  ultimately have d: "distinct (map (\<lambda>v. (part v, idn v)) (map snd ?F))"
    by (simp only:)
  have "\<forall>v \<in> set (map snd ?F). part v = p"
  proof
    fix v assume "v \<in> set (map snd ?F)"
    then obtain x where "x \<in> set ?F" "v = snd x" by auto
    with fst_eq show "part v = p" by (cases x) auto
  qed
  with d show "distinct (map idn (map snd ?F))"
    by (rule distinct_map_pair)
  show "set (map snd ?F) = {v. \<exists>i. map_of m (p, i) = Some v}"
  proof (intro set_eqI iffI)
    fix v assume "v \<in> set (map snd ?F)"
    then obtain k where "((p, k), v) \<in> set m" by auto
    then show "v \<in> {v. \<exists>i. map_of m (p, i) = Some v}"
      by (auto simp: hm_mem_iff [OF assms(1)])
  next
    fix v assume "v \<in> {v. \<exists>i. map_of m (p, i) = Some v}"
    then obtain i where "((p, i), v) \<in> set ?F"
      by (auto simp: hm_mem_iff [OF assms(1)])
    then have "snd ((p, i), v) \<in> snd ` set ?F" by (rule imageI)
    then show "v \<in> set (map snd ?F)" by simp
  qed
qed

lemma mo_inv_keys:
  assumes "mo_inv s"
  shows "map_of (mo_offer s) k = Some v \<Longrightarrow> (rec_partition (ot_offer v), rec_id (ot_offer v)) = k"
    and "map_of (mo_metadata s) k = Some w \<Longrightarrow> (meta_partition (mt_metadata w), meta_id (mt_metadata w)) = k"
proof -
  have ok: "content_ok (mo_content s)" using assms by (simp add: mo_inv_def)
  show "(rec_partition (ot_offer v), rec_id (ot_offer v)) = k" if "map_of (mo_offer s) k = Some v"
  proof -
    have "oc_offers (mo_content s) k = Some (bare (ot_offer v))" using that by simp
    with ok have "offer_key_of (bare (ot_offer v)) = k" unfolding content_ok_def by blast
    then show ?thesis by (simp add: offer_key_of_def)
  qed
  show "(meta_partition (mt_metadata w), meta_id (mt_metadata w)) = k" if "map_of (mo_metadata s) k = Some w"
  proof -
    have "oc_metadata (mo_content s) k = Some (mt_metadata w)" using that by simp
    with ok have "meta_key_of (mt_metadata w) = k" unfolding content_ok_def by blast
    then show ?thesis by (simp add: meta_key_of_def)
  qed
qed

lemma mo_offer_listing:
  assumes "mo_inv s"
  shows "distinct (map rec_id (mo_offer_listing s p))"
    and "set (mo_offer_listing s p) = ot_offer ` {v. \<exists>i. map_of (mo_offer s) (p, i) = Some v}"
proof -
  have wf: "hm_wf (mo_offer s)" using assms by (simp add: mo_inv_def)
  let ?vs = "map snd (filter (\<lambda>((p', _), _). p' = p) (mo_offer s))"
  show "distinct (map rec_id (mo_offer_listing s p))"
    using partition_values(1) [OF wf, of "\<lambda>v. rec_partition (ot_offer v)" "\<lambda>v. rec_id (ot_offer v)" p, OF mo_inv_keys(1) [OF assms]]
    by (simp only: mo_offer_listing_def map_map distinct_map_sort comp_def)
  show "set (mo_offer_listing s p) = ot_offer ` {v. \<exists>i. map_of (mo_offer s) (p, i) = Some v}"
    using partition_values(2) [OF wf, of "\<lambda>v. rec_partition (ot_offer v)" "\<lambda>v. rec_id (ot_offer v)" p, OF mo_inv_keys(1) [OF assms]]
    by (simp only: mo_offer_listing_def set_map set_sort)
qed

lemma mo_metadata_listing:
  assumes "mo_inv s"
  shows "distinct (map meta_id (mo_metadata_listing s p))"
    and "set (mo_metadata_listing s p) = mt_metadata ` {v. \<exists>i. map_of (mo_metadata s) (p, i) = Some v}"
proof -
  have wf: "hm_wf (mo_metadata s)" using assms by (simp add: mo_inv_def)
  let ?vs = "map snd (filter (\<lambda>((p', _), _). p' = p) (mo_metadata s))"
  show "distinct (map meta_id (mo_metadata_listing s p))"
    using partition_values(1) [OF wf, of "\<lambda>v. meta_partition (mt_metadata v)" "\<lambda>v. meta_id (mt_metadata v)" p, OF mo_inv_keys(2) [OF assms]]
    by (simp only: mo_metadata_listing_def map_map distinct_map_sort comp_def)
  show "set (mo_metadata_listing s p) = mt_metadata ` {v. \<exists>i. map_of (mo_metadata s) (p, i) = Some v}"
    using partition_values(2) [OF wf, of "\<lambda>v. meta_partition (mt_metadata v)" "\<lambda>v. meta_id (mt_metadata v)" p, OF mo_inv_keys(2) [OF assms]]
    by (simp only: mo_metadata_listing_def set_map set_sort)
qed

subsection \<open>Each operation has its effect\<close>

definition mo_exec ::
  "(offer_record \<Rightarrow> string) \<Rightarrow> (uuid \<Rightarrow> string) \<Rightarrow> datetime \<Rightarrow> offer_op \<Rightarrow> mem_offers \<Rightarrow> offer_answer \<times> mem_offers" where
  "mo_exec show_offer show_uuid =
     offer_exec (mo_post_offer show_offer show_uuid) (mo_put_offer show_offer show_uuid) mo_delete_offer
       mo_post_metadata mo_put_metadata (mo_delete_metadata show_uuid)"

abbreviation mo_run ::
  "(offer_record \<Rightarrow> string) \<Rightarrow> (uuid \<Rightarrow> string) \<Rightarrow> datetime \<times> offer_op \<Rightarrow> mem_offers \<Rightarrow> mem_offers" where
  "mo_run show_offer show_uuid \<equiv> offer_run (mo_exec show_offer show_uuid)"

lemma mo_exec_content:
  assumes "mo_inv s" and "mo_exec dbg su now x s = (ans, s')"
  shows "ans = answer_to x (mo_content s)
    \<and> mo_content s' = unwrap_or (mo_content s) (offer_effect x (mo_content s))
    \<and> hm_wf (mo_offer s') \<and> hm_wf (mo_metadata s')"
proof -
  have wf: "hm_wf (mo_offer s)" "hm_wf (mo_metadata s)"
    using assms(1) by (simp_all add: mo_inv_def)
  show ?thesis
  proof (cases x)
    case (OPost r)
    with assms(2) wf show ?thesis
      by (auto simp: mo_exec_def mo_post_offer_def mo_content_upd metadata_key_of_def offer_key_of_def
          split: if_splits)
  next
    case (OPut r)
    with assms(2) wf show ?thesis
      by (auto simp: mo_exec_def mo_put_offer_def mo_content_upd metadata_key_of_def offer_key_of_def
          split: if_splits)
  next
    case (ODelete p i)
    with assms(2) wf show ?thesis
      by (auto simp: mo_exec_def mo_delete_offer_def mo_content_upd delete_absent split: if_splits)
  next
    case (MPost m)
    with assms(2) wf show ?thesis
      by (auto simp: mo_exec_def mo_post_metadata_def mo_content_upd meta_key_of_def split: if_splits)
  next
    case (MPut m)
    with assms(2) wf show ?thesis
      by (auto simp: mo_exec_def mo_put_metadata_def mo_content_upd meta_key_of_def split: if_splits)
  next
    case (MDelete p i)
    with assms(2) wf show ?thesis
      by (auto simp: mo_exec_def mo_delete_metadata_def metadata_in_use_iff [OF assms(1)] mo_content_upd
          delete_absent split: if_splits)
  qed
qed

lemma mo_exec_law:
  assumes "mo_inv s" and "mo_exec dbg su now x s = (ans, s')"
  shows "mo_inv s' \<and> ans = answer_to x (mo_content s)
    \<and> mo_content s' = unwrap_or (mo_content s) (offer_effect x (mo_content s))"
proof -
  have "content_ok (mo_content s)" using assms(1) by (simp add: mo_inv_def)
  then have "content_ok (unwrap_or (mo_content s) (offer_effect x (mo_content s)))"
    using offer_effect_ok [of "mo_content s" x] by (cases "offer_effect x (mo_content s)") simp_all
  with mo_exec_content [OF assms] show ?thesis by (simp add: mo_inv_def)
qed

lemma mo_get_offer_sparse:
  "sparse \<noteq> Some False \<Longrightarrow> mo_get_offer s p i sparse = Inr (map_option ot_offer (map_of (mo_offer s) (p, i)))"
  by (cases sparse) (auto simp: mo_get_offer_def Let_def split: option.splits)

lemma mo_get_offer_full:
  assumes "mo_inv s"
  shows "mo_get_offer s p i (Some False) =
      Inr (case oc_offers (mo_content s) (p, i) of
             None \<Rightarrow> None
           | Some r \<Rightarrow> map_option (\<lambda>m. with_metadata (meta_metadata m) r)
               (oc_metadata (mo_content s) (metadata_key_of r)))"
proof (cases "map_of (mo_offer s) (p, i)")
  case (Some v)
  from mo_inv_keys(1) [OF assms Some] show ?thesis
    using Some by (cases "map_of (mo_metadata s) (p, rec_metadata_id (rec_offer (ot_offer v)))")
      (simp_all add: mo_get_offer_def metadata_key_of_def, simp_all add: with_metadata_def)
qed (simp add: mo_get_offer_def)

interpretation mem_offer: offer_store mo_get_offer mo_get_offers mo_get_metadata mo_get_all_metadata
  "mo_exec show_offer show_uuid" mo_content mo_inv
  for show_offer show_uuid
proof (unfold_locales, goal_cases)
  case (1 s)
  then show ?case by (simp add: mo_inv_def)
next
  case (2 s sparse p i)
  then show ?case by (simp add: mo_get_offer_sparse option.map_comp comp_def)
next
  case (3 s p i)
  then show ?case by (rule mo_get_offer_full)
next
  case (4 s p)
  have "bare ` set (mo_offer_listing s p) = {r. \<exists>i. oc_offers (mo_content s) (p, i) = Some r}"
    unfolding mo_offer_listing(2) [OF 4] by (auto simp: image_iff)
  with mo_offer_listing(1) [OF 4] show ?case
    by (intro exI [of _ "mo_offer_listing s p"]) (simp add: mo_get_offers_page)
next
  case (5 s p i)
  show ?case by (simp add: mo_get_metadata_def)
next
  case (6 s p)
  have "set (mo_metadata_listing s p) = {m. \<exists>i. oc_metadata (mo_content s) (p, i) = Some m}"
    unfolding mo_metadata_listing(2) [OF 6] by (auto simp: image_iff)
  with mo_metadata_listing(1) [OF 6] show ?case
    by (intro exI [of _ "mo_metadata_listing s p"]) (simp add: mo_get_all_metadata_page)
next
  case (7 s now x ans s')
  then show ?case by (rule mo_exec_law)
qed

end
