(* ===== verification/OfferLocks.thy ===== *)
theory OfferLocks
  imports OfferMemory
begin

text \<open>
  The two \<open>tokio::sync::Mutex\<close>es of \<open>components/src/offer/memory.rs\<close>: the order in which each
  method locks them, and the interleavings of the tasks that call the methods. A task in flight
  holds the locks it has taken and waits for the rest of its sequence; a method that has all its
  locks runs to its end and drops them.
\<close>

datatype offer_lock = OfferLock | MetadataLock

datatype offer_method =
    GetOffer | GetOffers | PostOffer | PutOffer | DeleteOffer
  | GetMetadata | GetAllMetadata | PostMetadata | PutMetadata | DeleteMetadata

fun lock_sequence :: "offer_method \<Rightarrow> offer_lock list" where
  "lock_sequence GetOffer = [MetadataLock, OfferLock]"
| "lock_sequence GetOffers = [OfferLock]"
| "lock_sequence PostOffer = [MetadataLock, OfferLock]"
| "lock_sequence PutOffer = [MetadataLock, OfferLock]"
| "lock_sequence DeleteOffer = [OfferLock]"
| "lock_sequence GetMetadata = [MetadataLock]"
| "lock_sequence GetAllMetadata = [MetadataLock]"
| "lock_sequence PostMetadata = [MetadataLock]"
| "lock_sequence PutMetadata = [MetadataLock]"
| "lock_sequence DeleteMetadata = [OfferLock, MetadataLock]"

record lock_task =
  task_method :: offer_method
  task_waits :: "offer_lock list"
  task_holds :: "offer_lock set"

type_synonym lock_state = "nat \<Rightarrow> lock_task option"

definition lock_free :: "offer_lock \<Rightarrow> lock_state \<Rightarrow> bool" where
  "lock_free l s \<longleftrightarrow> (\<forall>i t. s i = Some t \<longrightarrow> l \<notin> task_holds t)"

definition start_task :: "offer_method \<Rightarrow> lock_task" where
  "start_task m = \<lparr>task_method = m, task_waits = lock_sequence m, task_holds = {}\<rparr>"

definition take_lock :: "lock_task \<Rightarrow> lock_task" where
  "take_lock t = t\<lparr>task_waits := tl (task_waits t), task_holds := insert (hd (task_waits t)) (task_holds t)\<rparr>"

inductive lock_step :: "lock_state \<Rightarrow> lock_state \<Rightarrow> bool" where
  start: "s i = None \<Longrightarrow> lock_step s (s(i \<mapsto> start_task m))"
| acquire: "s i = Some t \<Longrightarrow> task_waits t = l # ls \<Longrightarrow> lock_free l s \<Longrightarrow> lock_step s (s(i \<mapsto> take_lock t))"
| finish: "s i = Some t \<Longrightarrow> task_waits t = [] \<Longrightarrow> lock_step s (s(i := None))"

inductive_cases lock_stepE: "lock_step s s'"

definition lock_reachable :: "lock_state \<Rightarrow> bool" where
  "lock_reachable s \<longleftrightarrow> lock_step\<^sup>*\<^sup>* Map.empty s"

text \<open>Some task in flight can take a step.\<close>

definition lock_progress :: "lock_state \<Rightarrow> bool" where
  "lock_progress s \<longleftrightarrow>
     (\<exists>i t. s i = Some t \<and> (task_waits t = [] \<or> lock_free (hd (task_waits t)) s))"

section \<open>Invariant\<close>

definition task_ok :: "lock_task \<Rightarrow> bool" where
  "task_ok t \<longleftrightarrow> (\<exists>taken. lock_sequence (task_method t) = taken @ task_waits t \<and> set taken = task_holds t)"

definition lock_inv :: "lock_state \<Rightarrow> bool" where
  "lock_inv s \<longleftrightarrow>
     (\<forall>i t. s i = Some t \<longrightarrow> task_ok t)
     \<and> (\<forall>i j t u. s i = Some t \<longrightarrow> s j = Some u \<longrightarrow> i \<noteq> j \<longrightarrow> task_holds t \<inter> task_holds u = {})"

lemma task_ok_start [simp]: "task_ok (start_task m)"
  by (simp add: task_ok_def start_task_def)

lemma task_ok_take: "task_ok t \<Longrightarrow> task_waits t = l # ls \<Longrightarrow> task_ok (take_lock t)"
proof -
  assume "task_ok t" and w: "task_waits t = l # ls"
  then obtain taken where "lock_sequence (task_method t) = taken @ task_waits t" "set taken = task_holds t"
    by (auto simp: task_ok_def)
  with w show ?thesis
    unfolding task_ok_def take_lock_def by (intro exI [of _ "taken @ [l]"]) auto
qed

lemma lock_inv_step:
  assumes "lock_step s s'" and "lock_inv s"
  shows "lock_inv s'"
  using assms
proof (induction rule: lock_step.induct)
  case (start s i m)
  then show ?case by (auto simp: lock_inv_def start_task_def [of m] task_ok_start [unfolded start_task_def])
next
  case (acquire s i t l ls)
  have "task_ok (take_lock t)"
    using acquire task_ok_take by (auto simp: lock_inv_def)
  moreover have "task_holds (take_lock t) = insert l (task_holds t)"
    using acquire by (simp add: take_lock_def)
  ultimately show ?case
    using acquire unfolding lock_inv_def lock_free_def by (auto split: if_splits)
next
  case (finish s i t)
  then show ?case by (auto simp: lock_inv_def split: if_splits)
qed

lemma lock_inv_reachable: "lock_reachable s \<Longrightarrow> lock_inv s"
proof -
  assume "lock_reachable s"
  then have "lock_step\<^sup>*\<^sup>* Map.empty s" by (simp add: lock_reachable_def)
  then show ?thesis
  proof (induction rule: rtranclp_induct)
    case base
    show ?case by (simp add: lock_inv_def)
  next
    case (step y z)
    then show ?case by (blast intro: lock_inv_step)
  qed
qed

text \<open>What the order "metadata, then offer" gives a task that has not got all its locks.\<close>

lemma task_waits_cases:
  assumes "task_ok t" and "task_method t \<noteq> DeleteMetadata" and "task_waits t \<noteq> []"
  shows "OfferLock \<notin> task_holds t"
    and "hd (task_waits t) \<noteq> OfferLock \<Longrightarrow> task_holds t = {}"
proof -
  obtain taken where t: "lock_sequence (task_method t) = taken @ task_waits t" "set taken = task_holds t"
    using assms(1) by (auto simp: task_ok_def)
  have "lock_sequence (task_method t) \<in> {[MetadataLock, OfferLock], [OfferLock], [MetadataLock]}"
    using assms(2) by (cases "task_method t") simp_all
  with t assms(3) have "taken = [] \<or> taken = [MetadataLock] \<and> task_waits t = [OfferLock]"
    by (auto simp: Cons_eq_append_conv append_eq_Cons_conv)
  with t show "OfferLock \<notin> task_holds t"
    and "hd (task_waits t) \<noteq> OfferLock \<Longrightarrow> task_holds t = {}"
    by auto
qed

lemma ordered_tasks_progress:
  assumes "lock_inv s" and "\<And>i t. s i = Some t \<Longrightarrow> task_method t \<noteq> DeleteMetadata" and "s i = Some t"
  shows "lock_progress s"
proof (rule ccontr)
  assume "\<not> lock_progress s"
  then have blocked: "\<And>j u. s j = Some u \<Longrightarrow> task_waits u \<noteq> [] \<and> \<not> lock_free (hd (task_waits u)) s"
    by (auto simp: lock_progress_def)
  have ok: "\<And>j u. s j = Some u \<Longrightarrow> task_ok u"
    using assms(1) by (simp add: lock_inv_def)
  have "lock_free OfferLock s"
    unfolding lock_free_def using task_waits_cases(1) [OF ok assms(2)] blocked by blast
  then have "\<And>j u. s j = Some u \<Longrightarrow> task_holds u = {}"
    using task_waits_cases(2) [OF ok assms(2)] blocked by metis
  then have "lock_free l s" for l
    by (auto simp: lock_free_def)
  with blocked [OF assms(3)] show False by blast
qed

section \<open>The deadlock of \<open>delete_metadata\<close>\<close>

text \<open>A task that holds the metadata lock and waits for the other, and one the other way round.\<close>

definition crossed :: "lock_state \<Rightarrow> nat \<Rightarrow> nat \<Rightarrow> bool" where
  "crossed s i j \<longleftrightarrow>
     (\<exists>t u. s i = Some t \<and> s j = Some u \<and> i \<noteq> j
       \<and> task_waits t = [OfferLock] \<and> MetadataLock \<in> task_holds t
       \<and> task_waits u = [MetadataLock] \<and> OfferLock \<in> task_holds u)"

lemma crossed_step: "lock_step s s' \<Longrightarrow> crossed s i j \<Longrightarrow> crossed s' i j"
proof (induction rule: lock_step.induct)
  case (start s k m)
  then show ?case by (auto simp: crossed_def)
next
  case (acquire s k t l ls)
  then have "k \<noteq> i \<and> k \<noteq> j"
    unfolding crossed_def lock_free_def by fastforce
  with acquire show ?case by (auto simp: crossed_def)
next
  case (finish s k t)
  then have "k \<noteq> i \<and> k \<noteq> j"
    unfolding crossed_def by fastforce
  with finish show ?case by (auto simp: crossed_def)
qed

lemma crossed_forever: "lock_step\<^sup>*\<^sup>* s s' \<Longrightarrow> crossed s i j \<Longrightarrow> crossed s' i j"
  by (induction rule: rtranclp_induct) (auto intro: crossed_step)

lemma crossed_reachable:
  assumes "m \<in> {GetOffer, PostOffer, PutOffer}"
  shows "\<exists>s. lock_reachable s \<and> crossed s 0 1
    \<and> map_option task_method (s 0) = Some m \<and> map_option task_method (s 1) = Some DeleteMetadata"
proof -
  let ?s1 = "Map.empty(0 \<mapsto> start_task m) :: lock_state"
  let ?s2 = "?s1(1 \<mapsto> start_task DeleteMetadata)"
  let ?s3 = "?s2(0 \<mapsto> take_lock (start_task m))"
  let ?s4 = "?s3(1 \<mapsto> take_lock (start_task DeleteMetadata))"
  have m: "lock_sequence m = [MetadataLock, OfferLock]" using assms by auto
  have "lock_step Map.empty ?s1" by (rule lock_step.start) simp
  moreover have "lock_step ?s1 ?s2" by (rule lock_step.start) simp
  moreover have "lock_step ?s2 ?s3"
    by (rule lock_step.acquire [where l = MetadataLock and ls = "[OfferLock]"])
      (auto simp: start_task_def m lock_free_def)
  moreover have "lock_step ?s3 ?s4"
    by (rule lock_step.acquire [where l = OfferLock and ls = "[MetadataLock]"])
      (auto simp: start_task_def take_lock_def m lock_free_def)
  ultimately have "lock_step\<^sup>*\<^sup>* Map.empty ?s4"
    by (meson rtranclp.rtrancl_into_rtrancl rtranclp.rtrancl_refl)
  then show ?thesis
    by (intro exI [of _ ?s4])
      (simp add: lock_reachable_def crossed_def take_lock_def start_task_def m)
qed

section \<open>Properties\<close>

text \<open>
  Property C9. Two calls of the memory offer store can deadlock: a state is reachable in which
  a \<open>post_offer\<close>, \<open>put_offer\<close> or \<open>get_offer\<close> and a \<open>delete_metadata\<close> each hold the lock that the
  other waits for, and they wait in every state that can follow.
\<close>

theorem delete_metadata_deadlock:
  "\<forall>m \<in> {GetOffer, PostOffer, PutOffer}. \<exists>s. lock_reachable s
     \<and> map_option task_method (s 0) = Some m \<and> map_option task_method (s 1) = Some DeleteMetadata
     \<and> (\<forall>s'. lock_step\<^sup>*\<^sup>* s s' \<longrightarrow> crossed s' 0 1)"
  using crossed_reachable crossed_forever by meson

theorem delete_metadata_deadlock_witness:
  "\<exists>s. lock_reachable s
     \<and> map_option task_method (s 0) = Some PostOffer \<and> map_option task_method (s 1) = Some DeleteMetadata
     \<and> (\<forall>s'. lock_step\<^sup>*\<^sup>* s s' \<longrightarrow> crossed s' 0 1)"
  using delete_metadata_deadlock by blast

text \<open>
  Property C28. All other methods are free of deadlock: in every reachable state whose tasks in
  flight do not include \<open>delete_metadata\<close>, some task can take a step, whatever the interleaving
  that led there.
\<close>

theorem no_deadlock_without_delete_metadata:
  assumes "lock_reachable s" and "\<And>i t. s i = Some t \<Longrightarrow> task_method t \<noteq> DeleteMetadata" and "s i = Some t"
  shows "lock_progress s"
  by (rule ordered_tasks_progress [OF lock_inv_reachable [OF assms(1)] assms(2,3)])

theorem no_deadlock_without_delete_metadata_witness:
  "lock_progress (Map.empty(0 \<mapsto> start_task PostOffer))"
proof (rule no_deadlock_without_delete_metadata [of _ 0])
  have "lock_step Map.empty (Map.empty(0 \<mapsto> start_task PostOffer))" by (rule lock_step.start) simp
  then show "lock_reachable (Map.empty(0 \<mapsto> start_task PostOffer))"
    by (simp add: lock_reachable_def r_into_rtranclp)
qed (auto simp: start_task_def split: if_splits)

text \<open>
  The critical sections exclude each other: two tasks that both have all their
  locks run methods that share none, so each method acts on the maps as one transition.
\<close>

theorem critical_sections_exclusive:
  assumes "lock_reachable s" and "s i = Some t" and "s j = Some u" and "i \<noteq> j"
    and "task_waits t = []" and "task_waits u = []"
  shows "set (lock_sequence (task_method t)) \<inter> set (lock_sequence (task_method u)) = {}"
proof -
  have "lock_inv s" using assms(1) by (rule lock_inv_reachable)
  with assms(2-6) have "task_ok t" "task_ok u" "task_holds t \<inter> task_holds u = {}"
    by (auto simp: lock_inv_def)
  with assms(5,6) show ?thesis by (auto simp: task_ok_def)
qed

theorem critical_sections_exclusive_witness:
  "set (lock_sequence GetOffers) \<inter> set (lock_sequence GetMetadata) = {}"
proof -
  let ?t = "take_lock (start_task GetOffers)" and ?u = "take_lock (start_task GetMetadata)"
  let ?s1 = "Map.empty(0 \<mapsto> start_task GetOffers) :: lock_state"
  let ?s2 = "?s1(0 \<mapsto> ?t)"
  let ?s3 = "?s2(1 \<mapsto> start_task GetMetadata)"
  let ?s4 = "?s3(1 \<mapsto> ?u)"
  have "lock_step Map.empty ?s1" by (rule lock_step.start) simp
  moreover have "lock_step ?s1 ?s2"
    by (rule lock_step.acquire [where l = OfferLock and ls = "[]"]) (auto simp: start_task_def lock_free_def)
  moreover have "lock_step ?s2 ?s3" by (rule lock_step.start) simp
  moreover have "lock_step ?s3 ?s4"
    by (rule lock_step.acquire [where l = MetadataLock and ls = "[]"])
      (auto simp: start_task_def take_lock_def lock_free_def)
  ultimately have "lock_step\<^sup>*\<^sup>* Map.empty ?s4"
    by (meson rtranclp.rtrancl_into_rtrancl rtranclp.rtrancl_refl)
  then have "lock_reachable ?s4" by (simp add: lock_reachable_def)
  from critical_sections_exclusive [OF this, of 0 ?t 1 ?u] show ?thesis
    by (simp add: take_lock_def start_task_def)
qed

end
