(* ===== verification/HttpTypes.thy ===== *)
theory HttpTypes
  imports ServiceApi
begin

text \<open>
  Requests and responses of the services, and the parts of \<open>service/src/axum\<close> that all of them
  share: the header lists, the CRUD errors and responses, the extractors of path, host and
  scheme, and the two middleware layers. A path is its list of decoded segments; the parsers of
  axum, of the crate uuid and of the token library are arguments.
\<close>

section \<open>Messages\<close>

type_synonym header_map = "(string \<times> string) list"

datatype http_method = GET | POST | PUT | PATCH | DELETE

record 'b http_request =
  rq_method :: http_method
  rq_path :: "string list"
  rq_query :: "(string \<times> string) list"
  rq_headers :: header_map
  rq_body :: "'b option"

record 'b http_response =
  rs_status :: nat
  rs_headers :: header_map
  rs_body :: "'b option"

definition status_response :: "nat \<Rightarrow> 'b http_response" where
  "status_response st = \<lparr>rs_status = st, rs_headers = [], rs_body = None\<rparr>"

text \<open>\<open>HeaderMap::insert\<close> replaces the values of a name.\<close>

definition header_insert :: "string \<Rightarrow> string \<Rightarrow> header_map \<Rightarrow> header_map" where
  "header_insert k v hs = AList.update k v (filter (\<lambda>(k', _). k' \<noteq> k) hs)"

definition header_get :: "string \<Rightarrow> header_map \<Rightarrow> string option" where
  "header_get k hs = map_of hs k"

lemma header_get_insert [simp]: "header_get k (header_insert k v hs) = Some v"
  by (simp add: header_get_def header_insert_def)

text \<open>A byte of a header value, and of one that \<open>to_str\<close> accepts.\<close>

definition header_char :: "char \<Rightarrow> bool" where
  "header_char c \<longleftrightarrow> (let n = of_char c :: nat in 32 \<le> n \<and> n \<noteq> 127 \<or> n = 9)"

definition visible_char :: "char \<Rightarrow> bool" where
  "visible_char c \<longleftrightarrow> (let n = of_char c :: nat in 32 \<le> n \<and> n < 127 \<or> n = 9)"

definition header_value :: "string \<Rightarrow> unit + string" where
  "header_value s = (if list_all header_char s then Inr s else Inl ())"

definition header_to_str :: "string \<Rightarrow> unit + string" where
  "header_to_str s = (if list_all visible_char s then Inr s else Inl ())"

lemma visible_header_char: "visible_char c \<Longrightarrow> header_char c"
  by (auto simp: visible_char_def header_char_def Let_def)

section \<open>Headers of an answer (header.rs)\<close>

definition no_cache_headers :: header_map where
  "no_cache_headers =
     [(''cache-control'', ''no-store, no-cache, must-revalidate''),
      (''expires'', ''Thu, 01 Jan 1970 00:00:00 GMT''),
      (''pragma'', ''no-cache'')]"

section \<open>CRUD errors and responses (crud/error.rs, crud/response.rs)\<close>

datatype www_authenticate_error = MissingToken | InvalidToken

fun www_authenticate_display :: "www_authenticate_error \<Rightarrow> string" where
  "www_authenticate_display MissingToken = ''missing_token''"
| "www_authenticate_display InvalidToken = ''invalid_token''"

record crud_error =
  ce_status :: nat
  ce_headers :: header_map

definition crud_not_found :: crud_error where
  "crud_not_found = \<lparr>ce_status = 404, ce_headers = []\<rparr>"

definition crud_bad :: crud_error where
  "crud_bad = \<lparr>ce_status = 400, ce_headers = []\<rparr>"

definition crud_conflict :: "string \<Rightarrow> crud_error" where
  "crud_conflict location = \<lparr>ce_status = 409, ce_headers = [(''location'', location)]\<rparr>"

definition crud_unauthorized :: "string \<Rightarrow> www_authenticate_error \<Rightarrow> crud_error" where
  "crud_unauthorized realm err =
     (let value = (case err of
          MissingToken \<Rightarrow> header_value (''Bearer realm='' @ [CHR 0x22] @ realm @ [CHR 0x22])
        | InvalidToken \<Rightarrow>
            header_value (''Bearer realm='' @ [CHR 0x22] @ realm @ [CHR 0x22] @ '', error='' @ [CHR 0x22]
              @ www_authenticate_display err @ [CHR 0x22]))
      in \<lparr>ce_status = 401,
          ce_headers = [(''www-authenticate'', case value of Inr v \<Rightarrow> v | Inl _ \<Rightarrow> ''Bearer'')]\<rparr>)"

definition crud_from_service_error :: "('e \<Rightarrow> service_error_source) \<Rightarrow> 'e \<Rightarrow> crud_error" where
  "crud_from_service_error esource e = \<lparr>ce_status = to_http_status (esource e), ce_headers = []\<rparr>"

definition crud_from_invalid_header :: "unit \<Rightarrow> crud_error" where
  "crud_from_invalid_header _ = \<lparr>ce_status = 500, ce_headers = []\<rparr>"

definition crud_error_response :: "crud_error \<Rightarrow> 'b http_response" where
  "crud_error_response e = \<lparr>rs_status = ce_status e, rs_headers = ce_headers e, rs_body = None\<rparr>"

record 't json_crud_response =
  cr_body :: "'t option"
  cr_status :: nat
  cr_headers :: header_map

definition crud_ok :: "'t \<Rightarrow> header_map \<Rightarrow> 't json_crud_response" where
  "crud_ok body hs = \<lparr>cr_body = Some body, cr_status = 200, cr_headers = hs\<rparr>"

definition crud_created_location :: "string \<Rightarrow> 't json_crud_response" where
  "crud_created_location location =
     \<lparr>cr_body = None, cr_status = 201, cr_headers = [(''location'', location)]\<rparr>"

definition crud_created :: "'t json_crud_response" where
  "crud_created = \<lparr>cr_body = None, cr_status = 201, cr_headers = []\<rparr>"

definition crud_no_content :: "'t json_crud_response" where
  "crud_no_content = \<lparr>cr_body = None, cr_status = 204, cr_headers = []\<rparr>"

definition crud_not_modified :: "header_map \<Rightarrow> 't json_crud_response" where
  "crud_not_modified hs = \<lparr>cr_body = None, cr_status = 304, cr_headers = hs\<rparr>"

text \<open>\<open>axum::Json\<close>: a body that does not serialize becomes a plain answer with status 500.\<close>

definition crud_into_response ::
  "('t \<Rightarrow> 'x + 'b) \<Rightarrow> 't json_crud_response \<Rightarrow> 'b http_response" where
  "crud_into_response to_json r =
     (case cr_body r of
        None \<Rightarrow> \<lparr>rs_status = cr_status r, rs_headers = cr_headers r, rs_body = None\<rparr>
      | Some body \<Rightarrow>
          (case to_json body of
             Inl _ \<Rightarrow> status_response 500
           | Inr v \<Rightarrow> \<lparr>rs_status = cr_status r, rs_headers = cr_headers r, rs_body = Some v\<rparr>))"

definition crud_answer ::
  "('t \<Rightarrow> 'x + 'b) \<Rightarrow> crud_error + 't json_crud_response \<Rightarrow> 'b http_response" where
  "crud_answer to_json r =
     (case r of Inl e \<Rightarrow> crud_error_response e | Inr ok \<Rightarrow> crud_into_response to_json ok)"

lemmas crud_defs =
  crud_not_found_def crud_bad_def crud_conflict_def crud_from_service_error_def
  crud_from_invalid_header_def crud_error_response_def crud_ok_def crud_created_location_def
  crud_created_def crud_no_content_def crud_not_modified_def crud_into_response_def crud_answer_def
  status_response_def

section \<open>Extractors (extract/*.rs)\<close>

definition parse_uuid_status :: "(string \<Rightarrow> uuid option) \<Rightarrow> string \<Rightarrow> nat + uuid" where
  "parse_uuid_status parse_uuid s = ok_or 404 (parse_uuid s)"

record uuid_param =
  up_partition :: string
  up_id :: uuid

text \<open>The two path parameters of a route, if it has exactly two.\<close>

definition extract_uuid_param :: "(string \<Rightarrow> uuid option) \<Rightarrow> string list \<Rightarrow> nat + uuid_param" where
  "extract_uuid_param parse_uuid params =
     (case params of
        [p, s] \<Rightarrow> map_ok (\<lambda>i. \<lparr>up_partition = p, up_id = i\<rparr>) (parse_uuid_status parse_uuid s)
      | _ \<Rightarrow> Inl 404)"

text \<open>\<open>str::split\<close> by a character: the pieces between its occurrences.\<close>

fun split_char :: "char \<Rightarrow> string \<Rightarrow> string list" where
  "split_char c [] = [[]]"
| "split_char c (x # xs) =
     (if x = c then [] # split_char c xs
      else (case split_char c xs of [] \<Rightarrow> [[x]] | s # ss \<Rightarrow> (x # s) # ss))"

lemma split_char_not_Nil [simp]: "split_char c s \<noteq> []"
  by (induction s) (auto split: list.splits)

lemma split_char_intercalate: "s = concat (hd (split_char c s) # map ((#) c) (tl (split_char c s)))"
  by (induction s) (auto split: list.splits)

lemma split_char_free: "\<forall>p \<in> set (split_char c s). c \<notin> set p"
  by (induction s) (auto split: list.splits)

definition host_domain :: "string \<Rightarrow> string" where
  "host_domain hostname = hd (split_char (CHR '':'') hostname)"

text \<open>\<open>ValidatedHost\<close>, on the host that axum extracts, if any.\<close>

definition validated_host :: "string set \<Rightarrow> string option \<Rightarrow> nat + string" where
  "validated_host allowed_hosts host =
     (case host of
        None \<Rightarrow> Inl 400
      | Some hostname \<Rightarrow>
          (let domain = host_domain hostname
           in if allowed_hosts \<noteq> {} \<and> domain \<notin> allowed_hosts then Inl 400 else Inr hostname))"

text \<open>\<open>trim\<close> and \<open>to_lowercase\<close> on the visible ASCII characters that \<open>to_str\<close> admits.\<close>

definition is_space :: "char \<Rightarrow> bool" where
  "is_space c \<longleftrightarrow> c = CHR '' '' \<or> c = CHR 0x09"

definition trim :: "string \<Rightarrow> string" where
  "trim s = rev (dropWhile is_space (rev (dropWhile is_space s)))"

definition to_lower :: "char \<Rightarrow> char" where
  "to_lower c = (let n = of_char c :: nat in if 65 \<le> n \<and> n \<le> 90 then char_of (n + 32) else c)"

definition proto_of_piece :: "string \<Rightarrow> string option" where
  "proto_of_piece s =
     (let s = map to_lower (trim s)
      in if take 6 s = ''proto='' then Some (last (split_char (CHR ''='') s)) else None)"

definition parse_forwarded_proto :: "string \<Rightarrow> string option" where
  "parse_forwarded_proto forwarded =
     (case header_to_str forwarded of
        Inl _ \<Rightarrow> None
      | Inr s \<Rightarrow>
          (case List.find (\<lambda>p. proto_of_piece p \<noteq> None) (split_char (CHR '';'') s) of
             None \<Rightarrow> None
           | Some p \<Rightarrow> proto_of_piece p))"

definition extract_scheme :: "header_map \<Rightarrow> string \<Rightarrow> string" where
  "extract_scheme hs default_scheme =
     (case Option.bind (header_get ''forwarded'' hs) parse_forwarded_proto of
        Some proto \<Rightarrow> proto
      | None \<Rightarrow>
          (case Option.bind (header_get ''x-forwarded-proto'' hs)
                  (\<lambda>v. case header_to_str v of Inr s \<Rightarrow> Some s | Inl _ \<Rightarrow> None) of
             Some proto \<Rightarrow> proto
           | None \<Rightarrow> default_scheme))"

section \<open>Middleware (auth.rs, partitions.rs)\<close>

text \<open>
  The bearer token layer: \<open>bearer\<close> is the extractor of the token from the headers, \<open>validate\<close>
  the validator of the service.
\<close>

definition bearer_auth_call ::
  "(header_map \<Rightarrow> string option) \<Rightarrow> (string \<Rightarrow> bool) \<Rightarrow> string
     \<Rightarrow> ('b http_request \<Rightarrow> 's \<Rightarrow> 'b http_response \<times> 's)
     \<Rightarrow> 'b http_request \<Rightarrow> 's \<Rightarrow> 'b http_response \<times> 's" where
  "bearer_auth_call bearer validate realm inner req s =
     (case bearer (rq_headers req) of
        Some token \<Rightarrow>
          if validate token then inner req s
          else (crud_error_response (crud_unauthorized realm InvalidToken), s)
      | None \<Rightarrow> (crud_error_response (crud_unauthorized realm MissingToken), s))"

text \<open>The claims of a token, and its validation for one audience.\<close>

record claims =
  claim_aud :: string
  claim_exp :: nat

definition validate_token ::
  "('k \<Rightarrow> string \<Rightarrow> string \<Rightarrow> string + claims) \<Rightarrow> 'k \<Rightarrow> string \<Rightarrow> string \<Rightarrow> string + claims" where
  "validate_token decode key aud token =
     and_then (decode key aud token)
       (\<lambda>c. if claim_aud c = aud then Inr c else Inl ''InvalidToken'')"

definition token_validator ::
  "('k \<Rightarrow> string \<Rightarrow> string \<Rightarrow> string + claims) \<Rightarrow> 'k \<Rightarrow> string \<Rightarrow> string \<Rightarrow> bool" where
  "token_validator decode key aud token = is_ok (validate_token decode key aud token)"

lemma bearer_auth_unchanged:
  assumes "\<And>t. bearer (rq_headers req) = Some t \<Longrightarrow> \<not> validate t"
  shows "snd (bearer_auth_call bearer validate realm inner req s) = s
    \<and> rs_status (fst (bearer_auth_call bearer validate realm inner req s)) = 401"
  using assms
  by (auto simp: bearer_auth_call_def crud_error_response_def crud_unauthorized_def Let_def split: option.splits)

section \<open>The HTTP client (reqwest)\<close>

record 'b client_request =
  cq_method :: http_method
  cq_url :: string
  cq_headers :: header_map
  cq_body :: "'b option"

record ('b, 'w) http_client =
  hc_default_headers :: header_map
  hc_execute :: "'b client_request \<Rightarrow> 'w \<Rightarrow> (string + 'b http_response) \<times> 'w"

text \<open>
  \<open>ClientBuilder\<close>: what a client is built from. \<open>cb_build\<close> makes the client, \<open>cb_from_der\<close> is the error
  of a certificate that does not parse.
\<close>

record client_config =
  cc_default_headers :: header_map
  cc_root_certificates :: "u8 list list"
  cc_timeout :: nat
  cc_connect_timeout :: nat

record ('b, 'w) client_builder =
  cb_build :: "client_config \<Rightarrow> string + ('b, 'w) http_client"
  cb_from_der :: "u8 list \<Rightarrow> string option"

definition add_root_certificates ::
  "('b, 'w) client_builder \<Rightarrow> u8 list list \<Rightarrow> string + u8 list list" where
  "add_root_certificates B roots =
     (case List.find (\<lambda>r. cb_from_der B r \<noteq> None) roots of
        None \<Rightarrow> Inr roots
      | Some r \<Rightarrow> Inl (the (cb_from_der B r)))"

text \<open>\<open>RequestBuilder::send\<close>: the default headers are added to those of the request.\<close>

definition client_send ::
  "('b, 'w) http_client \<Rightarrow> http_method \<Rightarrow> string \<Rightarrow> header_map \<Rightarrow> 'w \<Rightarrow> (string + 'b http_response) \<times> 'w" where
  "client_send cl m url hs w =
     hc_execute cl \<lparr>cq_method = m, cq_url = url, cq_headers = hs @ hc_default_headers cl, cq_body = None\<rparr> w"

text \<open>\<open>.json(body).send()\<close>: a body that does not serialize fails the send.\<close>

definition client_send_json ::
  "('b, 'w) http_client \<Rightarrow> ('x \<Rightarrow> string) \<Rightarrow> http_method \<Rightarrow> string \<Rightarrow> 'x + 'b \<Rightarrow> 'w
     \<Rightarrow> (string + 'b http_response) \<times> 'w" where
  "client_send_json cl show_error m url body w =
     (case body of
        Inl e \<Rightarrow> (Inl (show_error e), w)
      | Inr v \<Rightarrow>
          hc_execute cl \<lparr>cq_method = m, cq_url = url, cq_headers = hc_default_headers cl, cq_body = Some v\<rparr> w)"

text \<open>\<open>response.json()\<close>.\<close>

definition response_json :: "('b \<Rightarrow> 'x + 'a) \<Rightarrow> ('x \<Rightarrow> string) \<Rightarrow> 'b http_response \<Rightarrow> string + 'a" where
  "response_json from_json show_error r =
     (case rs_body r of None \<Rightarrow> Inl ''empty body'' | Some v \<Rightarrow> map_err show_error (from_json v))"

text \<open>\<open>trim_end_matches('/')\<close> of a base address.\<close>

definition trim_end_slash :: "string \<Rightarrow> string" where
  "trim_end_slash s = rev (dropWhile ((=) (CHR ''/'')) (rev s))"

subsection \<open>A client connected to a service in the same process\<close>

text \<open>
  The service is reached under a base address, its path is what follows; this closes the loop
  from a store that speaks HTTP to the handlers over another store.
\<close>

definition url_path :: "string \<Rightarrow> string \<Rightarrow> string list option" where
  "url_path base url =
     (if take (length base) url = base then Some (tl (split_char (CHR ''/'') (drop (length base) url))) else None)"

definition loop_client ::
  "header_map \<Rightarrow> string \<Rightarrow> ('b http_request \<Rightarrow> 's \<Rightarrow> 'b http_response \<times> 's) \<Rightarrow> ('b, 's) http_client" where
  "loop_client defaults base service =
     \<lparr>hc_default_headers = defaults,
      hc_execute = (\<lambda>q s. case url_path base (cq_url q) of
         None \<Rightarrow> (Inl ''no route to host'', s)
       | Some path \<Rightarrow>
           apfst Inr (service \<lparr>rq_method = cq_method q, rq_path = path, rq_query = [],
                                rq_headers = cq_headers q, rq_body = cq_body q\<rparr> s))\<rparr>"

lemma split_char_free_append:
  "c \<notin> set a \<Longrightarrow> split_char c (a @ c # b) = a # split_char c b"
  by (induction a) auto

lemma split_char_none: "c \<notin> set a \<Longrightarrow> split_char c a = [a]"
  by (induction a) auto

lemma url_path_one:
  "CHR ''/'' \<notin> set a \<Longrightarrow> url_path base (base @ ''/'' @ a) = Some [a]"
  by (simp add: url_path_def split_char_none)

lemma url_path_two:
  "CHR ''/'' \<notin> set a \<Longrightarrow> CHR ''/'' \<notin> set b \<Longrightarrow> url_path base (base @ ''/'' @ a @ ''/'' @ b) = Some [a, b]"
  by (simp add: url_path_def split_char_none split_char_free_append)

end
