(* ===== verification/DiscoveryJson.thy ===== *)
theory DiscoveryJson
  imports ServiceApi
begin

text \<open>
  The JSON form of the records of \<open>service-api/src/discovery.rs\<close>: what the derived serde
  instances, their attributes and the module \<open>json_bytes\<close> make of them. A body is a JSON value
  here; its text is that of \<open>serde_json\<close>, whose parser and printer for an embedded document are
  arguments, like the text form of a public key.
\<close>

section \<open>JSON values\<close>

datatype json =
    JNull
  | JBool bool
  | JNum int
  | JReal string  \<comment> \<open>a number that is no 64 bit integer, by its text\<close>
  | JStr string
  | JArr "json list"
  | JObj "(string \<times> json) list"

datatype json_error =
    InvalidType string
  | MissingField string
  | InvalidLength nat
  | DuplicateField
  | CustomError string

text \<open>
  A derived struct reads an object in which no field of its own occurs twice, or an array with one
  element per field. Which of several errors of a document is reported is not modelled.
\<close>

definition known_once :: "string list \<Rightarrow> (string \<times> json) list \<Rightarrow> json_error + (string \<times> json) list" where
  "known_once names fs =
     (if distinct (filter (\<lambda>k. k \<in> set names) (map fst fs)) then Inr fs else Inl DuplicateField)"

definition struct_fields :: "string list \<Rightarrow> json \<Rightarrow> json_error + (string \<times> json) list" where
  "struct_fields names v =
     (case v of
        JObj fs \<Rightarrow> known_once names fs
      | JArr xs \<Rightarrow> if length xs = length names then Inr (zip names xs) else Inl (InvalidLength (length xs))
      | _ \<Rightarrow> Inl (InvalidType ''struct''))"

text \<open>A struct with a flattened field reads objects only.\<close>

definition flat_fields :: "string list \<Rightarrow> json \<Rightarrow> json_error + (string \<times> json) list" where
  "flat_fields names v = (case v of JObj fs \<Rightarrow> known_once names fs | _ \<Rightarrow> Inl (InvalidType ''map''))"

definition req_field :: "(json \<Rightarrow> json_error + 'a) \<Rightarrow> string \<Rightarrow> (string \<times> json) list \<Rightarrow> json_error + 'a" where
  "req_field rd k fs = (case map_of fs k of None \<Rightarrow> Inl (MissingField k) | Some v \<Rightarrow> rd v)"

text \<open>An \<open>Option\<close> field: absent and \<open>null\<close> are both \<open>None\<close>.\<close>

definition opt_value :: "(json \<Rightarrow> json_error + 'a) \<Rightarrow> json \<Rightarrow> json_error + 'a option" where
  "opt_value rd v = (if v = JNull then Inr None else map_ok Some (rd v))"

definition opt_field :: "(json \<Rightarrow> json_error + 'a) \<Rightarrow> string \<Rightarrow> (string \<times> json) list \<Rightarrow> json_error + 'a option" where
  "opt_field rd k fs = (case map_of fs k of None \<Rightarrow> Inr None | Some v \<Rightarrow> opt_value rd v)"

fun read_string :: "json \<Rightarrow> json_error + string" where
  "read_string (JStr s) = Inr s"
| "read_string _ = Inl (InvalidType ''string'')"

fun read_bool :: "json \<Rightarrow> json_error + bool" where
  "read_bool (JBool b) = Inr b"
| "read_bool _ = Inl (InvalidType ''bool'')"

fun read_u64 :: "json \<Rightarrow> json_error + u64" where
  "read_u64 (JNum n) = (if 0 \<le> n \<and> n < 2 ^ 64 then Inr (word_of_int n) else Inl (InvalidType ''u64''))"
| "read_u64 _ = Inl (InvalidType ''u64'')"

fun read_list :: "(json \<Rightarrow> json_error + 'a) \<Rightarrow> json list \<Rightarrow> json_error + 'a list" where
  "read_list rd [] = Inr []"
| "read_list rd (x # xs) = and_then (rd x) (\<lambda>y. map_ok (\<lambda>ys. y # ys) (read_list rd xs))"

definition read_array :: "(json \<Rightarrow> json_error + 'a) \<Rightarrow> json \<Rightarrow> json_error + 'a list" where
  "read_array rd v = (case v of JArr xs \<Rightarrow> read_list rd xs | _ \<Rightarrow> Inl (InvalidType ''sequence''))"

definition read_string_set :: "json \<Rightarrow> json_error + string set" where
  "read_string_set v = map_ok set (read_array read_string v)"

definition write_string_set :: "string set \<Rightarrow> json" where
  "write_string_set S = JArr (map JStr (sorted_list_of_set S))"

lemma uint_u64_less [simp]: "uint (w :: u64) < 18446744073709551616"
  using uint_bounded [of w] by simp

lemma read_u64_write [simp]: "read_u64 (JNum (uint w)) = Inr w"
  by simp

declare read_u64.simps(1) [simp del]

lemma read_list_map: "(\<And>x. x \<in> set xs \<Longrightarrow> rd (wr x) = Inr x) \<Longrightarrow> read_list rd (map wr xs) = Inr xs"
  by (induction xs) auto

lemma read_string_set_write [simp]: "finite S \<Longrightarrow> read_string_set (write_string_set S) = Inr S"
  using read_list_map [of "sorted_list_of_set S" read_string JStr]
  by (simp add: read_string_set_def write_string_set_def read_array_def)

section \<open>Backends\<close>

text \<open>What the code takes from \<open>serde_json\<close> and from \<open>secp256k1\<close>.\<close>

record json_lib =
  jl_parse :: "u8 list \<Rightarrow> string + json"  \<comment> \<open>\<open>serde_json::from_slice::<Value>\<close>\<close>
  jl_print :: "json \<Rightarrow> string + u8 list"  \<comment> \<open>\<open>serde_json::to_vec\<close> of a \<open>Value\<close>\<close>
  jl_show_key :: "public_key \<Rightarrow> string"
  jl_parse_key :: "string \<Rightarrow> string + public_key"

definition json_bytes_serialize :: "json_lib \<Rightarrow> u8 list \<Rightarrow> json_error + json" where
  "json_bytes_serialize L bs = map_err CustomError (jl_parse L bs)"

definition json_bytes_deserialize :: "json_lib \<Rightarrow> json \<Rightarrow> json_error + u8 list" where
  "json_bytes_deserialize L v = map_err CustomError (jl_print L v)"

definition opt_entry :: "string \<Rightarrow> ('a \<Rightarrow> json) \<Rightarrow> 'a option \<Rightarrow> (string \<times> json) list" where
  "opt_entry k wr v = (case v of None \<Rightarrow> [] | Some x \<Rightarrow> [(k, wr x)])"

definition sparse_entries :: "json_lib \<Rightarrow> discovery_backend_sparse \<Rightarrow> json_error + (string \<times> json) list" where
  "sparse_entries L b =
     map_ok (\<lambda>impl. opt_entry ''name'' JStr (name b)
         @ [(''partitions'', write_string_set (partitions b)), (''weight'', JNum (uint (weight b))),
            (''enabled'', JBool (enabled b)), (''implementation'', impl)])
       (json_bytes_serialize L (implementation b))"

definition sparse_to_json :: "json_lib \<Rightarrow> discovery_backend_sparse \<Rightarrow> json_error + json" where
  "sparse_to_json L b = map_ok JObj (sparse_entries L b)"

definition backend_to_json :: "json_lib \<Rightarrow> discovery_backend \<Rightarrow> json_error + json" where
  "backend_to_json L b =
     map_ok (\<lambda>fs. JObj ((''publicKey'', JStr (jl_show_key L (public_key b))) # fs)) (sparse_entries L (backend b))"

definition sparse_names :: "string list" where
  "sparse_names = [''name'', ''partitions'', ''weight'', ''enabled'', ''implementation'']"

definition sparse_of_fields :: "json_lib \<Rightarrow> (string \<times> json) list \<Rightarrow> json_error + discovery_backend_sparse" where
  "sparse_of_fields L fs =
     and_then (opt_field read_string ''name'' fs) (\<lambda>n.
     and_then (req_field read_string_set ''partitions'' fs) (\<lambda>ps.
     and_then (req_field read_u64 ''weight'' fs) (\<lambda>wt.
     and_then (req_field read_bool ''enabled'' fs) (\<lambda>en.
     map_ok (\<lambda>impl. \<lparr>name = n, partitions = ps, weight = wt, enabled = en, implementation = impl\<rparr>)
       (req_field (json_bytes_deserialize L) ''implementation'' fs)))))"

definition sparse_from_json :: "json_lib \<Rightarrow> json \<Rightarrow> json_error + discovery_backend_sparse" where
  "sparse_from_json L v = and_then (struct_fields sparse_names v) (sparse_of_fields L)"

definition read_key :: "json_lib \<Rightarrow> json \<Rightarrow> json_error + public_key" where
  "read_key L v = and_then (read_string v) (\<lambda>s. map_err CustomError (jl_parse_key L s))"

definition backend_from_json :: "json_lib \<Rightarrow> json \<Rightarrow> json_error + discovery_backend" where
  "backend_from_json L v =
     and_then (flat_fields (''publicKey'' # sparse_names) v) (\<lambda>fs.
     and_then (req_field (read_key L) ''publicKey'' fs) (\<lambda>k.
     map_ok (\<lambda>b. \<lparr>public_key = k, backend = b\<rparr>) (sparse_of_fields L fs)))"

definition backends_to_json :: "json_lib \<Rightarrow> discovery_backend list \<Rightarrow> json_error + json" where
  "backends_to_json L bs =
     map_ok JArr (foldr (\<lambda>b acc. and_then (backend_to_json L b) (\<lambda>v. map_ok ((#) v) acc)) bs (Inr []))"

definition backends_from_json :: "json_lib \<Rightarrow> json \<Rightarrow> json_error + discovery_backend list" where
  "backends_from_json L v = read_array (backend_from_json L) v"

section \<open>Patches\<close>

fun write_opt_string :: "string option \<Rightarrow> json" where
  "write_opt_string None = JNull"
| "write_opt_string (Some s) = JStr s"

definition patch_to_json :: "discovery_backend_patch_sparse \<Rightarrow> json" where
  "patch_to_json p =
     JObj (opt_entry ''name'' write_opt_string (patch_name p)
       @ opt_entry ''partitions'' write_string_set (patch_partitions p)
       @ opt_entry ''weight'' (\<lambda>n. JNum (uint n)) (patch_weight p)
       @ opt_entry ''enabled'' JBool (patch_enabled p))"

definition patch_names :: "string list" where
  "patch_names = [''name'', ''partitions'', ''weight'', ''enabled'']"

definition patch_from_json :: "json \<Rightarrow> json_error + discovery_backend_patch_sparse" where
  "patch_from_json v =
     and_then (struct_fields patch_names v) (\<lambda>fs.
     and_then (opt_field (opt_value read_string) ''name'' fs) (\<lambda>n.
     and_then (opt_field read_string_set ''partitions'' fs) (\<lambda>ps.
     and_then (opt_field read_u64 ''weight'' fs) (\<lambda>wt.
     map_ok (\<lambda>en. \<lparr>patch_name = n, patch_partitions = ps, patch_weight = wt, patch_enabled = en\<rparr>)
       (opt_field read_bool ''enabled'' fs)))))"

section \<open>Round trips\<close>

text \<open>A backend that survives: its implementation is a document in the form \<open>serde_json\<close> prints.\<close>

definition wire_sparse :: "json_lib \<Rightarrow> discovery_backend_sparse \<Rightarrow> bool" where
  "wire_sparse L b \<longleftrightarrow> finite (partitions b)
     \<and> (\<exists>v. jl_parse L (implementation b) = Inr v \<and> jl_print L v = Inr (implementation b))"

definition key_codec :: "json_lib \<Rightarrow> bool" where
  "key_codec L \<longleftrightarrow> (\<forall>k. jl_parse_key L (jl_show_key L k) = Inr k)"

definition wire_patch :: "discovery_backend_patch_sparse \<Rightarrow> bool" where
  "wire_patch p \<longleftrightarrow> patch_name p \<noteq> Some None \<and> (\<forall>ps. patch_partitions p = Some ps \<longrightarrow> finite ps)"

lemma opt_value_simps [simp]:
  "opt_value rd JNull = Inr None" "v \<noteq> JNull \<Longrightarrow> opt_value rd v = map_ok Some (rd v)"
  by (simp_all add: opt_value_def)

lemma write_string_set_not_null [simp]: "write_string_set S \<noteq> JNull"
  by (simp add: write_string_set_def)

lemmas field_defs = req_field_def opt_field_def opt_entry_def

lemma sparse_entries_ok:
  assumes "wire_sparse L b"
  shows "\<exists>fs. sparse_entries L b = Inr fs \<and> map_of fs ''publicKey'' = None \<and> sparse_of_fields L fs = Inr b
    \<and> sparse_of_fields L ((''publicKey'', v) # fs) = Inr b \<and> known_once sparse_names fs = Inr fs
    \<and> known_once (''publicKey'' # sparse_names) ((''publicKey'', v) # fs) = Inr ((''publicKey'', v) # fs)"
proof -
  obtain w where "jl_parse L (implementation b) = Inr w" "jl_print L w = Inr (implementation b)"
    and f: "finite (partitions b)"
    using assms by (auto simp: wire_sparse_def)
  then show ?thesis
    by (cases b; cases "name b")
      (simp_all add: sparse_entries_def json_bytes_serialize_def json_bytes_deserialize_def sparse_of_fields_def field_defs
        known_once_def sparse_names_def)
qed

lemma sparse_json_round_trip:
  assumes "wire_sparse L b"
  shows "\<exists>v. sparse_to_json L b = Inr v \<and> sparse_from_json L v = Inr b"
proof -
  obtain fs where "sparse_entries L b = Inr fs" "sparse_of_fields L fs = Inr b" "known_once sparse_names fs = Inr fs"
    using sparse_entries_ok [OF assms] by blast
  then show ?thesis by (simp add: sparse_to_json_def sparse_from_json_def struct_fields_def)
qed

lemma backend_json_round_trip:
  assumes "key_codec L" and "wire_sparse L (backend b)"
  shows "\<exists>v. backend_to_json L b = Inr v \<and> backend_from_json L v = Inr b"
proof -
  obtain fs where "sparse_entries L (backend b) = Inr fs"
      "sparse_of_fields L ((''publicKey'', JStr (jl_show_key L (public_key b))) # fs) = Inr (backend b)"
      "known_once (''publicKey'' # sparse_names) ((''publicKey'', JStr (jl_show_key L (public_key b))) # fs)
        = Inr ((''publicKey'', JStr (jl_show_key L (public_key b))) # fs)"
    using sparse_entries_ok [OF assms(2)] by blast
  with assms(1) show ?thesis
    by (simp add: backend_to_json_def backend_from_json_def flat_fields_def req_field_def read_key_def key_codec_def)
qed

lemma backends_json_round_trip:
  assumes "key_codec L" and "\<forall>b \<in> set bs. wire_sparse L (backend b)"
  shows "\<exists>v. backends_to_json L bs = Inr v \<and> backends_from_json L v = Inr bs"
proof -
  have "\<exists>vs. foldr (\<lambda>b acc. and_then (backend_to_json L b) (\<lambda>v. map_ok ((#) v) acc)) bs (Inr []) = Inr vs
      \<and> read_list (backend_from_json L) vs = Inr bs"
    using assms(2)
  proof (induction bs)
    case (Cons b bs)
    then obtain vs where "foldr (\<lambda>b acc. and_then (backend_to_json L b) (\<lambda>v. map_ok ((#) v) acc)) bs (Inr []) = Inr vs"
        "read_list (backend_from_json L) vs = Inr bs" by auto
    moreover obtain v where "backend_to_json L b = Inr v" "backend_from_json L v = Inr b"
      using backend_json_round_trip [OF assms(1)] Cons.prems by auto
    ultimately show ?case by simp
  qed simp
  then show ?thesis by (auto simp: backends_to_json_def backends_from_json_def read_array_def)
qed

lemma patch_json_round_trip:
  assumes "\<forall>ps. patch_partitions p = Some ps \<longrightarrow> finite ps"
  shows "patch_from_json (patch_to_json p) = Inr (if patch_name p = Some None then p\<lparr>patch_name := None\<rparr> else p)"
proof -
  have "opt_field (opt_value read_string) ''name'' (opt_entry ''name'' write_opt_string (patch_name p))
      = Inr (if patch_name p = Some None then None else patch_name p)"
    by (cases "patch_name p" rule: option.exhaust; cases "the (patch_name p)") (simp_all add: field_defs)
  then show ?thesis
    using assms
    by (cases p; cases "patch_partitions p"; cases "patch_weight p"; cases "patch_enabled p"; cases "patch_name p")
      (auto simp: patch_from_json_def patch_to_json_def struct_fields_def field_defs known_once_def patch_names_def)
qed

section \<open>A concrete library for the witnesses\<close>

text \<open>The embedded document is any text, as a JSON string; a key is written byte by byte.\<close>

definition text_lib :: json_lib where
  "text_lib =
     \<lparr>jl_parse = (\<lambda>bs. Inr (JStr (map (\<lambda>b. char_of (unat b)) bs))),
      jl_print = (\<lambda>v. case v of JStr s \<Rightarrow> Inr (as_bytes s) | _ \<Rightarrow> Inl ''text''),
      jl_show_key = (\<lambda>k. map (\<lambda>b. char_of (unat b)) (pk_serialize k)),
      jl_parse_key = (\<lambda>s. Inr (PublicKey (as_bytes s)))\<rparr>"

lemma as_bytes_char_of [simp]: "as_bytes (map (\<lambda>b. char_of (unat b)) (bs :: u8 list)) = bs"
proof -
  have "of_char (char_of (unat b) :: char) = b" for b :: u8
  proof -
    have "of_char (char_of (unat b)) = (of_nat (of_char (char_of (unat b))) :: u8)"
      by (simp only: of_nat_of_char)
    also have "of_char (char_of (unat b)) = unat b"
      using unsigned_less [of b, where ?'a = nat] by simp
    finally show ?thesis by simp
  qed
  then show ?thesis by (simp add: as_bytes_def map_idI)
qed

lemma text_lib_codec: "key_codec text_lib"
  by (simp add: key_codec_def text_lib_def)

lemma text_lib_wire: "finite (partitions b) \<Longrightarrow> wire_sparse text_lib b"
  by (simp add: wire_sparse_def text_lib_def)

definition sample_backend :: discovery_backend where
  "sample_backend = \<lparr>public_key = PublicKey [2, 3],
     backend = \<lparr>name = Some ''n'', partitions = {''p''}, weight = 7, enabled = True, implementation = [123, 125]\<rparr>\<rparr>"

section \<open>Properties\<close>

text \<open>
  Property C40. A discovery backend whose implementation is a JSON document in printed form is
  read back from the JSON it is written as, public key included.
\<close>

theorem backend_json_round_trips:
  assumes "key_codec L" and "wire_sparse L (backend b)"
  shows "\<exists>v. backend_to_json L b = Inr v \<and> backend_from_json L v = Inr b"
  by (rule backend_json_round_trip [OF assms])

theorem backend_json_round_trips_witness:
  "\<exists>v. backend_to_json text_lib sample_backend = Inr v \<and> backend_from_json text_lib v = Inr sample_backend"
  by (rule backend_json_round_trips [OF text_lib_codec text_lib_wire]) (simp add: sample_backend_def)

text \<open>
  A patch survives its JSON form except for one request: a patch that clears the
  name arrives as a patch that leaves it alone, because \<open>null\<close> and an absent field both read as
  the outer \<open>None\<close>.
\<close>

theorem patch_json_loses_cleared_name:
  assumes "\<forall>ps. patch_partitions p = Some ps \<longrightarrow> finite ps"
  shows "patch_from_json (patch_to_json p) = Inr (if patch_name p = Some None then p\<lparr>patch_name := None\<rparr> else p)"
  by (rule patch_json_round_trip [OF assms])

theorem patch_json_loses_cleared_name_witness:
  "patch_from_json (patch_to_json \<lparr>patch_name = Some None, patch_partitions = None, patch_weight = Some 3, patch_enabled = None\<rparr>)
     = Inr \<lparr>patch_name = None, patch_partitions = None, patch_weight = Some 3, patch_enabled = None\<rparr>"
  using patch_json_loses_cleared_name
    [of "\<lparr>patch_name = Some None, patch_partitions = None, patch_weight = Some 3, patch_enabled = None\<rparr>"]
  by simp

end
