(* ===== verification/CommandIo.thy ===== *)
theory CommandIo
  imports StoreErrors HttpTypes DiscoveryJson
begin

text \<open>
  \<open>server/src/commands/mod.rs\<close>: what the commands read and write, over a model of the part of the
  standard library that they use. A path names its own regular file; every call of the operating
  system may fail (\<open>sy_fault\<close>: the error, and how many bytes went through before it). The services
  a command talks to are the part \<open>cw_remote\<close> of its world.
\<close>

section \<open>Errors (anyhow)\<close>

datatype cli_cause =
    CliMessage string
  | CliForeign string  \<comment> \<open>an error of another crate, by the text it displays\<close>
  | CliDiscovery discovery_store_error
  | CliOffer offer_store_error
  | CliPanic string  \<comment> \<open>no error of the command: it ends the process\<close>

text \<open>The contexts, the outermost first, and the cause.\<close>

type_synonym anyhow = "string list \<times> cli_cause"

definition foreign :: "string \<Rightarrow> anyhow" where
  "foreign e = ([], CliForeign e)"

definition with_context :: "string \<Rightarrow> anyhow + 'a \<Rightarrow> anyhow + 'a" where
  "with_context ctx r = map_err (apfst ((#) ctx)) r"

section \<open>The world of a command\<close>

record 's cli_world =
  cw_files :: "string \<Rightarrow> string option"
  cw_stdin :: string
  cw_stdout :: string
  cw_log :: "string list"
  cw_remote :: 's

datatype cli_read = CliStdin | CliReadFile string
datatype cli_write = CliStdout | CliWriteFile string

datatype io_op =
    IoCreate string
  | IoOpen string
  | IoRead cli_read
  | IoWrite cli_write
  | IoFlush cli_write

record 's cli_sys =
  sy_fault :: "io_op \<Rightarrow> 's cli_world \<Rightarrow> (string \<times> nat) option"
  sy_env :: "string \<Rightarrow> string option"

definition file_create :: "'s cli_sys \<Rightarrow> string \<Rightarrow> 's cli_world \<Rightarrow> (string + cli_write) \<times> 's cli_world" where
  "file_create S path w =
     (case sy_fault S (IoCreate path) w of
        Some (e, _) \<Rightarrow> (Inl e, w)
      | None \<Rightarrow> (Inr (CliWriteFile path), w\<lparr>cw_files := (cw_files w)(path \<mapsto> [])\<rparr>))"

definition file_open :: "'s cli_sys \<Rightarrow> string \<Rightarrow> 's cli_world \<Rightarrow> string + cli_read" where
  "file_open S path w =
     (case sy_fault S (IoOpen path) w of
        Some (e, _) \<Rightarrow> Inl e
      | None \<Rightarrow> if cw_files w path = None then Inl ''No such file or directory (os error 2)''
                else Inr (CliReadFile path))"

definition emit :: "cli_write \<Rightarrow> string \<Rightarrow> 's cli_world \<Rightarrow> 's cli_world" where
  "emit out s w =
     (case out of
        CliStdout \<Rightarrow> w\<lparr>cw_stdout := cw_stdout w @ s\<rparr>
      | CliWriteFile path \<Rightarrow> w\<lparr>cw_files := (cw_files w)(path \<mapsto> unwrap_or [] (cw_files w path) @ s)\<rparr>)"

definition write_all ::
  "'s cli_sys \<Rightarrow> cli_write \<Rightarrow> string \<Rightarrow> 's cli_world \<Rightarrow> (string + unit) \<times> 's cli_world" where
  "write_all S out s w =
     (case sy_fault S (IoWrite out) w of
        Some (e, n) \<Rightarrow> (Inl e, emit out (take n s) w)
      | None \<Rightarrow> (Inr (), emit out s w))"

definition flush :: "'s cli_sys \<Rightarrow> cli_write \<Rightarrow> 's cli_world \<Rightarrow> string + unit" where
  "flush S out w = (case sy_fault S (IoFlush out) w of Some (e, _) \<Rightarrow> Inl e | None \<Rightarrow> Inr ())"

definition read_to_string ::
  "'s cli_sys \<Rightarrow> cli_read \<Rightarrow> 's cli_world \<Rightarrow> (string + string) \<times> 's cli_world" where
  "read_to_string S inp w =
     (let fault = sy_fault S (IoRead inp) w
      in case inp of
           CliStdin \<Rightarrow>
             (case fault of
                Some (e, n) \<Rightarrow> (Inl e, w\<lparr>cw_stdin := drop n (cw_stdin w)\<rparr>)
              | None \<Rightarrow> (Inr (cw_stdin w), w\<lparr>cw_stdin := []\<rparr>))
         | CliReadFile path \<Rightarrow>
             (case fault of
                Some (e, _) \<Rightarrow> (Inl e, w)
              | None \<Rightarrow> (Inr (unwrap_or [] (cw_files w path)), w)))"

text \<open>\<open>std::fs::read_to_string\<close>, \<open>std::fs::read\<close> and \<open>std::fs::write\<close>.\<close>

definition fs_read :: "'s cli_sys \<Rightarrow> string \<Rightarrow> 's cli_world \<Rightarrow> (string + string) \<times> 's cli_world" where
  "fs_read S path w =
     (case file_open S path w of Inl e \<Rightarrow> (Inl e, w) | Inr inp \<Rightarrow> read_to_string S inp w)"

definition fs_write :: "'s cli_sys \<Rightarrow> string \<Rightarrow> string \<Rightarrow> 's cli_world \<Rightarrow> (string + unit) \<times> 's cli_world" where
  "fs_write S path s w =
     (case file_create S path w of
        (Inl e, w1) \<Rightarrow> (Inl e, w1)
      | (Inr out, w1) \<Rightarrow> write_all S out s w1)"

section \<open>Input and output of a command\<close>

definition cli_write_create ::
  "'s cli_sys \<Rightarrow> string option \<Rightarrow> 's cli_world \<Rightarrow> (string + cli_write) \<times> 's cli_world" where
  "cli_write_create S path w =
     (case path of
        None \<Rightarrow> (Inr CliStdout, w)
      | Some p \<Rightarrow> if p = ''-'' then (Inr CliStdout, w) else file_create S p w)"

definition cli_read_open :: "'s cli_sys \<Rightarrow> string option \<Rightarrow> 's cli_world \<Rightarrow> string + cli_read" where
  "cli_read_open S path w =
     (case path of
        None \<Rightarrow> Inr CliStdin
      | Some p \<Rightarrow> if p = ''-'' then Inr CliStdin else file_open S p w)"

definition cli_write_all ::
  "'s cli_sys \<Rightarrow> string option \<Rightarrow> string \<Rightarrow> 's cli_world \<Rightarrow> (string + unit) \<times> 's cli_world" where
  "cli_write_all S path buf w =
     (case cli_write_create S path w of
        (Inl e, w1) \<Rightarrow> (Inl e, w1)
      | (Inr out, w1) \<Rightarrow>
          (case write_all S out buf w1 of
             (Inl e, w2) \<Rightarrow> (Inl e, w2)
           | (Inr _, w2) \<Rightarrow> (flush S out w2, w2)))"

definition cli_read_to_string ::
  "'s cli_sys \<Rightarrow> string option \<Rightarrow> 's cli_world \<Rightarrow> (string + string) \<times> 's cli_world" where
  "cli_read_to_string S path w =
     (case cli_read_open S path w of
        Inl e \<Rightarrow> (Inl e, w)
      | Inr inp \<Rightarrow> read_to_string S inp w)"

lemmas io_defs = file_create_def file_open_def emit_def write_all_def flush_def read_to_string_def fs_read_def
  fs_write_def cli_write_create_def cli_read_open_def cli_write_all_def cli_read_to_string_def

section \<open>Commands\<close>

type_synonym ('s, 'a) command = "'s cli_world \<Rightarrow> (anyhow + 'a) \<times> 's cli_world"

definition cmd_return :: "'a \<Rightarrow> ('s, 'a) command" where
  "cmd_return x w = (Inr x, w)"

definition cmd_bind :: "('s, 'a) command \<Rightarrow> ('a \<Rightarrow> ('s, 'b) command) \<Rightarrow> ('s, 'b) command" where
  "cmd_bind m f w = (case m w of (Inl e, w') \<Rightarrow> (Inl e, w') | (Inr x, w') \<Rightarrow> f x w')"

definition cmd_result :: "anyhow + 'a \<Rightarrow> ('s, 'a) command" where
  "cmd_result r w = (r, w)"

definition cmd_bail :: "string \<Rightarrow> ('s, 'a) command" where
  "cmd_bail msg w = (Inl ([], CliMessage msg), w)"

definition cmd_context :: "string \<Rightarrow> ('s, 'a) command \<Rightarrow> ('s, 'a) command" where
  "cmd_context ctx m w = apfst (with_context ctx) (m w)"

text \<open>A call of the standard library, \<open>info!\<close>, \<open>println!\<close>, and a call of a service.\<close>

definition cmd_io :: "('s cli_world \<Rightarrow> (string + 'a) \<times> 's cli_world) \<Rightarrow> ('s, 'a) command" where
  "cmd_io f w = apfst (map_err foreign) (f w)"

definition cmd_info :: "string \<Rightarrow> ('s, unit) command" where
  "cmd_info s w = (Inr (), w\<lparr>cw_log := cw_log w @ [s]\<rparr>)"

definition cmd_println :: "string \<Rightarrow> ('s, unit) command" where
  "cmd_println s w = (Inr (), w\<lparr>cw_stdout := cw_stdout w @ s @ [CHR 0x0A]\<rparr>)"

definition cmd_call :: "('e \<Rightarrow> cli_cause) \<Rightarrow> ('s \<Rightarrow> ('e + 'a) \<times> 's) \<Rightarrow> ('s, 'a) command" where
  "cmd_call cause f w =
     (case f (cw_remote w) of (r, s') \<Rightarrow> (map_err (\<lambda>e. ([], cause e)) r, w\<lparr>cw_remote := s'\<rparr>))"

text \<open>The text of an optional path in a message.\<close>

definition path_or :: "string \<Rightarrow> string option \<Rightarrow> string" where
  "path_or d path = unwrap_or d path"

lemma cmd_bind_assoc: "cmd_bind (cmd_bind m f) g w = cmd_bind m (\<lambda>x. cmd_bind (f x) g) w"
  by (simp add: cmd_bind_def split: prod.splits sum.splits)

lemma cmd_bind_Inr:
  assumes "cmd_bind m f w = (Inr y, w2)"
  obtains x w1 where "m w = (Inr x, w1)" and "f x w1 = (Inr y, w2)"
  using assms by (auto simp: cmd_bind_def split: prod.splits sum.splits)

lemma cmd_bind_result: "cmd_bind (cmd_result (Inr x)) f w = f x w"
  by (simp add: cmd_bind_def cmd_result_def)

section \<open>What a command leaves alone\<close>

text \<open>Reading and writing never reach the services; a file that was written is read back.\<close>

lemma emit_remote [simp]: "cw_remote (emit out s w) = cw_remote w"
  by (simp add: emit_def split: cli_write.splits)

lemma io_remote [simp]:
  "cw_remote (snd (file_create S p w)) = cw_remote w"
  "cw_remote (snd (write_all S out s w)) = cw_remote w"
  "cw_remote (snd (read_to_string S inp w)) = cw_remote w"
  "cw_remote (snd (fs_read S p w)) = cw_remote w"
  by (auto simp: file_create_def write_all_def read_to_string_def fs_read_def Let_def split: option.splits sum.splits cli_read.splits)

lemma cli_write_remote [simp]: "cw_remote (snd (cli_write_all S path s w)) = cw_remote w"
proof -
  have "cw_remote (snd (cli_write_create S path w)) = cw_remote w"
    by (simp add: cli_write_create_def split: option.splits)
  moreover have "cw_remote w2 = cw_remote w1" if "write_all S out s w1 = (r, w2)" for out w1 r w2
    using io_remote(2) [of S out s w1] that by simp
  ultimately show ?thesis
    by (auto simp: cli_write_all_def split: prod.splits sum.splits)
qed

lemma cli_read_remote [simp]: "cw_remote (snd (cli_read_to_string S path w)) = cw_remote w"
  by (simp add: cli_read_to_string_def split: sum.splits)

lemma cli_write_all_file:
  assumes "cli_write_all S (Some p) s w = (Inr (), w')" and "p \<noteq> ''-''"
  shows "cw_files w' = (cw_files w)(p \<mapsto> s)" and "cw_remote w' = cw_remote w"
  using assms by (auto simp: io_defs split: option.splits prod.splits)

lemma cli_read_file:
  assumes "cw_files w p = Some s" and "p \<noteq> ''-''"
    and "sy_fault S (IoOpen p) w = None" and "sy_fault S (IoRead (CliReadFile p)) w = None"
  shows "cli_read_to_string S (Some p) w = (Inr s, w)"
  using assms by (simp add: io_defs)

lemmas cmd_defs = cmd_return_def cmd_bind_def cmd_result_def cmd_bail_def cmd_context_def cmd_io_def cmd_info_def
  cmd_println_def cmd_call_def with_context_def

section \<open>Documents and clients\<close>

text \<open>
  \<open>serde_json::from_str\<close> and \<open>to_string_pretty\<close> on values, \<open>Url::parse\<close> (the normal text of an
  address), the certificates of a PEM text and the builder of HTTP clients.
\<close>

record 's command_env =
  ce_sys :: "'s cli_sys"
  ce_from_str :: "string \<Rightarrow> string + json"
  ce_pretty :: "json \<Rightarrow> string + string"
  ce_show_json :: "json_error \<Rightarrow> string"
  ce_show_io :: "io_error \<Rightarrow> string"
  ce_show_status :: "nat \<Rightarrow> string"
  ce_parse_url :: "string \<Rightarrow> string + string"
  ce_pem :: "string \<Rightarrow> (string + u8 list) list"
  ce_builder :: "(json, 's) client_builder"

definition url_error :: "'s command_env \<Rightarrow> string \<Rightarrow> string option" where
  "url_error C s = (case ce_parse_url C s of Inl e \<Rightarrow> Some e | Inr _ \<Rightarrow> None)"

text \<open>A document that is read back as it was written.\<close>

definition text_codec :: "'s command_env \<Rightarrow> bool" where
  "text_codec C \<longleftrightarrow> (\<forall>v s. ce_pretty C v = Inr s \<longrightarrow> ce_from_str C s = Inr v)"

definition read_input :: "'s command_env \<Rightarrow> string \<Rightarrow> string option \<Rightarrow> ('s, string) command" where
  "read_input C what path =
     cmd_context (''reading '' @ what @ '': '' @ path_or ''stdin'' path)
       (cmd_io (cli_read_to_string (ce_sys C) path))"

definition parse_input ::
  "'s command_env \<Rightarrow> string \<Rightarrow> (json \<Rightarrow> json_error + 'a) \<Rightarrow> string option \<Rightarrow> string \<Rightarrow> ('s, 'a) command" where
  "parse_input C what rd path s =
     cmd_context (''parsing '' @ what @ '' from: '' @ path_or ''stdin'' path)
       (cmd_result (map_err foreign (and_then (ce_from_str C s) (\<lambda>v. map_err (ce_show_json C) (rd v)))))"

definition pretty_output :: "'s command_env \<Rightarrow> json_error + json \<Rightarrow> anyhow + string" where
  "pretty_output C doc = map_err foreign (and_then (map_err (ce_show_json C) doc) (ce_pretty C))"

definition write_output :: "'s command_env \<Rightarrow> string \<Rightarrow> string option \<Rightarrow> string \<Rightarrow> ('s, unit) command" where
  "write_output C what path s =
     cmd_context (''writing '' @ what @ '' to: '' @ path_or ''stdout'' path)
       (cmd_io (cli_write_all (ce_sys C) path s))"

text \<open>The client options of a command; what is not given comes from the environment.\<close>

record client_options =
  co_base_url :: "string option"
  co_authorization_path :: "string option"
  co_trusted_roots :: "string option"

definition env_var :: "'s command_env \<Rightarrow> string \<Rightarrow> anyhow + string" where
  "env_var C v = ok_or ([], CliMessage (''Missing '' @ v)) (sy_env (ce_sys C) v)"

definition client_base_url :: "'s command_env \<Rightarrow> string \<Rightarrow> client_options \<Rightarrow> anyhow + string" where
  "client_base_url C prefix opts =
     (case co_base_url opts of
        Some u \<Rightarrow> Inr u
      | None \<Rightarrow>
          and_then (env_var C (prefix @ ''_BASE_URL''))
            (\<lambda>u. with_context (''parsing '' @ u) (map_err foreign (ce_parse_url C u))))"

definition client_authorization :: "'s command_env \<Rightarrow> string \<Rightarrow> client_options \<Rightarrow> ('s, string) command" where
  "client_authorization C prefix opts =
     cmd_bind
       (cmd_result (case co_authorization_path opts of
          Some p \<Rightarrow> Inr p
        | None \<Rightarrow> env_var C (prefix @ ''_AUTHORIZATION'')))
       (\<lambda>p. cmd_context (''reading authorization file: '' @ p) (cmd_io (fs_read (ce_sys C) p)))"

definition load_roots :: "'s command_env \<Rightarrow> string option \<Rightarrow> ('s, u8 list list) command" where
  "load_roots C path =
     (case path of
        None \<Rightarrow> cmd_return []
      | Some p \<Rightarrow>
          cmd_context (''parsing root certificate: '' @ p)
            (cmd_bind (cmd_io (fs_read (ce_sys C) p))
               (\<lambda>pem. cmd_result (map_err foreign (collect_ok (ce_pem C pem))))))"

text \<open>Address, authorization and roots, in this order.\<close>

definition client_parameters ::
  "'s command_env \<Rightarrow> string \<Rightarrow> client_options \<Rightarrow> ('s, string \<times> string \<times> u8 list list) command" where
  "client_parameters C prefix opts =
     cmd_bind (cmd_result (client_base_url C prefix opts)) (\<lambda>base_url.
     cmd_bind (client_authorization C prefix opts) (\<lambda>authorization.
     cmd_bind (load_roots C
         (case co_trusted_roots opts of
            None \<Rightarrow> sy_env (ce_sys C) (prefix @ ''_TRUSTED_ROOTS'')
          | Some p \<Rightarrow> Some p)) (\<lambda>roots.
     cmd_return (base_url, authorization, roots))))"

lemma file_open_not_stdin: "file_open S p w \<noteq> Inr CliStdin"
  by (simp add: file_open_def split: option.splits)

lemma fs_read_world [simp]: "snd (fs_read S p w) = w"
  by (auto simp: fs_read_def file_open_def read_to_string_def split: sum.splits option.splits)

lemma cmd_bind_world:
  assumes "snd (m w) = w" and "\<And>x. fst (m w) = Inr x \<Longrightarrow> snd (f x w) = w"
  shows "snd (cmd_bind m f w) = w"
  using assms by (cases "m w"; cases "fst (m w)") (auto simp: cmd_bind_def)

lemma cmd_world_simps [simp]:
  "snd (cmd_return x w) = w" "snd (cmd_result r w) = w" "snd (cmd_context ctx m w) = snd (m w)"
  "snd (cmd_io g w) = snd (g w)"
  by (simp_all add: cmd_defs)

lemma load_roots_world [simp]: "snd (load_roots C path w) = w"
  by (auto simp: load_roots_def split: option.splits intro!: cmd_bind_world)

lemma client_authorization_world [simp]: "snd (client_authorization C prefix opts w) = w"
  by (auto simp: client_authorization_def intro!: cmd_bind_world)

text \<open>Finding out the parameters of a client changes nothing.\<close>

lemma client_parameters_world [simp]: "snd (client_parameters C prefix opts w) = w"
  by (auto simp: client_parameters_def intro!: cmd_bind_world)

lemma read_input_remote [simp]: "cw_remote (snd (read_input C what path w)) = cw_remote w"
  by (simp add: read_input_def)

lemma write_output_remote [simp]: "cw_remote (snd (write_output C what path s w)) = cw_remote w"
  by (simp add: write_output_def)

section \<open>Commands that call no service\<close>

definition quiet :: "('s, 'a) command \<Rightarrow> bool" where
  "quiet m \<longleftrightarrow> (\<forall>w. cw_remote (snd (m w)) = cw_remote w)"

named_theorems quiet_intros \<open>commands that call no service\<close>

lemma quietD: "quiet m \<Longrightarrow> m w = (r, w') \<Longrightarrow> cw_remote w' = cw_remote w"
  unfolding quiet_def by (metis snd_conv)

lemma quiet_basic [quiet_intros]:
  "quiet (cmd_return x)" "quiet (cmd_result r)" "quiet (cmd_bail msg)" "quiet (cmd_info s)" "quiet (cmd_println s)"
  "quiet (read_input C what path)" "quiet (write_output C what path s)" "quiet (parse_input C what rd path s)"
  by (simp_all add: quiet_def cmd_defs read_input_def write_output_def parse_input_def del: cmd_world_simps)

lemma quiet_bind [quiet_intros]:
  assumes "quiet m" and "\<And>x. quiet (f x)"
  shows "quiet (cmd_bind m f)"
  unfolding quiet_def
proof
  fix w
  obtain r w1 where m: "m w = (r, w1)" by fastforce
  then have "cw_remote w1 = cw_remote w" by (rule quietD [OF assms(1)])
  with m show "cw_remote (snd (cmd_bind m f w)) = cw_remote w"
    using assms(2) by (cases r) (simp_all add: cmd_bind_def quiet_def)
qed

lemma quiet_context [quiet_intros]: "quiet m \<Longrightarrow> quiet (cmd_context ctx m)"
  by (simp add: quiet_def)

fun cmd_for_each :: "('a \<Rightarrow> ('s, unit) command) \<Rightarrow> 'a list \<Rightarrow> ('s, unit) command" where
  "cmd_for_each f [] = cmd_return ()"
| "cmd_for_each f (x # xs) = cmd_bind (f x) (\<lambda>_. cmd_for_each f xs)"

lemma quiet_for_each [quiet_intros]: "(\<And>x. quiet (f x)) \<Longrightarrow> quiet (cmd_for_each f xs)"
  by (induction xs) (auto intro!: quiet_intros)

section \<open>Running a command step by step\<close>

text \<open>A document that was read and understood.\<close>

definition document :: "'s command_env \<Rightarrow> string option \<Rightarrow> (json \<Rightarrow> json_error + 'a) \<Rightarrow> 's cli_world \<Rightarrow> ('a \<times> 's cli_world) option" where
  "document C path rd w =
     (case cli_read_to_string (ce_sys C) path w of
        (Inr doc, w1) \<Rightarrow>
          (case ce_from_str C doc of
             Inr v \<Rightarrow> (case rd v of Inr x \<Rightarrow> Some (x, w1) | Inl _ \<Rightarrow> None)
           | Inl _ \<Rightarrow> None)
      | (Inl _, _) \<Rightarrow> None)"

lemma document_remote: "document C path rd w = Some (x, w1) \<Longrightarrow> cw_remote w1 = cw_remote w"
  using cli_read_remote [of "ce_sys C" path w]
  by (auto simp: document_def simp del: cli_read_remote split: prod.splits sum.splits)

lemma read_document:
  "document C path rd w = Some (x, w1) \<Longrightarrow>
     cmd_bind (read_input C what path) (\<lambda>doc. cmd_bind (parse_input C what' rd path doc) f) w = f x w1"
  by (auto simp: document_def read_input_def parse_input_def cmd_defs split: prod.splits sum.splits)

lemma read_document_fails:
  assumes "document C path rd w = None"
  shows "\<exists>e w1. cmd_bind (read_input C what path) (\<lambda>doc. cmd_bind (parse_input C what' rd path doc) f) w = (Inl e, w1)
    \<and> cw_remote w1 = cw_remote w"
  using assms cli_read_remote [of "ce_sys C" path w]
  by (auto simp: document_def read_input_def parse_input_def cmd_defs simp del: cli_read_remote
      split: prod.splits sum.splits)

text \<open>A call, and what the command makes of its answer.\<close>

lemma cmd_bind_call:
  "f (cw_remote w) = (r, s') \<Longrightarrow>
     cmd_bind (cmd_call cause f) g w =
       (case r of Inl e \<Rightarrow> (Inl ([], cause e), w\<lparr>cw_remote := s'\<rparr>) | Inr x \<Rightarrow> g x (w\<lparr>cw_remote := s'\<rparr>))"
  by (cases r) (simp_all add: cmd_bind_def cmd_call_def)

lemma reported:
  assumes "(if hit then cmd_info ok else cmd_bail bad) (w1\<lparr>cw_remote := s'\<rparr>) = (Inl e, w')" and "\<not> hit \<Longrightarrow> s' = s"
  shows "cw_remote w' = s"
  using assms by (auto simp: cmd_info_def cmd_bail_def split: if_splits)

lemma logged_twice:
  fixes m :: "('s, unit) command"
  assumes "cmd_bind m (\<lambda>_. cmd_bind (cmd_info a) (\<lambda>_. cmd_info b)) w = (Inr (), w1)"
  shows "\<exists>w'. m w = (Inr (), w') \<and> cw_files w1 = cw_files w'"
  using assms by (auto simp: cmd_info_def cmd_bind_def split: prod.splits sum.splits)

lemma written_document:
  assumes "cmd_bind (cmd_context ctx (cmd_result (pretty_output C d))) (write_output C what (Some p)) w = (Inr (), w1)"
    and "p \<noteq> ''-''"
  obtains v doc where "d = Inr v" and "ce_pretty C v = Inr doc" and "cw_files w1 p = Some doc"
    and "cw_remote w1 = cw_remote w"
proof -
  obtain doc where doc: "pretty_output C d = Inr doc" "write_output C what (Some p) doc w = (Inr (), w1)"
    using assms(1) by (cases "pretty_output C d") (simp_all add: cmd_defs)
  obtain v where "d = Inr v" "ce_pretty C v = Inr doc"
    using doc(1) by (auto simp: pretty_output_def result_simps)
  moreover have "cli_write_all (ce_sys C) (Some p) doc w = (Inr (), w1)"
    using doc(2) by (cases "cli_write_all (ce_sys C) (Some p) doc w"; cases "fst (cli_write_all (ce_sys C) (Some p) doc w)")
      (auto simp: write_output_def cmd_defs)
  ultimately show thesis
    using that cli_write_all_file [OF _ assms(2)] by fastforce
qed

text \<open>Reading a file works, and finds what was last written.\<close>

definition readable :: "'s command_env \<Rightarrow> string \<Rightarrow> 's cli_world \<Rightarrow> bool" where
  "readable C p w \<longleftrightarrow> p \<noteq> ''-'' \<and> sy_fault (ce_sys C) (IoOpen p) w = None
     \<and> sy_fault (ce_sys C) (IoRead (CliReadFile p)) w = None"

lemma document_file:
  assumes "readable C p w" and "cw_files w p = Some doc" and "ce_from_str C doc = Inr v" and "rd v = Inr x"
  shows "document C (Some p) rd w = Some (x, w)"
  using assms cli_read_file [OF assms(2)] by (simp add: document_def readable_def)

end
