(* ===== verification/F64.thy ===== *)
theory F64
  imports Complex_Main Prelude "HOL-Library.Log_Nat"
begin

text \<open>
  Rust's \<open>f64\<close>, as far as the balancer uses it: conversion from \<open>u64\<close>, addition,
  multiplication and comparison in IEEE 754 binary64 with rounding to the nearest value, ties to
  even. A finite value is the rational number it stands for (the two zeros are one value, as
  \<open><=\<close> does not tell them apart).
\<close>

section \<open>Rounding\<close>

text \<open>The exponent of the leading bit of a positive rational.\<close>

definition ilog2 :: "rat \<Rightarrow> int" where
  "ilog2 x =
     (let (p, q) = quotient_of x;
          e = int (floorlog 2 (nat p)) - int (floorlog 2 (nat q))
      in if 2 powi e \<le> x then e else e - 1)"

definition round_even :: "rat \<Rightarrow> int" where
  "round_even x =
     (let f = \<lfloor>x\<rfloor>; d = x - of_int f
      in if d < 1 / 2 then f else if d > 1 / 2 then f + 1 else if even f then f else f + 1)"

text \<open>The exponent of the unit in the last place: 53 significant bits, subnormals below.\<close>

definition ulp_exp :: "rat \<Rightarrow> int" where
  "ulp_exp x = max (ilog2 x - 52) (- 1074)"

definition round_pos :: "rat \<Rightarrow> rat" where
  "round_pos x = of_int (round_even (x / 2 powi ulp_exp x)) * 2 powi ulp_exp x"

definition round_rat :: "rat \<Rightarrow> rat" where
  "round_rat x = (if x = 0 then 0 else if 0 < x then round_pos x else - round_pos (- x))"

datatype f64 = Fin rat | PInf | NInf | NaN

text \<open>Beyond this bound a rounded value is infinite.\<close>

definition f64_limit :: rat where
  "f64_limit = 2 ^ 1024"

definition round_f64 :: "rat \<Rightarrow> f64" where
  "round_f64 x =
     (let r = round_rat x
      in if f64_limit \<le> r then PInf else if r \<le> - f64_limit then NInf else Fin r)"

section \<open>Operations\<close>

definition u64_rat :: "u64 \<Rightarrow> rat" where
  "u64_rat w = of_nat (unat w)"

definition f64_of_u64 :: "u64 \<Rightarrow> f64" where
  "f64_of_u64 w = round_f64 (u64_rat w)"

fun f64_add :: "f64 \<Rightarrow> f64 \<Rightarrow> f64" where
  "f64_add (Fin a) (Fin b) = round_f64 (a + b)"
| "f64_add NaN _ = NaN"
| "f64_add _ NaN = NaN"
| "f64_add PInf NInf = NaN"
| "f64_add NInf PInf = NaN"
| "f64_add PInf _ = PInf"
| "f64_add _ PInf = PInf"
| "f64_add NInf _ = NInf"
| "f64_add _ NInf = NInf"

definition f64_inf :: "rat \<Rightarrow> f64" where
  "f64_inf sg = (if sg = 0 then NaN else if 0 < sg then PInf else NInf)"

fun f64_mul :: "f64 \<Rightarrow> f64 \<Rightarrow> f64" where
  "f64_mul (Fin a) (Fin b) = round_f64 (a * b)"
| "f64_mul NaN _ = NaN"
| "f64_mul _ NaN = NaN"
| "f64_mul (Fin a) PInf = f64_inf a"
| "f64_mul (Fin a) NInf = f64_inf (- a)"
| "f64_mul PInf (Fin b) = f64_inf b"
| "f64_mul NInf (Fin b) = f64_inf (- b)"
| "f64_mul PInf PInf = PInf"
| "f64_mul PInf NInf = NInf"
| "f64_mul NInf PInf = NInf"
| "f64_mul NInf NInf = PInf"

fun f64_le :: "f64 \<Rightarrow> f64 \<Rightarrow> bool" where
  "f64_le (Fin a) (Fin b) = (a \<le> b)"
| "f64_le NaN _ = False"
| "f64_le _ NaN = False"
| "f64_le NInf _ = True"
| "f64_le _ PInf = True"
| "f64_le _ NInf = False"
| "f64_le PInf _ = False"

section \<open>Rounding is exact on representable values and monotone\<close>

lemma powi_mono: "e \<le> f \<Longrightarrow> (2 :: rat) powi e \<le> 2 powi f"
  by (rule power_int_increasing) auto

lemma powi_strict: "(2 :: rat) powi e < 2 powi f \<longleftrightarrow> e < f"
proof
  show "e < f \<Longrightarrow> (2 :: rat) powi e < 2 powi f"
    by (rule power_int_strict_increasing) auto
  show "(2 :: rat) powi e < 2 powi f \<Longrightarrow> e < f"
    using powi_mono [of f e] by (meson linorder_not_less)
qed

lemma floorlog_powi:
  assumes "0 < n"
  shows "(2 :: rat) powi (int (floorlog 2 (nat n)) - 1) \<le> of_int n"
    and "of_int n < (2 :: rat) powi int (floorlog 2 (nat n))"
proof -
  let ?l = "floorlog 2 (nat n)"
  have b: "2 ^ (?l - 1) \<le> nat n" "nat n < 2 ^ ?l"
    using floorlog_bounds [of "nat n" 2] assms by auto
  have "?l \<noteq> 0"
    using assms by (simp add: floorlog_def)
  then obtain l where l: "?l = Suc l"
    by (cases ?l) simp_all
  have "(2 :: rat) powi (int ?l - 1) = of_nat (2 ^ (?l - 1))"
    by (simp add: l)
  also have "\<dots> \<le> of_nat (nat n)"
    using b(1) by (simp only: of_nat_le_iff)
  finally show "(2 :: rat) powi (int ?l - 1) \<le> of_int n"
    using assms by simp
  have "(of_nat (nat n) :: rat) < of_nat (2 ^ ?l)"
    using b(2) by (simp only: of_nat_less_iff)
  then show "of_int n < (2 :: rat) powi int ?l"
    using assms by simp
qed

lemma ilog2_bounds:
  assumes "0 < x"
  shows "2 powi ilog2 x \<le> x" and "x < 2 powi (ilog2 x + 1)"
proof -
  obtain p q where pq: "quotient_of x = (p, q)" by (cases "quotient_of x")
  then have x: "x = of_int p / of_int q" and q: "0 < q"
    using quotient_of_div quotient_of_denom_pos by auto
  then have p: "0 < p"
    using assms by (simp add: zero_less_divide_iff)
  define a b where "a = int (floorlog 2 (nat p))" and "b = int (floorlog 2 (nat q))"
  have le: "2 powi (a - 1) \<le> (of_int p :: rat)" "(of_int p :: rat) < 2 powi a"
    "2 powi (b - 1) \<le> (of_int q :: rat)" "(of_int q :: rat) < 2 powi b"
    using floorlog_powi [OF p] floorlog_powi [OF q] by (simp_all add: a_def b_def)
  have "x < 2 powi a / 2 powi (b - 1)"
    unfolding x using le(2,3) q p by (intro frac_less) auto
  also have "(2 :: rat) powi a / 2 powi (b - 1) = 2 powi (a - b + 1)"
    by (simp flip: power_int_diff add: algebra_simps)
  finally have hi: "x < 2 powi (a - b + 1)" .
  have "(2 :: rat) powi (a - b - 1) = 2 powi (a - 1) / 2 powi b"
    by (simp flip: power_int_diff add: algebra_simps)
  also have "\<dots> \<le> x"
    unfolding x using le(1,4) q p by (intro frac_le) auto
  finally have lo: "2 powi (a - b - 1) \<le> x" .
  have def: "ilog2 x = (if 2 powi (a - b) \<le> x then a - b else a - b - 1)"
    by (simp add: ilog2_def pq a_def b_def Let_def)
  show "2 powi ilog2 x \<le> x" "x < 2 powi (ilog2 x + 1)"
    using hi lo by (auto simp: def)
qed

lemma ilog2_mono: "0 < x \<Longrightarrow> x \<le> y \<Longrightarrow> ilog2 x \<le> ilog2 y"
  using ilog2_bounds [of x] ilog2_bounds [of y] powi_strict [of "ilog2 x" "ilog2 y + 1"]
  by linarith

lemma round_even_of_int [simp]: "round_even (of_int k) = k"
  by (simp add: round_even_def)

lemma round_even_near: "\<lfloor>x\<rfloor> \<le> round_even x" "round_even x \<le> \<lfloor>x\<rfloor> + 1"
  by (simp_all add: round_even_def Let_def)

lemma round_even_mono:
  assumes "x \<le> y"
  shows "round_even x \<le> round_even y"
proof (cases "\<lfloor>x\<rfloor> = \<lfloor>y\<rfloor>")
  case True
  with assms show ?thesis by (auto simp: round_even_def Let_def)
next
  case False
  with floor_mono [OF assms] have "\<lfloor>x\<rfloor> + 1 \<le> \<lfloor>y\<rfloor>" by linarith
  with round_even_near [of x] round_even_near [of y] show ?thesis by linarith
qed

lemma round_even_ge: "of_int k \<le> x \<Longrightarrow> k \<le> round_even x"
  using round_even_mono [of "of_int k" x] by simp

lemma round_even_le: "x \<le> of_int k \<Longrightarrow> round_even x \<le> k"
  using round_even_mono [of x "of_int k"] by simp

lemma powi_nat_int: "0 \<le> e \<Longrightarrow> (2 :: rat) powi e = of_int (2 ^ nat e)"
  by (simp add: power_int_def)

text \<open>Powers of two at or above the unit in the last place bound the rounded value.\<close>

lemma round_pos_le_powi:
  assumes "x \<le> 2 powi k" and "ulp_exp x \<le> k"
  shows "round_pos x \<le> 2 powi k"
proof -
  have "x / 2 powi ulp_exp x \<le> 2 powi (k - ulp_exp x)"
    using assms(1) by (simp add: power_int_diff divide_right_mono)
  then have "round_even (x / 2 powi ulp_exp x) \<le> 2 ^ nat (k - ulp_exp x)"
    using assms(2) by (intro round_even_le) (simp add: powi_nat_int)
  then have "(of_int (round_even (x / 2 powi ulp_exp x)) :: rat) \<le> 2 powi (k - ulp_exp x)"
    using assms(2) by (simp add: powi_nat_int)
  then show ?thesis
    by (simp add: round_pos_def power_int_diff field_simps)
qed

lemma round_pos_ge_powi:
  assumes "2 powi k \<le> x" and "ulp_exp x \<le> k"
  shows "2 powi k \<le> round_pos x"
proof -
  have "2 powi (k - ulp_exp x) \<le> x / 2 powi ulp_exp x"
    using assms(1) by (simp add: power_int_diff divide_right_mono)
  then have "2 ^ nat (k - ulp_exp x) \<le> round_even (x / 2 powi ulp_exp x)"
    using assms(2) by (intro round_even_ge) (simp add: powi_nat_int)
  then have "2 powi (k - ulp_exp x) \<le> (of_int (round_even (x / 2 powi ulp_exp x)) :: rat)"
    using assms(2) by (simp add: powi_nat_int)
  then show ?thesis
    by (simp add: round_pos_def power_int_diff field_simps)
qed

lemma round_pos_nonneg: "0 < x \<Longrightarrow> 0 \<le> round_pos x"
  by (simp add: round_pos_def round_even_ge [of 0, simplified])

lemma round_pos_mono:
  assumes "0 < x" and "x \<le> y"
  shows "round_pos x \<le> round_pos y"
proof (cases "ulp_exp x = ulp_exp y")
  case True
  have "x / 2 powi ulp_exp y \<le> y / 2 powi ulp_exp y"
    using assms(2) by (simp add: divide_right_mono)
  then have "round_even (x / 2 powi ulp_exp x) \<le> round_even (y / 2 powi ulp_exp y)"
    using True by (simp add: round_even_mono)
  then show ?thesis
    using True by (simp add: round_pos_def mult_right_mono)
next
  case False
  have lt: "ulp_exp x < ulp_exp y"
    using False ilog2_mono [OF assms] by (auto simp: ulp_exp_def)
  then have y: "ulp_exp y = ilog2 y - 52" and xy: "ilog2 x + 1 \<le> ilog2 y"
    by (auto simp: ulp_exp_def split: if_splits)
  let ?k = "max (ilog2 x + 1) (ulp_exp x)"
  have "x \<le> 2 powi ?k"
    using ilog2_bounds(2) [OF assms(1)] powi_mono [of "ilog2 x + 1" ?k] by linarith
  then have "round_pos x \<le> 2 powi ?k"
    by (rule round_pos_le_powi) simp
  also have "\<dots> \<le> 2 powi ilog2 y"
    using lt xy y by (intro powi_mono) linarith
  also have "\<dots> \<le> round_pos y"
    using assms y by (intro round_pos_ge_powi ilog2_bounds) auto
  finally show ?thesis .
qed

lemma round_pos_of_nat:
  assumes "0 < n" and "n < 2 ^ 53"
  shows "round_pos (of_nat n) = of_nat n"
proof -
  have "(of_nat n :: rat) < of_nat (2 ^ 53)"
    using assms(2) by (simp only: of_nat_less_iff)
  then have "of_nat n < (2 :: rat) powi 53" by simp
  moreover have "2 powi ilog2 (of_nat n) \<le> (of_nat n :: rat)"
    using assms(1) by (intro ilog2_bounds) simp
  ultimately have "ilog2 (of_nat n) < 53"
    using powi_strict [of "ilog2 (of_nat n)" 53] by linarith
  then have u: "ulp_exp (of_nat n) \<le> 0" by (simp add: ulp_exp_def)
  let ?e = "ulp_exp (of_nat n)"
  have "(of_nat n :: rat) / 2 powi ?e = of_nat n * 2 powi (- ?e)"
    by (simp add: power_int_minus field_simps)
  also have "\<dots> = of_int (int n * 2 ^ nat (- ?e))"
    using u by (simp add: powi_nat_int)
  finally have eq: "(of_nat n :: rat) / 2 powi ?e = of_int (int n * 2 ^ nat (- ?e))" .
  then have "round_pos (of_nat n) = of_nat n / 2 powi ?e * 2 powi ?e"
    unfolding round_pos_def by (simp only: eq round_even_of_int)
  then show ?thesis by simp
qed

lemma round_rat_mono:
  assumes "0 \<le> x" and "x \<le> y"
  shows "round_rat x \<le> round_rat y"
  using assms round_pos_nonneg [of y] round_pos_mono [of x y] by (auto simp: round_rat_def)

lemma round_rat_nonneg: "0 \<le> x \<Longrightarrow> 0 \<le> round_rat x"
  using round_rat_mono [of 0 x] by (simp add: round_rat_def)

lemma round_rat_nonpos: "x \<le> 0 \<Longrightarrow> round_rat x \<le> 0"
  using round_pos_nonneg [of "- x"] by (auto simp: round_rat_def)

text \<open>The integers that \<open>f64\<close> holds exactly: 53 significant bits.\<close>

definition f64_exact :: "nat \<Rightarrow> bool" where
  "f64_exact n \<longleftrightarrow> n < 2 ^ 53"

lemma round_rat_of_nat: "f64_exact n \<Longrightarrow> round_rat (of_nat n) = of_nat n"
  using round_pos_of_nat [of n] by (cases "n = 0") (simp_all add: round_rat_def f64_exact_def)

lemma round_rat_1 [simp]: "round_rat 1 = 1"
  using round_rat_of_nat [of 1] by (simp add: f64_exact_def)

lemma f64_limit_pos [simp]: "0 < f64_limit"
  unfolding f64_limit_def by (rule zero_less_power) simp

lemma of_nat_lt_f64_limit:
  assumes "f64_exact n"
  shows "of_nat n < f64_limit"
proof -
  have "n < 2 ^ 53" using assms by (simp only: f64_exact_def)
  also have "(2 :: nat) ^ 53 \<le> 2 ^ 1024" by (intro power_increasing) simp_all
  finally have "(of_nat n :: rat) < of_nat (2 ^ 1024)" by (simp only: of_nat_less_iff)
  then show ?thesis by (simp only: f64_limit_def of_nat_power of_nat_numeral)
qed

lemma round_f64_Fin:
  "- f64_limit < round_rat x \<Longrightarrow> round_rat x < f64_limit \<Longrightarrow> round_f64 x = Fin (round_rat x)"
  by (simp add: round_f64_def Let_def)

lemma round_f64_le_nat:
  assumes "x \<le> of_nat n" and "f64_exact n" and "f64_le (Fin a) (round_f64 x)"
  shows "a \<le> of_nat n"
proof -
  have le: "round_rat x \<le> of_nat n"
  proof (cases "0 \<le> x")
    case True
    then show ?thesis
      using round_rat_mono [OF True assms(1)] round_rat_of_nat [OF assms(2)] by simp
  next
    case False
    then have "round_rat x \<le> 0" by (intro round_rat_nonpos) simp
    also have "0 \<le> (of_nat n :: rat)" by simp
    finally show ?thesis .
  qed
  with of_nat_lt_f64_limit [OF assms(2)] have "round_rat x < f64_limit" by linarith
  with assms(3) le show ?thesis
    by (auto simp: round_f64_def Let_def split: if_splits)
qed

lemma round_f64_ge_nat:
  assumes "of_nat n \<le> x" and "f64_exact n"
  shows "f64_le (Fin (of_nat n)) (round_f64 x)"
proof -
  have ge: "of_nat n \<le> round_rat x"
    using round_rat_mono [OF _ assms(1)] round_rat_of_nat [OF assms(2)] by simp
  moreover have "- f64_limit < 0" "0 \<le> (of_nat n :: rat)" by simp_all
  ultimately have "- f64_limit < round_rat x" by linarith
  with ge show ?thesis by (auto simp: round_f64_def Let_def)
qed

lemma u64_rat_nonneg: "0 \<le> u64_rat a"
  unfolding u64_rat_def by (rule of_nat_0_le_iff)

lemma f64_of_u64_exact:
  assumes "f64_exact (unat w)"
  shows "f64_of_u64 w = Fin (u64_rat w)"
proof -
  have r: "round_rat (u64_rat w) = u64_rat w"
    unfolding u64_rat_def by (rule round_rat_of_nat) (rule assms)
  have "- f64_limit < u64_rat w"
    using u64_rat_nonneg [of w] f64_limit_pos by linarith
  moreover have "u64_rat w < f64_limit"
    unfolding u64_rat_def by (rule of_nat_lt_f64_limit) (rule assms)
  ultimately show ?thesis
    unfolding f64_of_u64_def using round_f64_Fin [of "u64_rat w"] by (simp only: r)
qed

lemma u64_rat_le_iff: "u64_rat a \<le> u64_rat c \<longleftrightarrow> a \<le> c"
  unfolding u64_rat_def of_nat_le_iff word_le_nat_alt ..

lemma u64_rat_pos: "0 < c \<Longrightarrow> 0 < u64_rat c"
  unfolding u64_rat_def of_nat_0_less_iff by (simp add: word_less_nat_alt)

section \<open>The capacity test of the balancer\<close>

text \<open>
  The expression \<open>amount_msat as f64 <= node_effective_inbound_msat as f64 * (1.0 + bias)\<close>.
\<close>

definition within_capacity :: "u64 \<Rightarrow> u64 \<Rightarrow> f64 \<Rightarrow> bool" where
  "within_capacity amount_msat inbound_msat bias =
     f64_le (f64_of_u64 amount_msat) (f64_mul (f64_of_u64 inbound_msat) (f64_add (Fin 1) bias))"

text \<open>A bias of zero or below admits no amount above the inbound capacity.\<close>

lemma within_capacity_restrictive:
  assumes "f64_exact (unat a)" and "f64_exact (unat c)" and "b \<le> 0" and "within_capacity a c (Fin b)"
  shows "a \<le> c"
proof -
  have r1: "round_rat (1 + b) \<le> 1"
    using round_rat_mono [of "1 + b" 1] round_rat_nonpos [of "1 + b"] assms(3)
    by (cases "0 \<le> 1 + b") auto
  have lt: "round_rat (1 + b) < f64_limit"
    using r1 of_nat_lt_f64_limit [of 1] by (simp add: f64_exact_def)
  have le: "f64_le (Fin (u64_rat a)) (f64_mul (Fin (u64_rat c)) (round_f64 (1 + b)))"
    using assms(4) by (simp add: within_capacity_def f64_of_u64_exact assms(1,2))
  show ?thesis
  proof (cases "round_rat (1 + b) \<le> - f64_limit")
    case True
    then have "round_f64 (1 + b) = NInf"
      using lt by (simp add: round_f64_def Let_def)
    with le u64_rat_nonneg [of c] show ?thesis by (auto simp: f64_inf_def split: if_splits)
  next
    case False
    then have "round_f64 (1 + b) = Fin (round_rat (1 + b))"
      using lt by (simp add: round_f64_Fin)
    with le have "f64_le (Fin (u64_rat a)) (round_f64 (u64_rat c * round_rat (1 + b)))" by simp
    moreover have "u64_rat c * round_rat (1 + b) \<le> of_nat (unat c)"
      using mult_left_mono [OF r1 u64_rat_nonneg [of c]]
      unfolding u64_rat_def [symmetric] by (simp only: mult_1_right)
    ultimately have "u64_rat a \<le> u64_rat c"
      unfolding u64_rat_def [of c] by (meson round_f64_le_nat assms(2))
    then show ?thesis by (simp only: u64_rat_le_iff)
  qed
qed

text \<open>A bias of zero or above admits every amount up to the inbound capacity.\<close>

lemma within_capacity_permissive:
  assumes "f64_exact (unat a)" and "f64_exact (unat c)" and "0 \<le> b" and "a \<le> c" and "0 < c"
  shows "within_capacity a c (Fin b)"
proof -
  have r1: "1 \<le> round_rat (1 + b)"
    using round_rat_mono [of 1 "1 + b"] assms(3) by simp
  have n: "- f64_limit < round_rat (1 + b)"
    using r1 f64_limit_pos by linarith
  show ?thesis
  proof (cases "f64_limit \<le> round_rat (1 + b)")
    case True
    then have "round_f64 (1 + b) = PInf" by (simp add: round_f64_def)
    with u64_rat_pos [OF assms(5)] show ?thesis
      by (simp add: within_capacity_def f64_of_u64_exact assms(1,2) f64_inf_def)
  next
    case False
    then have fin: "round_f64 (1 + b) = Fin (round_rat (1 + b))"
      using n by (simp add: round_f64_Fin)
    have "u64_rat a \<le> u64_rat c" using assms(4) by (simp only: u64_rat_le_iff)
    also have "u64_rat c \<le> u64_rat c * round_rat (1 + b)"
      using mult_left_mono [OF r1 u64_rat_nonneg [of c]] by simp
    finally have "f64_le (Fin (u64_rat a)) (round_f64 (u64_rat c * round_rat (1 + b)))"
      unfolding u64_rat_def [of a] by (rule round_f64_ge_nat) (rule assms(1))
    with fin show ?thesis
      by (simp add: within_capacity_def f64_of_u64_exact assms(1,2))
  qed
qed

end
