(* ===== verification/ServerConfig.thy ===== *)
theory ServerConfig
  imports CommandIo F64
begin

text \<open>
  \<open>server/src/config.rs\<close>, \<open>server/src/di/inject/injectors/config.rs\<close> and the enablement of
  \<open>server/src/commands/services.rs\<close>: the configuration of the server, how it is read and which
  services run. Expansion of variables, YAML, and the reader of secrets files are arguments.
\<close>

section \<open>Configuration (config.rs)\<close>

record tls_config =
  tls_cert_path :: string
  tls_key_path :: string

datatype backoff_config =
    BackoffStop
  | BackoffExponential "f64 option" "f64 option" "f64 option" "f64 option" "f64 option"
      \<comment> \<open>initial interval, randomization, multiplier, maximal interval, maximal elapsed time\<close>

datatype backend_selection_config = SelectRoundRobin | SelectRandom | SelectConsistent usize

record lnurl_service_config =
  lc_partitions :: "string set"
  lc_address :: string
  lc_health_check_frequency_secs :: f64
  lc_parallel_health_check :: bool
  lc_success_to_healthy :: usize
  lc_failure_to_unhealthy :: usize
  lc_backend_update_frequency_secs :: f64
  lc_invoice_expiry_secs :: u64
  lc_allowed_hosts :: "string set"
  lc_backoff :: backoff_config
  lc_backend_selection :: backend_selection_config
  lc_tls :: "tls_config option"
  lc_ln_client_timeout_secs :: f64
  lc_ln_trusted_roots :: "string option"
  lc_selection_capacity_bias :: "f64 option"
  lc_comment_allowed :: "u32 option"
  lc_bech32_qr_scale :: usize
  lc_bech32_qr_light :: u8
  lc_bech32_qr_dark :: u8

record discovery_service_config =
  dsc_address :: string
  dsc_auth_authority :: string
  dsc_tls :: "tls_config option"

record offer_service_config =
  osc_address :: string
  osc_auth_authority :: string
  osc_tls :: "tls_config option"
  osc_max_page_size :: usize

datatype offer_store_config =
    OfferStoreDatabase string u32
  | OfferStoreMemory
  | OfferStoreHttp string f64 f64 "string option" string
      \<comment> \<open>base URL, time to connect, total time, roots, authorization\<close>

datatype discovery_store_config =
    DiscoveryStoreDatabase string u32
  | DiscoveryStoreMemory
  | DiscoveryStoreHttp string f64 f64 "string option" string

record server_store_config =
  ssc_offer :: "offer_store_config option"
  ssc_discover :: "discovery_store_config option"

record server_config =
  sc_lnurl_service :: "lnurl_service_config option"
  sc_discovery_service :: "discovery_service_config option"
  sc_offer_service :: "offer_service_config option"
  sc_store :: "server_store_config option"
  sc_secrets :: "string option"

section \<open>Which services run\<close>

datatype service_enablement = EnableAll | EnableDiscovery | EnableOffer | EnableLnUrl

record enablement_injector =
  lnurl_enabled :: bool
  discovery_enabled :: bool
  offer_enabled :: bool

definition enablement_new :: "service_enablement list \<Rightarrow> enablement_injector" where
  "enablement_new enablement =
     (let start_all = enablement = [] \<or> EnableAll \<in> set enablement
      in \<lparr>lnurl_enabled = start_all \<or> EnableLnUrl \<in> set enablement,
          discovery_enabled = start_all \<or> EnableDiscovery \<in> set enablement,
          offer_enabled = start_all \<or> EnableOffer \<in> set enablement\<rparr>)"

section \<open>Reading the configuration\<close>

record 's config_env =
  cv_sys :: "'s cli_sys"
  cv_expand :: "string \<Rightarrow> string + string"  \<comment> \<open>\<open>shellexpand::env\<close>\<close>
  cv_yaml :: "string \<Rightarrow> string + server_config"
  cv_secrets :: "string \<Rightarrow> 's cli_world \<Rightarrow> string + (string + string \<times> string) list"
    \<comment> \<open>\<open>dotenvy::from_filename_iter\<close>\<close>
  cv_debug_path :: "string \<Rightarrow> string"
  cv_debug_config :: "server_config \<Rightarrow> string"

record config_injector =
  ci_config :: server_config
  ci_secrets :: "(string, string) hashmap"

text \<open>The loop over the secrets: a later value of a name replaces an earlier one.\<close>

fun collect_secrets ::
  "string \<Rightarrow> (string + string \<times> string) list \<Rightarrow> (string, string) hashmap \<Rightarrow> anyhow + (string, string) hashmap" where
  "collect_secrets path [] m = Inr m"
| "collect_secrets path (Inl _ # rs) m = Inl ([], CliMessage (''error parsing secrets file '' @ path))"
| "collect_secrets path (Inr (n, v) # rs) m = collect_secrets path rs (AList.update (''secret.'' @ n) v m)"

definition load_secrets :: "'s config_env \<Rightarrow> string option \<Rightarrow> ('s, (string, string) hashmap) command" where
  "load_secrets C secrets_path =
     (case secrets_path of
        None \<Rightarrow> cmd_bind (cmd_info ''no secrets file in config, skipping secret loading'') (\<lambda>_. cmd_return [])
      | Some path \<Rightarrow>
          (\<lambda>w. cmd_bind
             (cmd_result (and_then
                (map_err (\<lambda>_. ([], CliMessage (''error reading secrets file '' @ path))) (cv_secrets C path w))
                (\<lambda>items. collect_secrets path items [])))
             (\<lambda>secrets. cmd_bind (cmd_info (''secrets loaded successfully from: '' @ path)) (\<lambda>_. cmd_return secrets)) w))"

definition config_injector_new :: "'s config_env \<Rightarrow> string \<Rightarrow> ('s, config_injector) command" where
  "config_injector_new C path =
     cmd_bind (cmd_info (''loading configuration file: '' @ cv_debug_path C path)) (\<lambda>_.
     cmd_bind (cmd_context (''reading configuration file '' @ [CHR 0x27] @ path @ [CHR 0x27])
       (cmd_io (fs_read (cv_sys C) path))) (\<lambda>content.
     cmd_bind (cmd_context (''expanding configuration file env vars '' @ [CHR 0x27] @ path @ [CHR 0x27])
       (cmd_result (map_err foreign (cv_expand C content)))) (\<lambda>expanded.
     cmd_bind (cmd_context (''parsing YAML configuration from file '' @ [CHR 0x27] @ path @ [CHR 0x27])
       (cmd_result (map_err foreign (cv_yaml C expanded)))) (\<lambda>config.
     cmd_bind (cmd_info (''configuration loaded successfully: '' @ cv_debug_config C config)) (\<lambda>_.
     cmd_bind (load_secrets C (sc_secrets config)) (\<lambda>secrets.
     cmd_return \<lparr>ci_config = config, ci_secrets = secrets\<rparr>))))))"

section \<open>Durations\<close>

text \<open>
  \<open>Duration::from_secs_f64\<close> in nanoseconds, rounded to the nearest, ties to even; it panics on a
  number that is negative, not finite or too large.
\<close>

fun duration_from_secs_f64 :: "f64 \<Rightarrow> nat option" where
  "duration_from_secs_f64 (Fin x) =
     (if x < 0 then None
      else let n = nat (round_even (x * 1000000000)) in if n < 2 ^ 64 * 1000000000 then Some n else None)"
| "duration_from_secs_f64 _ = None"

definition cmd_duration :: "f64 \<Rightarrow> ('s, nat) command" where
  "cmd_duration x =
     (case duration_from_secs_f64 x of
        Some n \<Rightarrow> cmd_return n
      | None \<Rightarrow> cmd_result (Inl ([], CliPanic ''can not convert float seconds to Duration'')))"

text \<open>\<open>Option::map\<close> of it.\<close>

definition cmd_duration_option :: "f64 option \<Rightarrow> ('s, nat option) command" where
  "cmd_duration_option x =
     (case x of
        None \<Rightarrow> cmd_return None
      | Some x \<Rightarrow> cmd_bind (cmd_duration x) (\<lambda>n. cmd_return (Some n)))"

section \<open>Facts\<close>

lemma enablement_new_simps [simp]:
  "lnurl_enabled (enablement_new es) \<longleftrightarrow> es = [] \<or> EnableAll \<in> set es \<or> EnableLnUrl \<in> set es"
  "discovery_enabled (enablement_new es) \<longleftrightarrow> es = [] \<or> EnableAll \<in> set es \<or> EnableDiscovery \<in> set es"
  "offer_enabled (enablement_new es) \<longleftrightarrow> es = [] \<or> EnableAll \<in> set es \<or> EnableOffer \<in> set es"
  by (auto simp: enablement_new_def Let_def)

lemma collect_secrets_lookup:
  assumes "collect_secrets path rs m = Inr m'"
  shows "map_of m' k =
    (case List.find (\<lambda>(n, v). ''secret.'' @ n = k) (rev (map projr rs)) of
       Some (n, v) \<Rightarrow> Some v
     | None \<Rightarrow> map_of m k)"
  using assms
proof (induction path rs m rule: collect_secrets.induct)
  case (3 path n v rs m)
  have snoc: "List.find P (xs @ [x]) = (case List.find P xs of Some y \<Rightarrow> Some y | None \<Rightarrow> if P x then Some x else None)"
    for P and xs :: "(string \<times> string) list" and x
    by (induction xs) auto
  from 3 show ?case by (simp add: snoc split: option.splits prod.splits)
qed auto

end
