(* ===== verification/Sql.thy ===== *)
theory Sql
  imports Prelude
begin

text \<open>
  What the database stores of \<open>components/src/discovery/db.rs\<close> and \<open>components/src/offer/db.rs\<close>
  use of \<open>sea_orm\<close> and of the database behind it. The connection is an argument: it executes
  statements (values of a type that each store defines), begins and commits transactions, and
  may fail at any of them. \<open>sql_lawful\<close> states what SQL promises of the contents of the tables.
\<close>

section \<open>Errors\<close>

text \<open>
  \<open>sqlx::error::DatabaseError\<close>, and the variants of \<open>sea_orm::DbErr\<close> that the stores match on:
  PostgreSQL reports a violated constraint of an insertion as \<open>Query\<close>, SQLite as \<open>Exec\<close>.
\<close>

record database_error =
  dbe_unique :: bool
  dbe_foreign_key :: bool
  dbe_code :: "string option"

datatype db_err =
    QueryDatabase database_error
  | ExecDatabase database_error
  | RecordNotFound string
  | OtherDbErr string

fun unique_violation :: "db_err \<Rightarrow> bool" where
  "unique_violation (QueryDatabase e) = dbe_unique e"
| "unique_violation (ExecDatabase e) = dbe_unique e"
| "unique_violation _ = False"

fun foreign_key_violation :: "db_err \<Rightarrow> bool" where
  "foreign_key_violation (QueryDatabase e) = dbe_foreign_key e"
| "foreign_key_violation (ExecDatabase e) = dbe_foreign_key e"
| "foreign_key_violation _ = False"

section \<open>Connections\<close>

text \<open>
  \<open>sql_exec\<close> runs a statement on its own, \<open>sql_exec_txn\<close> inside the open transaction; both
  answer the number of rows affected.
\<close>

record ('st, 'w) sql_db =
  sql_exec :: "'st \<Rightarrow> 'w \<Rightarrow> (db_err + nat) \<times> 'w"
  sql_exec_txn :: "'st \<Rightarrow> 'w \<Rightarrow> (db_err + nat) \<times> 'w"
  sql_begin :: "'w \<Rightarrow> (db_err + unit) \<times> 'w"
  sql_commit :: "'w \<Rightarrow> (db_err + unit) \<times> 'w"

text \<open>\<open>DatabaseConnection::transaction\<close> around a body that does not itself fail.\<close>

definition transaction ::
  "('st, 'w, 'more) sql_db_scheme \<Rightarrow> ('w \<Rightarrow> 'a \<times> 'w) \<Rightarrow> 'w \<Rightarrow> (db_err + 'a) \<times> 'w" where
  "transaction D body w =
     (case sql_begin D w of
        (Inl e, w1) \<Rightarrow> (Inl e, w1)
      | (Inr _, w1) \<Rightarrow>
          (case body w1 of
             (a, w2) \<Rightarrow>
               (case sql_commit D w2 of
                  (Inl e, w3) \<Rightarrow> (Inl e, w3)
                | (Inr _, w3) \<Rightarrow> (Inr a, w3))))"

text \<open>
  The constraints a statement can violate. An addition beyond the range of the column is refused
  as well.
\<close>

datatype sql_refusal = UniqueRefusal | ForeignKeyRefusal | OutOfRange

text \<open>
  The promise, for a semantics \<open>effect\<close> of the statements on the contents of the tables, and for
  the statements whose values \<open>fits\<close> the columns without loss. A statement that succeeds has its
  effect; one that fails changes nothing, except that inside a transaction the failure may undo the
  statements before it (PostgreSQL), that is go back to the contents \<open>base\<close> at its beginning. A
  reported violation is a real one.
\<close>

definition sql_lawful ::
  "('st \<Rightarrow> bool) \<Rightarrow> ('st \<Rightarrow> 'c \<Rightarrow> sql_refusal + nat \<times> 'c) \<Rightarrow> ('w \<Rightarrow> 'c) \<Rightarrow> ('w \<Rightarrow> 'c)
     \<Rightarrow> ('st, 'w, 'more) sql_db_scheme \<Rightarrow> bool" where
  "sql_lawful fits effect content base D \<longleftrightarrow>
     (\<forall>st w n w'. fits st \<longrightarrow> sql_exec D st w = (Inr n, w') \<longrightarrow> effect st (content w) = Inr (n, content w'))
   \<and> (\<forall>st w e w'. fits st \<longrightarrow> sql_exec D st w = (Inl e, w') \<longrightarrow> content w' = content w
        \<and> (unique_violation e \<longrightarrow> effect st (content w) = Inl UniqueRefusal)
        \<and> (foreign_key_violation e \<longrightarrow> effect st (content w) = Inl ForeignKeyRefusal))
   \<and> (\<forall>st w n w'. fits st \<longrightarrow> sql_exec_txn D st w = (Inr n, w') \<longrightarrow> effect st (content w) = Inr (n, content w'))
   \<and> (\<forall>st w e w'. fits st \<longrightarrow> sql_exec_txn D st w = (Inl e, w') \<longrightarrow> content w' \<in> {content w, base w}
        \<and> (unique_violation e \<longrightarrow> effect st (content w) = Inl UniqueRefusal))
   \<and> (\<forall>w r w'. sql_begin D w = (r, w') \<longrightarrow> content w' = content w \<and> base w' = content w)
   \<and> (\<forall>w u w'. sql_commit D w = (Inr u, w') \<longrightarrow> content w' = content w)"

lemma sql_execD:
  assumes "sql_lawful fits effect content base D" and "fits st"
  shows "sql_exec D st w = (Inr n, w') \<Longrightarrow> effect st (content w) = Inr (n, content w')"
    and "sql_exec D st w = (Inl e, w') \<Longrightarrow> content w' = content w"
    and "sql_exec D st w = (Inl e, w') \<Longrightarrow> unique_violation e \<Longrightarrow> effect st (content w) = Inl UniqueRefusal"
    and "sql_exec D st w = (Inl e, w') \<Longrightarrow> foreign_key_violation e \<Longrightarrow> effect st (content w) = Inl ForeignKeyRefusal"
  using assms unfolding sql_lawful_def by - (elim conjE, meson)+

lemma sql_exec_txnD:
  assumes "sql_lawful fits effect content base D" and "fits st"
  shows "sql_exec_txn D st w = (Inr n, w') \<Longrightarrow> effect st (content w) = Inr (n, content w')"
    and "sql_exec_txn D st w = (Inl e, w') \<Longrightarrow> content w' \<in> {content w, base w}"
    and "sql_exec_txn D st w = (Inl e, w') \<Longrightarrow> unique_violation e \<Longrightarrow> effect st (content w) = Inl UniqueRefusal"
  using assms unfolding sql_lawful_def by - (elim conjE, meson)+

lemma sql_beginD:
  assumes "sql_lawful fits effect content base D" and "sql_begin D w = (r, w')"
  shows "content w' = content w" and "base w' = content w"
  using assms unfolding sql_lawful_def by - (elim conjE, meson)+

text \<open>A transaction that succeeds is its body, run from the same contents.\<close>

lemma transactionD:
  assumes "sql_lawful fits effect content base D" and "transaction D body w = (Inr a, w')"
  shows "\<exists>w1 w2. body w1 = (a, w2) \<and> content w1 = content w \<and> base w1 = content w \<and> content w' = content w2"
proof -
  from assms(2) obtain u w1 w2 u' where steps: "sql_begin D w = (Inr u, w1)" "body w1 = (a, w2)"
      "sql_commit D w2 = (Inr u', w')"
    by (auto simp: transaction_def split: prod.splits sum.splits)
  then have "content w' = content w2"
    using assms(1) unfolding sql_lawful_def by meson
  with steps sql_beginD [OF assms(1) steps(1)] show ?thesis by blast
qed

section \<open>Values in columns\<close>

text \<open>Every row of the table once.\<close>

definition lists_rows :: "('k \<Rightarrow> 'r option) \<Rightarrow> 'r list \<Rightarrow> bool" where
  "lists_rows m rs \<longleftrightarrow> (\<exists>ks. distinct ks \<and> set ks = dom m \<and> mset rs = mset (map (the \<circ> m) ks))"

text \<open>PostgreSQL keeps an instant in whole microseconds.\<close>

definition whole_micros :: "datetime \<Rightarrow> bool" where
  "whole_micros t \<longleftrightarrow> t mod 1000 = 0"

text \<open>\<open>i32 as usize\<close> extends the sign, \<open>usize as i32\<close> drops the high half.\<close>

definition usize_as_i32 :: "usize \<Rightarrow> i32" where
  "usize_as_i32 x = ucast x"

definition i32_as_usize :: "i32 \<Rightarrow> usize" where
  "i32_as_usize x = scast x"

lemma i32_round_trip:
  assumes "unat x < 2 ^ 31"
  shows "i32_as_usize (usize_as_i32 x) = x"
proof -
  have ux: "uint x < 2 ^ 31"
    using assms by (metis of_nat_less_numeral_power_cancel_iff uint_nat)
  have "- (2 ^ 31) \<le> uint x"
    by (rule order_trans [of _ 0]) simp_all
  have "sint (ucast x :: i32) = signed_take_bit 31 (take_bit 32 (uint x))"
    by (simp only: sint_uint unsigned_ucast_eq) simp
  also have "\<dots> = signed_take_bit 31 (uint x)"
    by (simp only: signed_take_bit_take_bit) simp
  also have "\<dots> = uint x"
    using \<open>- (2 ^ 31) \<le> uint x\<close> ux by (rule signed_take_bit_int_eq_self)
  finally have "word_of_int (sint (ucast x :: i32)) = x" by simp
  then show ?thesis
    unfolding usize_as_i32_def i32_as_usize_def scast_eq .
qed

section \<open>Tables as association lists\<close>

fun put_entry :: "'k \<Rightarrow> 'v option \<Rightarrow> ('k \<times> 'v) list \<Rightarrow> ('k \<times> 'v) list" where
  "put_entry k None xs = AList.delete k xs"
| "put_entry k (Some v) xs = AList.update k v xs"

lemma map_of_put_entry [simp]: "map_of (put_entry k v xs) = (map_of xs)(k := v)"
  by (cases v) simp_all

lemma lists_rows_sorted:
  assumes "distinct ks" "set ks = dom m" "rs = map (the \<circ> m) ks"
  shows "lists_rows m (sort_key f rs)"
  using assms by (auto simp: lists_rows_def intro!: exI [of _ ks])

lemma clearjunk_mem: "(k, v) \<in> set (AList.clearjunk l) \<Longrightarrow> map_of l k = Some v"
  using map_of_is_SomeI [OF distinct_clearjunk] by (fastforce simp: map_of_clearjunk)

lemma lists_rows_all: "lists_rows (map_of l) (sort_key f (map snd (AList.clearjunk l)))"
proof (rule lists_rows_sorted)
  show "distinct (map fst (AList.clearjunk l))" by (rule distinct_clearjunk)
  show "set (map fst (AList.clearjunk l)) = dom (map_of l)"
    by (simp add: dom_clearjunk dom_map_of_conv_image_fst)
  show "map snd (AList.clearjunk l) = map (the \<circ> map_of l) (map fst (AList.clearjunk l))"
    unfolding map_map by (intro map_cong) (auto dest: clearjunk_mem)
qed

text \<open>The rows of one partition, the first component of the key.\<close>

definition partition_rows :: "'p \<Rightarrow> (('p \<times> 'i) \<times> 'r) list \<Rightarrow> 'r list" where
  "partition_rows p l = map snd (filter (\<lambda>x. fst (fst x) = p) (AList.clearjunk l))"

lemma lists_rows_partition: "lists_rows (\<lambda>i. map_of l (p, i)) (sort_key f (partition_rows p l))"
proof (rule lists_rows_sorted)
  let ?F = "filter (\<lambda>x. fst (fst x) = p) (AList.clearjunk l)"
  have "inj_on snd (set (map fst ?F))" by (rule inj_onI) auto
  moreover have "distinct (map fst ?F)" by (rule distinct_map_filter) (rule distinct_clearjunk)
  ultimately show "distinct (map snd (map fst ?F))" by (simp only: distinct_map)
  show "set (map snd (map fst ?F)) = dom (\<lambda>i. map_of l (p, i))"
  proof (intro set_eqI iffI)
    fix i assume "i \<in> dom (\<lambda>i. map_of l (p, i))"
    then obtain v where "map_of (AList.clearjunk l) (p, i) = Some v" by (auto simp: map_of_clearjunk)
    then have "((p, i), v) \<in> set ?F" by (auto dest: map_of_SomeD)
    then show "i \<in> set (map snd (map fst ?F))" by force
  qed (auto dest: clearjunk_mem)
  show "partition_rows p l = map (the \<circ> (\<lambda>i. map_of l (p, i))) (map snd (map fst ?F))"
    unfolding partition_rows_def map_map by (intro map_cong) (auto dest: clearjunk_mem)
qed

end
