(* ===== verification/DiscoveryContract.thy ===== *)
theory DiscoveryContract
  imports StoreErrors
begin

text \<open>
  The trait \<open>DiscoveryBackendStore\<close> of \<open>service-api/src/discovery.rs\<close> as a contract: an
  abstract content (a map from public keys to backends), an entity tag, what each operation
  answers and does to them. The facts a client of the trait uses are proved once, inside the
  locale; each store of the program is an interpretation.
\<close>

section \<open>The operations as values, and their abstract effect\<close>

datatype discovery_op =
    DPost discovery_backend
  | DPut discovery_backend
  | DPatch discovery_backend_patch
  | DDelete public_key

type_synonym discovery_content = "public_key \<Rightarrow> discovery_backend option"

text \<open>What a patch makes of the backend it names.\<close>

definition patched :: "discovery_backend_patch_sparse \<Rightarrow> discovery_backend_sparse \<Rightarrow> discovery_backend_sparse" where
  "patched p b =
     \<lparr>name = unwrap_or (name b) (patch_name p),
      partitions = unwrap_or (partitions b) (patch_partitions p),
      weight = unwrap_or (weight b) (patch_weight p),
      enabled = unwrap_or (enabled b) (patch_enabled p),
      implementation = implementation b\<rparr>"

text \<open>The effect on the content, \<open>None\<close> where the operation must leave the store as it is.\<close>

fun op_effect :: "discovery_op \<Rightarrow> discovery_content \<Rightarrow> discovery_content option" where
  "op_effect (DPost b) m =
     (if m (public_key b) = None then Some (m(public_key b \<mapsto> b)) else None)"
| "op_effect (DPut b) m = Some (m(public_key b \<mapsto> b))"
| "op_effect (DPatch p) m =
     (case m (patch_public_key p) of
        None \<Rightarrow> None
      | Some b \<Rightarrow> Some (m(patch_public_key p \<mapsto> b\<lparr>backend := patched (patch_backend p) (backend b)\<rparr>)))"
| "op_effect (DDelete k) m = (if m k = None then None else Some (m(k := None)))"

text \<open>Every key of the content names the backend stored under it.\<close>

definition keyed :: "discovery_content \<Rightarrow> bool" where
  "keyed m \<longleftrightarrow> (\<forall>k b. m k = Some b \<longrightarrow> public_key b = k)"

lemma op_effect_keyed: "keyed m \<Longrightarrow> op_effect x m = Some m' \<Longrightarrow> keyed m'"
  by (cases x) (auto simp: keyed_def split: if_splits option.splits)

text \<open>One timed operation of a store, and its state afterwards.\<close>

fun disc_run ::
  "(datetime \<Rightarrow> discovery_backend \<Rightarrow> 's \<Rightarrow> 'a \<times> 's) \<Rightarrow> (datetime \<Rightarrow> discovery_backend \<Rightarrow> 's \<Rightarrow> 'b \<times> 's)
     \<Rightarrow> (discovery_backend_patch \<Rightarrow> 's \<Rightarrow> 'c \<times> 's) \<Rightarrow> (public_key \<Rightarrow> 's \<Rightarrow> 'd \<times> 's)
     \<Rightarrow> datetime \<times> discovery_op \<Rightarrow> 's \<Rightarrow> 's" where
  "disc_run post put patch delete (now, DPost b) s = snd (post now b s)"
| "disc_run post put patch delete (now, DPut b) s = snd (put now b s)"
| "disc_run post put patch delete (now, DPatch p) s = snd (patch p s)"
| "disc_run post put patch delete (now, DDelete k) s = snd (delete k s)"

section \<open>The contract\<close>

locale discovery_store =
  fixes get :: "'s \<Rightarrow> public_key \<Rightarrow> 'e + discovery_backend option"
    and get_all :: "'s \<Rightarrow> u64 option \<Rightarrow> 'e + discovery_backends"
    and post :: "datetime \<Rightarrow> discovery_backend \<Rightarrow> 's \<Rightarrow> ('e + public_key option) \<times> 's"
    and put :: "datetime \<Rightarrow> discovery_backend \<Rightarrow> 's \<Rightarrow> ('e + bool) \<times> 's"
    and patch :: "discovery_backend_patch \<Rightarrow> 's \<Rightarrow> ('e + bool) \<times> 's"
    and delete :: "public_key \<Rightarrow> 's \<Rightarrow> ('e + bool) \<times> 's"
    and content :: "'s \<Rightarrow> discovery_content"
    and tag :: "'s \<Rightarrow> u64"
    and inv :: "'s \<Rightarrow> bool"
  assumes get_law: "inv s \<Longrightarrow> get s k = Inr (content s k)"
    and get_all_same: "inv s \<Longrightarrow> get_all s (Some (tag s)) = Inr \<lparr>etag = tag s, backends = None\<rparr>"
    and get_all_other: "inv s \<Longrightarrow> q \<noteq> Some (tag s) \<Longrightarrow>
      \<exists>bs. get_all s q = Inr \<lparr>etag = tag s, backends = Some bs\<rparr>
         \<and> set bs = ran (content s) \<and> distinct (map public_key bs)"
    and keyed_law: "inv s \<Longrightarrow> keyed (content s)"
    and post_law: "inv s \<Longrightarrow> post now b s = (ro, s') \<Longrightarrow>
      inv s'
      \<and> ro = Inr (if op_effect (DPost b) (content s) = None then None else Some (public_key b))
      \<and> content s' = unwrap_or (content s) (op_effect (DPost b) (content s))
      \<and> tag s' = (if op_effect (DPost b) (content s) = None then tag s else tag s + 1)"
    and put_law: "inv s \<Longrightarrow> put now b s = (r, s') \<Longrightarrow>
      inv s' \<and> r = Inr (content s (public_key b) = None)
      \<and> content s' = unwrap_or (content s) (op_effect (DPut b) (content s)) \<and> tag s' = tag s + 1"
    and patch_law: "inv s \<Longrightarrow> patch p s = (r, s') \<Longrightarrow>
      inv s' \<and> r = Inr (op_effect (DPatch p) (content s) \<noteq> None)
      \<and> content s' = unwrap_or (content s) (op_effect (DPatch p) (content s))
      \<and> tag s' = (if op_effect (DPatch p) (content s) = None then tag s else tag s + 1)"
    and delete_law: "inv s \<Longrightarrow> delete k s = (r, s') \<Longrightarrow>
      inv s' \<and> r = Inr (op_effect (DDelete k) (content s) \<noteq> None)
      \<and> content s' = unwrap_or (content s) (op_effect (DDelete k) (content s))
      \<and> tag s' = (if op_effect (DDelete k) (content s) = None then tag s else tag s + 1)"
begin

abbreviation run :: "datetime \<times> discovery_op \<Rightarrow> 's \<Rightarrow> 's" where
  "run \<equiv> disc_run post put patch delete"

text \<open>Every operation does to the content what its effect says, and counts it in the tag.\<close>

lemma run_law:
  assumes "inv s"
  shows "inv (run (now, x) s)
    \<and> content (run (now, x) s) = unwrap_or (content s) (op_effect x (content s))
    \<and> tag (run (now, x) s) = (if op_effect x (content s) = None then tag s else tag s + 1)"
proof (cases x)
  case (DPost b)
  with post_law [OF assms surjective_pairing] show ?thesis by simp
next
  case (DPut b)
  with put_law [OF assms surjective_pairing] show ?thesis by simp
next
  case (DPatch p)
  with patch_law [OF assms surjective_pairing] show ?thesis by simp
next
  case (DDelete k)
  with delete_law [OF assms surjective_pairing] show ?thesis by simp
qed

lemma run_inv: "inv s \<Longrightarrow> inv (fold run xs s)"
proof (induction xs arbitrary: s)
  case (Cons x xs)
  then show ?case using run_law [of s "fst x" "snd x"] by simp
qed simp

lemma run_content:
  "inv s \<Longrightarrow> content (fold run xs s)
     = fold (\<lambda>x m. unwrap_or m (op_effect (snd x) m)) xs (content s)"
proof (induction xs arbitrary: s)
  case (Cons x xs)
  then show ?case using run_law [of s "fst x" "snd x"] by simp
qed simp

text \<open>A history moves the tag by the number \<open>n\<close> of effective operations in it.\<close>

lemma run_tag:
  "inv s \<Longrightarrow> \<exists>n \<le> length xs. tag (fold run xs s) = tag s + of_nat n
     \<and> (n = 0 \<longrightarrow> content (fold run xs s) = content s)"
proof (induction xs arbitrary: s)
  case Nil
  then show ?case by simp
next
  case (Cons x xs)
  have step: "inv (run x s)"
      "content (run x s) = unwrap_or (content s) (op_effect (snd x) (content s))"
      "tag (run x s) = (if op_effect (snd x) (content s) = None then tag s else tag s + 1)"
    using run_law [OF Cons.prems, of "fst x" "snd x"] by simp_all
  obtain n where n: "n \<le> length xs" "tag (fold run xs (run x s)) = tag (run x s) + of_nat n"
      "n = 0 \<longrightarrow> content (fold run xs (run x s)) = content (run x s)"
    using Cons.IH [OF step(1)] by auto
  show ?case
  proof (cases "op_effect (snd x) (content s) = None")
    case True
    with n step show ?thesis by (intro exI [of _ n]) auto
  next
    case False
    with n step show ?thesis by (intro exI [of _ "Suc n"]) auto
  qed
qed

text \<open>
  The entity tag protocol is sound: a client that remembers the tag of an earlier state and is
  answered "not modified" holds the current content, as long as fewer than \<open>2 ^ 64\<close>
  operations were run in between.
\<close>

lemma not_modified_sound:
  assumes "inv s" and "length xs < 2 ^ 64"
    and "get_all (fold run xs s) (Some (tag s)) = Inr d" and "backends d = None"
  shows "content (fold run xs s) = content s"
proof -
  obtain n where n: "n \<le> length xs" "tag (fold run xs s) = tag s + of_nat n"
      "n = 0 \<longrightarrow> content (fold run xs s) = content s"
    using run_tag [OF assms(1)] by blast
  have "tag (fold run xs s) = tag s"
  proof (rule ccontr)
    assume "tag (fold run xs s) \<noteq> tag s"
    with get_all_other [OF run_inv [OF assms(1)], of "Some (tag s)" xs] assms(3,4)
    show False by auto
  qed
  with n(2) have "(of_nat n :: u64) = 0" by simp
  then have "n mod 2 ^ 64 = 0"
    by (simp add: word_of_nat_eq_0_iff dvd_eq_mod_eq_0)
  with n(1) assms(2) have "n = 0" by simp
  with n(3) show ?thesis by simp
qed

text \<open>A backend that was posted or put is the one \<open>get\<close> answers, until its key is named again.\<close>

lemma get_after_put: "inv s \<Longrightarrow> put now b s = (r, s') \<Longrightarrow> get s' (public_key b) = Inr (Some b)"
  using put_law [of s now b r s'] by (simp add: get_law)

lemma get_after_delete: "inv s \<Longrightarrow> delete k s = (r, s') \<Longrightarrow> get s' k = Inr None"
  using delete_law [of s k r s'] by (auto simp: get_law)

lemma get_all_complete:
  assumes "inv s" and "get_all s None = Inr d"
  shows "\<exists>bs. backends d = Some bs \<and> (\<forall>k b. get s k = Inr (Some b) \<longleftrightarrow> b \<in> set bs \<and> public_key b = k)"
proof -
  obtain bs where bs: "backends d = Some bs" "set bs = ran (content s)"
    using get_all_other [OF assms(1), of None] assms(2) by auto
  moreover have "keyed (content s)"
    using assms(1) by (rule keyed_law)
  ultimately show ?thesis
    by (auto simp: get_law [OF assms(1)] keyed_def ran_def)
qed

end

end
