(* ===== verification/DiscoveryMemory.thy ===== *)
theory DiscoveryMemory
  imports DiscoveryContract
begin

text \<open>
  \<open>components/src/discovery/memory.rs\<close>: the in-memory discovery store. The two shared cells
  of \<open>MemoryDiscoveryBackendStore\<close> (a mutex over a hash map, an atomic counter) are the fields
  of the state; every method holds the mutex from its first to its last line, so a call is one
  state transition. \<open>Utc::now()\<close> is an argument.
\<close>

section \<open>State and operations\<close>

record discovery_backend_timestamped =
  db_created :: datetime
  db_backend :: discovery_backend

record mem_discovery =
  md_store :: "(public_key, discovery_backend_timestamped) hashmap"
  md_etag :: u64

definition mem_discovery_new :: mem_discovery where
  "mem_discovery_new = \<lparr>md_store = [], md_etag = 0\<rparr>"

definition mem_get :: "mem_discovery \<Rightarrow> public_key \<Rightarrow> discovery_store_error + discovery_backend option" where
  [store_defs]: "mem_get s k = Inr (map_option db_backend (map_of (md_store s) k))"

definition mem_get_all :: "mem_discovery \<Rightarrow> u64 option \<Rightarrow> discovery_store_error + discovery_backends" where
  [store_defs]: "mem_get_all s request_etag =
     (let bs = sort_key (\<lambda>b. (db_created b, public_key (db_backend b))) (hm_values (md_store s));
          response_etag = md_etag s
      in if request_etag = Some response_etag
         then Inr \<lparr>etag = response_etag, backends = None\<rparr>
         else Inr \<lparr>etag = response_etag, backends = Some (map db_backend bs)\<rparr>)"

definition mem_post ::
  "datetime \<Rightarrow> discovery_backend \<Rightarrow> mem_discovery \<Rightarrow> (discovery_store_error + public_key option) \<times> mem_discovery" where
  [store_defs]: "mem_post now b s =
     (if map_of (md_store s) (public_key b) \<noteq> None then (Inr None, s)
      else (Inr (Some (public_key b)),
            s\<lparr>md_store := AList.update (public_key b) \<lparr>db_created = now, db_backend = b\<rparr> (md_store s),
              md_etag := md_etag s + 1\<rparr>))"

definition mem_put ::
  "datetime \<Rightarrow> discovery_backend \<Rightarrow> mem_discovery \<Rightarrow> (discovery_store_error + bool) \<times> mem_discovery" where
  [store_defs]: "mem_put now b s =
     (let (created, was_new) =
            (case map_of (md_store s) (public_key b) of
               Some existing \<Rightarrow> (db_created existing, False)
             | None \<Rightarrow> (now, True))
      in (Inr was_new,
          s\<lparr>md_store := AList.update (public_key b) \<lparr>db_created = created, db_backend = b\<rparr> (md_store s),
            md_etag := md_etag s + 1\<rparr>))"

text \<open>The four \<open>if let Some(..)\<close> assignments of \<open>patch\<close>, in the order of the code.\<close>

definition mem_patch_entry ::
  "discovery_backend_patch_sparse \<Rightarrow> discovery_backend_sparse \<Rightarrow> discovery_backend_sparse" where
  "mem_patch_entry p b =
     (let b1 = (case patch_weight p of Some w \<Rightarrow> b\<lparr>weight := w\<rparr> | None \<Rightarrow> b);
          b2 = (case patch_enabled p of Some e \<Rightarrow> b1\<lparr>enabled := e\<rparr> | None \<Rightarrow> b1);
          b3 = (case patch_partitions p of Some ps \<Rightarrow> b2\<lparr>partitions := ps\<rparr> | None \<Rightarrow> b2)
      in (case patch_name p of Some n \<Rightarrow> b3\<lparr>name := n\<rparr> | None \<Rightarrow> b3))"

definition mem_patch ::
  "discovery_backend_patch \<Rightarrow> mem_discovery \<Rightarrow> (discovery_store_error + bool) \<times> mem_discovery" where
  [store_defs]: "mem_patch p s =
     (case map_of (md_store s) (patch_public_key p) of
        None \<Rightarrow> (Inr False, s)
      | Some entry \<Rightarrow>
          (let b = db_backend entry;
               b' = b\<lparr>backend := mem_patch_entry (patch_backend p) (backend b)\<rparr>
           in (Inr True,
               s\<lparr>md_store := AList.update (patch_public_key p) (entry\<lparr>db_backend := b'\<rparr>) (md_store s),
                 md_etag := md_etag s + 1\<rparr>)))"

definition mem_delete ::
  "public_key \<Rightarrow> mem_discovery \<Rightarrow> (discovery_store_error + bool) \<times> mem_discovery" where
  [store_defs]: "mem_delete k s =
     (let was_found = (map_of (md_store s) k \<noteq> None);
          s' = s\<lparr>md_store := AList.delete k (md_store s)\<rparr>
      in (Inr was_found, if was_found then s'\<lparr>md_etag := md_etag s' + 1\<rparr> else s'))"

section \<open>Invariant and abstraction\<close>

definition mem_content :: "mem_discovery \<Rightarrow> discovery_content" where
  "mem_content s = map_option db_backend \<circ> map_of (md_store s)"

definition mem_inv :: "mem_discovery \<Rightarrow> bool" where
  "mem_inv s \<longleftrightarrow> hm_wf (md_store s) \<and> keyed (mem_content s)"

lemma mem_patch_entry_eq: "mem_patch_entry p b = patched p b"
  by (cases b; cases "patch_name p"; cases "patch_partitions p"; cases "patch_weight p";
      cases "patch_enabled p") (simp_all add: mem_patch_entry_def patched_def)

lemma mem_content_apply: "mem_content s k = map_option db_backend (map_of (md_store s) k)"
  by (simp add: mem_content_def)

lemma mem_content_put [simp]:
  "mem_content (s\<lparr>md_store := AList.update k v (md_store s), md_etag := e\<rparr>)
     = (mem_content s)(k \<mapsto> db_backend v)"
  by (rule ext) (simp add: mem_content_apply)

lemma mem_content_remove [simp]:
  "mem_content (s\<lparr>md_store := AList.delete k (md_store s)\<rparr>) = (mem_content s)(k := None)"
  "mem_content (s\<lparr>md_store := AList.delete k (md_store s), md_etag := e\<rparr>) = (mem_content s)(k := None)"
  by (rule ext, simp add: mem_content_apply)+

lemma mem_content_None [simp]: "mem_content s k = None \<longleftrightarrow> map_of (md_store s) k = None"
  by (simp add: mem_content_apply)

lemma mem_content_Some: "map_of (md_store s) k = Some e \<Longrightarrow> mem_content s k = Some (db_backend e)"
  by (simp add: mem_content_apply)

lemma keyed_upd: "keyed m \<Longrightarrow> public_key b = k \<Longrightarrow> keyed (m(k \<mapsto> b))"
  by (simp add: keyed_def)

lemma keyed_del: "keyed m \<Longrightarrow> keyed (m(k := None))"
  by (simp add: keyed_def)

lemma mem_inv_new: "mem_inv mem_discovery_new"
  by (simp add: mem_inv_def mem_discovery_new_def mem_content_def keyed_def)

text \<open>A stored entry is filed under the key of its backend.\<close>

lemma mem_inv_key: "mem_inv s \<Longrightarrow> map_of (md_store s) k = Some e \<Longrightarrow> public_key (db_backend e) = k"
  using mem_content_Some [of s k e] by (auto simp: mem_inv_def keyed_def)

lemma mem_inv_key_mem: "mem_inv s \<Longrightarrow> (k, e) \<in> set (md_store s) \<Longrightarrow> public_key (db_backend e) = k"
  by (rule mem_inv_key) (auto simp: mem_inv_def hm_mem_iff)

text \<open>The key \<open>get_all\<close> sorts by tells the entries of a store apart.\<close>

abbreviation mem_sort_key :: "discovery_backend_timestamped \<Rightarrow> datetime \<times> public_key" where
  "mem_sort_key \<equiv> \<lambda>b. (db_created b, public_key (db_backend b))"

lemma mem_values_key:
  assumes "mem_inv s" and "v \<in> set (hm_values (md_store s))"
  shows "map_of (md_store s) (public_key (db_backend v)) = Some v"
proof -
  obtain k where "map_of (md_store s) k = Some v"
    using assms by (auto simp: mem_inv_def hm_values_iff)
  with mem_inv_key [OF assms(1) this] show ?thesis by simp
qed

lemma mem_sort_key_inj: "mem_inv s \<Longrightarrow> inj_on mem_sort_key (set (hm_values (md_store s)))"
  by (rule inj_onI) (metis mem_values_key option.inject prod.inject)

lemma mem_get_all_backends:
  assumes "mem_inv s"
  defines "bs \<equiv> map db_backend (sort_key mem_sort_key (hm_values (md_store s)))"
  shows "set bs = ran (mem_content s)" and "distinct (map public_key bs)"
proof -
  let ?vs = "hm_values (md_store s)"
  have "set ?vs = ran (map_of (md_store s))"
    using assms(1) by (simp add: mem_inv_def hm_values_ran)
  then have "db_backend ` set ?vs = ran (mem_content s)"
    by (auto simp: ran_def mem_content_apply)
  then show "set bs = ran (mem_content s)"
    by (simp add: bs_def)
  have "map (\<lambda>v. public_key (db_backend v)) ?vs = map fst (md_store s)"
    unfolding hm_values_def map_map by (rule map_cong) (auto dest: mem_inv_key_mem [OF assms(1)])
  then have "distinct (map (\<lambda>v. public_key (db_backend v)) ?vs)"
    using assms(1) by (simp add: mem_inv_def hm_wf_def)
  moreover have "mset (map public_key bs) = mset (map (\<lambda>v. public_key (db_backend v)) ?vs)"
    by (simp add: bs_def multiset.map_comp comp_def)
  ultimately show "distinct (map public_key bs)"
    by (metis mset_eq_imp_distinct_iff)
qed

section \<open>The memory store keeps the contract\<close>

lemma mem_inv_put:
  "mem_inv s \<Longrightarrow> public_key (db_backend v) = k \<Longrightarrow>
     mem_inv (s\<lparr>md_store := AList.update k v (md_store s), md_etag := e\<rparr>)"
  by (simp add: mem_inv_def keyed_upd)

lemma mem_inv_remove:
  "mem_inv s \<Longrightarrow> mem_inv (s\<lparr>md_store := AList.delete k (md_store s)\<rparr>)"
  "mem_inv s \<Longrightarrow> mem_inv (s\<lparr>md_store := AList.delete k (md_store s), md_etag := e\<rparr>)"
  by (simp_all add: mem_inv_def keyed_del)

interpretation mem: discovery_store mem_get mem_get_all mem_post mem_put mem_patch mem_delete
  mem_content md_etag mem_inv
proof (unfold_locales, goal_cases)
  case (1 s k)
  show ?case by (simp add: mem_get_def mem_content_def)
next
  case (2 s)
  show ?case by (simp add: mem_get_all_def)
next
  case (3 s q)
  then show ?case
    using mem_get_all_backends [OF 3(1)] by (simp add: mem_get_all_def Let_def)
next
  case (4 s)
  then show ?case by (simp add: mem_inv_def)
next
  case (5 s now b r s')
  then show ?case
    by (cases "map_of (md_store s) (public_key b)") (auto simp: mem_post_def mem_inv_put)
next
  case (6 s now b r s')
  then show ?case
    by (cases "map_of (md_store s) (public_key b)") (auto simp: mem_put_def mem_inv_put)
next
  case (7 s p r s')
  then show ?case
    by (cases "map_of (md_store s) (patch_public_key p)")
      (auto simp: mem_patch_def mem_inv_put mem_patch_entry_eq mem_inv_key mem_content_apply Let_def)
next
  case (8 s k r s')
  then show ?case
    by (cases "map_of (md_store s) k") (auto simp: mem_delete_def mem_inv_remove fun_upd_idem)
qed

section \<open>Properties\<close>

abbreviation mem_run :: "datetime \<times> discovery_op \<Rightarrow> mem_discovery \<Rightarrow> mem_discovery" where
  "mem_run \<equiv> disc_run mem_post mem_put mem_patch mem_delete"

lemma mem_inv_run: "mem_inv (fold mem_run xs mem_discovery_new)"
  by (rule mem.run_inv) (rule mem_inv_new)

text \<open>
  What \<open>get_all\<close> lists: the backends in the order of their creation, ties by public key, each
  key once, and exactly those \<open>get\<close> finds.
\<close>

lemma mem_get_all_listing:
  assumes "mem_inv s" and "mem_get_all s q = Inr d" and "backends d = Some bs"
  shows "set bs = ran (mem_content s)" and "distinct (map public_key bs)"
    and "\<exists>vs. bs = map db_backend vs \<and> sorted (map mem_sort_key vs) \<and> mset vs = mset (hm_values (md_store s))"
proof -
  have bs: "bs = map db_backend (sort_key mem_sort_key (hm_values (md_store s)))"
    using assms(2,3) by (auto simp: mem_get_all_def Let_def split: if_splits)
  with mem_get_all_backends [OF assms(1)]
  show "set bs = ran (mem_content s)" "distinct (map public_key bs)" by simp_all
  show "\<exists>vs. bs = map db_backend vs \<and> sorted (map mem_sort_key vs) \<and> mset vs = mset (hm_values (md_store s))"
    using bs by (intro exI [of _ "sort_key mem_sort_key (hm_values (md_store s))"]) simp
qed

text \<open>The iteration order of the hash map cannot be observed.\<close>

lemma mem_get_all_iteration_order:
  assumes "mem_inv s" "mem_inv s'"
    and "map_of (md_store s) = map_of (md_store s')" and "md_etag s = md_etag s'"
  shows "mem_get_all s q = mem_get_all s' q"
proof -
  have "mset (hm_values (md_store s)) = mset (hm_values (md_store s'))"
    using hm_mset_eq [of "md_store s" "md_store s'"] assms
    by (simp add: mem_inv_def hm_values_def)
  then have "sort_key mem_sort_key (hm_values (md_store s)) = sort_key mem_sort_key (hm_values (md_store s'))"
    using mem_sort_key_inj [OF assms(1)] by (rule sort_key_mset_unique)
  then show ?thesis
    using assms(4) by (simp add: mem_get_all_def Let_def)
qed

text \<open>
  Property C7. The entity tag protocol of the memory store is sound: a client that remembers the
  tag of a state of the store and is answered "not modified" after fewer than \<open>2 ^ 64\<close> further
  operations would read, for every key, the backend it already has.
\<close>

theorem mem_not_modified_sound:
  assumes "s = fold mem_run ys mem_discovery_new" and "length xs < 2 ^ 64"
    and "mem_get_all (fold mem_run xs s) (Some (md_etag s)) = Inr d" and "backends d = None"
  shows "mem_get (fold mem_run xs s) k = mem_get s k"
proof -
  have inv: "mem_inv s" unfolding assms(1) by (rule mem_inv_run)
  have "mem_content (fold mem_run xs s) = mem_content s"
    by (rule mem.not_modified_sound [OF inv assms(2-4)])
  then show ?thesis
    by (simp add: mem.get_law [OF inv] mem.get_law [OF mem.run_inv [OF inv]])
qed

theorem mem_not_modified_sound_witness:
  "mem_get (fold mem_run [(1, DDelete (PublicKey [2]))] mem_discovery_new) (PublicKey [1])
     = mem_get mem_discovery_new (PublicKey [1])"
  by (rule mem_not_modified_sound [of _ "[]" _ "\<lparr>etag = 0, backends = None\<rparr>"])
    (simp_all add: mem_delete_def mem_get_all_def mem_discovery_new_def)

text \<open>
  Property C12. The memory store implements the contract: after any history it holds what the
  effects of the operations make of the empty content, \<open>get\<close> answers it, and an unconditional
  \<open>get_all\<close> lists every backend once, in the order of creation with ties broken by the key.
\<close>

theorem mem_discovery_refines:
  assumes "s = fold mem_run xs mem_discovery_new"
  shows "\<exists>vs. mem_get_all s None = Inr \<lparr>etag = md_etag s, backends = Some (map db_backend vs)\<rparr>
      \<and> sorted (map mem_sort_key vs) \<and> distinct (map (public_key \<circ> db_backend) vs)
      \<and> (\<forall>k. mem_get s k = Inr (fold (\<lambda>x m. unwrap_or m (op_effect (snd x) m)) xs Map.empty k))
      \<and> (\<forall>k b. mem_get s k = Inr (Some b) \<longleftrightarrow> b \<in> db_backend ` set vs \<and> public_key b = k)"
proof -
  have inv: "mem_inv s" unfolding assms by (rule mem_inv_run)
  let ?vs = "sort_key mem_sort_key (hm_values (md_store s))"
  have all: "mem_get_all s None = Inr \<lparr>etag = md_etag s, backends = Some (map db_backend ?vs)\<rparr>"
    by (simp add: mem_get_all_def Let_def)
  have "mem_content s = fold (\<lambda>x m. unwrap_or m (op_effect (snd x) m)) xs Map.empty"
    using mem.run_content [OF mem_inv_new, of xs] unfolding assms
    by (simp add: mem_content_def mem_discovery_new_def comp_def)
  moreover have "\<forall>k b. mem_get s k = Inr (Some b) \<longleftrightarrow> b \<in> db_backend ` set ?vs \<and> public_key b = k"
    using mem.get_all_complete [OF inv all] by simp
  moreover have "distinct (map (public_key \<circ> db_backend) ?vs)"
    using mem_get_all_backends(2) [OF inv] by simp
  ultimately show ?thesis
    using all by (intro exI [of _ ?vs]) (simp add: mem.get_law [OF inv])
qed

definition sample_node :: "u8 \<Rightarrow> discovery_backend" where
  "sample_node k = \<lparr>public_key = PublicKey [k],
     backend = \<lparr>name = None, partitions = {''p''}, weight = 1, enabled = True, implementation = []\<rparr>\<rparr>"

theorem mem_discovery_refines_witness:
  "mem_get (fold mem_run [(5, DPost (sample_node 2)), (6, DDelete (PublicKey [2])), (7, DPut (sample_node 1))]
      mem_discovery_new) (PublicKey [1]) = Inr (Some (sample_node 1))"
proof -
  let ?xs = "[(5, DPost (sample_node 2)), (6, DDelete (PublicKey [2])), (7, DPut (sample_node 1))] :: (datetime \<times> discovery_op) list"
  from mem_discovery_refines [OF refl, of ?xs]
  have "mem_get (fold mem_run ?xs mem_discovery_new) (PublicKey [1])
      = Inr (fold (\<lambda>x m. unwrap_or m (op_effect (snd x) m)) ?xs Map.empty (PublicKey [1]))"
    by blast
  then show ?thesis by (simp add: sample_node_def)
qed

text \<open>
  The iteration order of the hash map cannot be observed: two states of the store
  that map the same keys to the same entries and have the same tag list the same backends in the
  same order.
\<close>

theorem mem_listing_deterministic:
  assumes "s = fold mem_run xs mem_discovery_new" and "mem_inv s'"
    and "map_of (md_store s) = map_of (md_store s')" and "md_etag s = md_etag s'"
  shows "mem_get_all s q = mem_get_all s' q"
  by (rule mem_get_all_iteration_order) (use assms mem_inv_run in simp_all)

theorem mem_listing_deterministic_witness:
  "mem_get_all (fold mem_run [(5, DPost (sample_node 2)), (5, DPost (sample_node 1))] mem_discovery_new) None
   = mem_get_all \<lparr>md_store = [(PublicKey [1], \<lparr>db_created = 5, db_backend = sample_node 1\<rparr>),
                              (PublicKey [2], \<lparr>db_created = 5, db_backend = sample_node 2\<rparr>)], md_etag = 2\<rparr> None"
proof (rule mem_listing_deterministic [OF refl])
  show "mem_inv \<lparr>md_store = [(PublicKey [1], \<lparr>db_created = 5, db_backend = sample_node 1\<rparr>),
                            (PublicKey [2], \<lparr>db_created = 5, db_backend = sample_node 2\<rparr>)], md_etag = 2\<rparr>"
    by (auto simp: mem_inv_def hm_wf_def keyed_def mem_content_apply sample_node_def split: if_splits)
qed (auto simp: mem_post_def mem_discovery_new_def sample_node_def)

end
