(* ===== verification/DiscoveryDb.thy ===== *)
theory DiscoveryDb
  imports Sql DiscoveryMemory
begin

text \<open>
  \<open>components/src/discovery/db.rs\<close>: the discovery store in a database. The statements it
  issues are values; what they do to the two tables is the documented meaning of SQL, which the
  connection of the store is assumed to keep (theory \<open>Sql\<close>). The clock, the parser of public
  keys and the renderings in error messages are arguments.
\<close>

section \<open>Tables (Model, etag::Model) and statements\<close>

record backend_row =
  br_partitions :: "string set"
  br_id :: "u8 list"
  br_name :: "string option"
  br_weight :: i32
  br_enabled :: bool
  br_implementation :: "u8 list"
  br_created_at :: datetime
  br_updated_at :: datetime

datatype backend_column =
    ColPartitions | ColId | ColName | ColWeight | ColEnabled | ColImplementation | ColCreatedAt | ColUpdatedAt

text \<open>\<open>col_expr(Column::.., Expr::value(..))\<close> of an update.\<close>

datatype backend_assignment =
    SetName "string option"
  | SetPartitions "string set"
  | SetWeight i32
  | SetEnabled bool
  | SetUpdatedAt datetime

text \<open>
  An insertion, an insertion that on a conflict of the primary key updates the listed columns and
  sets \<open>updated_at\<close>, an update and a deletion by id, and the increment of one entity tag.
\<close>

datatype backend_statement =
    InsertBackend backend_row
  | UpsertBackend backend_row "backend_column list" datetime
  | UpdateBackend "u8 list" "backend_assignment list"
  | DeleteBackend "u8 list"
  | IncrementEtag i32

definition discovery_backend_get_all_etag_id :: i32 where
  "discovery_backend_get_all_etag_id = 1"

text \<open>The connection, with the queries of the store.\<close>

record 'w backend_db = "(backend_statement, 'w) sql_db" +
  find_backend :: "u8 list \<Rightarrow> 'w \<Rightarrow> db_err + backend_row option"
  find_backends_ordered :: "backend_column list \<Rightarrow> 'w \<Rightarrow> db_err + backend_row list"
  find_timestamps :: "u8 list \<Rightarrow> 'w \<Rightarrow> db_err + (datetime \<times> datetime) option"
  find_etag :: "i32 \<Rightarrow> 'w \<Rightarrow> db_err + i64 option"

record 'w db_discovery =
  dd_db :: "'w backend_db"
  dd_from_slice :: "u8 list \<Rightarrow> string + public_key"
  dd_show_key :: "public_key \<Rightarrow> string"
  dd_show_err :: "db_err \<Rightarrow> string"

section \<open>Operations\<close>

text \<open>\<open>{:?}\<close> of a vector of bytes.\<close>

fun debug_items :: "u8 list \<Rightarrow> string" where
  "debug_items [] = []"
| "debug_items [b] = show_nat (unat b)"
| "debug_items (b # bs) = show_nat (unat b) @ '', '' @ debug_items bs"

definition debug_bytes :: "u8 list \<Rightarrow> string" where
  "debug_bytes bs = ''['' @ debug_items bs @ '']''"

definition model_to_domain :: "'w db_discovery \<Rightarrow> backend_row \<Rightarrow> discovery_store_error + discovery_backend" where
  "model_to_domain S r =
     map_ok (\<lambda>k. \<lparr>public_key = k,
                   backend = \<lparr>name = br_name r, partitions = br_partitions r, weight = i32_as_usize (br_weight r),
                              enabled = br_enabled r, implementation = br_implementation r\<rparr>\<rparr>)
       (map_err (\<lambda>e. discovery_internal_error Internal
                       (''deserializing public key '' @ debug_bytes (br_id r) @ '' from database'')
                       (''deserializing failure: '' @ e))
          (dd_from_slice S (br_id r)))"

definition db_error :: "'w db_discovery \<Rightarrow> string \<Rightarrow> db_err \<Rightarrow> discovery_store_error" where
  "db_error S ctx e = discovery_from_db Internal ctx (dd_show_err S e)"

definition tx_error :: "'w db_discovery \<Rightarrow> string \<Rightarrow> db_err \<Rightarrow> discovery_store_error" where
  "tx_error S ctx e = discovery_from_tx Internal ctx (dd_show_err S e)"

definition db_get :: "'w db_discovery \<Rightarrow> 'w \<Rightarrow> public_key \<Rightarrow> discovery_store_error + discovery_backend option" where
  "db_get S w k =
     and_then (map_err (db_error S (''fetching backend for public key '' @ dd_show_key S k))
                 (find_backend (dd_db S) (pk_serialize k) w))
       (\<lambda>result. case result of
          Some model \<Rightarrow> map_ok Some (model_to_domain S model)
        | None \<Rightarrow> Inr None)"

text \<open>\<open>collect::<Result<Vec<_>, _>>\<close>: the first error, or all values.\<close>

fun collect_results :: "('e + 'a) list \<Rightarrow> 'e + 'a list" where
  "collect_results [] = Inr []"
| "collect_results (Inl e # rs) = Inl e"
| "collect_results (Inr x # rs) = map_ok ((#) x) (collect_results rs)"

definition db_get_all :: "'w db_discovery \<Rightarrow> 'w \<Rightarrow> u64 option \<Rightarrow> discovery_store_error + discovery_backends" where
  "db_get_all S w request_etag =
     and_then (map_err (db_error S ''fetching etag value'')
                 (find_etag (dd_db S) discovery_backend_get_all_etag_id w))
       (\<lambda>e. let response_etag = unwrap_or 0 e
        in if request_etag = Some response_etag then Inr \<lparr>etag = response_etag, backends = None\<rparr>
           else and_then (map_err (db_error S ''fetching all backends'')
                            (find_backends_ordered (dd_db S) [ColCreatedAt, ColId] w))
             (\<lambda>models. map_ok (\<lambda>bs. \<lparr>etag = response_etag, backends = Some bs\<rparr>)
                (collect_results (map (model_to_domain S) models))))"

definition active_model :: "datetime \<Rightarrow> discovery_backend \<Rightarrow> backend_row" where
  "active_model now b =
     \<lparr>br_partitions = partitions (backend b), br_id = pk_serialize (public_key b), br_name = name (backend b),
      br_weight = usize_as_i32 (weight (backend b)), br_enabled = enabled (backend b),
      br_implementation = implementation (backend b), br_created_at = now, br_updated_at = now\<rparr>"

text \<open>The increment of the entity tag inside a transaction, or nothing.\<close>

definition bump_etag_if :: "'w db_discovery \<Rightarrow> bool \<Rightarrow> 'w \<Rightarrow> (db_err + nat) option \<times> 'w" where
  "bump_etag_if S c w =
     (if c then apfst Some (sql_exec_txn (dd_db S) (IncrementEtag discovery_backend_get_all_etag_id) w)
      else (None, w))"

definition etag_error :: "'w db_discovery \<Rightarrow> (db_err + nat) option \<Rightarrow> discovery_store_error + nat option" where
  "etag_error S et = map_err (db_error S ''incrementing etag value'') (opt_transpose et)"

definition db_post ::
  "'w db_discovery \<Rightarrow> datetime \<Rightarrow> discovery_backend \<Rightarrow> 'w \<Rightarrow> (discovery_store_error + public_key option) \<times> 'w" where
  "db_post S now b w =
     (case transaction (dd_db S)
             (\<lambda>w. case sql_exec_txn (dd_db S) (InsertBackend (active_model now b)) w of
                (ins, w1) \<Rightarrow>
                  (case bump_etag_if S (is_ok ins) w1 of (et, w2) \<Rightarrow> ((ins, et), w2))) w of
        (Inl e, w') \<Rightarrow> (Inl (tx_error S ''post transaction'' e), w')
      | (Inr (ins, et), w') \<Rightarrow>
          (and_then (etag_error S et)
             (\<lambda>_. case ins of
                Inr _ \<Rightarrow> Inr (Some (public_key b))
              | Inl e \<Rightarrow>
                  if unique_violation e then Inr None
                  else Inl (db_error S (''inserting backend for public key '' @ dd_show_key S (public_key b)) e)),
           w'))"

text \<open>One second later, in nanoseconds: what \<open>updated_at\<close> becomes when \<open>put\<close> meets an existing row.\<close>

definition future_timestamp :: "datetime \<Rightarrow> datetime" where
  "future_timestamp now = now + 1000000000"

definition db_put ::
  "'w db_discovery \<Rightarrow> datetime \<Rightarrow> discovery_backend \<Rightarrow> 'w \<Rightarrow> (discovery_store_error + bool) \<times> 'w" where
  "db_put S now b w =
     (let i = pk_serialize (public_key b);
          k = dd_show_key S (public_key b)
      in case transaction (dd_db S)
                (\<lambda>w. case sql_exec_txn (dd_db S)
                            (UpsertBackend (active_model now b) [ColName, ColWeight, ColEnabled, ColImplementation]
                               (future_timestamp now)) w of
                   (ups, w1) \<Rightarrow>
                     (let ts = (if is_ok ups then find_timestamps (dd_db S) i w1 else Inr None)
                      in case bump_etag_if S (is_ok ts) w1 of (et, w2) \<Rightarrow> ((ups, ts, et), w2))) w of
           (Inl e, w') \<Rightarrow> (Inl (tx_error S ''put transaction'' e), w')
         | (Inr (ups, ts, et), w') \<Rightarrow>
             (and_then (map_err (db_error S (''upserting backend for public key '' @ k)) ups)
                (\<lambda>_. and_then (etag_error S et)
                (\<lambda>_. and_then (map_err (db_error S (''fetching backend after upsert for public key '' @ k)) ts)
                (\<lambda>t. map_ok (\<lambda>(created, updated). created = updated)
                   (ok_or (discovery_internal_error Internal ''upsert succeeded but record not found''
                             ''Record should exist after successful upsert'') t)))),
              w'))"

definition patch_assignments :: "datetime \<Rightarrow> discovery_backend_patch_sparse \<Rightarrow> backend_assignment list" where
  "patch_assignments now p =
     (case patch_name p of Some n \<Rightarrow> [SetName n] | None \<Rightarrow> [])
     @ (case patch_partitions p of Some ps \<Rightarrow> [SetPartitions ps] | None \<Rightarrow> [])
     @ (case patch_weight p of Some x \<Rightarrow> [SetWeight (usize_as_i32 x)] | None \<Rightarrow> [])
     @ (case patch_enabled p of Some e \<Rightarrow> [SetEnabled e] | None \<Rightarrow> [])
     @ [SetUpdatedAt now]"

text \<open>\<open>patch\<close> and \<open>delete\<close>: the statement, then the entity tag if a row was affected.\<close>

definition affected :: "db_err + nat \<Rightarrow> bool" where
  "affected r = (case r of Inr n \<Rightarrow> 0 < n | Inl _ \<Rightarrow> False)"

definition db_patch ::
  "'w db_discovery \<Rightarrow> datetime \<Rightarrow> discovery_backend_patch \<Rightarrow> 'w \<Rightarrow> (discovery_store_error + bool) \<times> 'w" where
  "db_patch S now p w =
     (case transaction (dd_db S)
             (\<lambda>w. case sql_exec_txn (dd_db S)
                         (UpdateBackend (pk_serialize (patch_public_key p)) (patch_assignments now (patch_backend p))) w of
                (upd, w1) \<Rightarrow> (case bump_etag_if S (affected upd) w1 of (et, w2) \<Rightarrow> ((upd, et), w2))) w of
        (Inl e, w') \<Rightarrow> (Inl (tx_error S ''patch transaction'' e), w')
      | (Inr (upd, et), w') \<Rightarrow>
          (and_then (etag_error S et)
             (\<lambda>_. map_ok (\<lambda>n. 0 < n)
                (map_err (db_error S (''patching backend for public key '' @ dd_show_key S (patch_public_key p))) upd)),
           w'))"

definition db_delete ::
  "'w db_discovery \<Rightarrow> public_key \<Rightarrow> 'w \<Rightarrow> (discovery_store_error + bool) \<times> 'w" where
  "db_delete S k w =
     (case transaction (dd_db S)
             (\<lambda>w. case sql_exec_txn (dd_db S) (DeleteBackend (pk_serialize k)) w of
                (del, w1) \<Rightarrow> (case bump_etag_if S (affected del) w1 of (et, w2) \<Rightarrow> ((del, et), w2))) w of
        (Inl e, w') \<Rightarrow> (Inl (tx_error S ''delete transaction'' e), w')
      | (Inr (del, et), w') \<Rightarrow>
          (and_then (etag_error S et)
             (\<lambda>_. map_ok (\<lambda>n. 0 < n)
                (map_err (db_error S (''deleting backend for public key '' @ dd_show_key S k)) del)),
           w'))"

section \<open>What SQL says of the statements\<close>

record backend_tables =
  bt_rows :: "u8 list \<Rightarrow> backend_row option"
  bt_etags :: "i32 \<Rightarrow> i64 option"

fun copy_column :: "backend_row \<Rightarrow> backend_column \<Rightarrow> backend_row \<Rightarrow> backend_row" where
  "copy_column new ColPartitions r = r\<lparr>br_partitions := br_partitions new\<rparr>"
| "copy_column new ColId r = r\<lparr>br_id := br_id new\<rparr>"
| "copy_column new ColName r = r\<lparr>br_name := br_name new\<rparr>"
| "copy_column new ColWeight r = r\<lparr>br_weight := br_weight new\<rparr>"
| "copy_column new ColEnabled r = r\<lparr>br_enabled := br_enabled new\<rparr>"
| "copy_column new ColImplementation r = r\<lparr>br_implementation := br_implementation new\<rparr>"
| "copy_column new ColCreatedAt r = r\<lparr>br_created_at := br_created_at new\<rparr>"
| "copy_column new ColUpdatedAt r = r\<lparr>br_updated_at := br_updated_at new\<rparr>"

fun assign_column :: "backend_assignment \<Rightarrow> backend_row \<Rightarrow> backend_row" where
  "assign_column (SetName n) r = r\<lparr>br_name := n\<rparr>"
| "assign_column (SetPartitions ps) r = r\<lparr>br_partitions := ps\<rparr>"
| "assign_column (SetWeight x) r = r\<lparr>br_weight := x\<rparr>"
| "assign_column (SetEnabled e) r = r\<lparr>br_enabled := e\<rparr>"
| "assign_column (SetUpdatedAt t) r = r\<lparr>br_updated_at := t\<rparr>"

fun backend_effect :: "backend_statement \<Rightarrow> backend_tables \<Rightarrow> sql_refusal + nat \<times> backend_tables" where
  "backend_effect (InsertBackend r) c =
     (if bt_rows c (br_id r) = None then Inr (1, c\<lparr>bt_rows := (bt_rows c)(br_id r \<mapsto> r)\<rparr>) else Inl UniqueRefusal)"
| "backend_effect (UpsertBackend r cols t) c =
     Inr (1, c\<lparr>bt_rows := (bt_rows c)(br_id r \<mapsto>
       (case bt_rows c (br_id r) of
          None \<Rightarrow> r
        | Some old \<Rightarrow> (fold (copy_column r) cols old)\<lparr>br_updated_at := t\<rparr>))\<rparr>)"
| "backend_effect (UpdateBackend i as) c =
     (case bt_rows c i of
        None \<Rightarrow> Inr (0, c)
      | Some old \<Rightarrow> Inr (1, c\<lparr>bt_rows := (bt_rows c)(i \<mapsto> fold assign_column as old)\<rparr>))"
| "backend_effect (DeleteBackend i) c =
     (case bt_rows c i of
        None \<Rightarrow> Inr (0, c)
      | Some _ \<Rightarrow> Inr (1, c\<lparr>bt_rows := (bt_rows c)(i := None)\<rparr>))"
| "backend_effect (IncrementEtag i) c =
     (case bt_etags c i of
        None \<Rightarrow> Inr (0, c)
      | Some v \<Rightarrow> if v = 2 ^ 63 - 1 then Inl OutOfRange else Inr (1, c\<lparr>bt_etags := (bt_etags c)(i \<mapsto> v + 1)\<rparr>))"

definition backend_order :: "backend_row \<Rightarrow> datetime \<times> u8 list" where
  "backend_order r = (br_created_at r, br_id r)"

definition row_fits :: "backend_row \<Rightarrow> bool" where
  "row_fits r \<longleftrightarrow> whole_micros (br_created_at r) \<and> whole_micros (br_updated_at r)"

fun backend_fits :: "backend_statement \<Rightarrow> bool" where
  "backend_fits (InsertBackend r) \<longleftrightarrow> row_fits r"
| "backend_fits (UpsertBackend r cols t) \<longleftrightarrow> row_fits r \<and> whole_micros t"
| "backend_fits (UpdateBackend i as) \<longleftrightarrow> (\<forall>t. SetUpdatedAt t \<in> set as \<longrightarrow> whole_micros t)"
| "backend_fits (DeleteBackend i) \<longleftrightarrow> True"
| "backend_fits (IncrementEtag i) \<longleftrightarrow> True"

definition backend_db_lawful ::
  "('w \<Rightarrow> backend_tables) \<Rightarrow> ('w \<Rightarrow> backend_tables) \<Rightarrow> 'w db_discovery \<Rightarrow> bool" where
  "backend_db_lawful content base S \<longleftrightarrow>
     sql_lawful backend_fits backend_effect content base (dd_db S)
   \<and> (\<forall>i w r. find_backend (dd_db S) i w = Inr r \<longrightarrow> r = bt_rows (content w) i)
   \<and> (\<forall>w rs. find_backends_ordered (dd_db S) [ColCreatedAt, ColId] w = Inr rs \<longrightarrow>
        lists_rows (bt_rows (content w)) rs \<and> sorted (map backend_order rs))
   \<and> (\<forall>i w t. find_timestamps (dd_db S) i w = Inr t \<longrightarrow>
        t = map_option (\<lambda>r. (br_created_at r, br_updated_at r)) (bt_rows (content w) i))
   \<and> (\<forall>i w v. find_etag (dd_db S) i w = Inr v \<longrightarrow> v = bt_etags (content w) i)
   \<and> (\<forall>k. dd_from_slice S (pk_serialize k) = Inr k)"

lemma backend_db_lawfulD:
  assumes "backend_db_lawful content base S"
  shows "sql_lawful backend_fits backend_effect content base (dd_db S)"
    and "find_backend (dd_db S) i w = Inr r \<Longrightarrow> r = bt_rows (content w) i"
    and "find_backends_ordered (dd_db S) [ColCreatedAt, ColId] w = Inr rs \<Longrightarrow>
      lists_rows (bt_rows (content w)) rs \<and> sorted (map backend_order rs)"
    and "find_timestamps (dd_db S) i w = Inr t \<Longrightarrow>
      t = map_option (\<lambda>r. (br_created_at r, br_updated_at r)) (bt_rows (content w) i)"
    and "find_etag (dd_db S) n w = Inr v \<Longrightarrow> v = bt_etags (content w) n"
    and "dd_from_slice S (pk_serialize k) = Inr k"
  using assms unfolding backend_db_lawful_def by - (elim conjE, meson)+

section \<open>The memory store as the reference\<close>

text \<open>
  A row is what the memory store keeps of a backend. The tables mirror a state of the memory store
  if they hold the same entries, under the same tag.
\<close>

definition entry_of :: "backend_row \<Rightarrow> discovery_backend_timestamped" where
  "entry_of r =
     \<lparr>db_created = br_created_at r,
      db_backend = \<lparr>public_key = PublicKey (br_id r),
        backend = \<lparr>name = br_name r, partitions = br_partitions r, weight = i32_as_usize (br_weight r),
                   enabled = br_enabled r, implementation = br_implementation r\<rparr>\<rparr>\<rparr>"

definition mirrors :: "backend_tables \<Rightarrow> mem_discovery \<Rightarrow> bool" where
  "mirrors c s \<longleftrightarrow> mem_inv s \<and> bt_etags c discovery_backend_get_all_etag_id = Some (md_etag s)
     \<and> (\<forall>i r. bt_rows c i = Some r \<longrightarrow> br_id r = i)
     \<and> (\<forall>k. map_of (md_store s) k = map_option entry_of (bt_rows c (pk_serialize k)))"

lemma model_to_domain_entry:
  assumes "backend_db_lawful content base S"
  shows "model_to_domain S r = Inr (db_backend (entry_of r))"
  using backend_db_lawfulD(6) [OF assms, of "PublicKey (br_id r)"]
  by (simp add: model_to_domain_def entry_of_def)

lemma collect_results_Inr: "collect_results (map (\<lambda>x. Inr (f x)) xs) = Inr (map f xs)"
  by (induction xs) simp_all

text \<open>
  What the database store makes of an operation: a weight keeps its low 32 bits, as a signed
  number, and a backend that is put over an existing one keeps the partitions that were there.
\<close>

definition narrow :: "usize \<Rightarrow> usize" where
  "narrow x = i32_as_usize (usize_as_i32 x)"

definition stored_as :: "discovery_content \<Rightarrow> discovery_backend \<Rightarrow> discovery_backend" where
  "stored_as m b = b\<lparr>backend := (backend b)
     \<lparr>weight := narrow (weight (backend b)),
      partitions := (case m (public_key b) of None \<Rightarrow> partitions (backend b) | Some old \<Rightarrow> partitions (backend old))\<rparr>\<rparr>"

fun db_op :: "discovery_content \<Rightarrow> discovery_op \<Rightarrow> discovery_op" where
  "db_op m (DPost b) = DPost (stored_as Map.empty b)"
| "db_op m (DPut b) = DPut (stored_as m b)"
| "db_op m (DPatch p) = DPatch (p\<lparr>patch_backend := (patch_backend p)
     \<lparr>patch_weight := map_option narrow (patch_weight (patch_backend p))\<rparr>\<rparr>)"
| "db_op m (DDelete k) = DDelete k"

section \<open>One operation of the two stores\<close>

datatype discovery_answer = Posted "public_key option" | Did bool

fun db_exec ::
  "'w db_discovery \<Rightarrow> datetime \<Rightarrow> discovery_op \<Rightarrow> 'w \<Rightarrow> (discovery_store_error + discovery_answer) \<times> 'w" where
  "db_exec S now (DPost b) w = apfst (map_ok Posted) (db_post S now b w)"
| "db_exec S now (DPut b) w = apfst (map_ok Did) (db_put S now b w)"
| "db_exec S now (DPatch p) w = apfst (map_ok Did) (db_patch S now p w)"
| "db_exec S now (DDelete k) w = apfst (map_ok Did) (db_delete S k w)"

fun mem_exec ::
  "datetime \<Rightarrow> discovery_op \<Rightarrow> mem_discovery \<Rightarrow> (discovery_store_error + discovery_answer) \<times> mem_discovery" where
  "mem_exec now (DPost b) s = apfst (map_ok Posted) (mem_post now b s)"
| "mem_exec now (DPut b) s = apfst (map_ok Did) (mem_put now b s)"
| "mem_exec now (DPatch p) s = apfst (map_ok Did) (mem_patch p s)"
| "mem_exec now (DDelete k) s = apfst (map_ok Did) (mem_delete k s)"

text \<open>The increment of the tag, once it has succeeded.\<close>

lemma bump_etagD:
  assumes "backend_db_lawful content base S" and "bump_etag_if S c w = (et, w')"
    and "etag_error S et = Inr x" and "bt_etags (content w) discovery_backend_get_all_etag_id = Some v"
  shows "content w' = (if c then (content w)\<lparr>bt_etags := (bt_etags (content w))
      (discovery_backend_get_all_etag_id \<mapsto> v + 1)\<rparr> else content w)"
proof (cases c)
  case True
  with assms(2) obtain r where r: "sql_exec_txn (dd_db S) (IncrementEtag discovery_backend_get_all_etag_id) w = (r, w')"
      "et = Some r"
    by (auto simp: bump_etag_if_def apfst_def map_prod_def split: prod.splits)
  with assms(3) obtain n where "r = Inr n" by (cases r) (auto simp: etag_error_def)
  with r sql_exec_txnD(1) [OF backend_db_lawfulD(1) [OF assms(1)], of "IncrementEtag discovery_backend_get_all_etag_id"]
  have "backend_effect (IncrementEtag discovery_backend_get_all_etag_id) (content w) = Inr (n, content w')" by simp
  with assms(4) True show ?thesis by (auto split: if_splits)
next
  case False
  with assms(2) show ?thesis by (simp add: bump_etag_if_def)
qed

lemma mirrorsD:
  assumes "mirrors c s"
  shows "mem_inv s" and "bt_etags c discovery_backend_get_all_etag_id = Some (md_etag s)"
    and "bt_rows c i = Some r \<Longrightarrow> br_id r = i"
    and "map_of (md_store s) k = map_option entry_of (bt_rows c (pk_serialize k))"
  using assms by (simp_all add: mirrors_def)

lemma public_key_entry_of [simp]: "public_key (db_backend (entry_of r)) = PublicKey (br_id r)"
  by (simp add: entry_of_def)

lemma pk_eq_iff: "pk_serialize k = i \<longleftrightarrow> k = PublicKey i"
  by (cases k) auto

lemma mirrors_update:
  assumes "mirrors c s" and "br_id r = i" and "k = PublicKey i"
  shows "mirrors (c\<lparr>bt_rows := (bt_rows c)(i \<mapsto> r),
        bt_etags := (bt_etags c)(discovery_backend_get_all_etag_id \<mapsto> md_etag s + 1)\<rparr>)
      (s\<lparr>md_store := AList.update k (entry_of r) (md_store s), md_etag := md_etag s + 1\<rparr>)"
  using assms mem_inv_put [OF mirrorsD(1) [OF assms(1)], of "entry_of r" k "md_etag s + 1"]
  by (auto simp: mirrors_def pk_eq_iff split: if_splits)

lemma mirrors_remove:
  assumes "mirrors c s" and "k = PublicKey i"
  shows "mirrors (c\<lparr>bt_rows := (bt_rows c)(i := None),
        bt_etags := (bt_etags c)(discovery_backend_get_all_etag_id \<mapsto> md_etag s + 1)\<rparr>)
      (s\<lparr>md_store := AList.delete k (md_store s), md_etag := md_etag s + 1\<rparr>)"
  using assms mem_inv_remove(2) [OF mirrorsD(1) [OF assms(1)]]
  by (auto simp: mirrors_def pk_eq_iff split: if_splits)

lemma delete_absent_key: "hm_wf m \<Longrightarrow> map_of m k = None \<Longrightarrow> AList.delete k m = m"
  by (simp add: delete_idem map_of_eq_None_iff)

text \<open>A transaction that runs one statement and then counts it.\<close>

lemma statement_txnD:
  assumes D: "backend_db_lawful content base S"
    and tx: "transaction (dd_db S)
      (\<lambda>w. case sql_exec_txn (dd_db S) st w of
         (r, w1) \<Rightarrow> (case bump_etag_if S (ok r) w1 of (et, w2) \<Rightarrow> ((r, et), w2))) w = (Inr (r, et), w')"
    and et: "etag_error S et = Inr x" and fits: "backend_fits st"
  shows "r = Inr n \<Longrightarrow> \<exists>c. backend_effect st (content w) = Inr (n, c)
      \<and> (bt_etags c discovery_backend_get_all_etag_id = Some v \<longrightarrow>
         content w' = (if ok r then c\<lparr>bt_etags := (bt_etags c)(discovery_backend_get_all_etag_id \<mapsto> v + 1)\<rparr> else c))"
    and "r = Inl e \<Longrightarrow> \<not> ok r \<Longrightarrow> content w' = content w
      \<and> (unique_violation e \<longrightarrow> backend_effect st (content w) = Inl UniqueRefusal)"
proof -
  note sql = backend_db_lawfulD(1) [OF D]
  from transactionD [OF sql tx] obtain w0 w2 where body: "(case sql_exec_txn (dd_db S) st w0 of
        (r, w1) \<Rightarrow> (case bump_etag_if S (ok r) w1 of (et, w2) \<Rightarrow> ((r, et), w2))) = ((r, et), w2)"
    and w: "content w0 = content w" "base w0 = content w" "content w' = content w2" by blast
  obtain r1 w1 where "sql_exec_txn (dd_db S) st w0 = (r1, w1)" by fastforce
  moreover obtain et1 w3 where "bump_etag_if S (ok r1) w1 = (et1, w3)" by fastforce
  ultimately have steps: "sql_exec_txn (dd_db S) st w0 = (r, w1)"
      "bump_etag_if S (ok r) w1 = (et, w2)" "content w0 = content w" "base w0 = content w" "content w' = content w2"
    using body w by simp_all
  show "\<exists>c. backend_effect st (content w) = Inr (n, c)
      \<and> (bt_etags c discovery_backend_get_all_etag_id = Some v \<longrightarrow>
         content w' = (if ok r then c\<lparr>bt_etags := (bt_etags c)(discovery_backend_get_all_etag_id \<mapsto> v + 1)\<rparr> else c))"
    if "r = Inr n"
    using sql_exec_txnD(1) [OF sql fits, of w0 n w1] steps that bump_etagD [OF D steps(2) et, of v]
    by (intro exI [of _ "content w1"]) simp
  show "content w' = content w \<and> (unique_violation e \<longrightarrow> backend_effect st (content w) = Inl UniqueRefusal)"
    if "r = Inl e" "\<not> ok r"
    using sql_exec_txnD(2,3) [OF sql fits, of w0 e w1] steps that by (auto simp: bump_etag_if_def)
qed

lemma row_fits_active: "whole_micros now \<Longrightarrow> row_fits (active_model now b)"
  by (simp add: row_fits_def active_model_def)

lemma patch_fits: "whole_micros now \<Longrightarrow> SetUpdatedAt t \<in> set (patch_assignments now p) \<Longrightarrow> whole_micros t"
  by (auto simp: patch_assignments_def split: option.splits)

lemma future_fits: "whole_micros now \<Longrightarrow> whole_micros (future_timestamp now)"
  using mod_mult_self1 [of now 1000000 1000] by (simp add: whole_micros_def future_timestamp_def)

lemma active_model_simps:
  "br_id (active_model now b) = pk_serialize (public_key b)"
  "br_created_at (active_model now b) = now" "br_updated_at (active_model now b) = now"
  "entry_of (active_model now b) = \<lparr>db_created = now, db_backend = stored_as Map.empty b\<rparr>"
  by (simp_all add: active_model_def entry_of_def stored_as_def narrow_def)

lemma stored_as_key [simp]: "public_key (stored_as m b) = public_key b"
  by (simp add: stored_as_def)

lemma post_sim:
  assumes D: "backend_db_lawful content base S" and m: "mirrors (content w) s"
    and now: "whole_micros now" and post: "db_post S now b w = (Inr ans, w')"
  shows "\<exists>s'. mem_post now (stored_as Map.empty b) s = (Inr ans, s') \<and> mirrors (content w') s'"
proof -
  let ?r = "active_model now b" and ?i = "pk_serialize (public_key b)"
  from post obtain ins et x where tx: "transaction (dd_db S)
       (\<lambda>w. case sql_exec_txn (dd_db S) (InsertBackend ?r) w of
          (ins, w1) \<Rightarrow> (case bump_etag_if S (is_ok ins) w1 of (et, w2) \<Rightarrow> ((ins, et), w2))) w = (Inr (ins, et), w')"
    and et: "etag_error S et = Inr x"
    and ans: "case ins of Inr _ \<Rightarrow> ans = Some (public_key b) | Inl e \<Rightarrow> unique_violation e \<and> ans = None"
    by (auto simp: db_post_def result_simps split: prod.splits sum.splits if_splits)
  have "backend_fits (InsertBackend ?r)" using now by (simp add: row_fits_active)
  note st = statement_txnD [OF D tx et this]
  show ?thesis
  proof (cases ins)
    case (Inr n)
    with st(1) [of n "md_etag s"] mirrorsD(2) [OF m] have new: "bt_rows (content w) ?i = None"
        and "content w' = (content w)\<lparr>bt_rows := (bt_rows (content w))(?i \<mapsto> ?r),
           bt_etags := (bt_etags (content w))(discovery_backend_get_all_etag_id \<mapsto> md_etag s + 1)\<rparr>"
      by (auto simp: active_model_simps split: if_splits)
    with mirrors_update [OF m active_model_simps(1) [of now b], of "public_key b"]
    have "mirrors (content w') (s\<lparr>md_store := AList.update (public_key b) (entry_of ?r) (md_store s), md_etag := md_etag s + 1\<rparr>)"
      by simp
    moreover have "mem_post now (stored_as Map.empty b) s = (Inr ans,
        s\<lparr>md_store := AList.update (public_key b) (entry_of ?r) (md_store s), md_etag := md_etag s + 1\<rparr>)"
      using new mirrorsD(4) [OF m, of "public_key b"] ans Inr by (simp add: mem_post_def active_model_simps)
    ultimately show ?thesis by blast
  next
    case (Inl e)
    with ans st(2) [of e] have "content w' = content w" "ans = None"
        "backend_effect (InsertBackend ?r) (content w) = Inl UniqueRefusal" by simp_all
    moreover from this have "mem_post now (stored_as Map.empty b) s = (Inr ans, s)"
      using mirrorsD(4) [OF m, of "public_key b"] by (auto simp: mem_post_def active_model_simps split: if_splits)
    ultimately show ?thesis using m by auto
  qed
qed

lemma delete_sim:
  assumes D: "backend_db_lawful content base S" and m: "mirrors (content w) s"
    and del: "db_delete S k w = (Inr ans, w')"
  shows "\<exists>s'. mem_delete k s = (Inr ans, s') \<and> mirrors (content w') s'"
proof -
  from del obtain r et x where tx: "transaction (dd_db S)
       (\<lambda>w. case sql_exec_txn (dd_db S) (DeleteBackend (pk_serialize k)) w of
          (del, w1) \<Rightarrow> (case bump_etag_if S (affected del) w1 of (et, w2) \<Rightarrow> ((del, et), w2))) w = (Inr (r, et), w')"
    and et: "etag_error S et = Inr x" and r: "\<exists>n. r = Inr n \<and> ans = (0 < n)"
    by (auto simp: db_delete_def result_simps split: prod.splits sum.splits if_splits)
  from r obtain n where n: "r = Inr n" "ans = (0 < n)" by blast
  note st = statement_txnD(1) [OF D tx et backend_fits.simps(4) [THEN iffD2, OF TrueI] n(1), of "md_etag s"] and tag = mirrorsD(2) [OF m]
  show ?thesis
  proof (cases "bt_rows (content w) (pk_serialize k)")
    case None
    with st tag n have "\<not> ans" "content w' = content w" by (auto simp: affected_def)
    with None m show ?thesis
      using mirrorsD(4) [OF m, of k] mirrorsD(1) [OF m]
      by (simp add: mem_delete_def delete_absent_key mem_inv_def)
  next
    case (Some old)
    with st tag n have "ans" "content w' = (content w)\<lparr>bt_rows := (bt_rows (content w))(pk_serialize k := None),
        bt_etags := (bt_etags (content w))(discovery_backend_get_all_etag_id \<mapsto> md_etag s + 1)\<rparr>"
      by (auto simp: affected_def)
    then show ?thesis
      using mirrorsD(4) [OF m, of k] mirrors_remove [OF m, of k "pk_serialize k"] Some by (simp add: mem_delete_def)
  qed
qed

text \<open>What the assignments of a patch make of a row is what the memory store makes of its entry.\<close>

definition narrow_patch :: "discovery_backend_patch_sparse \<Rightarrow> discovery_backend_patch_sparse" where
  "narrow_patch p = p\<lparr>patch_weight := map_option narrow (patch_weight p)\<rparr>"

lemma db_op_patch: "db_op m (DPatch p) = DPatch (p\<lparr>patch_backend := narrow_patch (patch_backend p)\<rparr>)"
  by (simp add: narrow_patch_def)

lemma patched_row:
  "br_id (fold assign_column (patch_assignments now p) r) = br_id r"
  "entry_of (fold assign_column (patch_assignments now p) r) =
     (entry_of r)\<lparr>db_backend := (db_backend (entry_of r))
        \<lparr>backend := mem_patch_entry (narrow_patch p) (backend (db_backend (entry_of r)))\<rparr>\<rparr>"
proof -
  show "br_id (fold assign_column (patch_assignments now p) r) = br_id r"
    by (simp add: patch_assignments_def split: option.split)
  show "entry_of (fold assign_column (patch_assignments now p) r) =
     (entry_of r)\<lparr>db_backend := (db_backend (entry_of r))
        \<lparr>backend := mem_patch_entry (narrow_patch p) (backend (db_backend (entry_of r)))\<rparr>\<rparr>"
    by (cases "patch_name p"; cases "patch_partitions p"; cases "patch_weight p"; cases "patch_enabled p")
      (simp_all add: patch_assignments_def entry_of_def mem_patch_entry_eq patched_def narrow_patch_def narrow_def)
qed

lemma patch_sim:
  assumes D: "backend_db_lawful content base S" and m: "mirrors (content w) s"
    and now: "whole_micros now" and patch: "db_patch S now p w = (Inr ans, w')"
  shows "\<exists>s'. mem_patch (p\<lparr>patch_backend := narrow_patch (patch_backend p)\<rparr>) s = (Inr ans, s') \<and> mirrors (content w') s'"
proof -
  let ?k = "patch_public_key p" and ?as = "patch_assignments now (patch_backend p)"
  from patch obtain r et x where tx: "transaction (dd_db S)
       (\<lambda>w. case sql_exec_txn (dd_db S) (UpdateBackend (pk_serialize ?k) ?as) w of
          (upd, w1) \<Rightarrow> (case bump_etag_if S (affected upd) w1 of (et, w2) \<Rightarrow> ((upd, et), w2))) w = (Inr (r, et), w')"
    and et: "etag_error S et = Inr x" and r: "\<exists>n. r = Inr n \<and> ans = (0 < n)"
    by (auto simp: db_patch_def result_simps split: prod.splits sum.splits if_splits)
  from r obtain n where n: "r = Inr n" "ans = (0 < n)" by blast
  have "backend_fits (UpdateBackend (pk_serialize ?k) ?as)" using patch_fits [OF now] by auto
  note st = statement_txnD(1) [OF D tx et this n(1), of "md_etag s"] and tag = mirrorsD(2) [OF m]
  show ?thesis
  proof (cases "bt_rows (content w) (pk_serialize ?k)")
    case None
    with st tag n have "\<not> ans" "content w' = content w" by (auto simp: affected_def)
    with None m show ?thesis
      using mirrorsD(4) [OF m, of ?k] by (simp add: mem_patch_def)
  next
    case (Some old)
    with st tag n have "ans" "content w' = (content w)
        \<lparr>bt_rows := (bt_rows (content w))(pk_serialize ?k \<mapsto> fold assign_column ?as old),
         bt_etags := (bt_etags (content w))(discovery_backend_get_all_etag_id \<mapsto> md_etag s + 1)\<rparr>"
      by (auto simp: affected_def)
    then show ?thesis
      using mirrorsD(4) [OF m, of ?k] Some mirrorsD(3) [OF m Some]
        mirrors_update [OF m, of "fold assign_column ?as old" "pk_serialize ?k" ?k]
      by (simp add: mem_patch_def Let_def patched_row)
  qed
qed

text \<open>
  \<open>put\<close> tells an insertion from an update by the two time stamps: it must not run in the very
  second before the row was created.
\<close>

lemma put_row:
  "br_id (fold (copy_column (active_model now b)) [ColName, ColWeight, ColEnabled, ColImplementation] old) = br_id old"
  "entry_of ((fold (copy_column (active_model now b)) [ColName, ColWeight, ColEnabled, ColImplementation] old)\<lparr>br_updated_at := t\<rparr>) =
     \<lparr>db_created = br_created_at old,
      db_backend = \<lparr>public_key = PublicKey (br_id old),
        backend = (backend b)\<lparr>weight := narrow (weight (backend b)), partitions := br_partitions old\<rparr>\<rparr>\<rparr>"
  by (simp_all add: active_model_def entry_of_def narrow_def)

lemma put_sim:
  assumes D: "backend_db_lawful content base S" and m: "mirrors (content w) s"
    and now: "whole_micros now" and put: "db_put S now b w = (Inr ans, w')"
    and clock: "\<And>r. bt_rows (content w) (pk_serialize (public_key b)) = Some r \<Longrightarrow> br_created_at r \<noteq> future_timestamp now"
  shows "\<exists>s'. mem_put now (stored_as (mem_content s) b) s = (Inr ans, s') \<and> mirrors (content w') s'"
proof -
  let ?i = "pk_serialize (public_key b)" and ?r = "active_model now b"
  let ?st = "UpsertBackend ?r [ColName, ColWeight, ColEnabled, ColImplementation] (future_timestamp now)"
  note sql = backend_db_lawfulD(1) [OF D] and tag = mirrorsD(2) [OF m]
  from put obtain ups ts et where tx: "transaction (dd_db S)
       (\<lambda>w. case sql_exec_txn (dd_db S) ?st w of
          (ups, w1) \<Rightarrow> (let ts = (if is_ok ups then find_timestamps (dd_db S) ?i w1 else Inr None)
            in case bump_etag_if S (is_ok ts) w1 of (et, w2) \<Rightarrow> ((ups, ts, et), w2))) w = (Inr (ups, ts, et), w')"
    and ok: "\<exists>n x t. ups = Inr n \<and> etag_error S et = Inr x \<and> ts = Inr (Some t) \<and> ans = (fst t = snd t)"
    by (auto simp: db_put_def Let_def result_simps split: prod.splits sum.splits if_splits)
  from transactionD [OF sql tx] obtain w0 w2 where body: "(case sql_exec_txn (dd_db S) ?st w0 of
          (ups, w1) \<Rightarrow> (let ts = (if is_ok ups then find_timestamps (dd_db S) ?i w1 else Inr None)
            in case bump_etag_if S (is_ok ts) w1 of (et, w2) \<Rightarrow> ((ups, ts, et), w2))) = ((ups, ts, et), w2)"
      and w: "content w0 = content w" "content w' = content w2" by blast
  obtain ups1 w1 where u: "sql_exec_txn (dd_db S) ?st w0 = (ups1, w1)" by fastforce
  from ok obtain n x t where n: "ups = Inr n" "etag_error S et = Inr x" "ts = Inr (Some t)" "ans = (fst t = snd t)"
    by blast
  from body u n have u': "ups1 = Inr n" by (auto simp: Let_def split: prod.splits)
  with body u n have ts: "find_timestamps (dd_db S) ?i w1 = Inr (Some t)"
      and et: "bump_etag_if S True w1 = (et, w2)"
    by (auto simp: Let_def split: prod.splits)
  have "backend_fits ?st" using now by (simp add: row_fits_active future_fits)
  from sql_exec_txnD(1) [OF sql this, of w0 n w1] u u' w
  have eff: "backend_effect ?st (content w) = Inr (n, content w1)" by simp
  define new where "new = (case bt_rows (content w) ?i of
      None \<Rightarrow> ?r
    | Some old \<Rightarrow> (fold (copy_column ?r) [ColName, ColWeight, ColEnabled, ColImplementation] old)
        \<lparr>br_updated_at := future_timestamp now\<rparr>)"
  from eff have rows: "content w1 = (content w)\<lparr>bt_rows := (bt_rows (content w))(?i \<mapsto> new)\<rparr>"
    by (simp add: active_model_simps new_def)
  with bump_etagD [OF D et n(2), of "md_etag s"] tag w
  have w': "content w' = (content w)\<lparr>bt_rows := (bt_rows (content w))(?i \<mapsto> new),
      bt_etags := (bt_etags (content w))(discovery_backend_get_all_etag_id \<mapsto> md_etag s + 1)\<rparr>" by simp
  from backend_db_lawfulD(4) [OF D ts] rows have t: "t = (br_created_at new, br_updated_at new)" by simp
  show ?thesis
  proof (cases "bt_rows (content w) ?i")
    case None
    then have new: "new = ?r" by (simp add: new_def)
    with None t n(4) w' mirrors_update [OF m, of ?r ?i "public_key b"] mirrorsD(4) [OF m, of "public_key b"]
    show ?thesis
      by (simp add: mem_put_def active_model_simps stored_as_def mem_content_apply)
  next
    case (Some old)
    then have new: "new = (fold (copy_column ?r) [ColName, ColWeight, ColEnabled, ColImplementation] old)
        \<lparr>br_updated_at := future_timestamp now\<rparr>"
      by (simp add: new_def)
    have old: "br_id old = ?i" by (rule mirrorsD(3) [OF m Some])
    have "\<not> ans" using clock [OF Some] t n(4) unfolding new by simp
    moreover have "entry_of new = \<lparr>db_created = db_created (entry_of old), db_backend = stored_as (mem_content s) b\<rparr>"
      using old mirrorsD(4) [OF m, of "public_key b"] Some unfolding new put_row(2)
      by (simp add: stored_as_def mem_content_apply entry_of_def)
    moreover have "br_id new = ?i" using old put_row(1) unfolding new by simp
    ultimately show ?thesis
      using w' mirrors_update [OF m, of new ?i "public_key b"] mirrorsD(4) [OF m, of "public_key b"] Some
      by (simp add: mem_put_def)
  qed
qed

section \<open>Reading\<close>

lemma get_sim:
  assumes D: "backend_db_lawful content base S" and m: "mirrors (content w) s" and get: "db_get S w k = Inr r"
  shows "mem_get s k = Inr r"
proof -
  from get obtain row where "find_backend (dd_db S) (pk_serialize k) w = Inr row"
      "r = map_option (db_backend \<circ> entry_of) row"
    by (auto simp: db_get_def result_simps model_to_domain_entry [OF D] split: option.splits)
  with backend_db_lawfulD(2) [OF D] mirrorsD(4) [OF m, of k] show ?thesis
    by (auto simp: mem_get_def option.map_comp)
qed

lemma lists_entries:
  assumes "mirrors c s" and "lists_rows (bt_rows c) rs"
  shows "mset (map entry_of rs) = mset (hm_values (md_store s))"
proof -
  let ?md = "md_store s"
  from assms(2) obtain ids where ids: "distinct ids" "set ids = dom (bt_rows c)" "mset rs = mset (map (the \<circ> bt_rows c) ids)"
    by (auto simp: lists_rows_def)
  have wf: "distinct (map fst ?md)" using mirrorsD(1) [OF assms(1)] by (simp add: mem_inv_def hm_wf_def)
  have "set (map fst ?md) = dom (map_of ?md)" by (simp add: dom_map_of_conv_image_fst)
  also have "\<dots> = PublicKey ` dom (bt_rows c)"
    using mirrorsD(4) [OF assms(1)] by (force simp: dom_def pk_eq_iff)
  finally have "set (map fst ?md) = set (map PublicKey ids)" using ids(2) by simp
  moreover have "distinct (map PublicKey ids)" using ids(1) by (simp add: distinct_map inj_on_def)
  ultimately have keys: "mset (map fst ?md) = mset (map PublicKey ids)"
    using wf by (simp only: set_eq_iff_mset_eq_distinct)
  have "map snd ?md = map (the \<circ> map_of ?md) (map fst ?md)"
    using wf by (auto intro!: map_cong)
  then have "mset (hm_values ?md) = image_mset (the \<circ> map_of ?md) (mset (map fst ?md))"
    by (simp only: hm_values_def mset_map)
  also have "\<dots> = mset (map (\<lambda>i. entry_of (the (bt_rows c i))) ids)"
    unfolding keys mset_map [symmetric] map_map
    using ids(2) mirrorsD(4) [OF assms(1)] by (intro arg_cong [of _ _ mset] map_cong) auto
  also have "\<dots> = image_mset entry_of (mset rs)"
    unfolding ids(3) by (simp add: multiset.map_comp comp_def)
  finally show ?thesis by simp
qed

lemma get_all_sim:
  assumes D: "backend_db_lawful content base S" and m: "mirrors (content w) s" and get: "db_get_all S w q = Inr d"
  shows "mem_get_all s q = Inr d"
proof -
  have models: "model_to_domain S = (\<lambda>r. Inr (db_backend (entry_of r)))"
    by (rule ext) (rule model_to_domain_entry [OF D])
  from get obtain v where v: "find_etag (dd_db S) discovery_backend_get_all_etag_id w = Inr v"
    and rest: "if q = Some (unwrap_or 0 v) then d = \<lparr>etag = unwrap_or 0 v, backends = None\<rparr>
      else \<exists>rs. find_backends_ordered (dd_db S) [ColCreatedAt, ColId] w = Inr rs
        \<and> d = \<lparr>etag = unwrap_or 0 v, backends = Some (map (db_backend \<circ> entry_of) rs)\<rparr>"
    by (auto simp: db_get_all_def Let_def result_simps models collect_results_Inr comp_def split: if_splits)
  have tag: "unwrap_or 0 v = md_etag s"
    using backend_db_lawfulD(5) [OF D v] mirrorsD(2) [OF m] by simp
  show ?thesis
  proof (cases "q = Some (md_etag s)")
    case True
    with rest tag show ?thesis by (simp add: mem_get_all_def)
  next
    case False
    with rest tag obtain rs where rs: "find_backends_ordered (dd_db S) [ColCreatedAt, ColId] w = Inr rs"
        "d = \<lparr>etag = md_etag s, backends = Some (map (db_backend \<circ> entry_of) rs)\<rparr>" by auto
    from backend_db_lawfulD(3) [OF D rs(1)]
    have l: "lists_rows (bt_rows (content w)) rs" and "sorted (map backend_order rs)" by simp_all
    then have "sorted (map mem_sort_key (map entry_of rs))"
      by (simp add: sorted_wrt_map backend_order_def entry_of_def less_eq_prod_def less_prod_def less_eq_public_key_def
          sorted_map)
    then have "sort_key mem_sort_key (map entry_of rs) = map entry_of rs" by (rule sort_key_id_if_sorted)
    moreover have "sort_key mem_sort_key (hm_values (md_store s)) = sort_key mem_sort_key (map entry_of rs)"
      using lists_entries [OF m l] mem_sort_key_inj [OF mirrorsD(1) [OF m]]
      by (intro sort_key_mset_unique) simp_all
    ultimately show ?thesis using rs(2) False by (simp add: mem_get_all_def Let_def)
  qed
qed

section \<open>Histories\<close>

text \<open>
  A sequence of timed operations that the database carries out without an error, with the answers,
  and the same sequence on the memory store, each operation first translated by \<open>f\<close>.
\<close>

fun db_history ::
  "'w db_discovery \<Rightarrow> (datetime \<times> discovery_op) list \<Rightarrow> 'w \<Rightarrow> (discovery_answer list \<times> 'w) option" where
  "db_history S [] w = Some ([], w)"
| "db_history S ((now, x) # xs) w =
     (case db_exec S now x w of
        (Inl e, w') \<Rightarrow> None
      | (Inr a, w') \<Rightarrow> map_option (apfst ((#) a)) (db_history S xs w'))"

fun mem_history ::
  "(discovery_content \<Rightarrow> discovery_op \<Rightarrow> discovery_op) \<Rightarrow> (datetime \<times> discovery_op) list \<Rightarrow> mem_discovery
     \<Rightarrow> (discovery_answer list \<times> mem_discovery) option" where
  "mem_history f [] s = Some ([], s)"
| "mem_history f ((now, x) # xs) s =
     (case mem_exec now (f (mem_content s) x) s of
        (Inl e, s') \<Rightarrow> None
      | (Inr a, s') \<Rightarrow> map_option (apfst ((#) a)) (mem_history f xs s'))"

definition created_by :: "datetime \<Rightarrow> mem_discovery \<Rightarrow> bool" where
  "created_by t s \<longleftrightarrow> (\<forall>k e. map_of (md_store s) k = Some e \<longrightarrow> db_created e \<le> t)"

lemma created_by_exec:
  assumes "created_by t s" and "t \<le> now"
  shows "created_by now (snd (mem_exec now x s))"
  using assms
  by (cases x) (force simp: created_by_def mem_post_def mem_put_def mem_patch_def mem_delete_def Let_def
      split: if_splits option.splits)+

lemma exec_sim:
  assumes D: "backend_db_lawful content base S" and m: "mirrors (content w) s"
    and "db_exec S now x w = (Inr a, w')" and "created_by t s" and "t \<le> now" and now: "whole_micros now"
  shows "\<exists>s'. mem_exec now (db_op (mem_content s) x) s = (Inr a, s') \<and> mirrors (content w') s'"
proof (cases x)
  case (DPost b)
  with assms(3) obtain y where "db_post S now b w = (Inr y, w')" "a = Posted y"
    by (cases "db_post S now b w") (auto simp: result_simps)
  with post_sim [OF D m now] DPost show ?thesis by fastforce
next
  case (DPut b)
  with assms(3) obtain y where y: "db_put S now b w = (Inr y, w')" "a = Did y"
    by (cases "db_put S now b w") (auto simp: result_simps)
  have "br_created_at r \<noteq> future_timestamp now" if "bt_rows (content w) (pk_serialize (public_key b)) = Some r" for r
    using mirrorsD(4) [OF m, of "public_key b"] that assms(4,5)
    by (force simp: created_by_def future_timestamp_def entry_of_def)
  from put_sim [OF D m now y(1) this] DPut y(2) show ?thesis by fastforce
next
  case (DPatch p)
  with assms(3) obtain y where "db_patch S now p w = (Inr y, w')" "a = Did y"
    by (cases "db_patch S now p w") (auto simp: result_simps)
  with patch_sim [OF D m now] DPatch show ?thesis by (fastforce simp: narrow_patch_def)
next
  case (DDelete k)
  with assms(3) obtain y where "db_delete S k w = (Inr y, w')" "a = Did y"
    by (cases "db_delete S k w") (auto simp: result_simps)
  with delete_sim [OF D m] DDelete show ?thesis by fastforce
qed

lemma history_sim:
  assumes D: "backend_db_lawful content base S"
  shows "mirrors (content w) s \<Longrightarrow> created_by t s \<Longrightarrow> sorted (t # map fst xs) \<Longrightarrow> \<forall>x \<in> set xs. whole_micros (fst x) \<Longrightarrow> db_history S xs w = Some (as, w') \<Longrightarrow>
    \<exists>s'. mem_history db_op xs s = Some (as, s') \<and> mirrors (content w') s' \<and> created_by (last (t # map fst xs)) s'"
proof (induction xs arbitrary: w s t as)
  case Nil
  then show ?case by auto
next
  case (Cons y xs)
  obtain now x where y: "y = (now, x)" by fastforce
  with Cons.prems(5) obtain a w1 bs where step: "db_exec S now x w = (Inr a, w1)" "db_history S xs w1 = Some (bs, w')"
      "as = a # bs"
    by (auto split: prod.splits sum.splits)
  from Cons.prems(3) y have t: "t \<le> now" "sorted (now # map fst xs)" by auto
  from exec_sim [OF D Cons.prems(1) step(1) Cons.prems(2) t(1)] Cons.prems(4) y obtain s1 where
    s1: "mem_exec now (db_op (mem_content s) x) s = (Inr a, s1)" "mirrors (content w1) s1" by auto
  with created_by_exec [OF Cons.prems(2) t(1), of "db_op (mem_content s) x"] have "created_by now s1" by simp
  from Cons.IH [OF s1(2) this t(2) _ step(2)] Cons.prems(4) s1(1) step(3) y show ?case by auto
qed

text \<open>The tables after the migration: no backend, and the entity tag zero.\<close>

definition migrated_backends :: backend_tables where
  "migrated_backends = \<lparr>bt_rows = Map.empty, bt_etags = [discovery_backend_get_all_etag_id \<mapsto> 0]\<rparr>"

lemma mirrors_new: "mirrors migrated_backends mem_discovery_new"
  by (simp add: mirrors_def migrated_backends_def mem_inv_new) (simp add: mem_discovery_new_def)

text \<open>Operations of which the database store loses nothing.\<close>

fun portable :: "discovery_content \<Rightarrow> discovery_op \<Rightarrow> bool" where
  "portable m (DPost b) \<longleftrightarrow> unat (weight (backend b)) < 2 ^ 31"
| "portable m (DPut b) \<longleftrightarrow> unat (weight (backend b)) < 2 ^ 31
     \<and> (\<forall>old. m (public_key b) = Some old \<longrightarrow> partitions (backend old) = partitions (backend b))"
| "portable m (DPatch p) \<longleftrightarrow> (\<forall>x. patch_weight (patch_backend p) = Some x \<longrightarrow> unat x < 2 ^ 31)"
| "portable m (DDelete k) \<longleftrightarrow> True"

lemma portable_db_op: "portable m x \<Longrightarrow> db_op m x = x"
proof (cases x)
  case (DPatch p)
  then show "portable m x \<Longrightarrow> db_op m x = x"
    by (cases "patch_weight (patch_backend p)") (simp_all add: narrow_def i32_round_trip)
qed (auto simp: stored_as_def narrow_def i32_round_trip split: option.splits)

text \<open>The history of the memory store on its own, as long as its operations are portable.\<close>

fun portable_history :: "(datetime \<times> discovery_op) list \<Rightarrow> mem_discovery \<Rightarrow> bool" where
  "portable_history [] s \<longleftrightarrow> True"
| "portable_history ((now, x) # xs) s \<longleftrightarrow>
     portable (mem_content s) x \<and> portable_history xs (snd (mem_exec now x s))"

lemma mem_history_portable: "portable_history xs s \<Longrightarrow> mem_history db_op xs s = mem_history (\<lambda>m x. x) xs s"
  by (induction xs s rule: portable_history.induct) (auto simp: portable_db_op split: prod.split sum.split)

lemma mem_exec_run: "mem_exec now x s = (r, s') \<Longrightarrow> s' = mem_run (now, x) s"
  by (cases x) (auto simp: apfst_def map_prod_def split: prod.splits)

lemma mem_history_run: "mem_history (\<lambda>m x. x) xs s = Some (as, s') \<Longrightarrow> s' = fold mem_run xs s"
proof (induction xs arbitrary: s as)
  case (Cons y xs)
  then show ?case
    by (cases y) (auto split: prod.splits sum.splits dest!: mem_exec_run)
qed simp

section \<open>A database for the witnesses\<close>

text \<open>Two association lists; every statement succeeds unless it violates a constraint.\<close>

record table_world =
  tw_rows :: "(u8 list \<times> backend_row) list"
  tw_etags :: "(i32 \<times> i64) list"

definition table_content :: "table_world \<Rightarrow> backend_tables" where
  "table_content w = \<lparr>bt_rows = map_of (tw_rows w), bt_etags = map_of (tw_etags w)\<rparr>"

fun statement_row :: "backend_statement \<Rightarrow> u8 list option" where
  "statement_row (InsertBackend r) = Some (br_id r)"
| "statement_row (UpsertBackend r cols t) = Some (br_id r)"
| "statement_row (UpdateBackend i as) = Some i"
| "statement_row (DeleteBackend i) = Some i"
| "statement_row (IncrementEtag i) = None"

fun statement_etag :: "backend_statement \<Rightarrow> i32 option" where
  "statement_etag (IncrementEtag i) = Some i"
| "statement_etag _ = None"

definition table_exec :: "backend_statement \<Rightarrow> table_world \<Rightarrow> (db_err + nat) \<times> table_world" where
  "table_exec st w =
     (case backend_effect st (table_content w) of
        Inl r \<Rightarrow> (Inl (ExecDatabase \<lparr>dbe_unique = (r = UniqueRefusal), dbe_foreign_key = False, dbe_code = None\<rparr>), w)
      | Inr (n, c) \<Rightarrow>
          (Inr n,
           w\<lparr>tw_rows := (case statement_row st of None \<Rightarrow> tw_rows w | Some i \<Rightarrow> put_entry i (bt_rows c i) (tw_rows w)),
             tw_etags := (case statement_etag st of None \<Rightarrow> tw_etags w | Some i \<Rightarrow> put_entry i (bt_etags c i) (tw_etags w))\<rparr>))"

definition table_store :: "table_world db_discovery" where
  "table_store =
     \<lparr>dd_db = \<lparr>sql_exec = table_exec, sql_exec_txn = table_exec, sql_begin = Pair (Inr ()), sql_commit = Pair (Inr ()),
        find_backend = (\<lambda>i w. Inr (map_of (tw_rows w) i)),
        find_backends_ordered = (\<lambda>_ w. Inr (sort_key backend_order (map snd (AList.clearjunk (tw_rows w))))),
        find_timestamps = (\<lambda>i w. Inr (map_option (\<lambda>r. (br_created_at r, br_updated_at r)) (map_of (tw_rows w) i))),
        find_etag = (\<lambda>i w. Inr (map_of (tw_etags w) i))\<rparr>,
      dd_from_slice = Inr \<circ> PublicKey, dd_show_key = (\<lambda>_. []), dd_show_err = (\<lambda>_. [])\<rparr>"

definition table_migrated :: table_world where
  "table_migrated = \<lparr>tw_rows = [], tw_etags = [(discovery_backend_get_all_etag_id, 0)]\<rparr>"

lemma table_exec_content:
  "table_exec st w = (Inr n, w') \<Longrightarrow> backend_effect st (table_content w) = Inr (n, table_content w')"
  by (cases st) (auto simp: table_exec_def table_content_def fun_eq_iff split: sum.splits option.splits if_splits)

lemma table_store_lawful: "backend_db_lawful table_content table_content table_store"
proof -
  have "sql_lawful backend_fits backend_effect table_content table_content (dd_db table_store)"
    using table_exec_content
    by (auto simp: sql_lawful_def table_store_def table_exec_def split: sum.splits)
  then show ?thesis
    by (simp add: backend_db_lawful_def) (simp add: table_store_def table_content_def lists_rows_all)
qed

section \<open>Properties\<close>

text \<open>A clock that does not run backwards, read in whole microseconds.\<close>

definition clocked :: "datetime list \<Rightarrow> bool" where
  "clocked ts \<longleftrightarrow> sorted ts \<and> (\<forall>t \<in> set ts. whole_micros t)"

lemma db_history_mirrors:
  assumes "backend_db_lawful content base S" and "content w0 = migrated_backends"
    and "clocked (map fst xs)" and "db_history S xs w0 = Some (as, w)"
  shows "\<exists>s. mem_history db_op xs mem_discovery_new = Some (as, s) \<and> mirrors (content w) s
    \<and> ((\<forall>x \<in> set xs. fst x \<le> now) \<longrightarrow> created_by now s)"
proof (cases xs)
  case Nil
  with assms(2,4) mirrors_new show ?thesis by (simp add: created_by_def mem_discovery_new_def)
next
  case (Cons x ys)
  have "created_by (fst x) mem_discovery_new" by (simp add: created_by_def mem_discovery_new_def)
  moreover have "sorted (fst x # map fst xs)" using assms(3) Cons by (simp add: clocked_def)
  ultimately obtain s where s: "mem_history db_op xs mem_discovery_new = Some (as, s)" "mirrors (content w) s"
      "created_by (last (fst x # map fst xs)) s"
    using history_sim [OF assms(1) _ _ _ _ assms(4)] mirrors_new assms(2,3) by (metis clocked_def in_set_conv_nth length_map nth_map nth_mem)
  moreover have "last (fst x # map fst xs) \<in> fst ` set xs" using Cons by (simp add: last_map)
  ultimately show ?thesis by (fastforce simp: created_by_def)
qed

text \<open>
  Property C19. The database store refines the memory store: after any history of operations that a
  lawful database carried out under a clock that does not run backwards, the answers were those of
  the memory store, and whatever \<open>get\<close> and \<open>get_all\<close> now answer, with or without an entity tag, is
  what the memory store answers after the same history, in which every operation is read the way
  the database store understands it: a weight is cut to its low 32 bits and a put keeps the
  partitions of an existing backend.
\<close>

theorem db_discovery_refines:
  assumes "backend_db_lawful content base S" and "content w0 = migrated_backends"
    and "clocked (map fst xs)" and "db_history S xs w0 = Some (as, w)"
  shows "\<exists>s. mem_history db_op xs mem_discovery_new = Some (as, s)
    \<and> (\<forall>k r. db_get S w k = Inr r \<longrightarrow> mem_get s k = Inr r)
    \<and> (\<forall>q d. db_get_all S w q = Inr d \<longrightarrow> mem_get_all s q = Inr d)"
  using db_history_mirrors [OF assms] get_sim [OF assms(1)] get_all_sim [OF assms(1)] by blast

lemmas table_run_simps =
  table_store_def table_migrated_def table_exec_def table_content_def active_model_def bump_etag_if_def
  etag_error_def transaction_def affected_def patch_assignments_def sample_node_def
  Let_def discovery_backend_get_all_etag_id_def db_post_def db_put_def db_patch_def db_delete_def

theorem db_discovery_refines_witness:
  "\<exists>s. mem_history db_op [(5000, DPost (sample_node 2)), (6000, DPost (sample_node 2)), (7000, DDelete (PublicKey [2]))]
     mem_discovery_new = Some ([Posted (Some (PublicKey [2])), Posted None, Did True], s)"
proof -
  let ?xs = "[(5000, DPost (sample_node 2)), (6000, DPost (sample_node 2)), (7000, DDelete (PublicKey [2]))] :: (datetime \<times> discovery_op) list"
  have "db_history table_store ?xs table_migrated =
      Some ([Posted (Some (PublicKey [2])), Posted None, Did True], \<lparr>tw_rows = [], tw_etags = [(1, 2)]\<rparr>)"
    by (simp add: table_run_simps)
  moreover have "table_content table_migrated = migrated_backends"
    by (simp add: table_content_def table_migrated_def migrated_backends_def)
  ultimately show ?thesis
    using db_discovery_refines [OF table_store_lawful, of table_migrated ?xs] by (simp add: clocked_def whole_micros_def) blast
qed

text \<open>
  Property C24. The two discovery stores cannot be told apart by operations whose weights are below
  \<open>2 ^ 31\<close> and whose puts keep the partitions of an existing backend: the database store has given
  the answers of the memory store, and reads what it reads, entity tags and order included.
\<close>

theorem db_agrees_with_memory:
  assumes "backend_db_lawful content base S" and "content w0 = migrated_backends"
    and "clocked (map fst xs)" and "db_history S xs w0 = Some (as, w)"
    and "portable_history xs mem_discovery_new" and "s = fold mem_run xs mem_discovery_new"
  shows "mem_history (\<lambda>m x. x) xs mem_discovery_new = Some (as, s)
    \<and> (\<forall>k r. db_get S w k = Inr r \<longrightarrow> mem_get s k = Inr r)
    \<and> (\<forall>q d. db_get_all S w q = Inr d \<longrightarrow> mem_get_all s q = Inr d)"
proof -
  obtain s1 where s1: "mem_history (\<lambda>m x. x) xs mem_discovery_new = Some (as, s1)" "mirrors (content w) s1"
    using db_history_mirrors [OF assms(1-4)] mem_history_portable [OF assms(5)] by auto
  then have "s1 = s" using mem_history_run assms(6) by simp
  with s1 get_sim [OF assms(1)] get_all_sim [OF assms(1)] show ?thesis by blast
qed

theorem db_agrees_with_memory_witness:
  "mem_get_all (fold mem_run [(5000, DPost (sample_node 2)), (5000, DPut (sample_node 1))] mem_discovery_new) None
     = Inr \<lparr>etag = 2, backends = Some [sample_node 1, sample_node 2]\<rparr>"
proof -
  let ?xs = "[(5000, DPost (sample_node 2)), (5000, DPut (sample_node 1))] :: (datetime \<times> discovery_op) list"
  have "i32_as_usize 1 = 1" by (simp add: i32_as_usize_def)
  moreover have "usize_as_i32 1 = 1" by (simp add: usize_as_i32_def)
  moreover define row where "row = (\<lambda>i. \<lparr>br_partitions = {''p''}, br_id = [i], br_name = None, br_weight = 1, br_enabled = True,
      br_implementation = [], br_created_at = 5000, br_updated_at = 5000\<rparr> :: backend_row)"
  ultimately have "db_history table_store ?xs table_migrated = Some ([Posted (Some (PublicKey [2])), Did True],
      \<lparr>tw_rows = [([2], row 2), ([1], row 1)], tw_etags = [(1, 2)]\<rparr>)"
    by (simp add: table_run_simps)
  moreover have "db_get_all table_store \<lparr>tw_rows = [([2], row 2), ([1], row 1)], tw_etags = [(1, 2)]\<rparr> None
      = Inr \<lparr>etag = 2, backends = Some [sample_node 1, sample_node 2]\<rparr>"
    using \<open>i32_as_usize 1 = 1\<close>
    by (simp add: row_def table_run_simps db_get_all_def model_to_domain_def backend_order_def)
  ultimately have eval: "\<exists>as w. db_history table_store ?xs table_migrated = Some (as, w)
      \<and> db_get_all table_store w None = Inr \<lparr>etag = 2, backends = Some [sample_node 1, sample_node 2]\<rparr>"
    by blast
  have migrated: "table_content table_migrated = migrated_backends"
    by (simp add: table_content_def table_migrated_def migrated_backends_def)
  have "clocked (map fst ?xs)" and "portable_history ?xs mem_discovery_new"
    by (simp_all add: clocked_def whole_micros_def sample_node_def mem_discovery_new_def mem_content_def mem_post_def)
  with eval db_agrees_with_memory [OF table_store_lawful migrated] show ?thesis by blast
qed

text \<open>
  Property C21. A put over an existing backend of the database store does not change its partitions:
  whatever it is asked to store, \<open>get\<close> finds the partitions it found before. The memory store
  replaces them.
\<close>

theorem db_put_keeps_partitions:
  assumes "backend_db_lawful content base S" and "content w0 = migrated_backends"
    and "clocked (map fst (xs @ [(now, DPut b)]))" and "db_history S xs w0 = Some (as, w)"
    and "db_get S w (public_key b) = Inr (Some old)" and "db_put S now b w = (Inr ans, w')"
    and "db_get S w' (public_key b) = Inr r"
  shows "\<not> ans \<and> map_option (partitions \<circ> backend) r = Some (partitions (backend old))
    \<and> (\<forall>s. mem_get (snd (mem_put now b s)) (public_key b) = Inr (Some b))"
proof -
  have sorted: "clocked (map fst xs)" and last: "\<forall>x \<in> set xs. fst x \<le> now" and now: "whole_micros now"
    using assms(3) by (auto simp: clocked_def sorted_append)
  from db_history_mirrors [OF assms(1,2) sorted assms(4)] last
  obtain s where s: "mirrors (content w) s" "created_by now s" by blast
  have "db_exec S now (DPut b) w = (Inr (Did ans), w')" using assms(6) by simp
  from exec_sim [OF assms(1) s(1) this s(2) order_refl now] obtain s' where
    s': "mem_put now (stored_as (mem_content s) b) s = (Inr ans, s')" "mirrors (content w') s'"
    by (cases "mem_put now (stored_as (mem_content s) b) s") (auto simp: result_simps)
  have "mem_get s (public_key b) = Inr (Some old)" by (rule get_sim [OF assms(1) s(1) assms(5)])
  then have old: "mem_content s (public_key b) = Some old" by (simp add: mem_get_def mem_content_apply)
  have "mem_get s' (public_key b) = Inr r" by (rule get_sim [OF assms(1) s'(2) assms(7)])
  moreover have "mem_get s' (public_key b) = Inr (Some (stored_as (mem_content s) b))"
    using mem.get_after_put [OF mirrorsD(1) [OF s(1)] s'(1)] by simp
  moreover have "\<not> ans"
    using s'(1) old mem.put_law [OF mirrorsD(1) [OF s(1)] s'(1)] by simp
  moreover have "mem_get (snd (mem_put now b s)) (public_key b) = Inr (Some b)" for s
    by (simp add: mem_get_def mem_put_def Let_def split: option.split)
  moreover have "partitions (backend (stored_as (mem_content s) b)) = partitions (backend old)"
    using old by (simp add: stored_as_def)
  ultimately show ?thesis by fastforce
qed

theorem db_put_keeps_partitions_witness:
  "\<exists>w w'. db_get table_store w (PublicKey [1]) = Inr (Some (sample_node 1))
    \<and> db_put table_store 6000 ((sample_node 1)\<lparr>backend := (backend (sample_node 1))\<lparr>partitions := {''q''}\<rparr>\<rparr>) w = (Inr False, w')
    \<and> map_ok (map_option (partitions \<circ> backend)) (db_get table_store w' (PublicKey [1])) = Inr (Some {''p''})"
proof -
  let ?b = "(sample_node 1)\<lparr>backend := (backend (sample_node 1))\<lparr>partitions := {''q''}\<rparr>\<rparr>"
  let ?xs = "[(5000, DPost (sample_node 1))] :: (datetime \<times> discovery_op) list"
  have one: "i32_as_usize 1 = 1" "usize_as_i32 1 = 1" by (simp_all add: i32_as_usize_def usize_as_i32_def)
  have migrated: "table_content table_migrated = migrated_backends"
    by (simp add: table_content_def table_migrated_def migrated_backends_def)
  define row where "row = (\<lambda>t. \<lparr>br_partitions = {''p''}, br_id = [1], br_name = None, br_weight = 1, br_enabled = True,
      br_implementation = [], br_created_at = 5000, br_updated_at = t\<rparr> :: backend_row)"
  define w where "w = \<lparr>tw_rows = [([1], row 5000)], tw_etags = [(1, 1)]\<rparr>"
  define w' where "w' = \<lparr>tw_rows = [([1], row 1000006000)], tw_etags = [(1, 2)]\<rparr>"
  have run: "db_history table_store ?xs table_migrated = Some ([Posted (Some (PublicKey [1]))], w)"
    using one by (simp add: table_run_simps w_def row_def)
  moreover have get: "db_get table_store w (PublicKey [1]) = Inr (Some (sample_node 1))"
    using one by (simp add: table_run_simps db_get_def model_to_domain_def w_def row_def)
  moreover have put: "db_put table_store 6000 ?b w = (Inr False, w')"
    using one by (simp add: table_run_simps w_def w'_def row_def future_timestamp_def)
  moreover obtain r where r: "db_get table_store w' (PublicKey [1]) = Inr r"
    by (simp add: table_store_def db_get_def model_to_domain_def w'_def row_def)
  moreover have "public_key ?b = PublicKey [1]" "partitions (backend (sample_node 1)) = {''p''}"
      "clocked (map fst (?xs @ [(6000, DPut ?b)]))"
    by (simp_all add: sample_node_def clocked_def whole_micros_def)
  ultimately have "map_option (partitions \<circ> backend) r = Some {''p''}"
    using db_put_keeps_partitions [OF table_store_lawful migrated _ run, of 6000 ?b "sample_node 1" False w' r] by metis
  then have "map_ok (map_option (partitions \<circ> backend)) (db_get table_store w' (PublicKey [1])) = Inr (Some {''p''})"
    using r by simp
  with get put show ?thesis by blast
qed

end
