(* ===== verification/DiscoveryHandlers.thy ===== *)
theory DiscoveryHandlers
  imports HttpTypes DiscoveryJson DiscoveryContract DiscoveryMemory
begin

text \<open>
  \<open>service/src/discovery\<close>: the request handlers over any discovery store, their routes and the
  token validation in front of them.
\<close>

section \<open>The store a service runs on (state.rs)\<close>

record ('s, 'e) discovery_ops =
  do_get :: "'s \<Rightarrow> public_key \<Rightarrow> 'e + discovery_backend option"
  do_get_all :: "'s \<Rightarrow> u64 option \<Rightarrow> 'e + discovery_backends"
  do_post :: "datetime \<Rightarrow> discovery_backend \<Rightarrow> 's \<Rightarrow> ('e + public_key option) \<times> 's"
  do_put :: "datetime \<Rightarrow> discovery_backend \<Rightarrow> 's \<Rightarrow> ('e + bool) \<times> 's"
  do_patch :: "discovery_backend_patch \<Rightarrow> 's \<Rightarrow> ('e + bool) \<times> 's"
  do_delete :: "public_key \<Rightarrow> 's \<Rightarrow> ('e + bool) \<times> 's"
  do_esource :: "'e \<Rightarrow> service_error_source"

definition mem_discovery_ops :: "(mem_discovery, discovery_store_error) discovery_ops" where
  "mem_discovery_ops =
     \<lparr>do_get = mem_get, do_get_all = mem_get_all, do_post = mem_post, do_put = mem_put, do_patch = mem_patch,
      do_delete = mem_delete, do_esource = dse_esource\<rparr>"

record hex_lib =
  hx_encode :: "u8 list \<Rightarrow> string"
  hx_decode :: "string \<Rightarrow> string + u8 list"

section \<open>Handlers (handler.rs)\<close>

definition h_get_backend ::
  "('s, 'e) discovery_ops \<Rightarrow> json_lib \<Rightarrow> string \<Rightarrow> 's \<Rightarrow> crud_error + discovery_backend json_crud_response" where
  "h_get_backend S L key_str s =
     and_then (map_err (\<lambda>_. crud_bad) (jl_parse_key L key_str)) (\<lambda>k.
     and_then (map_err (crud_from_service_error (do_esource S)) (do_get S s k)) (\<lambda>bo.
     map_ok (\<lambda>b. crud_ok b no_cache_headers) (ok_or crud_not_found bo)))"

definition h_get_backends ::
  "('s, 'e) discovery_ops \<Rightarrow> hex_lib \<Rightarrow> header_map \<Rightarrow> 's
     \<Rightarrow> crud_error + discovery_backend list json_crud_response" where
  "h_get_backends S X headers s =
     and_then
       (opt_transpose
          (map_option
             (\<lambda>h. and_then (map_err (\<lambda>_. crud_bad) (header_to_str h))
                (\<lambda>etag_str. map_err (\<lambda>_. crud_bad) (etag_from_str (hx_decode X) etag_str)))
             (header_get ''if-none-match'' headers)))
       (\<lambda>etag_request.
     and_then (map_err (crud_from_service_error (do_esource S)) (do_get_all S s etag_request)) (\<lambda>ds.
     and_then (map_err crud_from_invalid_header (header_value (etag_string (hx_encode X) ds))) (\<lambda>etag_value.
       let headers = header_insert ''etag'' etag_value no_cache_headers
       in case backends ds of
            None \<Rightarrow> Inr (crud_not_modified headers)
          | Some bs \<Rightarrow> Inr (crud_ok bs headers))))"

definition h_post_backend ::
  "('s, 'e) discovery_ops \<Rightarrow> json_lib \<Rightarrow> datetime \<Rightarrow> discovery_backend \<Rightarrow> 's
     \<Rightarrow> (crud_error + unit json_crud_response) \<times> 's" where
  "h_post_backend S L now b s =
     (let location = jl_show_key L (public_key b)
      in case do_post S now b s of
           (Inl e, s') \<Rightarrow> (Inl (crud_from_service_error (do_esource S) e), s')
         | (Inr result, s') \<Rightarrow>
             (and_then (map_err crud_from_invalid_header (header_value location)) (\<lambda>location.
                case result of
                  Some _ \<Rightarrow> Inr (crud_created_location location)
                | None \<Rightarrow> Inl (crud_conflict location)), s'))"

definition h_put_backend ::
  "('s, 'e) discovery_ops \<Rightarrow> json_lib \<Rightarrow> datetime \<Rightarrow> string \<Rightarrow> discovery_backend_sparse \<Rightarrow> 's
     \<Rightarrow> (crud_error + unit json_crud_response) \<times> 's" where
  "h_put_backend S L now key_str b s =
     (case map_err (\<lambda>_. crud_bad) (jl_parse_key L key_str) of
        Inl e \<Rightarrow> (Inl e, s)
      | Inr k \<Rightarrow>
          (case do_put S now \<lparr>public_key = k, backend = b\<rparr> s of
             (r, s') \<Rightarrow>
               (map_ok (\<lambda>was_created. if was_created then crud_created else crud_no_content)
                  (map_err (crud_from_service_error (do_esource S)) r), s')))"

definition h_patch_backend ::
  "('s, 'e) discovery_ops \<Rightarrow> json_lib \<Rightarrow> string \<Rightarrow> discovery_backend_patch_sparse \<Rightarrow> 's
     \<Rightarrow> (crud_error + unit json_crud_response) \<times> 's" where
  "h_patch_backend S L key_str p s =
     (case map_err (\<lambda>_. crud_bad) (jl_parse_key L key_str) of
        Inl e \<Rightarrow> (Inl e, s)
      | Inr k \<Rightarrow>
          (case do_patch S \<lparr>patch_public_key = k, patch_backend = p\<rparr> s of
             (r, s') \<Rightarrow>
               (and_then (map_err (crud_from_service_error (do_esource S)) r)
                  (\<lambda>patched. if patched then Inr crud_no_content else Inl crud_not_found), s')))"

definition h_delete_backend ::
  "('s, 'e) discovery_ops \<Rightarrow> json_lib \<Rightarrow> string \<Rightarrow> 's \<Rightarrow> (crud_error + unit json_crud_response) \<times> 's" where
  "h_delete_backend S L key_str s =
     (case map_err (\<lambda>_. crud_bad) (jl_parse_key L key_str) of
        Inl e \<Rightarrow> (Inl e, s)
      | Inr k \<Rightarrow>
          (case do_delete S k s of
             (r, s') \<Rightarrow>
               (and_then (map_err (crud_from_service_error (do_esource S)) r)
                  (\<lambda>deleted. if deleted then Inr crud_no_content else Inl crud_not_found), s')))"

lemmas discovery_handler_defs [handler_defs] =
  h_get_backend_def h_get_backends_def h_post_backend_def h_put_backend_def h_patch_backend_def
  h_delete_backend_def

section \<open>Routes (service.rs)\<close>

text \<open>
  The \<open>Json\<close> extractor rejects a request without a JSON body with 415 and one whose value has
  the wrong shape with 422, before the handler runs.
\<close>

definition with_json_body ::
  "(json \<Rightarrow> json_error + 'a) \<Rightarrow> json http_request \<Rightarrow> ('a \<Rightarrow> 's \<Rightarrow> json http_response \<times> 's) \<Rightarrow> 's
     \<Rightarrow> json http_response \<times> 's" where
  "with_json_body rd req k s =
     (case rq_body req of
        None \<Rightarrow> (status_response 415, s)
      | Some v \<Rightarrow> (case rd v of Inl _ \<Rightarrow> (status_response 422, s) | Inr x \<Rightarrow> k x s))"

definition unit_to_json :: "unit \<Rightarrow> json_error + json" where
  "unit_to_json _ = Inr JNull"

record ('s, 'e, 'k) discovery_service =
  dv_ops :: "('s, 'e) discovery_ops"
  dv_json :: json_lib
  dv_hex :: hex_lib
  dv_auth_authority :: 'k
  dv_decode :: "'k \<Rightarrow> string \<Rightarrow> string \<Rightarrow> string + claims"  \<comment> \<open>\<open>jsonwebtoken::decode\<close> with ES256 and the audience\<close>
  dv_bearer :: "header_map \<Rightarrow> string option"  \<comment> \<open>\<open>TypedHeader<Authorization<Bearer>>\<close>\<close>
  dv_unrouted :: "json http_request \<Rightarrow> json http_response"  \<comment> \<open>the answer of axum where no route matches\<close>

definition discovery_routes ::
  "('s, 'e, 'k) discovery_service \<Rightarrow> datetime \<Rightarrow> json http_request \<Rightarrow> 's \<Rightarrow> json http_response \<times> 's" where
  "discovery_routes V now req s =
     (let S = dv_ops V; L = dv_json V
      in case (rq_path req, rq_method req) of
           ([_, k], GET) \<Rightarrow> (crud_answer (backend_to_json L) (h_get_backend S L k s), s)
         | ([_, k], PUT) \<Rightarrow>
             with_json_body (sparse_from_json L) req
               (\<lambda>b s. apfst (crud_answer unit_to_json) (h_put_backend S L now k b s)) s
         | ([_, k], PATCH) \<Rightarrow>
             with_json_body patch_from_json req
               (\<lambda>p s. apfst (crud_answer unit_to_json) (h_patch_backend S L k p s)) s
         | ([_, k], DELETE) \<Rightarrow> apfst (crud_answer unit_to_json) (h_delete_backend S L k s)
         | ([_], GET) \<Rightarrow> (crud_answer (backends_to_json L) (h_get_backends S (dv_hex V) (rq_headers req) s), s)
         | ([_], POST) \<Rightarrow>
             with_json_body (backend_from_json L) req
               (\<lambda>b s. apfst (crud_answer unit_to_json) (h_post_backend S L now b s)) s
         | _ \<Rightarrow> (dv_unrouted V req, s))"

definition discovery_router ::
  "('s, 'e, 'k) discovery_service \<Rightarrow> datetime \<Rightarrow> json http_request \<Rightarrow> 's \<Rightarrow> json http_response \<times> 's" where
  "discovery_router V now req s =
     (if rq_path req = [''health''] then
        (if rq_method req = GET then (status_response 200, s) else (dv_unrouted V req, s))
      else if rq_path req = [''discovery''] \<or> (\<exists>k. rq_path req = [''discovery'', k] \<and> k \<noteq> [])
      then bearer_auth_call (dv_bearer V)
             (token_validator (dv_decode V) (dv_auth_authority V) ''discovery'') ''discovery''
             (discovery_routes V now) req s
      else (dv_unrouted V req, s))"

end
