(* ===== verification/OfferJson.thy ===== *)
theory OfferJson
  imports DiscoveryJson
begin

text \<open>
  The JSON form of the records of \<open>service-api/src/offer.rs\<close>: the derived serde instances with
  their camel case names, skipped and flattened fields, externally tagged enums and the module
  \<open>base64_bytes\<close>. The text forms of ids, instants, addresses and base64 are arguments.
\<close>

record offer_lib =
  ol_show_uuid :: "uuid \<Rightarrow> string"
  ol_parse_uuid :: "string \<Rightarrow> uuid option"
  ol_show_time :: "datetime \<Rightarrow> string"
  ol_parse_time :: "string \<Rightarrow> string + datetime"
  ol_b64_encode :: "u8 list \<Rightarrow> string"
  ol_b64_decode :: "string \<Rightarrow> string + u8 list"
  ol_parse_email :: "string \<Rightarrow> string + email_address"

section \<open>Field types\<close>

definition read_uuid :: "offer_lib \<Rightarrow> json \<Rightarrow> json_error + uuid" where
  "read_uuid L v = and_then (read_string v) (\<lambda>s. ok_or (CustomError ''uuid'') (ol_parse_uuid L s))"

definition read_time :: "offer_lib \<Rightarrow> json \<Rightarrow> json_error + datetime" where
  "read_time L v = and_then (read_string v) (\<lambda>s. map_err CustomError (ol_parse_time L s))"

definition read_email :: "offer_lib \<Rightarrow> json \<Rightarrow> json_error + email_address" where
  "read_email L v = and_then (read_string v) (\<lambda>s. map_err CustomError (ol_parse_email L s))"

definition base64_serialize :: "offer_lib \<Rightarrow> u8 list \<Rightarrow> json" where
  "base64_serialize L bs = JStr (ol_b64_encode L bs)"

definition base64_deserialize :: "offer_lib \<Rightarrow> json \<Rightarrow> json_error + u8 list" where
  "base64_deserialize L v = and_then (read_string v) (\<lambda>s. map_err CustomError (ol_b64_decode L s))"

text \<open>An externally tagged enum is an object with the name of the variant as its only field.\<close>

fun read_variant :: "json \<Rightarrow> json_error + string \<times> json" where
  "read_variant (JObj [(k, v)]) = Inr (k, v)"
| "read_variant _ = Inl (InvalidType ''enum'')"

definition image_to_json :: "offer_lib \<Rightarrow> offer_metadata_image \<Rightarrow> json" where
  "image_to_json L img =
     (case img of
        Png bs \<Rightarrow> JObj [(''png'', base64_serialize L bs)]
      | Jpeg bs \<Rightarrow> JObj [(''jpeg'', base64_serialize L bs)])"

definition image_from_json :: "offer_lib \<Rightarrow> json \<Rightarrow> json_error + offer_metadata_image" where
  "image_from_json L v =
     and_then (read_variant v) (\<lambda>(k, x).
       if k = ''png'' then map_ok Png (base64_deserialize L x)
       else if k = ''jpeg'' then map_ok Jpeg (base64_deserialize L x)
       else Inl (InvalidType ''variant''))"

definition identifier_to_json :: "offer_metadata_identifier \<Rightarrow> json" where
  "identifier_to_json i =
     (case i of
        IdText e \<Rightarrow> JObj [(''text'', JStr (email e))]
      | IdEmail e \<Rightarrow> JObj [(''email'', JStr (email e))])"

definition identifier_from_json :: "offer_lib \<Rightarrow> json \<Rightarrow> json_error + offer_metadata_identifier" where
  "identifier_from_json L v =
     and_then (read_variant v) (\<lambda>(k, x).
       if k = ''text'' then map_ok IdText (read_email L x)
       else if k = ''email'' then map_ok IdEmail (read_email L x)
       else Inl (InvalidType ''variant''))"

section \<open>Metadata\<close>

definition metadata_entries :: "offer_lib \<Rightarrow> offer_metadata_sparse \<Rightarrow> (string \<times> json) list" where
  "metadata_entries L m =
     [(''text'', JStr (md_text m))] @ opt_entry ''longText'' JStr (md_long_text m)
       @ opt_entry ''image'' (image_to_json L) (md_image m)
       @ opt_entry ''identifier'' identifier_to_json (md_identifier m)"

definition metadata_names :: "string list" where
  "metadata_names = [''text'', ''longText'', ''image'', ''identifier'']"

definition metadata_of_fields :: "offer_lib \<Rightarrow> (string \<times> json) list \<Rightarrow> json_error + offer_metadata_sparse" where
  "metadata_of_fields L fs =
     and_then (req_field read_string ''text'' fs) (\<lambda>t.
     and_then (opt_field read_string ''longText'' fs) (\<lambda>lt.
     and_then (opt_field (image_from_json L) ''image'' fs) (\<lambda>img.
     map_ok (\<lambda>i. \<lparr>md_text = t, md_long_text = lt, md_image = img, md_identifier = i\<rparr>)
       (opt_field (identifier_from_json L) ''identifier'' fs))))"

definition metadata_sparse_to_json :: "offer_lib \<Rightarrow> offer_metadata_sparse \<Rightarrow> json" where
  "metadata_sparse_to_json L m = JObj (metadata_entries L m)"

definition metadata_sparse_from_json :: "offer_lib \<Rightarrow> json \<Rightarrow> json_error + offer_metadata_sparse" where
  "metadata_sparse_from_json L v = and_then (struct_fields metadata_names v) (metadata_of_fields L)"

definition metadata_to_json :: "offer_lib \<Rightarrow> offer_metadata \<Rightarrow> json" where
  "metadata_to_json L m =
     JObj ([(''id'', JStr (ol_show_uuid L (meta_id m))), (''partition'', JStr (meta_partition m))]
       @ metadata_entries L (meta_metadata m))"

definition metadata_from_json :: "offer_lib \<Rightarrow> json \<Rightarrow> json_error + offer_metadata" where
  "metadata_from_json L v =
     and_then (flat_fields ([''id'', ''partition''] @ metadata_names) v) (\<lambda>fs.
     and_then (req_field (read_uuid L) ''id'' fs) (\<lambda>i.
     and_then (req_field read_string ''partition'' fs) (\<lambda>p.
     map_ok (\<lambda>m. \<lparr>meta_id = i, meta_partition = p, meta_metadata = m\<rparr>) (metadata_of_fields L fs))))"

section \<open>Offer records\<close>

definition record_entries :: "offer_lib \<Rightarrow> offer_record_sparse \<Rightarrow> (string \<times> json) list" where
  "record_entries L r =
     [(''maxSendable'', JNum (uint (rec_max_sendable r))), (''minSendable'', JNum (uint (rec_min_sendable r))),
      (''metadataId'', JStr (ol_show_uuid L (rec_metadata_id r)))]
       @ opt_entry ''metadata'' (metadata_sparse_to_json L) (rec_metadata r)
       @ [(''timestamp'', JStr (ol_show_time L (rec_timestamp r)))]
       @ opt_entry ''expires'' (\<lambda>t. JStr (ol_show_time L t)) (rec_expires r)"

definition record_names :: "string list" where
  "record_names = [''maxSendable'', ''minSendable'', ''metadataId'', ''metadata'', ''timestamp'', ''expires'']"

definition record_of_fields :: "offer_lib \<Rightarrow> (string \<times> json) list \<Rightarrow> json_error + offer_record_sparse" where
  "record_of_fields L fs =
     and_then (req_field read_u64 ''maxSendable'' fs) (\<lambda>mx.
     and_then (req_field read_u64 ''minSendable'' fs) (\<lambda>mn.
     and_then (req_field (read_uuid L) ''metadataId'' fs) (\<lambda>mi.
     and_then (opt_field (metadata_sparse_from_json L) ''metadata'' fs) (\<lambda>md.
     and_then (req_field (read_time L) ''timestamp'' fs) (\<lambda>ts.
     map_ok (\<lambda>ex. \<lparr>rec_max_sendable = mx, rec_min_sendable = mn, rec_metadata_id = mi, rec_metadata = md,
                   rec_timestamp = ts, rec_expires = ex\<rparr>)
       (opt_field (read_time L) ''expires'' fs))))))"

definition record_sparse_from_json :: "offer_lib \<Rightarrow> json \<Rightarrow> json_error + offer_record_sparse" where
  "record_sparse_from_json L v = and_then (struct_fields record_names v) (record_of_fields L)"

definition record_to_json :: "offer_lib \<Rightarrow> offer_record \<Rightarrow> json" where
  "record_to_json L r =
     JObj ([(''partition'', JStr (rec_partition r)), (''id'', JStr (ol_show_uuid L (rec_id r)))]
       @ record_entries L (rec_offer r))"

definition record_from_json :: "offer_lib \<Rightarrow> json \<Rightarrow> json_error + offer_record" where
  "record_from_json L v =
     and_then (flat_fields ([''partition'', ''id''] @ record_names) v) (\<lambda>fs.
     and_then (req_field read_string ''partition'' fs) (\<lambda>p.
     and_then (req_field (read_uuid L) ''id'' fs) (\<lambda>i.
     map_ok (\<lambda>r. \<lparr>rec_partition = p, rec_id = i, rec_offer = r\<rparr>) (record_of_fields L fs))))"

definition array_to_json :: "('a \<Rightarrow> json) \<Rightarrow> 'a list \<Rightarrow> json" where
  "array_to_json wr xs = JArr (map wr xs)"

section \<open>Round trips\<close>

text \<open>What the code relies on: the text forms read back.\<close>

definition offer_codec :: "offer_lib \<Rightarrow> bool" where
  "offer_codec L \<longleftrightarrow>
     (\<forall>u. ol_parse_uuid L (ol_show_uuid L u) = Some u)
     \<and> (\<forall>bs. ol_b64_decode L (ol_b64_encode L bs) = Inr bs)
     \<and> (\<forall>a. ol_parse_email L (email a) = Inr a)"

text \<open>An instant in the range of the text form, and a record of such instants.\<close>

definition wire_time :: "offer_lib \<Rightarrow> datetime \<Rightarrow> bool" where
  "wire_time L t \<longleftrightarrow> ol_parse_time L (ol_show_time L t) = Inr t"

definition wire_record :: "offer_lib \<Rightarrow> offer_record_sparse \<Rightarrow> bool" where
  "wire_record L r \<longleftrightarrow>
     wire_time L (rec_timestamp r) \<and> (\<forall>t. rec_expires r = Some t \<longrightarrow> wire_time L t)"

lemma offer_codecD:
  assumes "offer_codec L"
  shows "read_uuid L (JStr (ol_show_uuid L u)) = Inr u"
    and "image_from_json L (image_to_json L img) = Inr img"
    and "identifier_from_json L (identifier_to_json i) = Inr i"
  using assms
  by (auto simp: offer_codec_def read_uuid_def image_to_json_def image_from_json_def base64_serialize_def
      base64_deserialize_def identifier_to_json_def identifier_from_json_def read_email_def
      split: offer_metadata_image.split offer_metadata_identifier.split)

lemma tagged_not_null [simp]: "image_to_json L img \<noteq> JNull" "identifier_to_json i \<noteq> JNull"
  by (simp_all add: image_to_json_def identifier_to_json_def
      split: offer_metadata_image.split offer_metadata_identifier.split)

lemma opt_field_opt_entry:
  "opt_field rd k (opt_entry k wr x @ fs) =
     (case x of None \<Rightarrow> opt_field rd k fs | Some y \<Rightarrow> opt_value rd (wr y))"
  "k \<noteq> k' \<Longrightarrow> opt_field rd k (opt_entry k' wr x @ fs) = opt_field rd k fs"
  "k \<noteq> k' \<Longrightarrow> req_field rq k (opt_entry k' wr x @ fs) = req_field rq k fs"
  by (simp_all add: opt_field_def req_field_def opt_entry_def split: option.split)

lemma field_Cons:
  "opt_field rd k ((k', v) # fs) = (if k = k' then opt_value rd v else opt_field rd k fs)"
  "req_field rq k ((k', v) # fs) = (if k = k' then rq v else req_field rq k fs)"
  "opt_field rd k [] = Inr None"
  by (simp_all add: opt_field_def req_field_def)

lemma opt_field_single:
  "opt_field rd k (opt_entry k wr x) = (case x of None \<Rightarrow> Inr None | Some y \<Rightarrow> opt_value rd (wr y))"
  "k \<noteq> k' \<Longrightarrow> opt_field rd k (opt_entry k' wr x) = Inr None"
  by (simp_all add: opt_field_def opt_entry_def split: option.split)

lemma field_skip:
  "k' \<noteq> k \<Longrightarrow> opt_field rd k ((k', v) # fs) = opt_field rd k fs"
  "k' \<noteq> k \<Longrightarrow> req_field rq k ((k', v) # fs) = req_field rq k fs"
  by (simp_all add: field_Cons)

lemmas field_simps = opt_field_opt_entry field_Cons opt_field_single

lemma known_once_entries: "distinct (map fst fs) \<Longrightarrow> known_once names fs = Inr fs"
  by (simp add: known_once_def)

lemma opt_entry_keys: "map fst (opt_entry k wr x) = (if x = None then [] else [k])"
  by (simp add: opt_entry_def split: option.split)

lemma metadata_fields_read:
  assumes "offer_codec L"
  shows "metadata_of_fields L (metadata_entries L m) = Inr m"
proof -
  note rt = offer_codecD [OF assms]
  show ?thesis
    unfolding metadata_of_fields_def metadata_entries_def
    by (cases m) (simp add: field_simps rt split: option.split)
qed

lemma metadata_fields_skip:
  "k \<notin> set metadata_names \<Longrightarrow> metadata_of_fields L ((k, v) # fs) = metadata_of_fields L fs"
  unfolding metadata_of_fields_def metadata_names_def by (simp add: field_skip)

lemma metadata_entries_keys: "distinct (map fst (metadata_entries L m))" "set (map fst (metadata_entries L m)) \<subseteq> set metadata_names"
  unfolding metadata_entries_def metadata_names_def by (simp_all add: opt_entry_keys)

lemma metadata_sparse_round_trip [simp]:
  "offer_codec L \<Longrightarrow> metadata_sparse_from_json L (metadata_sparse_to_json L m) = Inr m"
  by (simp add: metadata_sparse_from_json_def metadata_sparse_to_json_def struct_fields_def
      known_once_entries metadata_entries_keys metadata_fields_read)

lemma metadata_json_round_trip:
  assumes "offer_codec L"
  shows "metadata_from_json L (metadata_to_json L m) = Inr m"
proof -
  have "distinct (map fst ([(''id'', a), (''partition'', b)] @ metadata_entries L x))" for a b x
    using metadata_entries_keys [of L x] by (auto simp: metadata_names_def)
  note keys = known_once_entries [OF this, simplified]
  show ?thesis
    by (simp add: metadata_from_json_def metadata_to_json_def flat_fields_def keys field_Cons
        metadata_fields_skip offer_codecD [OF assms] metadata_fields_read [OF assms])
       (simp add: metadata_fields_skip metadata_names_def metadata_fields_read [OF assms])
qed

lemma record_fields_read:
  assumes "offer_codec L" and "wire_record L r"
  shows "record_of_fields L (record_entries L r) = Inr r"
proof -
  note rt = offer_codecD [OF assms(1)]
  have time: "read_time L (JStr (ol_show_time L (rec_timestamp r))) = Inr (rec_timestamp r)"
      "\<And>t. rec_expires r = Some t \<Longrightarrow> read_time L (JStr (ol_show_time L t)) = Inr t"
    using assms(2) by (simp_all add: wire_record_def wire_time_def read_time_def)
  have "metadata_sparse_to_json L m \<noteq> JNull" for m
    by (simp add: metadata_sparse_to_json_def)
  then show ?thesis
    unfolding record_of_fields_def record_entries_def
    using time by (cases r) (simp add: field_simps rt assms(1) split: option.split)
qed

lemma record_fields_skip:
  "k \<notin> set record_names \<Longrightarrow> record_of_fields L ((k, v) # fs) = record_of_fields L fs"
  unfolding record_of_fields_def record_names_def by (simp add: field_skip)

lemma record_entries_keys: "distinct (map fst (record_entries L r))" "set (map fst (record_entries L r)) \<subseteq> set record_names"
  unfolding record_entries_def record_names_def by (simp_all add: opt_entry_keys)

lemma record_keys:
  "distinct (map fst ([(''partition'', a), (''id'', b)] @ record_entries L r))"
  using record_entries_keys [of L r] by (auto simp: record_names_def)

text \<open>A record in its full form reads back, as itself and as the sparse record in it.\<close>

lemma record_json_round_trip:
  assumes "offer_codec L" and "wire_record L (rec_offer r)"
  shows "record_from_json L (record_to_json L r) = Inr r"
    and "record_sparse_from_json L (record_to_json L r) = Inr (rec_offer r)"
proof -
  have skip: "record_of_fields L ((''partition'', a) # (''id'', b) # fs) = record_of_fields L fs" for a b fs
    by (simp add: record_fields_skip record_names_def)
  note keys = known_once_entries [OF record_keys, simplified]
  show "record_from_json L (record_to_json L r) = Inr r"
      "record_sparse_from_json L (record_to_json L r) = Inr (rec_offer r)"
    by (simp_all add: record_from_json_def record_sparse_from_json_def record_to_json_def flat_fields_def
        struct_fields_def keys field_Cons offer_codecD [OF assms(1)] skip record_fields_read [OF assms])
qed

lemma metadata_sparse_of_full:
  assumes "offer_codec L"
  shows "metadata_sparse_from_json L (metadata_to_json L m) = Inr (meta_metadata m)"
proof -
  have "distinct (map fst ([(''id'', a), (''partition'', b)] @ metadata_entries L x))" for a b x
    using metadata_entries_keys [of L x] by (auto simp: metadata_names_def)
  note keys = known_once_entries [OF this, simplified]
  have skip: "metadata_of_fields L ((''id'', a) # (''partition'', b) # fs) = metadata_of_fields L fs" for a b fs
    by (simp add: metadata_fields_skip metadata_names_def)
  show ?thesis
    by (simp add: metadata_sparse_from_json_def metadata_to_json_def struct_fields_def keys skip
        metadata_fields_read [OF assms])
qed

lemma array_round_trip:
  "(\<And>x. x \<in> set xs \<Longrightarrow> rd (wr x) = Inr x) \<Longrightarrow> read_array rd (array_to_json wr xs) = Inr xs"
  by (simp add: read_array_def array_to_json_def read_list_map)

end
