(* ===== verification/OfferHandlers.thy ===== *)
theory OfferHandlers
  imports DiscoveryHandlers OfferJson OfferMemory
begin

text \<open>
  \<open>service/src/offer\<close>: the request handlers over any offer store and any metadata store, the
  query parameters they read, their routes and the token validation in front of them.
\<close>

section \<open>The stores a service runs on (state.rs)\<close>

record ('s, 'e, 'f) offer_ops =
  oo_get_offer :: "'s \<Rightarrow> string \<Rightarrow> uuid \<Rightarrow> bool option \<Rightarrow> 'e + offer_record option"
  oo_get_offers :: "'s \<Rightarrow> string \<Rightarrow> usize \<Rightarrow> usize \<Rightarrow> 'e + offer_record list"
  oo_post_offer :: "datetime \<Rightarrow> offer_record \<Rightarrow> 's \<Rightarrow> ('e + uuid option) \<times> 's"
  oo_put_offer :: "datetime \<Rightarrow> offer_record \<Rightarrow> 's \<Rightarrow> ('e + bool) \<times> 's"
  oo_delete_offer :: "string \<Rightarrow> uuid \<Rightarrow> 's \<Rightarrow> ('e + bool) \<times> 's"
  oo_get_metadata :: "'s \<Rightarrow> string \<Rightarrow> uuid \<Rightarrow> 'f + offer_metadata option"
  oo_get_all_metadata :: "'s \<Rightarrow> string \<Rightarrow> usize \<Rightarrow> usize \<Rightarrow> 'f + offer_metadata list"
  oo_post_metadata :: "datetime \<Rightarrow> offer_metadata \<Rightarrow> 's \<Rightarrow> ('f + uuid option) \<times> 's"
  oo_put_metadata :: "datetime \<Rightarrow> offer_metadata \<Rightarrow> 's \<Rightarrow> ('f + bool) \<times> 's"
  oo_delete_metadata :: "string \<Rightarrow> uuid \<Rightarrow> 's \<Rightarrow> ('f + bool) \<times> 's"
  oo_esource :: "'e \<Rightarrow> service_error_source"
  oo_metadata_esource :: "'f \<Rightarrow> service_error_source"

definition mem_offer_ops ::
  "(offer_record \<Rightarrow> string) \<Rightarrow> (uuid \<Rightarrow> string) \<Rightarrow> (mem_offers, offer_store_error, offer_store_error) offer_ops" where
  "mem_offer_ops show_offer show_uuid =
     \<lparr>oo_get_offer = mo_get_offer, oo_get_offers = mo_get_offers,
      oo_post_offer = mo_post_offer show_offer show_uuid, oo_put_offer = mo_put_offer show_offer show_uuid,
      oo_delete_offer = mo_delete_offer, oo_get_metadata = mo_get_metadata,
      oo_get_all_metadata = mo_get_all_metadata, oo_post_metadata = mo_post_metadata,
      oo_put_metadata = mo_put_metadata, oo_delete_metadata = mo_delete_metadata show_uuid,
      oo_esource = ose_esource, oo_metadata_esource = ose_esource\<rparr>"

section \<open>Query parameters\<close>

record page_parameters =
  pg_start :: "usize option"
  pg_count :: "usize option"

text \<open>\<open>str::parse\<close> for \<open>bool\<close> and \<open>usize\<close>: an optional plus sign, then decimal digits.\<close>

definition parse_bool :: "string \<Rightarrow> bool option" where
  "parse_bool s = (if s = ''true'' then Some True else if s = ''false'' then Some False else None)"

definition is_digit :: "char \<Rightarrow> bool" where
  "is_digit c \<longleftrightarrow> (48::nat) \<le> of_char c \<and> of_char c \<le> (57::nat)"

definition decimal_value :: "string \<Rightarrow> nat" where
  "decimal_value s = foldl (\<lambda>acc c. 10 * acc + (of_char c - 48)) 0 s"

definition parse_usize :: "string \<Rightarrow> usize option" where
  "parse_usize s =
     (let digits = (case s of c # rest \<Rightarrow> if c = CHR ''+'' then rest else s | [] \<Rightarrow> [])
      in if digits \<noteq> [] \<and> list_all is_digit digits \<and> decimal_value digits < 2 ^ 64
         then Some (of_nat (decimal_value digits)) else None)"

text \<open>
  \<open>Query\<close>: an optional parameter that is absent, that reads, or that spoils the query; a name of
  the struct that occurs twice spoils it too.
\<close>

definition query_param :: "(string \<Rightarrow> 'a option) \<Rightarrow> string \<Rightarrow> (string \<times> string) list \<Rightarrow> unit + 'a option" where
  "query_param rd k q =
     (case map snd (filter (\<lambda>(k', _). k' = k) q) of
        [] \<Rightarrow> Inr None
      | [v] \<Rightarrow> map_ok Some (ok_or () (rd v))
      | _ \<Rightarrow> Inl ())"

definition sparse_query :: "(string \<times> string) list \<Rightarrow> unit + bool option" where
  "sparse_query q = query_param parse_bool ''sparse'' q"

definition page_query :: "(string \<times> string) list \<Rightarrow> unit + page_parameters" where
  "page_query q =
     and_then (query_param parse_usize ''start'' q) (\<lambda>st.
     map_ok (\<lambda>cnt. \<lparr>pg_start = st, pg_count = cnt\<rparr>) (query_param parse_usize ''count'' q))"

section \<open>Handlers (handler.rs)\<close>

definition offer_location :: "(uuid \<Rightarrow> string) \<Rightarrow> string \<Rightarrow> uuid \<Rightarrow> string" where
  "offer_location show_uuid p i = p @ ''/'' @ show_uuid i"

definition ho_get_offer ::
  "('s, 'e, 'f) offer_ops \<Rightarrow> bool option \<Rightarrow> uuid_param \<Rightarrow> 's \<Rightarrow> crud_error + offer_record json_crud_response" where
  "ho_get_offer S sparse u s =
     and_then (map_err (crud_from_service_error (oo_esource S))
                 (oo_get_offer S s (up_partition u) (up_id u) sparse)) (\<lambda>ro.
     map_ok (\<lambda>r. crud_ok r no_cache_headers) (ok_or crud_not_found ro))"

definition ho_get_offers ::
  "('s, 'e, 'f) offer_ops \<Rightarrow> usize \<Rightarrow> string \<Rightarrow> page_parameters \<Rightarrow> 's
     \<Rightarrow> crud_error + offer_record list json_crud_response" where
  "ho_get_offers S max_page_size p params s =
     (let cnt = unwrap_or max_page_size (pg_count params)
      in if max_page_size < cnt then Inl crud_bad
         else map_ok (\<lambda>rs. crud_ok rs no_cache_headers)
                (map_err (crud_from_service_error (oo_esource S))
                   (oo_get_offers S s p (unwrap_or 0 (pg_start params)) cnt)))"

definition ho_post_offer ::
  "('s, 'e, 'f) offer_ops \<Rightarrow> (uuid \<Rightarrow> string) \<Rightarrow> datetime \<Rightarrow> offer_record \<Rightarrow> 's
     \<Rightarrow> (crud_error + unit json_crud_response) \<times> 's" where
  "ho_post_offer S show_uuid now r s =
     (let r = r\<lparr>rec_offer := (rec_offer r)\<lparr>rec_metadata := None\<rparr>\<rparr>;
          location = offer_location show_uuid (rec_partition r) (rec_id r)
      in case oo_post_offer S now r s of
           (Inl e, s') \<Rightarrow> (Inl (crud_from_service_error (oo_esource S) e), s')
         | (Inr result, s') \<Rightarrow>
             (and_then (map_err crud_from_invalid_header (header_value location)) (\<lambda>location.
                case result of
                  Some _ \<Rightarrow> Inr (crud_created_location location)
                | None \<Rightarrow> Inl (crud_conflict location)), s'))"

definition ho_put_offer ::
  "('s, 'e, 'f) offer_ops \<Rightarrow> datetime \<Rightarrow> uuid_param \<Rightarrow> offer_record_sparse \<Rightarrow> 's
     \<Rightarrow> (crud_error + unit json_crud_response) \<times> 's" where
  "ho_put_offer S now u o1 s =
     (let r = \<lparr>rec_partition = up_partition u, rec_id = up_id u, rec_offer = o1\<rparr>;
          r = r\<lparr>rec_offer := (rec_offer r)\<lparr>rec_metadata := None\<rparr>\<rparr>
      in case oo_put_offer S now r s of
           (res, s') \<Rightarrow>
             (map_ok (\<lambda>was_created. if was_created then crud_created else crud_no_content)
                (map_err (crud_from_service_error (oo_esource S)) res), s'))"

definition deleted_response :: "('e \<Rightarrow> service_error_source) \<Rightarrow> 'e + bool \<Rightarrow> crud_error + unit json_crud_response" where
  "deleted_response esource r =
     and_then (map_err (crud_from_service_error esource) r)
       (\<lambda>deleted. if deleted then Inr crud_no_content else Inl crud_not_found)"

definition ho_delete_offer ::
  "('s, 'e, 'f) offer_ops \<Rightarrow> uuid_param \<Rightarrow> 's \<Rightarrow> (crud_error + unit json_crud_response) \<times> 's" where
  "ho_delete_offer S u s =
     apfst (deleted_response (oo_esource S)) (oo_delete_offer S (up_partition u) (up_id u) s)"

definition ho_get_metadata ::
  "('s, 'e, 'f) offer_ops \<Rightarrow> uuid_param \<Rightarrow> 's \<Rightarrow> crud_error + offer_metadata json_crud_response" where
  "ho_get_metadata S u s =
     and_then (map_err (crud_from_service_error (oo_metadata_esource S))
                 (oo_get_metadata S s (up_partition u) (up_id u))) (\<lambda>mo.
     map_ok (\<lambda>m. crud_ok m no_cache_headers) (ok_or crud_not_found mo))"

definition ho_get_all_metadata ::
  "('s, 'e, 'f) offer_ops \<Rightarrow> usize \<Rightarrow> string \<Rightarrow> page_parameters \<Rightarrow> 's
     \<Rightarrow> crud_error + offer_metadata list json_crud_response" where
  "ho_get_all_metadata S max_page_size p params s =
     (let cnt = unwrap_or max_page_size (pg_count params)
      in if max_page_size < cnt then Inl crud_bad
         else map_ok (\<lambda>ms. crud_ok ms no_cache_headers)
                (map_err (crud_from_service_error (oo_metadata_esource S))
                   (oo_get_all_metadata S s p (unwrap_or 0 (pg_start params)) cnt)))"

definition ho_post_metadata ::
  "('s, 'e, 'f) offer_ops \<Rightarrow> (uuid \<Rightarrow> string) \<Rightarrow> datetime \<Rightarrow> offer_metadata \<Rightarrow> 's
     \<Rightarrow> (crud_error + unit json_crud_response) \<times> 's" where
  "ho_post_metadata S show_uuid now m s =
     (let location = offer_location show_uuid (meta_partition m) (meta_id m)
      in case oo_post_metadata S now m s of
           (Inl e, s') \<Rightarrow> (Inl (crud_from_service_error (oo_metadata_esource S) e), s')
         | (Inr result, s') \<Rightarrow>
             (and_then (map_err crud_from_invalid_header (header_value location)) (\<lambda>location.
                case result of
                  Some _ \<Rightarrow> Inr (crud_created_location location)
                | None \<Rightarrow> Inl (crud_conflict location)), s'))"

definition ho_put_metadata ::
  "('s, 'e, 'f) offer_ops \<Rightarrow> datetime \<Rightarrow> uuid_param \<Rightarrow> offer_metadata_sparse \<Rightarrow> 's
     \<Rightarrow> (crud_error + unit json_crud_response) \<times> 's" where
  "ho_put_metadata S now u md s =
     (case oo_put_metadata S now \<lparr>meta_id = up_id u, meta_partition = up_partition u, meta_metadata = md\<rparr> s of
        (res, s') \<Rightarrow>
          (map_ok (\<lambda>was_created. if was_created then crud_created else crud_no_content)
             (map_err (crud_from_service_error (oo_metadata_esource S)) res), s'))"

definition ho_delete_metadata ::
  "('s, 'e, 'f) offer_ops \<Rightarrow> uuid_param \<Rightarrow> 's \<Rightarrow> (crud_error + unit json_crud_response) \<times> 's" where
  "ho_delete_metadata S u s =
     apfst (deleted_response (oo_metadata_esource S)) (oo_delete_metadata S (up_partition u) (up_id u) s)"

lemmas offer_handler_defs [handler_defs] =
  ho_get_offer_def ho_get_offers_def ho_post_offer_def ho_put_offer_def ho_delete_offer_def
  ho_get_metadata_def ho_get_all_metadata_def ho_post_metadata_def ho_put_metadata_def ho_delete_metadata_def
  deleted_response_def

section \<open>Routes (service.rs)\<close>

text \<open>The extractors of a route run in the order of the parameters of its handler.\<close>

definition with_query ::
  "((string \<times> string) list \<Rightarrow> unit + 'q) \<Rightarrow> 'b http_request \<Rightarrow> ('q \<Rightarrow> 'b http_response \<times> 's) \<Rightarrow> 's
     \<Rightarrow> 'b http_response \<times> 's" where
  "with_query rd req k s = (case rd (rq_query req) of Inl _ \<Rightarrow> (status_response 400, s) | Inr q \<Rightarrow> k q)"

definition with_uuid_param ::
  "(string \<Rightarrow> uuid option) \<Rightarrow> string list \<Rightarrow> (uuid_param \<Rightarrow> 'b http_response \<times> 's) \<Rightarrow> 's
     \<Rightarrow> 'b http_response \<times> 's" where
  "with_uuid_param parse params k s =
     (case extract_uuid_param parse params of Inl st \<Rightarrow> (status_response st, s) | Inr u \<Rightarrow> k u)"

record ('s, 'e, 'f, 'k) offer_service =
  ov_ops :: "('s, 'e, 'f) offer_ops"
  ov_json :: offer_lib
  ov_max_page_size :: usize
  ov_auth_authority :: 'k
  ov_decode :: "'k \<Rightarrow> string \<Rightarrow> string \<Rightarrow> string + claims"
  ov_bearer :: "header_map \<Rightarrow> string option"
  ov_unrouted :: "json http_request \<Rightarrow> json http_response"

definition offer_routes ::
  "('s, 'e, 'f, 'k) offer_service \<Rightarrow> datetime \<Rightarrow> json http_request \<Rightarrow> 's \<Rightarrow> json http_response \<times> 's" where
  "offer_routes V now req s =
     (let S = ov_ops V; L = ov_json V; uuid_of = with_uuid_param (ol_parse_uuid L)
      in case (rq_path req, rq_method req) of
           ([_, p, i], GET) \<Rightarrow>
             with_query sparse_query req (\<lambda>sparse. uuid_of [p, i] (\<lambda>u.
               (crud_answer (\<lambda>r. Inr (record_to_json L r) :: unit + json) (ho_get_offer S sparse u s), s)) s) s
         | ([_, p, i], PUT) \<Rightarrow>
             uuid_of [p, i] (\<lambda>u. with_json_body (record_sparse_from_json L) req
               (\<lambda>r s. apfst (crud_answer unit_to_json) (ho_put_offer S now u r s)) s) s
         | ([_, p, i], DELETE) \<Rightarrow>
             uuid_of [p, i] (\<lambda>u. apfst (crud_answer unit_to_json) (ho_delete_offer S u s)) s
         | ([_, p], GET) \<Rightarrow>
             with_query page_query req (\<lambda>params.
               (crud_answer (\<lambda>rs. Inr (array_to_json (record_to_json L) rs) :: unit + json)
                  (ho_get_offers S (ov_max_page_size V) p params s), s)) s
         | ([_], POST) \<Rightarrow>
             with_json_body (record_from_json L) req
               (\<lambda>r s. apfst (crud_answer unit_to_json) (ho_post_offer S (ol_show_uuid L) now r s)) s
         | _ \<Rightarrow> (ov_unrouted V req, s))"

definition metadata_routes ::
  "('s, 'e, 'f, 'k) offer_service \<Rightarrow> datetime \<Rightarrow> json http_request \<Rightarrow> 's \<Rightarrow> json http_response \<times> 's" where
  "metadata_routes V now req s =
     (let S = ov_ops V; L = ov_json V; uuid_of = with_uuid_param (ol_parse_uuid L)
      in case (rq_path req, rq_method req) of
           ([_, p, i], GET) \<Rightarrow>
             uuid_of [p, i] (\<lambda>u.
               (crud_answer (\<lambda>m. Inr (metadata_to_json L m) :: unit + json) (ho_get_metadata S u s), s)) s
         | ([_, p, i], PUT) \<Rightarrow>
             uuid_of [p, i] (\<lambda>u. with_json_body (metadata_sparse_from_json L) req
               (\<lambda>m s. apfst (crud_answer unit_to_json) (ho_put_metadata S now u m s)) s) s
         | ([_, p, i], DELETE) \<Rightarrow>
             uuid_of [p, i] (\<lambda>u. apfst (crud_answer unit_to_json) (ho_delete_metadata S u s)) s
         | ([_, p], GET) \<Rightarrow>
             with_query page_query req (\<lambda>params.
               (crud_answer (\<lambda>ms. Inr (array_to_json (metadata_to_json L) ms) :: unit + json)
                  (ho_get_all_metadata S (ov_max_page_size V) p params s), s)) s
         | ([_], POST) \<Rightarrow>
             with_json_body (metadata_from_json L) req
               (\<lambda>m s. apfst (crud_answer unit_to_json) (ho_post_metadata S (ol_show_uuid L) now m s)) s
         | _ \<Rightarrow> (ov_unrouted V req, s))"

text \<open>The paths that a router knows under a root; the token layer stands in front of all of them.\<close>

definition routed_under :: "string \<Rightarrow> string list \<Rightarrow> bool" where
  "routed_under root path \<longleftrightarrow>
     path \<noteq> [] \<and> hd path = root \<and> length path \<le> 3 \<and> list_all (\<lambda>x. x \<noteq> []) (tl path)"

definition offer_router ::
  "('s, 'e, 'f, 'k) offer_service \<Rightarrow> datetime \<Rightarrow> json http_request \<Rightarrow> 's \<Rightarrow> json http_response \<times> 's" where
  "offer_router V now req s =
     (let auth = bearer_auth_call (ov_bearer V)
            (token_validator (ov_decode V) (ov_auth_authority V) ''offer'') ''offer''
      in if rq_path req = [''health''] then
           (if rq_method req = GET then (status_response 200, s) else (ov_unrouted V req, s))
         else if routed_under ''offers'' (rq_path req) then auth (offer_routes V now) req s
         else if routed_under ''metadata'' (rq_path req) then auth (metadata_routes V now) req s
         else (ov_unrouted V req, s))"

section \<open>Decimal numbers\<close>

lemma decimal_value_snoc: "decimal_value (s @ [c]) = 10 * decimal_value s + (of_char c - 48)"
  by (simp add: decimal_value_def)

lemma digit_char: "d < 10 \<Longrightarrow> is_digit (char_of (48 + d)) \<and> of_char (char_of (48 + d) :: char) = (48 + d :: nat)"
  by (simp add: is_digit_def)

lemma show_nat_digits: "list_all is_digit (show_nat n) \<and> decimal_value (show_nat n) = n \<and> show_nat n \<noteq> []"
proof (induction n rule: show_nat.induct)
  case (1 n)
  show ?case
  proof (cases "n < 10")
    case True
    then show ?thesis
      using digit_char [of n] by (simp add: show_nat.simps [of n] decimal_value_def)
  next
    case False
    have "n mod 10 < 10" by simp
    note d = digit_char [OF this]
    have "decimal_value (show_nat n) = 10 * (n div 10) + n mod 10"
      using 1 False d by (simp add: show_nat.simps [of n] decimal_value_snoc)
    then show ?thesis
      using 1 False d by (simp add: show_nat.simps [of n])
  qed
qed

lemma parse_usize_show: "parse_usize (show_nat (unat w)) = Some w"
proof -
  have d: "list_all is_digit (show_nat (unat w))" "decimal_value (show_nat (unat w)) = unat w"
      "show_nat (unat w) \<noteq> []"
    using show_nat_digits by blast+
  then obtain c rest where s: "show_nat (unat w) = c # rest" by (cases "show_nat (unat w)") auto
  with d(1) have "is_digit c" by simp
  then have "c \<noteq> CHR ''+''" by (auto simp: is_digit_def)
  with s d unsigned_less [of w] show ?thesis
    by (simp add: parse_usize_def)
qed

lemma digit_not: "is_digit c \<Longrightarrow> c \<notin> {CHR ''/'', CHR ''?'', CHR ''&'', CHR ''=''}"
  by (auto simp: is_digit_def)

section \<open>A concrete library for the witnesses\<close>

text \<open>Ids and instants in the letters of the decimal digits, bytes in two letters each.\<close>

definition sample_offer_lib :: offer_lib where
  "sample_offer_lib =
     \<lparr>ol_show_uuid = (\<lambda>u. show_nat (unat u)),
      ol_parse_uuid = (\<lambda>s. Some (of_nat (decimal_value s))),
      ol_show_time = (\<lambda>t. show_nat (nat t)),
      ol_parse_time = (\<lambda>s. Inr (int (decimal_value s))),
      ol_b64_encode = letter_encode, ol_b64_decode = letter_decode,
      ol_parse_email = (\<lambda>s. Inr (EmailAddress s))\<rparr>"

lemma sample_offer_codec: "offer_codec sample_offer_lib"
  using letter_codec show_nat_digits
  by (simp add: offer_codec_def sample_offer_lib_def hex_codec_def)

end
