(* ===== verification/OfferDb.thy ===== *)
theory OfferDb
  imports Sql OfferHandlers
begin

text \<open>
  \<open>components/src/offer/db.rs\<close> with the entities of \<open>components/src/offer/db_orm\<close>: the offer store
  in a database. Every method runs single statements outside a transaction; the foreign key from
  offers to metadata takes the place of the checks of the memory store. The clock, the serde
  library and the renderings in error messages are arguments.
\<close>

section \<open>Tables (offer\_record\_table.rs, offer\_metadata\_table.rs) and statements\<close>

record offer_row =
  or_partition :: string
  or_id :: uuid
  or_max_sendable :: i64
  or_min_sendable :: i64
  or_metadata_id :: uuid
  or_timestamp :: datetime
  or_expires :: "datetime option"
  or_created_at :: datetime
  or_updated_at :: datetime

record metadata_row =
  mr_partition :: string
  mr_id :: uuid
  mr_metadata :: json
  mr_created_at :: datetime
  mr_updated_at :: datetime

datatype offer_column =
    ColPartition | ColId | ColMaxSendable | ColMinSendable | ColMetadataId | ColTimestamp | ColExpires
  | ColCreatedAt | ColUpdatedAt

datatype metadata_column = MColPartition | MColId | MColMetadata | MColCreatedAt | MColUpdatedAt

datatype offer_statement =
    InsertOffer offer_row
  | UpsertOffer offer_row "offer_column list" datetime
  | DeleteOffer string uuid
  | InsertMetadata metadata_row
  | UpsertMetadata metadata_row "metadata_column list" datetime
  | DeleteMetadata string uuid

text \<open>The queries: by primary key, with the related metadata, ordered pages, and the two time stamps.\<close>

record 'w offer_db = "(offer_statement, 'w) sql_db" +
  find_offer_with_metadata :: "string \<Rightarrow> uuid \<Rightarrow> 'w \<Rightarrow> db_err + (offer_row \<times> metadata_row option) option"
  find_offers_ordered :: "string \<Rightarrow> offer_column list \<Rightarrow> u64 \<Rightarrow> u64 \<Rightarrow> 'w \<Rightarrow> db_err + offer_row list"
  find_offer_timestamps :: "string \<Rightarrow> uuid \<Rightarrow> 'w \<Rightarrow> db_err + (datetime \<times> datetime) option"
  find_metadata :: "string \<Rightarrow> uuid \<Rightarrow> 'w \<Rightarrow> db_err + metadata_row option"
  find_metadata_ordered :: "string \<Rightarrow> metadata_column list \<Rightarrow> u64 \<Rightarrow> u64 \<Rightarrow> 'w \<Rightarrow> db_err + metadata_row list"
  find_metadata_timestamps :: "string \<Rightarrow> uuid \<Rightarrow> 'w \<Rightarrow> db_err + (datetime \<times> datetime) option"

record 'w db_offers =
  do_db :: "'w offer_db"
  do_json :: offer_lib
  do_show_offer :: "offer_record \<Rightarrow> string"
  do_show_err :: "db_err \<Rightarrow> string"
  do_show_json_error :: "json_error \<Rightarrow> string"

section \<open>Operations on offers\<close>

definition offer_db_error :: "'w db_offers \<Rightarrow> string \<Rightarrow> db_err \<Rightarrow> offer_store_error" where
  "offer_db_error S ctx e = offer_from_db Internal ctx (do_show_err S e)"

definition row_place :: "'w db_offers \<Rightarrow> string \<Rightarrow> uuid \<Rightarrow> string" where
  "row_place S p i = '' for partition '' @ p @ '' id '' @ ol_show_uuid (do_json S) i"

definition row_to_offer :: "offer_row \<Rightarrow> offer_metadata_sparse option \<Rightarrow> offer_record" where
  "row_to_offer r m =
     \<lparr>rec_partition = or_partition r, rec_id = or_id r,
      rec_offer = \<lparr>rec_max_sendable = or_max_sendable r, rec_min_sendable = or_min_sendable r,
        rec_metadata_id = or_metadata_id r, rec_metadata = m, rec_timestamp = or_timestamp r,
        rec_expires = or_expires r\<rparr>\<rparr>"

definition read_metadata :: "'w db_offers \<Rightarrow> string \<Rightarrow> uuid \<Rightarrow> json \<Rightarrow> offer_store_error + offer_metadata_sparse" where
  "read_metadata S p i v =
     map_err (\<lambda>e. offer_serialization_error Internal (''deserializing metadata'' @ row_place S p i) (do_show_json_error S e))
       (metadata_sparse_from_json (do_json S) v)"

definition od_get_offer ::
  "'w db_offers \<Rightarrow> 'w \<Rightarrow> string \<Rightarrow> uuid \<Rightarrow> bool option \<Rightarrow> offer_store_error + offer_record option" where
  "od_get_offer S w p i sparse =
     (let sparse = unwrap_or True sparse
      in and_then (map_err (offer_db_error S (''getting offer with metadata'' @ row_place S p i))
                     (find_offer_with_metadata (do_db S) p i w))
           (\<lambda>result. case (result, sparse) of
              (Some (ofr, Some metadata), False) \<Rightarrow>
                map_ok (\<lambda>m. Some (row_to_offer ofr (Some m))) (read_metadata S p i (mr_metadata metadata))
            | (Some (ofr, _), True) \<Rightarrow> Inr (Some (row_to_offer ofr None))
            | _ \<Rightarrow> Inr None))"

definition od_get_offers ::
  "'w db_offers \<Rightarrow> 'w \<Rightarrow> string \<Rightarrow> usize \<Rightarrow> usize \<Rightarrow> offer_store_error + offer_record list" where
  "od_get_offers S w p start cnt =
     map_ok (map (\<lambda>r. row_to_offer r None))
       (map_err (offer_db_error S (''getting offers for partition '' @ p))
          (find_offers_ordered (do_db S) p [ColCreatedAt, ColId] start cnt w))"

definition offer_active_model :: "datetime \<Rightarrow> offer_record \<Rightarrow> offer_row" where
  "offer_active_model now r =
     \<lparr>or_partition = rec_partition r, or_id = rec_id r,
      or_max_sendable = rec_max_sendable (rec_offer r), or_min_sendable = rec_min_sendable (rec_offer r),
      or_metadata_id = rec_metadata_id (rec_offer r), or_timestamp = rec_timestamp (rec_offer r),
      or_expires = rec_expires (rec_offer r), or_created_at = now, or_updated_at = now\<rparr>"

definition metadata_missing_error :: "'w db_offers \<Rightarrow> string \<Rightarrow> offer_record \<Rightarrow> offer_store_error" where
  "metadata_missing_error S verb r =
     offer_invalid_input_error (verb @ '' offer '' @ do_show_offer S r)
       (''metadata '' @ ol_show_uuid (do_json S) (rec_metadata_id (rec_offer r)) @ '' not found for offer ''
          @ ol_show_uuid (do_json S) (rec_id r))"

definition od_post_offer ::
  "'w db_offers \<Rightarrow> datetime \<Rightarrow> offer_record \<Rightarrow> 'w \<Rightarrow> (offer_store_error + uuid option) \<times> 'w" where
  "od_post_offer S now r w =
     (case sql_exec (do_db S) (InsertOffer (offer_active_model now r)) w of
        (Inr _, w') \<Rightarrow> (Inr (Some (rec_id r)), w')
      | (Inl e, w') \<Rightarrow>
          (if unique_violation e then Inr None
           else if foreign_key_violation e then Inl (metadata_missing_error S ''post'' r)
           else Inl (offer_db_error S (''inserting offer'' @ row_place S (rec_partition r) (rec_id r)) e), w'))"

definition offer_future :: "datetime \<Rightarrow> datetime" where
  "offer_future now = now + 1000000000"

text \<open>The fetch of the two time stamps after an upsert, and what they say.\<close>

definition was_inserted ::
  "'w db_offers \<Rightarrow> string \<Rightarrow> db_err + (datetime \<times> datetime) option \<Rightarrow> offer_store_error + bool" where
  "was_inserted S ctx r =
     and_then (map_err (offer_db_error S ctx) r)
       (\<lambda>t. map_ok (\<lambda>(created, updated). created = updated)
          (ok_or (offer_db_error S ''upsert succeeded but record not found''
                    (RecordNotFound ''Record should exist after successful upsert'')) t))"

definition od_put_offer ::
  "'w db_offers \<Rightarrow> datetime \<Rightarrow> offer_record \<Rightarrow> 'w \<Rightarrow> (offer_store_error + bool) \<times> 'w" where
  "od_put_offer S now r w =
     (case sql_exec (do_db S)
             (UpsertOffer (offer_active_model now r)
                [ColMaxSendable, ColMinSendable, ColMetadataId, ColTimestamp, ColExpires] (offer_future now)) w of
        (Inl e, w') \<Rightarrow>
          (Inl (if foreign_key_violation e then metadata_missing_error S ''put'' r
                else offer_db_error S (''upserting offer'' @ row_place S (rec_partition r) (rec_id r)) e), w')
      | (Inr _, w') \<Rightarrow>
          (was_inserted S (''fetching offer after upsert'' @ row_place S (rec_partition r) (rec_id r))
             (find_offer_timestamps (do_db S) (rec_partition r) (rec_id r) w'), w'))"

definition od_delete_offer ::
  "'w db_offers \<Rightarrow> string \<Rightarrow> uuid \<Rightarrow> 'w \<Rightarrow> (offer_store_error + bool) \<times> 'w" where
  "od_delete_offer S p i w =
     apfst (map_ok (\<lambda>n. 0 < n) \<circ> map_err (offer_db_error S (''deleting offer'' @ row_place S p i)))
       (sql_exec (do_db S) (DeleteOffer p i) w)"

section \<open>Operations on metadata\<close>

definition od_get_metadata ::
  "'w db_offers \<Rightarrow> 'w \<Rightarrow> string \<Rightarrow> uuid \<Rightarrow> offer_store_error + offer_metadata option" where
  "od_get_metadata S w p i =
     and_then (map_err (offer_db_error S (''getting metadata'' @ row_place S p i)) (find_metadata (do_db S) p i w))
       (\<lambda>model. case model of
          Some r \<Rightarrow>
            map_ok (\<lambda>m. Some \<lparr>meta_id = mr_id r, meta_partition = mr_partition r, meta_metadata = m\<rparr>)
              (read_metadata S p i (mr_metadata r))
        | None \<Rightarrow> Inr None)"

text \<open>The loop that converts one row after the other and stops at the first that cannot be read.\<close>

fun read_rows :: "'w db_offers \<Rightarrow> string \<Rightarrow> metadata_row list \<Rightarrow> offer_store_error + offer_metadata list" where
  "read_rows S p [] = Inr []"
| "read_rows S p (r # rs) =
     and_then (read_metadata S p (mr_id r) (mr_metadata r))
       (\<lambda>m. map_ok ((#) \<lparr>meta_id = mr_id r, meta_partition = mr_partition r, meta_metadata = m\<rparr>) (read_rows S p rs))"

definition od_get_all_metadata ::
  "'w db_offers \<Rightarrow> 'w \<Rightarrow> string \<Rightarrow> usize \<Rightarrow> usize \<Rightarrow> offer_store_error + offer_metadata list" where
  "od_get_all_metadata S w p start cnt =
     and_then (map_err (offer_db_error S (''getting all metadata for partition '' @ p))
                 (find_metadata_ordered (do_db S) p [MColCreatedAt, MColId] start cnt w))
       (read_rows S p)"

text \<open>
  \<open>serde_json::to_value\<close> cannot fail on metadata, which has string keys only; the branch that
  reports its error is never taken.
\<close>

definition metadata_active_model :: "'w db_offers \<Rightarrow> datetime \<Rightarrow> offer_metadata \<Rightarrow> metadata_row" where
  "metadata_active_model S now m =
     \<lparr>mr_partition = meta_partition m, mr_id = meta_id m,
      mr_metadata = metadata_sparse_to_json (do_json S) (meta_metadata m), mr_created_at = now, mr_updated_at = now\<rparr>"

definition od_post_metadata ::
  "'w db_offers \<Rightarrow> datetime \<Rightarrow> offer_metadata \<Rightarrow> 'w \<Rightarrow> (offer_store_error + uuid option) \<times> 'w" where
  "od_post_metadata S now m w =
     (case sql_exec (do_db S) (InsertMetadata (metadata_active_model S now m)) w of
        (Inr _, w') \<Rightarrow> (Inr (Some (meta_id m)), w')
      | (Inl e, w') \<Rightarrow>
          (if unique_violation e then Inr None
           else Inl (offer_db_error S (''inserting metadata'' @ row_place S (meta_partition m) (meta_id m)) e), w'))"

definition od_put_metadata ::
  "'w db_offers \<Rightarrow> datetime \<Rightarrow> offer_metadata \<Rightarrow> 'w \<Rightarrow> (offer_store_error + bool) \<times> 'w" where
  "od_put_metadata S now m w =
     (case sql_exec (do_db S) (UpsertMetadata (metadata_active_model S now m) [MColMetadata] (offer_future now)) w of
        (Inl e, w') \<Rightarrow>
          (Inl (offer_db_error S (''upserting metadata'' @ row_place S (meta_partition m) (meta_id m)) e), w')
      | (Inr _, w') \<Rightarrow>
          (was_inserted S (''fetching metadata after upsert'' @ row_place S (meta_partition m) (meta_id m))
             (find_metadata_timestamps (do_db S) (meta_partition m) (meta_id m) w'), w'))"

text \<open>SQLite reports the restricted deletion with its code 1811.\<close>

fun restrict_violation :: "db_err \<Rightarrow> bool" where
  "restrict_violation (ExecDatabase e) \<longleftrightarrow> dbe_foreign_key e \<or> dbe_code e = Some ''1811''"
| "restrict_violation _ \<longleftrightarrow> False"

definition od_delete_metadata ::
  "'w db_offers \<Rightarrow> string \<Rightarrow> uuid \<Rightarrow> 'w \<Rightarrow> (offer_store_error + bool) \<times> 'w" where
  "od_delete_metadata S p i w =
     apfst (map_ok (\<lambda>n. 0 < n)
        \<circ> map_err (\<lambda>e.
            if restrict_violation e
            then offer_invalid_input_error (''deleting metadata'' @ row_place S p i)
                   (''metadata '' @ ol_show_uuid (do_json S) i @ '' is referenced by existing offers'')
            else offer_db_error S (''deleting metadata'' @ row_place S p i) e))
       (sql_exec (do_db S) (DeleteMetadata p i) w)"

section \<open>What SQL says of the statements\<close>

record offer_tables =
  ot_offers :: "offer_key \<Rightarrow> offer_row option"
  ot_metadata_rows :: "offer_key \<Rightarrow> metadata_row option"

definition offer_row_key :: "offer_row \<Rightarrow> offer_key" where
  "offer_row_key r = (or_partition r, or_id r)"

text \<open>The foreign key (\<open>Relation::OfferMetadataTable\<close>), with \<open>on_delete = Restrict\<close>.\<close>

definition offer_row_metadata_key :: "offer_row \<Rightarrow> offer_key" where
  "offer_row_metadata_key r = (or_partition r, or_metadata_id r)"

definition metadata_row_key :: "metadata_row \<Rightarrow> offer_key" where
  "metadata_row_key r = (mr_partition r, mr_id r)"

fun copy_offer_column :: "offer_row \<Rightarrow> offer_column \<Rightarrow> offer_row \<Rightarrow> offer_row" where
  "copy_offer_column new ColPartition r = r\<lparr>or_partition := or_partition new\<rparr>"
| "copy_offer_column new ColId r = r\<lparr>or_id := or_id new\<rparr>"
| "copy_offer_column new ColMaxSendable r = r\<lparr>or_max_sendable := or_max_sendable new\<rparr>"
| "copy_offer_column new ColMinSendable r = r\<lparr>or_min_sendable := or_min_sendable new\<rparr>"
| "copy_offer_column new ColMetadataId r = r\<lparr>or_metadata_id := or_metadata_id new\<rparr>"
| "copy_offer_column new ColTimestamp r = r\<lparr>or_timestamp := or_timestamp new\<rparr>"
| "copy_offer_column new ColExpires r = r\<lparr>or_expires := or_expires new\<rparr>"
| "copy_offer_column new ColCreatedAt r = r\<lparr>or_created_at := or_created_at new\<rparr>"
| "copy_offer_column new ColUpdatedAt r = r\<lparr>or_updated_at := or_updated_at new\<rparr>"

fun copy_metadata_column :: "metadata_row \<Rightarrow> metadata_column \<Rightarrow> metadata_row \<Rightarrow> metadata_row" where
  "copy_metadata_column new MColPartition r = r\<lparr>mr_partition := mr_partition new\<rparr>"
| "copy_metadata_column new MColId r = r\<lparr>mr_id := mr_id new\<rparr>"
| "copy_metadata_column new MColMetadata r = r\<lparr>mr_metadata := mr_metadata new\<rparr>"
| "copy_metadata_column new MColCreatedAt r = r\<lparr>mr_created_at := mr_created_at new\<rparr>"
| "copy_metadata_column new MColUpdatedAt r = r\<lparr>mr_updated_at := mr_updated_at new\<rparr>"

text \<open>The row that an upsert leaves.\<close>

definition upserted_offer :: "offer_row \<Rightarrow> offer_column list \<Rightarrow> datetime \<Rightarrow> offer_row option \<Rightarrow> offer_row" where
  "upserted_offer r cols t old =
     (case old of None \<Rightarrow> r | Some o1 \<Rightarrow> (fold (copy_offer_column r) cols o1)\<lparr>or_updated_at := t\<rparr>)"

definition upserted_metadata :: "metadata_row \<Rightarrow> metadata_column list \<Rightarrow> datetime \<Rightarrow> metadata_row option \<Rightarrow> metadata_row" where
  "upserted_metadata r cols t old =
     (case old of None \<Rightarrow> r | Some o1 \<Rightarrow> (fold (copy_metadata_column r) cols o1)\<lparr>mr_updated_at := t\<rparr>)"

text \<open>A violated primary key is reported before a violated foreign key.\<close>

fun offer_sql_effect :: "offer_statement \<Rightarrow> offer_tables \<Rightarrow> sql_refusal + nat \<times> offer_tables" where
  "offer_sql_effect (InsertOffer r) c =
     (if ot_offers c (offer_row_key r) \<noteq> None then Inl UniqueRefusal
      else if ot_metadata_rows c (offer_row_metadata_key r) = None then Inl ForeignKeyRefusal
      else Inr (1, c\<lparr>ot_offers := (ot_offers c)(offer_row_key r \<mapsto> r)\<rparr>))"
| "offer_sql_effect (UpsertOffer r cols t) c =
     (let new = upserted_offer r cols t (ot_offers c (offer_row_key r))
      in if ot_metadata_rows c (offer_row_metadata_key new) = None then Inl ForeignKeyRefusal
         else Inr (1, c\<lparr>ot_offers := (ot_offers c)(offer_row_key r \<mapsto> new)\<rparr>))"
| "offer_sql_effect (DeleteOffer p i) c =
     (if ot_offers c (p, i) = None then Inr (0, c) else Inr (1, c\<lparr>ot_offers := (ot_offers c)((p, i) := None)\<rparr>))"
| "offer_sql_effect (InsertMetadata r) c =
     (if ot_metadata_rows c (metadata_row_key r) \<noteq> None then Inl UniqueRefusal
      else Inr (1, c\<lparr>ot_metadata_rows := (ot_metadata_rows c)(metadata_row_key r \<mapsto> r)\<rparr>))"
| "offer_sql_effect (UpsertMetadata r cols t) c =
     Inr (1, c\<lparr>ot_metadata_rows := (ot_metadata_rows c)
       (metadata_row_key r \<mapsto> upserted_metadata r cols t (ot_metadata_rows c (metadata_row_key r)))\<rparr>)"
| "offer_sql_effect (DeleteMetadata p i) c =
     (if \<exists>r \<in> ran (ot_offers c). offer_row_metadata_key r = (p, i) then Inl ForeignKeyRefusal
      else if ot_metadata_rows c (p, i) = None then Inr (0, c)
      else Inr (1, c\<lparr>ot_metadata_rows := (ot_metadata_rows c)((p, i) := None)\<rparr>))"

definition offer_row_fits :: "offer_row \<Rightarrow> bool" where
  "offer_row_fits r \<longleftrightarrow> whole_micros (or_timestamp r) \<and> (\<forall>t. or_expires r = Some t \<longrightarrow> whole_micros t)
     \<and> whole_micros (or_created_at r) \<and> whole_micros (or_updated_at r)"

definition metadata_row_fits :: "metadata_row \<Rightarrow> bool" where
  "metadata_row_fits r \<longleftrightarrow> whole_micros (mr_created_at r) \<and> whole_micros (mr_updated_at r)"

fun offer_fits :: "offer_statement \<Rightarrow> bool" where
  "offer_fits (InsertOffer r) \<longleftrightarrow> offer_row_fits r"
| "offer_fits (UpsertOffer r cols t) \<longleftrightarrow> offer_row_fits r \<and> whole_micros t"
| "offer_fits (DeleteOffer p i) \<longleftrightarrow> True"
| "offer_fits (InsertMetadata r) \<longleftrightarrow> metadata_row_fits r"
| "offer_fits (UpsertMetadata r cols t) \<longleftrightarrow> metadata_row_fits r \<and> whole_micros t"
| "offer_fits (DeleteMetadata p i) \<longleftrightarrow> True"

text \<open>A page of the rows of one partition, ordered by creation and id.\<close>

definition row_page ::
  "('r \<Rightarrow> datetime \<times> uuid) \<Rightarrow> (offer_key \<Rightarrow> 'r option) \<Rightarrow> string \<Rightarrow> u64 \<Rightarrow> u64 \<Rightarrow> 'r list \<Rightarrow> bool" where
  "row_page order m p start cnt rs \<longleftrightarrow>
     (\<exists>all. lists_rows (\<lambda>i. m (p, i)) all \<and> sorted (map order all) \<and> rs = page start cnt all)"

abbreviation offer_row_order :: "offer_row \<Rightarrow> datetime \<times> uuid" where
  "offer_row_order r \<equiv> (or_created_at r, or_id r)"

abbreviation metadata_row_order :: "metadata_row \<Rightarrow> datetime \<times> uuid" where
  "metadata_row_order r \<equiv> (mr_created_at r, mr_id r)"

definition offer_db_lawful ::
  "('w \<Rightarrow> offer_tables) \<Rightarrow> ('w \<Rightarrow> offer_tables) \<Rightarrow> 'w db_offers \<Rightarrow> bool" where
  "offer_db_lawful content base S \<longleftrightarrow>
     sql_lawful offer_fits offer_sql_effect content base (do_db S)
   \<and> (\<forall>p i w e w'. sql_exec (do_db S) (DeleteMetadata p i) w = (Inl e, w') \<longrightarrow> restrict_violation e \<longrightarrow>
        offer_sql_effect (DeleteMetadata p i) (content w) = Inl ForeignKeyRefusal)
   \<and> (\<forall>p i w r. find_offer_with_metadata (do_db S) p i w = Inr r \<longrightarrow>
        r = map_option (\<lambda>o1. (o1, ot_metadata_rows (content w) (offer_row_metadata_key o1))) (ot_offers (content w) (p, i)))
   \<and> (\<forall>p start cnt w rs. find_offers_ordered (do_db S) p [ColCreatedAt, ColId] start cnt w = Inr rs \<longrightarrow>
        row_page offer_row_order (ot_offers (content w)) p start cnt rs)
   \<and> (\<forall>p i w t. find_offer_timestamps (do_db S) p i w = Inr t \<longrightarrow>
        t = map_option (\<lambda>r. (or_created_at r, or_updated_at r)) (ot_offers (content w) (p, i)))
   \<and> (\<forall>p i w r. find_metadata (do_db S) p i w = Inr r \<longrightarrow> r = ot_metadata_rows (content w) (p, i))
   \<and> (\<forall>p start cnt w rs. find_metadata_ordered (do_db S) p [MColCreatedAt, MColId] start cnt w = Inr rs \<longrightarrow>
        row_page metadata_row_order (ot_metadata_rows (content w)) p start cnt rs)
   \<and> (\<forall>p i w t. find_metadata_timestamps (do_db S) p i w = Inr t \<longrightarrow>
        t = map_option (\<lambda>r. (mr_created_at r, mr_updated_at r)) (ot_metadata_rows (content w) (p, i)))
   \<and> offer_codec (do_json S)"

lemma offer_db_lawfulD:
  assumes "offer_db_lawful content base S"
  shows "sql_lawful offer_fits offer_sql_effect content base (do_db S)"
    and "sql_exec (do_db S) (DeleteMetadata p i) w = (Inl e, w') \<Longrightarrow> restrict_violation e \<Longrightarrow>
      offer_sql_effect (DeleteMetadata p i) (content w) = Inl ForeignKeyRefusal"
    and "find_offer_with_metadata (do_db S) p i w = Inr r \<Longrightarrow>
      r = map_option (\<lambda>o1. (o1, ot_metadata_rows (content w) (offer_row_metadata_key o1))) (ot_offers (content w) (p, i))"
    and "find_offers_ordered (do_db S) p [ColCreatedAt, ColId] start cnt w = Inr rs \<Longrightarrow>
      row_page offer_row_order (ot_offers (content w)) p start cnt rs"
    and "find_offer_timestamps (do_db S) p i w = Inr t \<Longrightarrow>
      t = map_option (\<lambda>r. (or_created_at r, or_updated_at r)) (ot_offers (content w) (p, i))"
    and "find_metadata (do_db S) p i w = Inr mr \<Longrightarrow> mr = ot_metadata_rows (content w) (p, i)"
    and "find_metadata_ordered (do_db S) p [MColCreatedAt, MColId] start cnt w = Inr ms \<Longrightarrow>
      row_page metadata_row_order (ot_metadata_rows (content w)) p start cnt ms"
    and "find_metadata_timestamps (do_db S) p i w = Inr t \<Longrightarrow>
      t = map_option (\<lambda>r. (mr_created_at r, mr_updated_at r)) (ot_metadata_rows (content w) (p, i))"
    and "offer_codec (do_json S)"
  using assms unfolding offer_db_lawful_def by - (elim conjE, (meson | assumption))+

section \<open>The tables as a content of the contract\<close>

definition metadata_of_row :: "offer_lib \<Rightarrow> metadata_row \<Rightarrow> offer_metadata" where
  "metadata_of_row L r =
     \<lparr>meta_id = mr_id r, meta_partition = mr_partition r,
      meta_metadata = projr (metadata_sparse_from_json L (mr_metadata r))\<rparr>"

definition od_content :: "offer_lib \<Rightarrow> offer_tables \<Rightarrow> offer_content" where
  "od_content L c =
     \<lparr>oc_offers = (\<lambda>k. map_option (\<lambda>r. row_to_offer r None) (ot_offers c k)),
      oc_metadata = (\<lambda>k. map_option (metadata_of_row L) (ot_metadata_rows c k))\<rparr>"

text \<open>Rows are filed under their primary keys, the foreign key holds, and the metadata can be read.\<close>

definition od_inv :: "offer_lib \<Rightarrow> offer_tables \<Rightarrow> bool" where
  "od_inv L c \<longleftrightarrow>
     (\<forall>k r. ot_offers c k = Some r \<longrightarrow> offer_row_key r = k \<and> ot_metadata_rows c (offer_row_metadata_key r) \<noteq> None)
   \<and> (\<forall>k r. ot_metadata_rows c k = Some r \<longrightarrow> metadata_row_key r = k
        \<and> (\<exists>m. metadata_sparse_from_json L (mr_metadata r) = Inr m))"

text \<open>No row was created after \<open>t\<close>.\<close>

definition od_by :: "datetime \<Rightarrow> offer_tables \<Rightarrow> bool" where
  "od_by t c \<longleftrightarrow> (\<forall>k r. ot_offers c k = Some r \<longrightarrow> or_created_at r \<le> t)
     \<and> (\<forall>k r. ot_metadata_rows c k = Some r \<longrightarrow> mr_created_at r \<le> t)"

lemma od_content_simps [simp]:
  "oc_offers (od_content L c) k = map_option (\<lambda>r. row_to_offer r None) (ot_offers c k)"
  "oc_metadata (od_content L c) k = map_option (metadata_of_row L) (ot_metadata_rows c k)"
  by (simp_all add: od_content_def)

lemma od_content_upd:
  "od_content L (c\<lparr>ot_offers := (ot_offers c)(k \<mapsto> r)\<rparr>)
     = (od_content L c)\<lparr>oc_offers := (oc_offers (od_content L c))(k \<mapsto> row_to_offer r None)\<rparr>"
  "od_content L (c\<lparr>ot_offers := (ot_offers c)(k := None)\<rparr>)
     = (od_content L c)\<lparr>oc_offers := (oc_offers (od_content L c))(k := None)\<rparr>"
  "od_content L (c\<lparr>ot_metadata_rows := (ot_metadata_rows c)(k \<mapsto> m)\<rparr>)
     = (od_content L c)\<lparr>oc_metadata := (oc_metadata (od_content L c))(k \<mapsto> metadata_of_row L m)\<rparr>"
  "od_content L (c\<lparr>ot_metadata_rows := (ot_metadata_rows c)(k := None)\<rparr>)
     = (od_content L c)\<lparr>oc_metadata := (oc_metadata (od_content L c))(k := None)\<rparr>"
  by (auto simp: od_content_def fun_eq_iff)

lemma row_keys [simp]:
  "offer_key_of (row_to_offer r m) = offer_row_key r" "metadata_key_of (row_to_offer r m) = offer_row_metadata_key r"
  "rec_id (row_to_offer r m) = or_id r" "bare (row_to_offer r m) = row_to_offer r None"
  "rec_partition (row_to_offer r m) = or_partition r" "meta_key_of (metadata_of_row L mr) = metadata_row_key mr"
  "meta_id (metadata_of_row L mr) = mr_id mr"
  by (simp_all add: offer_key_of_def metadata_key_of_def meta_key_of_def row_to_offer_def metadata_of_row_def bare_def
      offer_row_key_def offer_row_metadata_key_def metadata_row_key_def)

lemma active_rows [simp]:
  "offer_row_key (offer_active_model now r) = offer_key_of r"
  "offer_row_metadata_key (offer_active_model now r) = metadata_key_of r"
  "row_to_offer (offer_active_model now r) None = bare r"
  "metadata_row_key (metadata_active_model S now m) = meta_key_of m"
  by (simp_all add: offer_active_model_def metadata_active_model_def offer_key_of_def metadata_key_of_def
      meta_key_of_def row_to_offer_def bare_def offer_row_key_def offer_row_metadata_key_def metadata_row_key_def)

lemma active_metadata [simp]:
  "offer_codec (do_json S) \<Longrightarrow> metadata_of_row (do_json S) (metadata_active_model S now m) = m"
  by (simp add: metadata_of_row_def metadata_active_model_def)

lemma od_inv_ok: "od_inv L c \<Longrightarrow> content_ok (od_content L c)"
  by (auto simp: od_inv_def content_ok_def)

lemma in_use_rows:
  "metadata_in_use (od_content L c) k \<longleftrightarrow> (\<exists>r \<in> ran (ot_offers c). offer_row_metadata_key r = k)"
  by (fastforce simp: metadata_in_use_def ran_def)

text \<open>What an upsert leaves behind: everything new but the time of creation.\<close>

abbreviation offer_put_columns :: "offer_column list" where
  "offer_put_columns \<equiv> [ColMaxSendable, ColMinSendable, ColMetadataId, ColTimestamp, ColExpires]"

lemma upserted_offer_simps:
  assumes "\<And>o1. old = Some o1 \<Longrightarrow> offer_row_key o1 = offer_key_of r"
    and new_def: "new = upserted_offer (offer_active_model now r) offer_put_columns t old"
  shows "offer_row_key new = offer_key_of r" and "offer_row_metadata_key new = metadata_key_of r"
    and "row_to_offer new None = bare r"
    and "or_created_at new = (case old of None \<Rightarrow> now | Some o1 \<Rightarrow> or_created_at o1)"
    and "or_updated_at new = (case old of None \<Rightarrow> now | Some o1 \<Rightarrow> t)"
  using assms(1) unfolding new_def
  by (cases old; simp add: upserted_offer_def offer_active_model_def offer_key_of_def metadata_key_of_def row_to_offer_def
      bare_def offer_row_key_def offer_row_metadata_key_def)+

lemma upserted_metadata_simps:
  assumes "\<And>o1. old = Some o1 \<Longrightarrow> metadata_row_key o1 = meta_key_of m" and "offer_codec (do_json S)"
    and new_def: "new = upserted_metadata (metadata_active_model S now m) [MColMetadata] t old"
  shows "metadata_row_key new = meta_key_of m" and "metadata_of_row (do_json S) new = m"
    and "metadata_sparse_from_json (do_json S) (mr_metadata new) = Inr (meta_metadata m)"
    and "mr_created_at new = (case old of None \<Rightarrow> now | Some o1 \<Rightarrow> mr_created_at o1)"
    and "mr_updated_at new = (case old of None \<Rightarrow> now | Some o1 \<Rightarrow> t)"
  using assms(1,2) unfolding new_def
  by (cases old; simp add: upserted_metadata_def metadata_active_model_def meta_key_of_def metadata_of_row_def
      metadata_row_key_def)+

section \<open>One operation\<close>

text \<open>What an operation answers: \<open>None\<close> if the database failed.\<close>

definition od_outcome :: "('a \<Rightarrow> offer_answer) \<Rightarrow> offer_store_error + 'a \<Rightarrow> offer_answer option" where
  "od_outcome f x =
     (case x of
        Inr a \<Rightarrow> Some (f a)
      | Inl e \<Rightarrow> if ose_esource e = Downstream then Some ORefused else None)"

fun posted :: "uuid option \<Rightarrow> offer_answer" where
  "posted (Some i) = OCreated i"
| "posted None = OExists"

fun od_exec :: "'w db_offers \<Rightarrow> datetime \<Rightarrow> offer_op \<Rightarrow> 'w \<Rightarrow> offer_answer option \<times> 'w" where
  "od_exec S now (OPost r) w = apfst (od_outcome posted) (od_post_offer S now r w)"
| "od_exec S now (OPut r) w = apfst (od_outcome ODone) (od_put_offer S now r w)"
| "od_exec S now (ODelete p i) w = apfst (od_outcome ODone) (od_delete_offer S p i w)"
| "od_exec S now (MPost m) w = apfst (od_outcome posted) (od_post_metadata S now m w)"
| "od_exec S now (MPut m) w = apfst (od_outcome ODone) (od_put_metadata S now m w)"
| "od_exec S now (MDelete p i) w = apfst (od_outcome ODone) (od_delete_metadata S p i w)"

text \<open>
  The answers of the contract, except that posting an offer that exists is answered as such also
  if its metadata does not.
\<close>

fun db_answer :: "offer_op \<Rightarrow> offer_content \<Rightarrow> offer_answer" where
  "db_answer (OPost r) c =
     (if oc_offers c (offer_key_of r) \<noteq> None then OExists else answer_to (OPost r) c)"
| "db_answer x c = answer_to x c"

fun op_fits :: "datetime \<Rightarrow> offer_op \<Rightarrow> bool" where
  "op_fits now (OPost r) \<longleftrightarrow> offer_row_fits (offer_active_model now r)"
| "op_fits now (OPut r) \<longleftrightarrow> offer_row_fits (offer_active_model now r)"
| "op_fits now x \<longleftrightarrow> whole_micros now"

lemma offer_error_sources [simp]:
  "ose_esource (offer_db_error S ctx e) = Internal" "ose_esource (metadata_missing_error S v r) = Downstream"
  "ose_esource (offer_invalid_input_error a b) = Downstream"
  by (simp_all add: offer_db_error_def metadata_missing_error_def offer_error_defs)

lemma was_inserted_outcome:
  assumes "od_outcome ODone (was_inserted S ctx r) = Some ans"
  shows "\<exists>t. r = Inr (Some t) \<and> ans = ODone (fst t = snd t)"
proof (cases r)
  case (Inr o1)
  with assms show ?thesis by (cases o1) (auto simp: od_outcome_def was_inserted_def split: prod.splits)
qed (use assms in \<open>simp add: od_outcome_def was_inserted_def\<close>)

lemma offer_future_fits: "whole_micros now \<Longrightarrow> whole_micros (offer_future now)"
  using mod_mult_self1 [of now 1000000 1000] by (simp add: whole_micros_def offer_future_def)

lemma od_invD:
  assumes "od_inv L c"
  shows "ot_offers c k = Some r \<Longrightarrow> offer_row_key r = k"
    and "ot_offers c k = Some r \<Longrightarrow> ot_metadata_rows c (offer_row_metadata_key r) \<noteq> None"
    and "ot_metadata_rows c k = Some m \<Longrightarrow> metadata_row_key m = k"
    and "ot_metadata_rows c k = Some m \<Longrightarrow> \<exists>x. metadata_sparse_from_json L (mr_metadata m) = Inr x"
  using assms unfolding od_inv_def by blast+

lemma od_inv_upd:
  assumes "od_inv L c"
  shows "offer_row_key r = k \<Longrightarrow> ot_metadata_rows c (offer_row_metadata_key r) \<noteq> None \<Longrightarrow>
      od_inv L (c\<lparr>ot_offers := (ot_offers c)(k \<mapsto> r)\<rparr>)"
    and "od_inv L (c\<lparr>ot_offers := (ot_offers c)(k := None)\<rparr>)"
    and "metadata_row_key m = k \<Longrightarrow> metadata_sparse_from_json L (mr_metadata m) = Inr y \<Longrightarrow>
      od_inv L (c\<lparr>ot_metadata_rows := (ot_metadata_rows c)(k \<mapsto> m)\<rparr>)"
    and "\<not> (\<exists>r \<in> ran (ot_offers c). offer_row_metadata_key r = k) \<Longrightarrow>
      od_inv L (c\<lparr>ot_metadata_rows := (ot_metadata_rows c)(k := None)\<rparr>)"
  using assms by (auto simp: od_inv_def ran_def)

lemma od_by_upd:
  assumes "od_by t c"
  shows "or_created_at r \<le> t \<Longrightarrow> od_by t (c\<lparr>ot_offers := (ot_offers c)(k \<mapsto> r)\<rparr>)"
    and "od_by t (c\<lparr>ot_offers := (ot_offers c)(k := None)\<rparr>)"
    and "mr_created_at m \<le> t \<Longrightarrow> od_by t (c\<lparr>ot_metadata_rows := (ot_metadata_rows c)(k \<mapsto> m)\<rparr>)"
    and "od_by t (c\<lparr>ot_metadata_rows := (ot_metadata_rows c)(k := None)\<rparr>)"
  using assms by (simp_all add: od_by_def)

lemma od_byD:
  assumes "od_by t c"
  shows "ot_offers c k = Some r \<Longrightarrow> or_created_at r \<le> t" and "ot_metadata_rows c k = Some m \<Longrightarrow> mr_created_at m \<le> t"
  using assms unfolding od_by_def by blast+

text \<open>The law of one operation, between the tables before and after it.\<close>

definition od_law :: "offer_lib \<Rightarrow> datetime \<Rightarrow> offer_op \<Rightarrow> offer_tables \<Rightarrow> offer_answer option \<Rightarrow> offer_tables \<Rightarrow> bool" where
  "od_law L now x c out c' \<longleftrightarrow> od_inv L c' \<and> od_by now c'
     \<and> (let m = od_content L c; m' = unwrap_or m (offer_effect x m)
        in case out of
             Some ans \<Rightarrow> ans = db_answer x m \<and> od_content L c' = m'
           | None \<Rightarrow> od_content L c' \<in> {m, m'})"

lemma post_offer_law:
  assumes D: "offer_db_lawful content base S" and inv: "od_inv (do_json S) (content w)" and recent: "od_by now (content w)"
    and fits: "op_fits now (OPost r)" and run: "od_exec S now (OPost r) w = (out, w')"
  shows "od_law (do_json S) now (OPost r) (content w) out (content w')"
proof -
  let ?st = "InsertOffer (offer_active_model now r)"
  obtain x where x: "sql_exec (do_db S) ?st w = (x, w')"
    using run by (cases "sql_exec (do_db S) ?st w") (auto simp: od_post_offer_def split: sum.splits if_splits)
  have "offer_fits ?st" using fits by simp
  note sql = sql_execD [OF offer_db_lawfulD(1) [OF D] this, of w]
  have created: "or_created_at (offer_active_model now r) \<le> now" by (simp add: offer_active_model_def)
  show ?thesis
  proof (cases x)
    case (Inr n)
    with x sql(1) [of n w'] have new: "ot_offers (content w) (offer_key_of r) = None"
        and meta: "ot_metadata_rows (content w) (metadata_key_of r) \<noteq> None"
        and w': "content w' = (content w)\<lparr>ot_offers := (ot_offers (content w))(offer_key_of r \<mapsto> offer_active_model now r)\<rparr>"
      by (auto split: if_splits)
    moreover have "od_inv (do_json S) (content w') \<and> od_by now (content w')"
      unfolding w' using od_inv_upd(1) [OF inv active_rows(1)] meta od_by_upd(1) [OF recent created] by simp
    moreover have "out = Some (OCreated (rec_id r))"
      using run x Inr by (auto simp: od_post_offer_def od_outcome_def)
    ultimately show ?thesis
      by (simp add: od_law_def Let_def od_content_upd)
  next
    case (Inl e)
    with x sql(2) [of e w'] have "content w' = content w" by simp
    with Inl x run sql(3,4) [of e w'] inv recent show ?thesis
      by (auto simp: od_law_def od_post_offer_def od_outcome_def Let_def split: if_splits)
  qed
qed

lemma put_offer_law:
  assumes D: "offer_db_lawful content base S" and inv: "od_inv (do_json S) (content w)" and recent: "od_by now (content w)"
    and fits: "op_fits now (OPut r)" and run: "od_exec S now (OPut r) w = (out, w')"
  shows "od_law (do_json S) now (OPut r) (content w) out (content w')"
proof -
  let ?k = "offer_key_of r"
  let ?st = "UpsertOffer (offer_active_model now r) offer_put_columns (offer_future now)"
  define new where "new = upserted_offer (offer_active_model now r) offer_put_columns (offer_future now) (ot_offers (content w) ?k)"
  note ups = upserted_offer_simps [OF od_invD(1) [OF inv] new_def]
  obtain x where x: "sql_exec (do_db S) ?st w = (x, w')"
    using run by (cases "sql_exec (do_db S) ?st w") (auto simp: od_put_offer_def split: sum.splits if_splits)
  have "offer_fits ?st" using fits offer_future_fits by (auto simp: offer_row_fits_def offer_active_model_def)
  note sql = sql_execD [OF offer_db_lawfulD(1) [OF D] this, of w]
  show ?thesis
  proof (cases x)
    case (Inr n)
    with x sql(1) [of n w'] ups(1,2) have meta: "ot_metadata_rows (content w) (metadata_key_of r) \<noteq> None"
      and w': "content w' = (content w)\<lparr>ot_offers := (ot_offers (content w))(?k \<mapsto> new)\<rparr>"
      by (auto simp: Let_def new_def [symmetric] split: if_splits)
    have created: "or_created_at new \<le> now"
      using ups(4) od_byD(1) [OF recent] by (auto split: option.splits)
    have "od_inv (do_json S) (content w') \<and> od_by now (content w')"
      unfolding w' using od_inv_upd(1) [OF inv ups(1)] meta ups(2) od_by_upd(1) [OF recent created] by simp
    moreover have eff: "offer_effect (OPut r) (od_content (do_json S) (content w)) = Some (od_content (do_json S) (content w'))"
      unfolding w' od_content_upd using meta by (simp add: ups(3))
    moreover have "out = None \<or> out = Some (ODone (ot_offers (content w) ?k = None))"
    proof (cases out)
      case (Some ans)
      then obtain t where t: "find_offer_timestamps (do_db S) (rec_partition r) (rec_id r) w' = Inr (Some t)"
          "ans = ODone (fst t = snd t)"
        using x Inr run was_inserted_outcome by (fastforce simp: od_put_offer_def)
      have "t = (or_created_at new, or_updated_at new)"
        using offer_db_lawfulD(5) [OF D t(1)] w' by (simp add: offer_key_of_def)
      moreover have "or_created_at o1 \<noteq> offer_future now" if "ot_offers (content w) ?k = Some o1" for o1
        using od_byD(1) [OF recent that] by (simp add: offer_future_def)
      ultimately show ?thesis
        using t(2) Some ups(4,5) by (auto split: option.splits)
    qed simp
    ultimately show ?thesis
      using meta by (auto simp: od_law_def Let_def)
  next
    case (Inl e)
    with x sql(2) [of e w'] have "content w' = content w" by simp
    with Inl x run sql(4) [of e w'] inv recent ups(2) show ?thesis
      by (auto simp: od_law_def od_put_offer_def od_outcome_def Let_def new_def [symmetric] split: if_splits)
  qed
qed

lemma delete_offer_law:
  assumes D: "offer_db_lawful content base S" and inv: "od_inv (do_json S) (content w)" and recent: "od_by now (content w)"
    and run: "od_exec S now (ODelete p i) w = (out, w')"
  shows "od_law (do_json S) now (ODelete p i) (content w) out (content w')"
proof -
  obtain x where x: "sql_exec (do_db S) (DeleteOffer p i) w = (x, w')"
    using run by (cases "sql_exec (do_db S) (DeleteOffer p i) w") (auto simp: od_delete_offer_def)
  have "offer_fits (DeleteOffer p i)" by simp
  note sql = sql_execD [OF offer_db_lawfulD(1) [OF D] this, of w]
  show ?thesis
  proof (cases x)
    case (Inr n)
    with x run have out: "out = Some (ODone (0 < n))"
      by (auto simp: od_delete_offer_def od_outcome_def)
    show ?thesis
    proof (cases "ot_offers (content w) (p, i)")
      case None
      with Inr x sql(1) [of n w'] have "content w' = content w" "n = 0" by simp_all
      with None out inv recent show ?thesis by (simp add: od_law_def)
    next
      case (Some o1)
      with Inr x sql(1) [of n w'] have w': "content w' = (content w)\<lparr>ot_offers := (ot_offers (content w))((p, i) := None)\<rparr>"
          and "n = 1" by simp_all
      with Some out od_inv_upd(2) [OF inv] od_by_upd(2) [OF recent] show ?thesis
        by (simp add: od_law_def od_content_upd)
    qed
  next
    case (Inl e)
    with x run sql(2) [of e w'] inv recent show ?thesis
      by (auto simp: od_law_def od_delete_offer_def od_outcome_def Let_def)
  qed
qed

lemma post_metadata_law:
  assumes D: "offer_db_lawful content base S" and inv: "od_inv (do_json S) (content w)" and recent: "od_by now (content w)"
    and fits: "op_fits now (MPost m)" and run: "od_exec S now (MPost m) w = (out, w')"
  shows "od_law (do_json S) now (MPost m) (content w) out (content w')"
proof -
  let ?r = "metadata_active_model S now m"
  note codec = offer_db_lawfulD(9) [OF D]
  obtain x where x: "sql_exec (do_db S) (InsertMetadata ?r) w = (x, w')"
    using run by (cases "sql_exec (do_db S) (InsertMetadata ?r) w") (auto simp: od_post_metadata_def split: sum.splits if_splits)
  have "offer_fits (InsertMetadata ?r)" using fits by (simp add: metadata_row_fits_def metadata_active_model_def)
  note sql = sql_execD [OF offer_db_lawfulD(1) [OF D] this, of w]
  show ?thesis
  proof (cases x)
    case (Inr n)
    with x sql(1) [of n w'] have new: "ot_metadata_rows (content w) (meta_key_of m) = None"
        and w': "content w' = (content w)\<lparr>ot_metadata_rows := (ot_metadata_rows (content w))(meta_key_of m \<mapsto> ?r)\<rparr>"
      by (auto split: if_splits)
    have "mr_created_at ?r \<le> now" "metadata_sparse_from_json (do_json S) (mr_metadata ?r) = Inr (meta_metadata m)"
      using codec by (simp_all add: metadata_active_model_def)
    then have "od_inv (do_json S) (content w') \<and> od_by now (content w')"
      unfolding w' using od_inv_upd(3) [OF inv active_rows(4)] od_by_upd(3) [OF recent] by simp
    moreover have "out = Some (OCreated (meta_id m))"
      using run x Inr by (auto simp: od_post_metadata_def od_outcome_def)
    ultimately show ?thesis
      using new codec by (simp add: w' od_law_def Let_def od_content_upd)
  next
    case (Inl e)
    with x sql(2) [of e w'] have "content w' = content w" by simp
    with Inl x run sql(3) [of e w'] inv recent show ?thesis
      by (auto simp: od_law_def od_post_metadata_def od_outcome_def Let_def split: if_splits)
  qed
qed

lemma put_metadata_law:
  assumes D: "offer_db_lawful content base S" and inv: "od_inv (do_json S) (content w)" and recent: "od_by now (content w)"
    and fits: "op_fits now (MPut m)" and run: "od_exec S now (MPut m) w = (out, w')"
  shows "od_law (do_json S) now (MPut m) (content w) out (content w')"
proof -
  let ?k = "meta_key_of m" and ?st = "UpsertMetadata (metadata_active_model S now m) [MColMetadata] (offer_future now)"
  define new where "new = upserted_metadata (metadata_active_model S now m) [MColMetadata] (offer_future now)
      (ot_metadata_rows (content w) ?k)"
  note ups = upserted_metadata_simps [OF od_invD(3) [OF inv] offer_db_lawfulD(9) [OF D] new_def]
  obtain x where x: "sql_exec (do_db S) ?st w = (x, w')"
    using run by (cases "sql_exec (do_db S) ?st w") (auto simp: od_put_metadata_def split: sum.splits if_splits)
  have "offer_fits ?st" using fits offer_future_fits by (simp add: metadata_row_fits_def metadata_active_model_def)
  note sql = sql_execD [OF offer_db_lawfulD(1) [OF D] this, of w]
  show ?thesis
  proof (cases x)
    case (Inr n)
    with x sql(1) [of n w']
    have w': "content w' = (content w)\<lparr>ot_metadata_rows := (ot_metadata_rows (content w))(?k \<mapsto> new)\<rparr>"
      by (simp add: new_def [symmetric])
    have created: "mr_created_at new \<le> now"
      using ups(4) od_byD(2) [OF recent] by (auto split: option.splits)
    have "od_inv (do_json S) (content w') \<and> od_by now (content w')"
      unfolding w' using od_inv_upd(3) [OF inv ups(1,3)] od_by_upd(3) [OF recent created] by simp
    moreover have "offer_effect (MPut m) (od_content (do_json S) (content w)) = Some (od_content (do_json S) (content w'))"
      unfolding w' od_content_upd by (simp add: ups(2))
    moreover have "out = None \<or> out = Some (ODone (ot_metadata_rows (content w) ?k = None))"
    proof (cases out)
      case (Some ans)
      then obtain t where t: "find_metadata_timestamps (do_db S) (meta_partition m) (meta_id m) w' = Inr (Some t)"
          "ans = ODone (fst t = snd t)"
        using x Inr run was_inserted_outcome by (fastforce simp: od_put_metadata_def)
      have "t = (mr_created_at new, mr_updated_at new)"
        using offer_db_lawfulD(8) [OF D t(1)] w' by (simp add: meta_key_of_def)
      moreover have "mr_created_at o1 \<noteq> offer_future now" if "ot_metadata_rows (content w) ?k = Some o1" for o1
        using od_byD(2) [OF recent that] by (simp add: offer_future_def)
      ultimately show ?thesis
        using t(2) Some ups(4,5) by (auto split: option.splits)
    qed simp
    ultimately show ?thesis
      by (auto simp: od_law_def Let_def)
  next
    case (Inl e)
    with x run sql(2) [of e w'] inv recent show ?thesis
      by (auto simp: od_law_def od_put_metadata_def od_outcome_def Let_def)
  qed
qed

lemma delete_metadata_law:
  assumes D: "offer_db_lawful content base S" and inv: "od_inv (do_json S) (content w)" and recent: "od_by now (content w)"
    and run: "od_exec S now (MDelete p i) w = (out, w')"
  shows "od_law (do_json S) now (MDelete p i) (content w) out (content w')"
proof -
  let ?used = "\<exists>r \<in> ran (ot_offers (content w)). offer_row_metadata_key r = (p, i)"
  obtain x where x: "sql_exec (do_db S) (DeleteMetadata p i) w = (x, w')"
    using run by (cases "sql_exec (do_db S) (DeleteMetadata p i) w") (auto simp: od_delete_metadata_def)
  have "offer_fits (DeleteMetadata p i)" by simp
  note sql = sql_execD [OF offer_db_lawfulD(1) [OF D] this, of w]
  show ?thesis
  proof (cases x)
    case (Inr n)
    with x run have out: "out = Some (ODone (0 < n))"
      by (auto simp: od_delete_metadata_def od_outcome_def)
    have free: "\<not> ?used" using Inr x sql(1) [of n w'] by (auto split: if_splits)
    then have unused: "\<not> metadata_in_use (od_content (do_json S) (content w)) (p, i)" by (simp add: in_use_rows)
    show ?thesis
    proof (cases "ot_metadata_rows (content w) (p, i)")
      case None
      with Inr x sql(1) [of n w'] free have "content w' = content w" "n = 0" by simp_all
      with None out unused inv recent show ?thesis by (simp add: od_law_def)
    next
      case (Some o1)
      with Inr x sql(1) [of n w'] free
      have w': "content w' = (content w)\<lparr>ot_metadata_rows := (ot_metadata_rows (content w))((p, i) := None)\<rparr>"
          and "n = 1" by simp_all
      with Some out unused od_inv_upd(4) [OF inv free] od_by_upd(4) [OF recent] show ?thesis
        by (simp add: od_law_def od_content_upd)
    qed
  next
    case (Inl e)
    with x sql(2) [of e w'] have "content w' = content w" by simp
    moreover have "?used" if "restrict_violation e"
      using offer_db_lawfulD(2) [OF D x [unfolded Inl] that] by (auto split: if_splits)
    ultimately show ?thesis
      using Inl x run inv recent
      by (auto simp: od_law_def od_delete_metadata_def od_outcome_def Let_def in_use_rows split: if_splits)
  qed
qed

lemma od_exec_law:
  assumes "offer_db_lawful content base S" and "od_inv (do_json S) (content w)" and "od_by now (content w)"
    and "op_fits now x" and "od_exec S now x w = (out, w')"
  shows "od_law (do_json S) now x (content w) out (content w')"
  using assms
  by (cases x) (simp_all only: post_offer_law put_offer_law delete_offer_law post_metadata_law put_metadata_law delete_metadata_law)

section \<open>Reading\<close>

lemma get_offer_law:
  assumes D: "offer_db_lawful content base S" and inv: "od_inv (do_json S) (content w)"
    and get: "od_get_offer S w p i sparse = Inr r"
  defines "c \<equiv> od_content (do_json S) (content w)"
  shows "r = (if unwrap_or True sparse then oc_offers c (p, i)
    else case oc_offers c (p, i) of
           None \<Rightarrow> None
         | Some o1 \<Rightarrow> map_option (\<lambda>m. with_metadata (meta_metadata m) o1) (oc_metadata c (metadata_key_of o1)))"
proof -
  from get obtain f where f: "find_offer_with_metadata (do_db S) p i w = Inr f"
    by (auto simp: od_get_offer_def Let_def result_simps)
  note row = offer_db_lawfulD(3) [OF D f]
  show ?thesis
  proof (cases "ot_offers (content w) (p, i)")
    case None
    with get f row show ?thesis by (simp add: od_get_offer_def c_def)
  next
    case (Some o1)
    with od_invD(2) [OF inv] obtain m where m: "ot_metadata_rows (content w) (offer_row_metadata_key o1) = Some m" by blast
    with od_invD(4) [OF inv] obtain y where "metadata_sparse_from_json (do_json S) (mr_metadata m) = Inr y" by blast
    with get f row Some m show ?thesis
      by (cases "unwrap_or True sparse") (simp_all add: od_get_offer_def c_def read_metadata_def metadata_of_row_def
          with_metadata_def row_to_offer_def offer_row_metadata_key_def metadata_key_of_def)
  qed
qed

lemma get_metadata_law:
  assumes D: "offer_db_lawful content base S" and inv: "od_inv (do_json S) (content w)"
    and get: "od_get_metadata S w p i = Inr r"
  shows "r = oc_metadata (od_content (do_json S) (content w)) (p, i)"
proof -
  from get obtain f where f: "find_metadata (do_db S) p i w = Inr f"
    by (auto simp: od_get_metadata_def result_simps)
  note row = offer_db_lawfulD(6) [OF D f]
  show ?thesis
  proof (cases f)
    case None
    with get f row show ?thesis by (simp add: od_get_metadata_def)
  next
    case (Some m)
    with row have m: "ot_metadata_rows (content w) (p, i) = Some m" by simp
    with od_invD(4) [OF inv] obtain y where "metadata_sparse_from_json (do_json S) (mr_metadata m) = Inr y" by metis
    with get f Some m show ?thesis
      by (simp add: od_get_metadata_def read_metadata_def metadata_of_row_def)
  qed
qed

text \<open>All pages of one partition are pages of one list.\<close>

lemma row_pages:
  assumes key: "\<And>i r. m (p, i) = Some r \<Longrightarrow> snd (order r) = i"
    and first: "row_page order m p start0 cnt0 rs0"
  shows "\<exists>all. distinct (map (snd \<circ> order) all) \<and> set all = {r. \<exists>i. m (p, i) = Some r}
    \<and> sorted (map order all) \<and> (\<forall>start cnt rs. row_page order m p start cnt rs \<longrightarrow> rs = page start cnt all)"
proof -
  let ?m = "\<lambda>i. m (p, i)"
  from first obtain all where all: "lists_rows ?m all" "sorted (map order all)" by (auto simp: row_page_def)
  from all(1) obtain ks where ks: "distinct ks" "set ks = dom ?m" "mset all = mset (map (the \<circ> ?m) ks)"
    by (auto simp: lists_rows_def)
  have ids: "map (snd \<circ> order) (map (the \<circ> ?m) ks) = ks"
    using ks(2) key by (intro nth_equalityI) (force simp: dom_def set_eq_iff in_set_conv_nth)+
  have "mset (map (snd \<circ> order) all) = mset ks"
    using arg_cong [OF ks(3), of "image_mset (snd \<circ> order)"] ids by (metis mset_map)
  with ks(1) have dist: "distinct (map (snd \<circ> order) all)" by (metis mset_eq_imp_distinct_iff)
  have "set all = (the \<circ> ?m) ` dom ?m" using mset_eq_setD [OF ks(3)] ks(2) by simp
  also have "\<dots> = {r. \<exists>i. ?m i = Some r}" by (force simp: dom_def image_iff)
  finally have set_all: "set all = {r. \<exists>i. ?m i = Some r}" .
  have "rs = page start cnt all" if page: "row_page order m p start cnt rs" for start cnt rs
  proof -
    from page obtain other where other: "lists_rows ?m other" "sorted (map order other)" "rs = page start cnt other"
      by (auto simp: row_page_def)
    from other(1) obtain ks' where ks': "distinct ks'" "set ks' = dom ?m" "mset other = mset (map (the \<circ> ?m) ks')"
      by (auto simp: lists_rows_def)
    have "mset ks' = mset ks" using ks(1,2) ks'(1,2) by (metis set_eq_iff_mset_eq_distinct)
    then have "mset other = mset all" using ks(3) ks'(3) by (metis mset_map)
    moreover have "inj_on order (set other)"
      using dist calculation by (metis distinct_map inj_on_imageI2 mset_eq_setD)
    ultimately have "sort_key order other = sort_key order all" by (rule sort_key_mset_unique)
    with all(2) other(2,3) show ?thesis by (simp add: sort_key_id_if_sorted)
  qed
  with dist set_all all(2) show ?thesis by blast
qed

lemma get_offers_law:
  assumes D: "offer_db_lawful content base S" and inv: "od_inv (do_json S) (content w)"
    and get: "od_get_offers S w p start0 cnt0 = Inr r0"
  shows "\<exists>rs. distinct (map rec_id rs)
    \<and> set rs = {r. \<exists>i. oc_offers (od_content (do_json S) (content w)) (p, i) = Some r}
    \<and> (\<forall>start cnt r. od_get_offers S w p start cnt = Inr r \<longrightarrow> r = page start cnt rs)"
proof -
  have key: "snd (offer_row_order r) = i" if "ot_offers (content w) (p, i) = Some r" for i r
    using od_invD(1) [OF inv that] by (simp add: offer_row_key_def)
  from get obtain f where "find_offers_ordered (do_db S) p [ColCreatedAt, ColId] start0 cnt0 w = Inr f"
    by (auto simp: od_get_offers_def result_simps)
  from row_pages [OF key offer_db_lawfulD(4) [OF D this]] obtain all where
    all: "distinct (map or_id all)" "set all = {r. \<exists>i. ot_offers (content w) (p, i) = Some r}"
      "\<forall>start cnt rs. row_page offer_row_order (ot_offers (content w)) p start cnt rs \<longrightarrow> rs = page start cnt all"
    by (auto simp: comp_def)
  have "r = page start cnt (map (\<lambda>r. row_to_offer r None) all)" if "od_get_offers S w p start cnt = Inr r" for start cnt r
  proof -
    from that obtain rs where rs: "find_offers_ordered (do_db S) p [ColCreatedAt, ColId] start cnt w = Inr rs"
        "r = map (\<lambda>r. row_to_offer r None) rs"
      by (auto simp: od_get_offers_def result_simps)
    then have "rs = page start cnt all" using all(3) offer_db_lawfulD(4) [OF D rs(1)] by simp
    with rs(2) show ?thesis by (simp add: page_def take_map drop_map)
  qed
  moreover have "set (map (\<lambda>r. row_to_offer r None) all) = {r. \<exists>i. oc_offers (od_content (do_json S) (content w)) (p, i) = Some r}"
    using all(2) by auto
  moreover have "distinct (map rec_id (map (\<lambda>r. row_to_offer r None) all))" using all(1) by (simp add: comp_def)
  ultimately show ?thesis by blast
qed

lemma read_rows_Inr:
  assumes "\<And>r. r \<in> set rs \<Longrightarrow> \<exists>y. metadata_sparse_from_json (do_json S) (mr_metadata r) = Inr y"
  shows "read_rows S p rs = Inr (map (metadata_of_row (do_json S)) rs)"
  using assms
proof (induction rs)
  case (Cons r rs)
  then obtain y where "metadata_sparse_from_json (do_json S) (mr_metadata r) = Inr y" by auto
  with Cons show ?case by (simp add: read_metadata_def metadata_of_row_def)
qed simp

lemma get_all_metadata_law:
  assumes D: "offer_db_lawful content base S" and inv: "od_inv (do_json S) (content w)"
    and get: "od_get_all_metadata S w p start0 cnt0 = Inr r0"
  shows "\<exists>ms. distinct (map meta_id ms)
    \<and> set ms = {m. \<exists>i. oc_metadata (od_content (do_json S) (content w)) (p, i) = Some m}
    \<and> (\<forall>start cnt r. od_get_all_metadata S w p start cnt = Inr r \<longrightarrow> r = page start cnt ms)"
proof -
  let ?L = "do_json S"
  have key: "snd (metadata_row_order r) = i" if "ot_metadata_rows (content w) (p, i) = Some r" for i r
    using od_invD(3) [OF inv that] by (simp add: metadata_row_key_def)
  from get obtain f where "find_metadata_ordered (do_db S) p [MColCreatedAt, MColId] start0 cnt0 w = Inr f"
    by (auto simp: od_get_all_metadata_def result_simps)
  from row_pages [OF key offer_db_lawfulD(7) [OF D this]] obtain all where
    all: "distinct (map mr_id all)" "set all = {r. \<exists>i. ot_metadata_rows (content w) (p, i) = Some r}"
      "\<forall>start cnt rs. row_page metadata_row_order (ot_metadata_rows (content w)) p start cnt rs \<longrightarrow> rs = page start cnt all"
    by (auto simp: comp_def)
  have readable: "\<exists>y. metadata_sparse_from_json ?L (mr_metadata r) = Inr y" if "r \<in> set (page start cnt all)" for r start cnt
    using that all(2) od_invD(4) [OF inv] set_page [of start cnt all] by blast
  have "r = page start cnt (map (metadata_of_row ?L) all)" if get: "od_get_all_metadata S w p start cnt = Inr r" for start cnt r
  proof -
    from get obtain rs where rs: "find_metadata_ordered (do_db S) p [MColCreatedAt, MColId] start cnt w = Inr rs"
        "read_rows S p rs = Inr r"
      by (auto simp: od_get_all_metadata_def result_simps)
    then have "rs = page start cnt all" using all(3) offer_db_lawfulD(7) [OF D rs(1)] by simp
    with rs(2) read_rows_Inr [of rs S p] readable show ?thesis by (simp add: page_def take_map drop_map)
  qed
  moreover have "set (map (metadata_of_row ?L) all) = {m. \<exists>i. oc_metadata (od_content ?L (content w)) (p, i) = Some m}"
    using all(2) by auto
  moreover have "distinct (map meta_id (map (metadata_of_row ?L) all))" using all(1) by (simp add: comp_def)
  ultimately show ?thesis by blast
qed

section \<open>Histories\<close>

text \<open>
  Histories may contain operations that the database fails: the state goes on from whatever they
  left. Clocks do not run backwards, and instants are in the precision of the columns.
\<close>

definition od_run :: "'w db_offers \<Rightarrow> datetime \<times> offer_op \<Rightarrow> 'w \<Rightarrow> 'w" where
  "od_run S x w = snd (od_exec S (fst x) (snd x) w)"

definition timely :: "(datetime \<times> offer_op) list \<Rightarrow> bool" where
  "timely xs \<longleftrightarrow> sorted (map fst xs) \<and> (\<forall>x \<in> set xs. op_fits (fst x) (snd x))"

definition migrated_offers :: offer_tables where
  "migrated_offers = \<lparr>ot_offers = Map.empty, ot_metadata_rows = Map.empty\<rparr>"

lemma od_run_inv:
  assumes D: "offer_db_lawful content base S" and "content w0 = migrated_offers" and "timely xs"
  shows "od_inv (do_json S) (content (fold (od_run S) xs w0))
    \<and> (\<forall>t. (\<forall>x \<in> set xs. fst x \<le> t) \<longrightarrow> od_by t (content (fold (od_run S) xs w0)))"
  using assms(3)
proof (induction xs rule: rev_induct)
  case Nil
  then show ?case by (simp add: assms(2) migrated_offers_def od_inv_def od_by_def)
next
  case (snoc x xs)
  let ?w = "fold (od_run S) xs w0"
  obtain now y where x: "x = (now, y)" by fastforce
  with snoc.prems have pre: "timely xs" "\<forall>z \<in> set xs. fst z \<le> now" "op_fits now y"
    by (auto simp: timely_def sorted_append)
  with snoc.IH have inv: "od_inv (do_json S) (content ?w)" "od_by now (content ?w)" by simp_all
  have "od_law (do_json S) now y (content ?w) (fst (od_exec S now y ?w)) (content (snd (od_exec S now y ?w)))"
    by (rule od_exec_law [OF D inv pre(3)]) simp
  then have after: "od_inv (do_json S) (content (od_run S x ?w))" "od_by now (content (od_run S x ?w))"
    by (simp_all add: od_law_def od_run_def x)
  then have "od_by t (content (od_run S x ?w))" if "now \<le> t" for t
    using that unfolding od_by_def by (meson order_trans)
  with after x show ?case by auto
qed

section \<open>A database for the witnesses\<close>

record offer_world =
  ow_offers :: "(offer_key \<times> offer_row) list"
  ow_metadata :: "(offer_key \<times> metadata_row) list"

definition offer_world_content :: "offer_world \<Rightarrow> offer_tables" where
  "offer_world_content w = \<lparr>ot_offers = map_of (ow_offers w), ot_metadata_rows = map_of (ow_metadata w)\<rparr>"

fun statement_offer :: "offer_statement \<Rightarrow> offer_key option" where
  "statement_offer (InsertOffer r) = Some (offer_row_key r)"
| "statement_offer (UpsertOffer r cols t) = Some (offer_row_key r)"
| "statement_offer (DeleteOffer p i) = Some (p, i)"
| "statement_offer _ = None"

fun statement_metadata :: "offer_statement \<Rightarrow> offer_key option" where
  "statement_metadata (InsertMetadata r) = Some (metadata_row_key r)"
| "statement_metadata (UpsertMetadata r cols t) = Some (metadata_row_key r)"
| "statement_metadata (DeleteMetadata p i) = Some (p, i)"
| "statement_metadata _ = None"

definition offer_world_exec :: "offer_statement \<Rightarrow> offer_world \<Rightarrow> (db_err + nat) \<times> offer_world" where
  "offer_world_exec st w =
     (case offer_sql_effect st (offer_world_content w) of
        Inl r \<Rightarrow> (Inl (ExecDatabase \<lparr>dbe_unique = (r = UniqueRefusal), dbe_foreign_key = (r = ForeignKeyRefusal), dbe_code = None\<rparr>), w)
      | Inr (n, c) \<Rightarrow>
          (Inr n,
           w\<lparr>ow_offers := (case statement_offer st of None \<Rightarrow> ow_offers w | Some k \<Rightarrow> put_entry k (ot_offers c k) (ow_offers w)),
             ow_metadata := (case statement_metadata st of
                None \<Rightarrow> ow_metadata w | Some k \<Rightarrow> put_entry k (ot_metadata_rows c k) (ow_metadata w))\<rparr>))"

definition offer_world_store :: "offer_world db_offers" where
  "offer_world_store =
     \<lparr>do_db = \<lparr>sql_exec = offer_world_exec, sql_exec_txn = offer_world_exec,
        sql_begin = Pair (Inr ()), sql_commit = Pair (Inr ()),
        find_offer_with_metadata = (\<lambda>p i w. Inr (map_option
          (\<lambda>o1. (o1, map_of (ow_metadata w) (offer_row_metadata_key o1))) (map_of (ow_offers w) (p, i)))),
        find_offers_ordered = (\<lambda>p _ start cnt w. Inr (page start cnt (sort_key offer_row_order (partition_rows p (ow_offers w))))),
        find_offer_timestamps = (\<lambda>p i w. Inr (map_option (\<lambda>r. (or_created_at r, or_updated_at r)) (map_of (ow_offers w) (p, i)))),
        find_metadata = (\<lambda>p i w. Inr (map_of (ow_metadata w) (p, i))),
        find_metadata_ordered = (\<lambda>p _ start cnt w. Inr (page start cnt (sort_key metadata_row_order (partition_rows p (ow_metadata w))))),
        find_metadata_timestamps = (\<lambda>p i w. Inr (map_option (\<lambda>r. (mr_created_at r, mr_updated_at r)) (map_of (ow_metadata w) (p, i))))\<rparr>,
      do_json = sample_offer_lib, do_show_offer = (\<lambda>_. []), do_show_err = (\<lambda>_. []), do_show_json_error = (\<lambda>_. [])\<rparr>"

lemma offer_world_exec_content:
  "offer_world_exec st w = (Inr n, w') \<Longrightarrow> offer_sql_effect st (offer_world_content w) = Inr (n, offer_world_content w')"
  by (cases st) (auto simp: offer_world_exec_def offer_world_content_def fun_eq_iff Let_def split: sum.splits if_splits)

lemma row_page_sorted: "row_page order (map_of l) p start cnt (page start cnt (sort_key order (partition_rows p l)))"
  unfolding row_page_def using lists_rows_partition [of l p order] by (intro exI [of _ "sort_key order (partition_rows p l)"]) simp

lemma offer_world_lawful: "offer_db_lawful offer_world_content offer_world_content offer_world_store"
proof -
  have "sql_lawful offer_fits offer_sql_effect offer_world_content offer_world_content (do_db offer_world_store)"
    using offer_world_exec_content
    by (auto simp: sql_lawful_def offer_world_store_def offer_world_exec_def split: sum.splits)
  moreover have "offer_sql_effect (DeleteMetadata p i) (offer_world_content w) = Inl ForeignKeyRefusal"
    if "sql_exec (do_db offer_world_store) (DeleteMetadata p i) w = (Inl e, w')" for p i w e w'
    using that by (auto simp: offer_world_store_def offer_world_exec_def split: sum.splits if_splits)
  ultimately show ?thesis
    unfolding offer_db_lawful_def using sample_offer_codec
    by (intro conjI allI impI; (assumption | blast)?)
      (auto simp: offer_world_store_def offer_world_content_def row_page_sorted)
qed

section \<open>Properties\<close>


definition sample_metadata :: offer_metadata where
  "sample_metadata = \<lparr>meta_id = 3, meta_partition = ''p'',
     meta_metadata = \<lparr>md_text = ''t'', md_long_text = None, md_image = None, md_identifier = None\<rparr>\<rparr>"

definition sample_record :: offer_record where
  "sample_record = \<lparr>rec_partition = ''p'', rec_id = 7, rec_offer = \<lparr>rec_max_sendable = 9, rec_min_sendable = 1,
     rec_metadata_id = 3, rec_metadata = None, rec_timestamp = 0, rec_expires = None\<rparr>\<rparr>"

definition sample_history :: "(datetime \<times> offer_op) list" where
  "sample_history = [(1000, MPost sample_metadata), (2000, OPost sample_record)]"

lemma sample_timely: "3000 \<le> t \<Longrightarrow> whole_micros t \<Longrightarrow> timely (sample_history @ [(t, MDelete p i)])" "timely sample_history"
  by (simp_all add: timely_def sample_history_def offer_row_fits_def offer_active_model_def sample_record_def whole_micros_def)

definition sample_world :: offer_world where
  "sample_world = fold (od_run offer_world_store) sample_history \<lparr>ow_offers = [], ow_metadata = []\<rparr>"

lemmas offer_world_simps =
  offer_world_store_def offer_world_exec_def offer_world_content_def od_run_def od_outcome_def

lemma sample_world_eq: "sample_world =
  \<lparr>ow_offers = [((''p'', 7), offer_active_model 2000 sample_record)],
   ow_metadata = [((''p'', 3), metadata_active_model offer_world_store 1000 sample_metadata)]\<rparr>"
proof -
  have keys: "offer_key_of sample_record = (''p'', 7)" "metadata_key_of sample_record = (''p'', 3)" "meta_key_of sample_metadata = (''p'', 3)"
    by (simp_all add: offer_key_of_def metadata_key_of_def meta_key_of_def sample_record_def sample_metadata_def)
  have one: "od_run offer_world_store (1000, MPost sample_metadata) \<lparr>ow_offers = [], ow_metadata = []\<rparr>
      = \<lparr>ow_offers = [], ow_metadata = [((''p'', 3), metadata_active_model offer_world_store 1000 sample_metadata)]\<rparr>"
    by (simp add: od_run_def od_post_metadata_def keys offer_world_exec_def offer_world_content_def)
      (simp add: offer_world_store_def offer_world_exec_def offer_world_content_def keys)
  show ?thesis
    unfolding sample_world_def sample_history_def by (simp add: one) (simp add: offer_world_simps od_post_offer_def keys)
qed


text \<open>
  Reading the database offer store: after any history, failures included, an offer that
  is found without its metadata is found with it as well, and its metadata is found under its id,
  whenever the database answers; and the pages of a partition are the pages of one list that holds
  every offer of the partition once.
\<close>

theorem db_offers_integrity:
  assumes "offer_db_lawful content base S" and "content w0 = migrated_offers"
    and "timely xs" and "w = fold (od_run S) xs w0"
    and "od_get_offer S w p i None = Inr (Some r)" and "od_get_offers S w p start0 cnt0 = Inr r0"
  shows "\<exists>m. (\<forall>x. od_get_metadata S w p (rec_metadata_id (rec_offer r)) = Inr x \<longrightarrow> x = Some m)
    \<and> (\<forall>x. od_get_offer S w p i (Some False) = Inr x \<longrightarrow> x = Some (with_metadata (meta_metadata m) r))
    \<and> (\<exists>rs. distinct (map rec_id rs) \<and> r \<in> set rs
        \<and> (\<forall>start cnt x. od_get_offers S w p start cnt = Inr x \<longrightarrow> x = page start cnt rs))"
proof -
  let ?c = "od_content (do_json S) (content w)"
  have inv: "od_inv (do_json S) (content w)"
    using od_run_inv [OF assms(1-3)] assms(4) by simp
  have r: "oc_offers ?c (p, i) = Some r"
    using get_offer_law [OF assms(1) inv assms(5)] by simp
  with od_inv_ok [OF inv] obtain m where m: "oc_metadata ?c (metadata_key_of r) = Some m" and "offer_key_of r = (p, i)"
    unfolding content_ok_def by blast
  then have key: "metadata_key_of r = (p, rec_metadata_id (rec_offer r))"
    by (simp add: metadata_key_of_def offer_key_of_def)
  obtain rs where rs: "distinct (map rec_id rs)" "set rs = {r. \<exists>i. oc_offers ?c (p, i) = Some r}"
      "\<forall>start cnt x. od_get_offers S w p start cnt = Inr x \<longrightarrow> x = page start cnt rs"
    using get_offers_law [OF assms(1) inv assms(6)] by blast
  have "x = Some m" if "od_get_metadata S w p (rec_metadata_id (rec_offer r)) = Inr x" for x
    using get_metadata_law [OF assms(1) inv that] m key by metis
  moreover have "x = Some (with_metadata (meta_metadata m) r)" if "od_get_offer S w p i (Some False) = Inr x" for x
    unfolding get_offer_law [OF assms(1) inv that] r using m by (simp del: od_content_simps)
  moreover have "r \<in> set rs" using r rs(2) by blast
  ultimately show ?thesis using rs(1,3) by blast
qed

theorem db_offers_integrity_witness:
  "od_get_metadata offer_world_store sample_world ''p'' 3 = Inr (Some sample_metadata)
   \<and> od_get_offer offer_world_store sample_world ''p'' 7 (Some False)
       = Inr (Some (with_metadata (meta_metadata sample_metadata) sample_record))"
proof -
  have lib: "do_json offer_world_store = sample_offer_lib" by (simp add: offer_world_store_def)
  have new: "offer_world_content \<lparr>ow_offers = [], ow_metadata = []\<rparr> = migrated_offers"
    by (simp add: offer_world_content_def migrated_offers_def)
  have rec: "bare sample_record = sample_record" "rec_metadata_id (rec_offer sample_record) = 3"
    by (simp_all add: bare_def sample_record_def)
  have get: "od_get_offer offer_world_store sample_world ''p'' 7 None = Inr (Some sample_record)"
    by (simp add: od_get_offer_def sample_world_eq) (simp add: offer_world_store_def sample_world_eq rec)
  obtain r0 where all: "od_get_offers offer_world_store sample_world ''p'' 0 1 = Inr r0"
    by (simp add: od_get_offers_def offer_world_store_def)
  obtain a where a: "od_get_metadata offer_world_store sample_world ''p'' 3 = Inr (Some a)"
    using sample_offer_codec
    by (simp add: od_get_metadata_def sample_world_eq) (simp add: offer_world_store_def read_metadata_def metadata_active_model_def)
  have "od_get_metadata offer_world_store sample_world ''p'' 3 = Inr (Some sample_metadata)"
    using a sample_offer_codec
    by (simp add: od_get_metadata_def sample_world_eq)
      (simp add: offer_world_store_def read_metadata_def metadata_active_model_def sample_metadata_def)
  moreover obtain b where "od_get_offer offer_world_store sample_world ''p'' 7 (Some False) = Inr b"
    by (cases "od_get_offer offer_world_store sample_world ''p'' 7 (Some False)")
      (use sample_offer_codec in \<open>auto simp: od_get_offer_def sample_world_eq offer_world_store_def read_metadata_def
        offer_row_metadata_key_def offer_active_model_def metadata_active_model_def sample_record_def\<close>)
  ultimately show ?thesis
    using db_offers_integrity [OF offer_world_lawful new sample_timely(2) sample_world_def get all] rec(2) by auto
qed

end
