(* ===== verification/Migration.thy ===== *)
theory Migration
  imports DiscoveryDb OfferDb
begin

text \<open>
  \<open>migration/src\<close> and the parts of \<open>components/src/*/db.rs\<close> that set a database up: the tables of the
  two stores as data definition statements, what SQL says of them, and the check of every statement
  of the stores against the tables.
\<close>

section \<open>Data definition statements\<close>

datatype column_type =
  BinaryLen nat | Blob | VarChar | Integer | BigInteger | Boolean | JsonBinary | TimestampTz | Uuid

record column_def =
  cd_name :: string
  cd_type :: column_type
  cd_not_null :: bool
  cd_default_now :: bool

datatype referential_action = NoAction | Restrict

record foreign_key_def =
  fk_columns :: "string list"
  fk_table :: string
  fk_references :: "string list"
  fk_on_delete :: referential_action

record table_def =
  td_name :: string
  td_if_not_exists :: bool
  td_columns :: "column_def list"
  td_primary_key :: "string list"
  td_foreign_keys :: "foreign_key_def list"

datatype ddl = CreateTable table_def | DropTable string | InsertValues string "string list" "int list"

text \<open>A column, nullable or not; \<open>stamped\<close> is \<open>default(Expr::current_timestamp())\<close>.\<close>

definition column :: "string \<Rightarrow> column_type \<Rightarrow> column_def" where
  "column n t = \<lparr>cd_name = n, cd_type = t, cd_not_null = True, cd_default_now = False\<rparr>"

definition nullable :: "string \<Rightarrow> column_type \<Rightarrow> column_def" where
  "nullable n t = (column n t)\<lparr>cd_not_null := False\<rparr>"

definition stamped :: "string \<Rightarrow> column_def" where
  "stamped n = (column n TimestampTz)\<lparr>cd_default_now := True\<rparr>"

section \<open>The migrations\<close>

definition discovery_backend_table :: table_def where
  "discovery_backend_table =
     \<lparr>td_name = ''discovery_backend'', td_if_not_exists = True,
      td_columns =
        [column ''partitions'' JsonBinary, column ''id'' (BinaryLen 33), nullable ''name'' VarChar,
         column ''weight'' Integer, column ''enabled'' Boolean, column ''implementation'' Blob,
         column ''created_at'' TimestampTz, column ''updated_at'' TimestampTz],
      td_primary_key = [''id''], td_foreign_keys = []\<rparr>"

definition discovery_backend_etag_table :: table_def where
  "discovery_backend_etag_table =
     \<lparr>td_name = ''discovery_backend_etag'', td_if_not_exists = True,
      td_columns = [column ''id'' Integer, column ''value'' BigInteger],
      td_primary_key = [''id''], td_foreign_keys = []\<rparr>"

definition discovery_up :: "ddl list" where
  "discovery_up =
     [CreateTable discovery_backend_table, CreateTable discovery_backend_etag_table,
      InsertValues ''discovery_backend_etag'' [''id'', ''value''] [sint discovery_backend_get_all_etag_id, 0]]"

definition discovery_down :: "ddl list" where
  "discovery_down = [DropTable ''discovery_backend_etag'', DropTable ''discovery_backend'']"

definition offer_metadata_table :: table_def where
  "offer_metadata_table =
     \<lparr>td_name = ''offer_metadata_table'', td_if_not_exists = True,
      td_columns =
        [column ''id'' Uuid, column ''partition'' VarChar, column ''metadata'' JsonBinary,
         stamped ''created_at'', stamped ''updated_at''],
      td_primary_key = [''partition'', ''id''], td_foreign_keys = []\<rparr>"

definition offer_record_table :: table_def where
  "offer_record_table =
     \<lparr>td_name = ''offer_record_table'', td_if_not_exists = True,
      td_columns =
        [column ''id'' Uuid, column ''partition'' VarChar, column ''max_sendable'' BigInteger,
         column ''min_sendable'' BigInteger, column ''metadata_id'' Uuid, column ''timestamp'' TimestampTz,
         nullable ''expires'' TimestampTz, stamped ''created_at'', stamped ''updated_at''],
      td_primary_key = [''partition'', ''id''],
      td_foreign_keys =
        [\<lparr>fk_columns = [''partition'', ''metadata_id''], fk_table = ''offer_metadata_table'',
          fk_references = [''partition'', ''id''], fk_on_delete = Restrict\<rparr>]\<rparr>"

definition offer_up :: "ddl list" where
  "offer_up = [CreateTable offer_metadata_table, CreateTable offer_record_table]"

definition offer_down :: "ddl list" where
  "offer_down = [DropTable ''offer_record_table'', DropTable ''offer_metadata_table'']"

text \<open>The statements one after the other, up to the first that fails (\<open>.await?\<close>).\<close>

fun run_ddl :: "(ddl \<Rightarrow> 'w \<Rightarrow> ('e + unit) \<times> 'w) \<Rightarrow> ddl list \<Rightarrow> 'w \<Rightarrow> ('e + unit) \<times> 'w" where
  "run_ddl exec [] w = (Inr (), w)"
| "run_ddl exec (d # ds) w =
     (case exec d w of
        (Inl e, w1) \<Rightarrow> (Inl e, w1)
      | (Inr _, w1) \<Rightarrow> run_ddl exec ds w1)"

section \<open>What SQL says of them\<close>

text \<open>A database: its tables in the order of their creation, with the rows that migrations insert.\<close>

type_synonym schema = "(string \<times> table_def \<times> (string \<times> int) list list) list"

datatype ddl_refusal = TableExists | UnknownTable | BadDefinition | StillReferenced | BadRow

definition table_columns :: "table_def \<Rightarrow> string list" where
  "table_columns t = map cd_name (td_columns t)"

definition foreign_key_ok :: "schema \<Rightarrow> table_def \<Rightarrow> foreign_key_def \<Rightarrow> bool" where
  "foreign_key_ok sc t fk \<longleftrightarrow>
     set (fk_columns fk) \<subseteq> set (table_columns t) \<and> length (fk_columns fk) = length (fk_references fk)
     \<and> (case map_of sc (fk_table fk) of
          None \<Rightarrow> False
        | Some (parent, _) \<Rightarrow> fk_references fk = td_primary_key parent)"

definition table_ok :: "schema \<Rightarrow> table_def \<Rightarrow> bool" where
  "table_ok sc t \<longleftrightarrow> distinct (table_columns t) \<and> td_primary_key t \<noteq> []
     \<and> set (td_primary_key t) \<subseteq> set (table_columns t) \<and> list_all (foreign_key_ok sc t) (td_foreign_keys t)"

definition referenced :: "schema \<Rightarrow> string \<Rightarrow> bool" where
  "referenced sc n \<longleftrightarrow>
     list_ex (\<lambda>(m, t, _). m \<noteq> n \<and> list_ex (\<lambda>fk. fk_table fk = n) (td_foreign_keys t)) sc"

definition key_of_row :: "table_def \<Rightarrow> (string \<times> int) list \<Rightarrow> int option list" where
  "key_of_row t r = map (map_of r) (td_primary_key t)"

definition inserted_ok :: "table_def \<Rightarrow> (string \<times> int) list list \<Rightarrow> (string \<times> int) list \<Rightarrow> bool" where
  "inserted_ok t rows r \<longleftrightarrow>
     distinct (map fst r) \<and> set (map fst r) \<subseteq> set (table_columns t)
     \<and> list_all (\<lambda>c. cd_not_null c \<and> \<not> cd_default_now c \<longrightarrow> cd_name c \<in> set (map fst r)) (td_columns t)
     \<and> key_of_row t r \<notin> set (map (key_of_row t) rows)"

fun ddl_effect :: "ddl \<Rightarrow> schema \<Rightarrow> ddl_refusal + schema" where
  "ddl_effect (CreateTable t) sc =
     (if map_of sc (td_name t) \<noteq> None then (if td_if_not_exists t then Inr sc else Inl TableExists)
      else if table_ok sc t then Inr (sc @ [(td_name t, t, [])]) else Inl BadDefinition)"
| "ddl_effect (DropTable n) sc =
     (if map_of sc n = None then Inl UnknownTable
      else if referenced sc n then Inl StillReferenced
      else Inr (AList.delete n sc))"
| "ddl_effect (InsertValues n cols vals) sc =
     (case map_of sc n of
        None \<Rightarrow> Inl UnknownTable
      | Some (t, rows) \<Rightarrow>
          if length cols = length vals \<and> inserted_ok t rows (zip cols vals)
          then Inr (AList.update n (t, rows @ [zip cols vals]) sc) else Inl BadRow)"

definition schema_exec :: "ddl \<Rightarrow> schema \<Rightarrow> (ddl_refusal + unit) \<times> schema" where
  "schema_exec d sc = (case ddl_effect d sc of Inl e \<Rightarrow> (Inl e, sc) | Inr sc' \<Rightarrow> (Inr (), sc'))"

section \<open>Connecting and migrating (db.rs)\<close>

text \<open>
  \<open>Database::connect\<close> and the migrator of the crate sea-orm-migration are arguments; a migrator runs
  the migrations that were not run before, each with its two directions.
\<close>

definition discovery_migrations :: "(ddl list \<times> ddl list) list" where
  "discovery_migrations = [(discovery_up, discovery_down)]"

definition offer_migrations :: "(ddl list \<times> ddl list) list" where
  "offer_migrations = [(offer_up, offer_down)]"

definition db_connect ::
  "(db_err \<Rightarrow> string) \<Rightarrow> (string \<Rightarrow> u32 \<Rightarrow> 'w \<Rightarrow> (db_err + 'c) \<times> 'w) \<Rightarrow> string \<Rightarrow> u32 \<Rightarrow> 'w
     \<Rightarrow> (discovery_store_error + 'c) \<times> 'w" where
  "db_connect show_err connect uri max_connections w =
     apfst (map_err (\<lambda>e. discovery_from_db Internal ''connecting to discovery backend database'' (show_err e)))
       (connect uri max_connections w)"

definition db_migrate_up ::
  "(db_err \<Rightarrow> string) \<Rightarrow> ((ddl list \<times> ddl list) list \<Rightarrow> 'w \<Rightarrow> (db_err + unit) \<times> 'w) \<Rightarrow> 'w
     \<Rightarrow> (discovery_store_error + unit) \<times> 'w" where
  "db_migrate_up show_err migrator_up w =
     apfst (map_err (\<lambda>e. discovery_from_db Internal ''migrating database up'' (show_err e)))
       (migrator_up discovery_migrations w)"

definition db_migrate_down ::
  "(db_err \<Rightarrow> string) \<Rightarrow> ((ddl list \<times> ddl list) list \<Rightarrow> 'w \<Rightarrow> (db_err + unit) \<times> 'w) \<Rightarrow> 'w
     \<Rightarrow> (discovery_store_error + unit) \<times> 'w" where
  "db_migrate_down show_err migrator_down w =
     apfst (map_err (\<lambda>e. discovery_from_db Internal ''migrating database down'' (show_err e)))
       (migrator_down discovery_migrations w)"

definition od_connect ::
  "(db_err \<Rightarrow> string) \<Rightarrow> (string \<Rightarrow> u32 \<Rightarrow> 'w \<Rightarrow> (db_err + 'c) \<times> 'w) \<Rightarrow> string \<Rightarrow> u32 \<Rightarrow> 'w
     \<Rightarrow> (offer_store_error + 'c) \<times> 'w" where
  "od_connect show_err connect uri max_connections w =
     apfst (map_err (\<lambda>e. offer_from_db Internal ''connecting to offer database'' (show_err e)))
       (connect uri max_connections w)"

definition od_migrate_up ::
  "(db_err \<Rightarrow> string) \<Rightarrow> ((ddl list \<times> ddl list) list \<Rightarrow> 'w \<Rightarrow> (db_err + unit) \<times> 'w) \<Rightarrow> 'w
     \<Rightarrow> (offer_store_error + unit) \<times> 'w" where
  "od_migrate_up show_err migrator_up w =
     apfst (map_err (\<lambda>e. offer_from_db Internal ''migrating database up'' (show_err e)))
       (migrator_up offer_migrations w)"

definition od_migrate_down ::
  "(db_err \<Rightarrow> string) \<Rightarrow> ((ddl list \<times> ddl list) list \<Rightarrow> 'w \<Rightarrow> (db_err + unit) \<times> 'w) \<Rightarrow> 'w
     \<Rightarrow> (offer_store_error + unit) \<times> 'w" where
  "od_migrate_down show_err migrator_down w =
     apfst (map_err (\<lambda>e. offer_from_db Internal ''migrating database down'' (show_err e)))
       (migrator_down offer_migrations w)"

section \<open>Statements checked against the tables\<close>

datatype sql_value =
    VNull
  | VBytes "u8 list"
  | VText string
  | VInt int
  | VBool bool
  | VJson
  | VTime datetime
  | VUuid uuid

fun value_fits :: "column_type \<Rightarrow> sql_value \<Rightarrow> bool" where
  "value_fits (BinaryLen n) (VBytes bs) \<longleftrightarrow> length bs = n"
| "value_fits Blob (VBytes bs) \<longleftrightarrow> True"
| "value_fits VarChar (VText s) \<longleftrightarrow> True"
| "value_fits Integer (VInt x) \<longleftrightarrow> - (2 ^ 31) \<le> x \<and> x < 2 ^ 31"
| "value_fits BigInteger (VInt x) \<longleftrightarrow> - (2 ^ 63) \<le> x \<and> x < 2 ^ 63"
| "value_fits Boolean (VBool b) \<longleftrightarrow> True"
| "value_fits JsonBinary VJson \<longleftrightarrow> True"
| "value_fits TimestampTz (VTime t) \<longleftrightarrow> True"
| "value_fits Uuid (VUuid u) \<longleftrightarrow> True"
| "value_fits _ _ \<longleftrightarrow> False"

definition column_fits :: "column_def \<Rightarrow> sql_value \<Rightarrow> bool" where
  "column_fits c v \<longleftrightarrow> (if v = VNull then \<not> cd_not_null c else value_fits (cd_type c) v)"

definition assigned :: "table_def \<Rightarrow> string \<times> sql_value \<Rightarrow> bool" where
  "assigned t a \<longleftrightarrow> list_ex (\<lambda>c. cd_name c = fst a \<and> column_fits c (snd a)) (td_columns t)"

definition new_row :: "table_def \<Rightarrow> (string \<times> sql_value) list \<Rightarrow> bool" where
  "new_row t r \<longleftrightarrow> distinct (map fst r) \<and> list_all (assigned t) r
     \<and> list_all (\<lambda>c. cd_not_null c \<and> \<not> cd_default_now c \<longrightarrow> cd_name c \<in> set (map fst r)) (td_columns t)"

definition in_table :: "schema \<Rightarrow> string \<Rightarrow> (table_def \<Rightarrow> bool) \<Rightarrow> bool" where
  "in_table sc n P \<longleftrightarrow> (case map_of sc n of None \<Rightarrow> False | Some (t, _) \<Rightarrow> P t)"

text \<open>The columns and values of the entities (\<open>Model\<close>), and the columns that identify a conflict.\<close>

definition optional_value :: "('a \<Rightarrow> sql_value) \<Rightarrow> 'a option \<Rightarrow> sql_value" where
  "optional_value f v = (case v of None \<Rightarrow> VNull | Some x \<Rightarrow> f x)"

definition backend_values :: "backend_row \<Rightarrow> (string \<times> sql_value) list" where
  "backend_values r =
     [(''partitions'', VJson), (''id'', VBytes (br_id r)), (''name'', optional_value VText (br_name r)),
      (''weight'', VInt (sint (br_weight r))), (''enabled'', VBool (br_enabled r)),
      (''implementation'', VBytes (br_implementation r)), (''created_at'', VTime (br_created_at r)),
      (''updated_at'', VTime (br_updated_at r))]"

fun backend_column_name :: "backend_column \<Rightarrow> string" where
  "backend_column_name DiscoveryDb.ColPartitions = ''partitions''"
| "backend_column_name DiscoveryDb.ColId = ''id''"
| "backend_column_name DiscoveryDb.ColName = ''name''"
| "backend_column_name DiscoveryDb.ColWeight = ''weight''"
| "backend_column_name DiscoveryDb.ColEnabled = ''enabled''"
| "backend_column_name DiscoveryDb.ColImplementation = ''implementation''"
| "backend_column_name DiscoveryDb.ColCreatedAt = ''created_at''"
| "backend_column_name DiscoveryDb.ColUpdatedAt = ''updated_at''"

fun backend_assignment_value :: "backend_assignment \<Rightarrow> string \<times> sql_value" where
  "backend_assignment_value (SetName n) = (''name'', optional_value VText n)"
| "backend_assignment_value (SetPartitions ps) = (''partitions'', VJson)"
| "backend_assignment_value (SetWeight x) = (''weight'', VInt (sint x))"
| "backend_assignment_value (SetEnabled e) = (''enabled'', VBool e)"
| "backend_assignment_value (SetUpdatedAt t) = (''updated_at'', VTime t)"

definition backend_conflict_target :: "backend_column list" where
  "backend_conflict_target = [DiscoveryDb.ColId]"

definition offer_values :: "offer_row \<Rightarrow> (string \<times> sql_value) list" where
  "offer_values r =
     [(''partition'', VText (or_partition r)), (''id'', VUuid (or_id r)),
      (''max_sendable'', VInt (sint (or_max_sendable r))), (''min_sendable'', VInt (sint (or_min_sendable r))),
      (''metadata_id'', VUuid (or_metadata_id r)), (''timestamp'', VTime (or_timestamp r)),
      (''expires'', optional_value VTime (or_expires r)), (''created_at'', VTime (or_created_at r)),
      (''updated_at'', VTime (or_updated_at r))]"

fun offer_column_name :: "offer_column \<Rightarrow> string" where
  "offer_column_name ColPartition = ''partition''"
| "offer_column_name OfferDb.ColId = ''id''"
| "offer_column_name ColMaxSendable = ''max_sendable''"
| "offer_column_name ColMinSendable = ''min_sendable''"
| "offer_column_name ColMetadataId = ''metadata_id''"
| "offer_column_name ColTimestamp = ''timestamp''"
| "offer_column_name ColExpires = ''expires''"
| "offer_column_name OfferDb.ColCreatedAt = ''created_at''"
| "offer_column_name OfferDb.ColUpdatedAt = ''updated_at''"

definition offer_conflict_target :: "offer_column list" where
  "offer_conflict_target = [ColPartition, OfferDb.ColId]"

definition metadata_values :: "metadata_row \<Rightarrow> (string \<times> sql_value) list" where
  "metadata_values r =
     [(''partition'', VText (mr_partition r)), (''id'', VUuid (mr_id r)), (''metadata'', VJson),
      (''created_at'', VTime (mr_created_at r)), (''updated_at'', VTime (mr_updated_at r))]"

fun metadata_column_name :: "metadata_column \<Rightarrow> string" where
  "metadata_column_name MColPartition = ''partition''"
| "metadata_column_name MColId = ''id''"
| "metadata_column_name MColMetadata = ''metadata''"
| "metadata_column_name MColCreatedAt = ''created_at''"
| "metadata_column_name MColUpdatedAt = ''updated_at''"

definition metadata_conflict_target :: "metadata_column list" where
  "metadata_conflict_target = [MColPartition, MColId]"

text \<open>A statement that names only columns the tables have, with values these can hold.\<close>

definition upsert_fits :: "table_def \<Rightarrow> (string \<times> sql_value) list \<Rightarrow> string list \<Rightarrow> string list \<Rightarrow> datetime \<Rightarrow> bool" where
  "upsert_fits t r target cols now \<longleftrightarrow>
     new_row t r \<and> target = td_primary_key t \<and> set cols \<subseteq> set (map fst r) \<and> assigned t (''updated_at'', VTime now)"

fun backend_typed :: "schema \<Rightarrow> backend_statement \<Rightarrow> bool" where
  "backend_typed sc (InsertBackend r) \<longleftrightarrow> in_table sc ''discovery_backend'' (\<lambda>t. new_row t (backend_values r))"
| "backend_typed sc (UpsertBackend r cols now) \<longleftrightarrow>
     in_table sc ''discovery_backend'' (\<lambda>t. upsert_fits t (backend_values r)
       (map backend_column_name backend_conflict_target) (map backend_column_name cols) now)"
| "backend_typed sc (UpdateBackend i as) \<longleftrightarrow>
     in_table sc ''discovery_backend'' (\<lambda>t. assigned t (''id'', VBytes i)
       \<and> list_all (assigned t) (map backend_assignment_value as))"
| "backend_typed sc (DeleteBackend i) \<longleftrightarrow> in_table sc ''discovery_backend'' (\<lambda>t. assigned t (''id'', VBytes i))"
| "backend_typed sc (IncrementEtag i) \<longleftrightarrow>
     in_table sc ''discovery_backend_etag'' (\<lambda>t. assigned t (''id'', VInt (sint i)) \<and> ''value'' \<in> set (table_columns t))"

definition keyed :: "table_def \<Rightarrow> string \<Rightarrow> uuid \<Rightarrow> bool" where
  "keyed t p i \<longleftrightarrow> assigned t (''partition'', VText p) \<and> assigned t (''id'', VUuid i)"

fun offer_typed :: "schema \<Rightarrow> offer_statement \<Rightarrow> bool" where
  "offer_typed sc (InsertOffer r) \<longleftrightarrow> in_table sc ''offer_record_table'' (\<lambda>t. new_row t (offer_values r))"
| "offer_typed sc (UpsertOffer r cols now) \<longleftrightarrow>
     in_table sc ''offer_record_table'' (\<lambda>t. upsert_fits t (offer_values r)
       (map offer_column_name offer_conflict_target) (map offer_column_name cols) now)"
| "offer_typed sc (DeleteOffer p i) \<longleftrightarrow> in_table sc ''offer_record_table'' (\<lambda>t. keyed t p i)"
| "offer_typed sc (InsertMetadata r) \<longleftrightarrow> in_table sc ''offer_metadata_table'' (\<lambda>t. new_row t (metadata_values r))"
| "offer_typed sc (UpsertMetadata r cols now) \<longleftrightarrow>
     in_table sc ''offer_metadata_table'' (\<lambda>t. upsert_fits t (metadata_values r)
       (map metadata_column_name metadata_conflict_target) (map metadata_column_name cols) now)"
| "offer_typed sc (DeleteMetadata p i) \<longleftrightarrow> in_table sc ''offer_metadata_table'' (\<lambda>t. keyed t p i)"

text \<open>A connection that refuses what does not fit.\<close>

definition checked :: "('st \<Rightarrow> bool) \<Rightarrow> ('st, 'w, 'more) sql_db_scheme \<Rightarrow> ('st, 'w, 'more) sql_db_scheme" where
  "checked ok D =
     D\<lparr>sql_exec := \<lambda>st w. if ok st then sql_exec D st w else (Inl (OtherDbErr ''no such column''), w),
       sql_exec_txn := \<lambda>st w. if ok st then sql_exec_txn D st w else (Inl (OtherDbErr ''no such column''), w)\<rparr>"

lemma checked_simps [simp]:
  "ok st \<Longrightarrow> sql_exec (checked ok D) st = sql_exec D st"
  "ok st \<Longrightarrow> sql_exec_txn (checked ok D) st = sql_exec_txn D st"
  "sql_begin (checked ok D) = sql_begin D" "sql_commit (checked ok D) = sql_commit D"
  by (simp_all add: checked_def)

lemma checked_transaction [simp]: "transaction (checked ok D) = transaction D"
  by (intro ext) (unfold transaction_def checked_simps, rule refl)

lemma checked_queries [simp]:
  "find_backend (checked ok B) = find_backend B" "find_timestamps (checked ok B) = find_timestamps B"
  by (simp_all add: checked_def)

lemma checked_offer_queries [simp]:
  "find_offer_timestamps (checked ok F) = find_offer_timestamps F"
  "find_metadata_timestamps (checked ok F) = find_metadata_timestamps F"
  by (simp_all add: checked_def)

section \<open>The migrated tables\<close>

definition discovery_schema :: schema where
  "discovery_schema =
     [(''discovery_backend'', discovery_backend_table, []),
      (''discovery_backend_etag'', discovery_backend_etag_table, [[(''id'', 1), (''value'', 0)]])]"

definition offer_schema :: schema where
  "offer_schema =
     [(''offer_metadata_table'', offer_metadata_table, []), (''offer_record_table'', offer_record_table, [])]"

lemmas table_defs = discovery_backend_table_def discovery_backend_etag_table_def offer_metadata_table_def
  offer_record_table_def column_def nullable_def stamped_def

lemma sint_bounds:
  "- (2 ^ 31) \<le> sint (x :: i32)" "sint (x :: i32) < 2 ^ 31" "- (2 ^ 63) \<le> sint (y :: i64)" "sint (y :: i64) < 2 ^ 63"
  using sint_range_size [of x] sint_range_size [of y] by (simp_all add: word_size)

lemma optional_fits [simp]:
  "optional_value VText n = VNull \<longleftrightarrow> n = None" "optional_value VTime d = VNull \<longleftrightarrow> d = None"
  "n \<noteq> None \<Longrightarrow> value_fits VarChar (optional_value VText n)"
  "d \<noteq> None \<Longrightarrow> value_fits TimestampTz (optional_value VTime d)"
  by (auto simp: optional_value_def split: option.splits)

lemmas typing_simps = in_table_def new_row_def upsert_fits_def assigned_def column_fits_def table_columns_def keyed_def
  backend_values_def offer_values_def metadata_values_def backend_conflict_target_def offer_conflict_target_def
  metadata_conflict_target_def

text \<open>After the migrations the tables are there.\<close>

lemma update_append: "k \<notin> fst ` set xs \<Longrightarrow> AList.update k v (xs @ ys) = xs @ AList.update k v ys"
  by (induction xs) auto

lemma delete_key_absent: "k \<notin> fst ` set xs \<Longrightarrow> AList.delete k xs = xs"
  by (induction xs) auto

lemma delete_append: "AList.delete k (xs @ ys) = AList.delete k xs @ AList.delete k ys"
  by (simp add: AList.delete_eq)

lemma discovery_migrated:
  assumes "run_ddl schema_exec discovery_up sc0 = (Inr (), sc)"
    and "map_of sc0 ''discovery_backend'' = None" and "map_of sc0 ''discovery_backend_etag'' = None"
  shows "sc = sc0 @ discovery_schema"
proof -
  have ok: "table_ok sc0 discovery_backend_table" "\<And>sc. table_ok sc discovery_backend_etag_table"
    by (simp_all add: table_ok_def table_columns_def table_defs)
  have fresh: "''discovery_backend_etag'' \<notin> fst ` set sc0"
    using assms(3) by (simp add: map_of_eq_None_iff)
  have row: "inserted_ok discovery_backend_etag_table [] [(''id'', 1), (''value'', 0)]"
    by (simp add: inserted_ok_def table_columns_def table_defs)
  show ?thesis
    using assms ok fresh row
    by (simp add: discovery_up_def schema_exec_def discovery_schema_def discovery_backend_get_all_etag_id_def map_add_def
        update_append table_defs)
qed

lemma offer_migrated:
  assumes "run_ddl schema_exec offer_up sc0 = (Inr (), sc)"
    and "map_of sc0 ''offer_metadata_table'' = None" and "map_of sc0 ''offer_record_table'' = None"
  shows "sc = sc0 @ offer_schema"
proof -
  have "table_ok sc0 offer_metadata_table" "table_ok (sc0 @ [(''offer_metadata_table'', offer_metadata_table, [])]) offer_record_table"
    using assms(2) by (simp_all add: table_ok_def table_columns_def foreign_key_ok_def map_add_def table_defs)
  with assms show ?thesis
    by (simp add: offer_up_def schema_exec_def offer_schema_def map_add_def table_defs)
qed

lemma discovery_up_succeeds:
  assumes "map_of sc0 ''discovery_backend'' = None" and "map_of sc0 ''discovery_backend_etag'' = None"
  shows "\<exists>sc. run_ddl schema_exec discovery_up sc0 = (Inr (), sc)"
proof -
  have ok: "table_ok sc0 discovery_backend_table" "\<And>sc. table_ok sc discovery_backend_etag_table"
    by (simp_all add: table_ok_def table_columns_def table_defs)
  have row: "inserted_ok discovery_backend_etag_table [] [(''id'', 1), (''value'', 0)]"
    by (simp add: inserted_ok_def table_columns_def table_defs)
  show ?thesis
    using assms ok row
    by (simp add: discovery_up_def schema_exec_def discovery_backend_get_all_etag_id_def map_add_def table_defs)
qed

lemma offer_up_succeeds:
  assumes "map_of sc0 ''offer_metadata_table'' = None" and "map_of sc0 ''offer_record_table'' = None"
  shows "\<exists>sc. run_ddl schema_exec offer_up sc0 = (Inr (), sc)"
proof -
  have "table_ok sc0 offer_metadata_table" "table_ok (sc0 @ [(''offer_metadata_table'', offer_metadata_table, [])]) offer_record_table"
    using assms(1) by (simp_all add: table_ok_def table_columns_def foreign_key_ok_def map_add_def table_defs)
  with assms show ?thesis
    by (simp add: offer_up_def schema_exec_def map_add_def table_defs)
qed

text \<open>Every statement of the stores fits the migrated tables.\<close>

lemma discovery_lookup:
  assumes "sc = sc0 @ discovery_schema" and "map_of sc0 ''discovery_backend'' = None"
    and "map_of sc0 ''discovery_backend_etag'' = None"
  shows "map_of sc ''discovery_backend'' = Some (discovery_backend_table, [])"
    and "map_of sc ''discovery_backend_etag'' = Some (discovery_backend_etag_table, [[(''id'', 1), (''value'', 0)]])"
  using assms(2,3) unfolding assms(1) by (simp_all add: map_add_def discovery_schema_def)

lemma offer_lookup:
  assumes "sc = sc0 @ offer_schema" and "map_of sc0 ''offer_metadata_table'' = None"
    and "map_of sc0 ''offer_record_table'' = None"
  shows "map_of sc ''offer_metadata_table'' = Some (offer_metadata_table, [])"
    and "map_of sc ''offer_record_table'' = Some (offer_record_table, [])"
  using assms(2,3) unfolding assms(1) by (simp_all add: map_add_def offer_schema_def)

fun key_length_ok :: "discovery_op \<Rightarrow> bool" where
  "key_length_ok (DPost b) \<longleftrightarrow> length (pk_serialize (public_key b)) = 33"
| "key_length_ok (DPut b) \<longleftrightarrow> length (pk_serialize (public_key b)) = 33"
| "key_length_ok (DPatch p) \<longleftrightarrow> length (pk_serialize (patch_public_key p)) = 33"
| "key_length_ok (DDelete k) \<longleftrightarrow> length (pk_serialize k) = 33"

lemma backend_statements_typed:
  assumes "map_of sc ''discovery_backend'' = Some (discovery_backend_table, [])"
    and "map_of sc ''discovery_backend_etag'' = Some (discovery_backend_etag_table, rows)"
  shows "length (pk_serialize (public_key b)) = 33 \<Longrightarrow> backend_typed sc (InsertBackend (active_model now b))"
    and "length (pk_serialize (public_key b)) = 33 \<Longrightarrow>
      backend_typed sc (UpsertBackend (active_model now b) [ColName, ColWeight, ColEnabled, ColImplementation] t)"
    and "length i = 33 \<Longrightarrow> backend_typed sc (UpdateBackend i (patch_assignments now p))"
    and "length i = 33 \<Longrightarrow> backend_typed sc (DeleteBackend i)"
    and "backend_typed sc (IncrementEtag discovery_backend_get_all_etag_id)"
  using assms sint_bounds
  by (auto simp: typing_simps table_defs active_model_def patch_assignments_def discovery_backend_get_all_etag_id_def
      split: option.splits)

lemma offer_statements_typed:
  assumes "map_of sc ''offer_metadata_table'' = Some (offer_metadata_table, [])"
    and "map_of sc ''offer_record_table'' = Some (offer_record_table, [])"
  shows "offer_typed sc (InsertOffer (offer_active_model now r))"
    and "offer_typed sc (UpsertOffer (offer_active_model now r) [ColMaxSendable, ColMinSendable, ColMetadataId, ColTimestamp, ColExpires] t)"
    and "offer_typed sc (DeleteOffer p i)"
    and "offer_typed sc (InsertMetadata (metadata_active_model S now m))"
    and "offer_typed sc (UpsertMetadata (metadata_active_model S now m) [MColMetadata] t)"
    and "offer_typed sc (DeleteMetadata p i)"
  using assms sint_bounds
  by (auto simp: typing_simps table_defs offer_active_model_def metadata_active_model_def)

lemma backend_checked:
  assumes "map_of sc ''discovery_backend'' = Some (discovery_backend_table, [])"
    and "map_of sc ''discovery_backend_etag'' = Some (discovery_backend_etag_table, rows)" and "key_length_ok x"
  shows "db_exec (S\<lparr>dd_db := checked (backend_typed sc) (dd_db S)\<rparr>) now x w = db_exec S now x w"
proof -
  let ?S = "S\<lparr>dd_db := checked (backend_typed sc) (dd_db S)\<rparr>"
  note typed = backend_statements_typed [OF assms(1,2)]
  note txn = checked_simps(2) [where D = "dd_db S" and ok = "backend_typed sc"]
  have db: "dd_db ?S = checked (backend_typed sc) (dd_db S)" "dd_show_key ?S = dd_show_key S" by simp_all
  have bump: "bump_etag_if ?S = bump_etag_if S"
    by (intro ext) (simp only: bump_etag_if_def db txn [OF typed(5)])
  have db_error: "db_error ?S = db_error S" by (intro ext) (simp add: db_error_def)
  have errors: "etag_error ?S = etag_error S" "tx_error ?S = tx_error S"
    by (intro ext; simp add: etag_error_def tx_error_def db_error)+
  note eqs = db_post_def db_put_def db_patch_def db_delete_def Let_def bump errors db_error db checked_transaction checked_queries
  show ?thesis
  proof (cases x)
    case (DPost b)
    then have key: "length (pk_serialize (public_key b)) = 33" using assms(3) by simp
    show ?thesis unfolding DPost db_exec.simps eqs txn [OF typed(1) [OF key]] ..
  next
    case (DPut b)
    then have key: "length (pk_serialize (public_key b)) = 33" using assms(3) by simp
    show ?thesis unfolding DPut db_exec.simps eqs txn [OF typed(2) [OF key]] ..
  next
    case (DPatch p)
    then have key: "length (pk_serialize (patch_public_key p)) = 33" using assms(3) by simp
    show ?thesis unfolding DPatch db_exec.simps eqs txn [OF typed(3) [OF key]] ..
  next
    case (DDelete k)
    then have key: "length (pk_serialize k) = 33" using assms(3) by simp
    show ?thesis unfolding DDelete db_exec.simps eqs txn [OF typed(4) [OF key]] ..
  qed
qed

lemma offer_checked:
  assumes "map_of sc ''offer_metadata_table'' = Some (offer_metadata_table, [])"
    and "map_of sc ''offer_record_table'' = Some (offer_record_table, [])"
  shows "od_exec (S\<lparr>do_db := checked (offer_typed sc) (do_db S)\<rparr>) now x w = od_exec S now x w"
proof -
  let ?S = "S\<lparr>do_db := checked (offer_typed sc) (do_db S)\<rparr>"
  note typed = offer_statements_typed [OF assms]
  have same: "offer_db_error ?S = offer_db_error S" "row_place ?S = row_place S"
      "metadata_missing_error ?S = metadata_missing_error S" "metadata_active_model ?S = metadata_active_model S"
    by (intro ext; simp add: offer_db_error_def row_place_def metadata_missing_error_def metadata_active_model_def)+
  have inserted: "was_inserted ?S = was_inserted S"
    by (intro ext) (simp add: was_inserted_def same)
  have db: "do_db ?S = checked (offer_typed sc) (do_db S)" "do_json ?S = do_json S" by simp_all
  note exec = checked_simps(1) [where D = "do_db S" and ok = "offer_typed sc"]
  note eqs = od_exec.simps od_post_offer_def od_put_offer_def od_delete_offer_def od_post_metadata_def od_put_metadata_def
    od_delete_metadata_def same inserted db checked_offer_queries exec [OF typed(1)] exec [OF typed(2)] exec [OF typed(3)]
    exec [OF typed(4)] exec [OF typed(5)] exec [OF typed(6)]
  show ?thesis
    by (cases x; hypsubst; unfold eqs; rule refl)
qed

section \<open>Properties\<close>



text \<open>The tags that a database holds.\<close>

definition etags_of :: "schema \<Rightarrow> i32 \<Rightarrow> i64 option" where
  "etags_of sc i =
     (case map_of sc ''discovery_backend_etag'' of
        None \<Rightarrow> None
      | Some (_, rows) \<Rightarrow>
          map_option (\<lambda>r. word_of_int (unwrap_or 0 (map_of r ''value'')))
            (List.find (\<lambda>r. map_of r ''id'' = Some (sint i)) rows))"

lemma etags_migrated:
  assumes "map_of sc ''discovery_backend_etag'' = Some (t, [[(''id'', 1), (''value'', 0)]])"
  shows "etags_of sc = bt_etags migrated_backends"
proof
  fix i :: i32
  have "i = 1 \<longleftrightarrow> sint i = 1"
    using signed_word_eqI [of i 1] by auto
  then show "etags_of sc i = bt_etags migrated_backends i"
    using assms by (simp add: etags_of_def migrated_backends_def discovery_backend_get_all_etag_id_def)
qed

text \<open>
  Property C38. The migrations can be taken back: on a database without the tables of the stores, to
  which no other table refers, both migrations succeed, the tag counter starts where the store
  expects it, and running the other direction restores the database as it was, in particular in an
  order in which no table is dropped that another one still refers to.
\<close>

theorem migrations_reversible:
  assumes "\<And>n. n \<in> {''discovery_backend'', ''discovery_backend_etag'', ''offer_metadata_table'', ''offer_record_table''} \<Longrightarrow>
      map_of sc0 n = None \<and> \<not> referenced sc0 n"
  shows "(\<exists>sc. run_ddl schema_exec discovery_up sc0 = (Inr (), sc) \<and> etags_of sc = bt_etags migrated_backends
      \<and> run_ddl schema_exec discovery_down sc = (Inr (), sc0))
    \<and> (\<exists>sc. run_ddl schema_exec offer_up sc0 = (Inr (), sc)
      \<and> run_ddl schema_exec offer_down sc = (Inr (), sc0))"
proof -
  have none: "map_of sc0 ''discovery_backend'' = None" "map_of sc0 ''discovery_backend_etag'' = None"
      "map_of sc0 ''offer_metadata_table'' = None" "map_of sc0 ''offer_record_table'' = None"
    and free: "\<not> referenced sc0 ''discovery_backend''" "\<not> referenced sc0 ''discovery_backend_etag''"
      "\<not> referenced sc0 ''offer_metadata_table''" "\<not> referenced sc0 ''offer_record_table''"
    using assms by simp_all
  note fresh = none [unfolded map_of_eq_None_iff]
  note drops = schema_exec_def map_add_def delete_append delete_key_absent referenced_def table_defs
  obtain sc where sc: "run_ddl schema_exec discovery_up sc0 = (Inr (), sc)"
    using discovery_up_succeeds [OF none(1,2)] by blast
  note eq = discovery_migrated [OF sc none(1,2)]
  have "run_ddl schema_exec discovery_down sc = (Inr (), sc0)"
    using none fresh free by (simp add: eq discovery_schema_def discovery_down_def drops)
  with sc etags_migrated [OF discovery_lookup(2) [OF eq none(1,2)]]
  have "\<exists>sc. run_ddl schema_exec discovery_up sc0 = (Inr (), sc) \<and> etags_of sc = bt_etags migrated_backends
      \<and> run_ddl schema_exec discovery_down sc = (Inr (), sc0)" by blast
  moreover
  obtain sd where sd: "run_ddl schema_exec offer_up sc0 = (Inr (), sd)"
    using offer_up_succeeds [OF none(3,4)] by blast
  have "run_ddl schema_exec offer_down sd = (Inr (), sc0)"
    using none fresh free by (simp add: offer_migrated [OF sd none(3,4)] offer_schema_def offer_down_def drops)
  with sd have "\<exists>sc. run_ddl schema_exec offer_up sc0 = (Inr (), sc)
      \<and> run_ddl schema_exec offer_down sc = (Inr (), sc0)" by blast
  ultimately show ?thesis ..
qed

theorem migrations_reversible_witness:
  "run_ddl schema_exec discovery_down discovery_schema = (Inr (), [])
     \<and> run_ddl schema_exec offer_down offer_schema = (Inr (), [])"
proof -
  have "map_of [] n = None \<and> \<not> referenced [] n" for n by (simp add: referenced_def)
  note reverse = migrations_reversible [of "[]", OF this]
  obtain sc where "run_ddl schema_exec discovery_up [] = (Inr (), sc)" "run_ddl schema_exec discovery_down sc = (Inr (), [])"
    using reverse by blast
  moreover obtain sd where "run_ddl schema_exec offer_up [] = (Inr (), sd)" "run_ddl schema_exec offer_down sd = (Inr (), [])"
    using reverse by blast
  ultimately show ?thesis
    using discovery_migrated [of "[]" sc] offer_migrated [of "[]" sd] by simp
qed

end
