(* ===== verification/DiscoveryHttp.thy ===== *)
theory DiscoveryHttp
  imports DiscoveryHandlers StoreErrors
begin

text \<open>
  \<open>components/src/discovery/http.rs\<close>: the discovery store that speaks to a remote discovery
  service, and its composition with the handlers of theory \<open>DiscoveryHandlers\<close> over any store
  in the same process: what a request, its answer and the error mapping on both sides make of an
  operation of that store.
\<close>

record 'w discovery_http =
  dh_client :: "(json, 'w) http_client"
  dh_discovery_url :: string
  dh_health_check_url :: string
  dh_json :: json_lib
  dh_hex :: hex_lib
  dh_show_status :: "nat \<Rightarrow> string"
  dh_show_json_error :: "json_error \<Rightarrow> string"
  dh_show_io_error :: "io_error \<Rightarrow> string"

text \<open>\<open>url_ok\<close> is whether \<open>Url::parse\<close> accepts the address, or its error.\<close>

definition discovery_with_client ::
  "(string \<Rightarrow> string option) \<Rightarrow> json_lib \<Rightarrow> hex_lib \<Rightarrow> (nat \<Rightarrow> string) \<Rightarrow> (json_error \<Rightarrow> string) \<Rightarrow> (io_error \<Rightarrow> string)
     \<Rightarrow> (json, 'w) http_client \<Rightarrow> string \<Rightarrow> discovery_store_error + 'w discovery_http" where
  "discovery_with_client url_error L X show_status show_json show_io client base_url =
     (let base_url = trim_end_slash base_url;
          discovery_url = base_url @ ''/discovery'';
          health_check_url = base_url @ ''/health''
      in case url_error discovery_url of
           Some e \<Rightarrow> Inl (discovery_internal_error Upstream (''parsing service url '' @ discovery_url) e)
         | None \<Rightarrow>
             (case url_error health_check_url of
                Some e \<Rightarrow> Inl (discovery_internal_error Upstream (''parsing service url '' @ health_check_url) e)
              | None \<Rightarrow>
                  Inr \<lparr>dh_client = client, dh_discovery_url = discovery_url,
                       dh_health_check_url = health_check_url, dh_json = L, dh_hex = X,
                       dh_show_status = show_status, dh_show_json_error = show_json,
                       dh_show_io_error = show_io\<rparr>))"

definition discovery_create ::
  "(json, 'w) client_builder \<Rightarrow> (string \<Rightarrow> string option) \<Rightarrow> json_lib \<Rightarrow> hex_lib \<Rightarrow> (nat \<Rightarrow> string)
     \<Rightarrow> (json_error \<Rightarrow> string) \<Rightarrow> (io_error \<Rightarrow> string) \<Rightarrow> string \<Rightarrow> nat \<Rightarrow> nat \<Rightarrow> u8 list list \<Rightarrow> string
     \<Rightarrow> discovery_store_error + 'w discovery_http" where
  "discovery_create B url_error L X show_status show_json show_io base_url total_timeout connect_timeout
     trusted_roots authorization =
     (let creating = ''creating http client with base url: '' @ base_url
      in and_then
           (map_err (\<lambda>_. discovery_internal_error Internal creating ''failed to parse header value'')
              (header_value (''Bearer '' @ authorization)))
           (\<lambda>auth_value.
         and_then
           (map_err (discovery_internal_error Internal (''parsing certificate for url: '' @ base_url))
              (add_root_certificates B trusted_roots))
           (\<lambda>roots.
         and_then
           (map_err (discovery_http_error Internal creating)
              (cb_build B \<lparr>cc_default_headers = header_insert ''authorization'' auth_value [],
                 cc_root_certificates = roots, cc_timeout = total_timeout, cc_connect_timeout = connect_timeout\<rparr>))
           (\<lambda>client. discovery_with_client url_error L X show_status show_json show_io client base_url))))"

definition discovery_public_key_url :: "'w discovery_http \<Rightarrow> public_key \<Rightarrow> string" where
  "discovery_public_key_url H k = dh_discovery_url H @ ''/'' @ jl_show_key (dh_json H) k"

definition discovery_general_error :: "'w discovery_http \<Rightarrow> nat \<Rightarrow> string \<Rightarrow> discovery_store_error" where
  "discovery_general_error H status ctx =
     (if is_success status
      then discovery_internal_error Upstream ctx (''unexpected http status '' @ dh_show_status H status)
      else if is_client_error status
      then discovery_invalid_input_error ctx (''invalid input, http status: '' @ dh_show_status H status)
      else discovery_http_status_error Upstream ctx status)"

definition http_get ::
  "'w discovery_http \<Rightarrow> public_key \<Rightarrow> 'w \<Rightarrow> (discovery_store_error + discovery_backend option) \<times> 'w" where
  "http_get H k w =
     (let url = discovery_public_key_url H k
      in case client_send (dh_client H) GET url [] w of
           (Inl e, w') \<Rightarrow> (Inl (discovery_http_error Upstream (''get backend '' @ url) e), w')
         | (Inr r, w') \<Rightarrow>
             (if rs_status r = 200 then
                map_ok Some
                  (map_err (discovery_deserialization_error Upstream (''parse backend '' @ url))
                     (response_json (backend_from_json (dh_json H)) (dh_show_json_error H) r))
              else if rs_status r = 404 then Inr None
              else Inl (discovery_general_error H (rs_status r) (''get backend '' @ url)), w'))"

definition http_get_all ::
  "'w discovery_http \<Rightarrow> u64 option \<Rightarrow> 'w \<Rightarrow> (discovery_store_error + discovery_backends) \<times> 'w" where
  "http_get_all H requested_etag w =
     (let url = dh_discovery_url H;
          headers = (case requested_etag of
                       Some e \<Rightarrow> [(''if-none-match'', hx_encode (dh_hex H) (to_be_bytes e))]
                     | None \<Rightarrow> []);
          ctx = ''parsing etag header response from get all backends '' @ url
      in case client_send (dh_client H) GET url headers w of
           (Inl e, w') \<Rightarrow> (Inl (discovery_http_error Upstream (''get all backends '' @ url) e), w')
         | (Inr r, w') \<Rightarrow>
             (and_then
                (and_then
                   (ok_or (discovery_internal_error Upstream ctx ''missing expected etag'')
                      (header_get ''etag'' (rs_headers r)))
                   (\<lambda>h. map_err (\<lambda>_. discovery_internal_error Upstream ctx
                        ''failed to convert header to a str'') (header_to_str h)))
                (\<lambda>response_etag.
              and_then
                (map_err (\<lambda>e. discovery_internal_error Upstream
                     (''parsing etag '' @ [CHR 0x27] @ response_etag @ [CHR 0x27]
                        @ '' header response from get all backends '' @ url) (dh_show_io_error H e))
                   (etag_from_str (hx_decode (dh_hex H)) response_etag))
                (\<lambda>response_etag.
                   if rs_status r = 200 then
                     map_ok (\<lambda>bs. \<lparr>etag = response_etag, backends = Some bs\<rparr>)
                       (map_err (discovery_deserialization_error Upstream (''parse all backends '' @ url))
                          (response_json (backends_from_json (dh_json H)) (dh_show_json_error H) r))
                   else if rs_status r = 304 then Inr \<lparr>etag = response_etag, backends = None\<rparr>
                   else Inl (discovery_general_error H (rs_status r) (''get all backends '' @ url)))), w'))"

definition http_post ::
  "'w discovery_http \<Rightarrow> discovery_backend \<Rightarrow> 'w \<Rightarrow> (discovery_store_error + public_key option) \<times> 'w" where
  "http_post H b w =
     (let ctx = ''post backend: '' @ jl_show_key (dh_json H) (public_key b) @ '', url: '' @ dh_discovery_url H
      in case client_send_json (dh_client H) (dh_show_json_error H) POST (dh_discovery_url H)
                (backend_to_json (dh_json H) b) w of
           (Inl e, w') \<Rightarrow> (Inl (discovery_http_error Upstream ctx e), w')
         | (Inr r, w') \<Rightarrow>
             (if rs_status r = 201 then Inr (Some (public_key b))
              else if rs_status r = 409 then Inr None
              else Inl (discovery_general_error H (rs_status r) ctx), w'))"

definition http_put ::
  "'w discovery_http \<Rightarrow> discovery_backend \<Rightarrow> 'w \<Rightarrow> (discovery_store_error + bool) \<times> 'w" where
  "http_put H b w =
     (let url = discovery_public_key_url H (public_key b); ctx = ''put backend '' @ url
      in case client_send_json (dh_client H) (dh_show_json_error H) PUT url
                (sparse_to_json (dh_json H) (backend b)) w of
           (Inl e, w') \<Rightarrow> (Inl (discovery_http_error Upstream ctx e), w')
         | (Inr r, w') \<Rightarrow>
             (if rs_status r = 204 then Inr False
              else if rs_status r = 201 then Inr True
              else Inl (discovery_general_error H (rs_status r) ctx), w'))"

definition http_patch ::
  "'w discovery_http \<Rightarrow> discovery_backend_patch \<Rightarrow> 'w \<Rightarrow> (discovery_store_error + bool) \<times> 'w" where
  "http_patch H p w =
     (let url = discovery_public_key_url H (patch_public_key p); ctx = ''patch backend '' @ url
      in case client_send_json (dh_client H) (dh_show_json_error H) PATCH url
                (Inr (patch_to_json (patch_backend p))) w of
           (Inl e, w') \<Rightarrow> (Inl (discovery_http_error Upstream ctx e), w')
         | (Inr r, w') \<Rightarrow>
             (if rs_status r = 204 then Inr True
              else if rs_status r = 404 then Inr False
              else Inl (discovery_general_error H (rs_status r) ctx), w'))"

definition http_delete ::
  "'w discovery_http \<Rightarrow> public_key \<Rightarrow> 'w \<Rightarrow> (discovery_store_error + bool) \<times> 'w" where
  "http_delete H k w =
     (let url = discovery_public_key_url H k
      in case client_send (dh_client H) DELETE url [] w of
           (Inl e, w') \<Rightarrow> (Inl (discovery_http_error Upstream (''delete backend '' @ url) e), w')
         | (Inr r, w') \<Rightarrow>
             (if rs_status r = 204 then Inr True
              else if rs_status r = 404 then Inr False
              else Inl (discovery_general_error H (rs_status r) (''delete backend: '' @ url)), w'))"

definition http_health :: "'w discovery_http \<Rightarrow> 'w \<Rightarrow> (discovery_store_error + unit) \<times> 'w" where
  "http_health H w =
     (case client_send (dh_client H) GET (dh_health_check_url H) [] w of
        (Inl e, w') \<Rightarrow> (Inl (discovery_http_error Upstream ''health check'' e), w')
      | (Inr r, w') \<Rightarrow>
          (if \<not> is_success (rs_status r)
           then Inl (discovery_http_status_error Upstream ''health check'' (rs_status r))
           else Inr (), w'))"

section \<open>The loop through HTTP\<close>

text \<open>What both sides must agree on, and what the libraries must do.\<close>

definition loop_ok :: "('s, 'e, 'k) discovery_service \<Rightarrow> header_map \<Rightarrow> bool" where
  "loop_ok V defaults \<longleftrightarrow>
     key_codec (dv_json V)
     \<and> (\<forall>k. jl_show_key (dv_json V) k \<noteq> [] \<and> CHR ''/'' \<notin> set (jl_show_key (dv_json V) k)
          \<and> list_all header_char (jl_show_key (dv_json V) k))
     \<and> hex_codec (hx_encode (dv_hex V)) (hx_decode (dv_hex V))
     \<and> (\<forall>bs. list_all visible_char (hx_encode (dv_hex V) bs))
     \<and> header_get ''if-none-match'' defaults = None
     \<and> (\<forall>hs. \<exists>t. dv_bearer V (hs @ defaults) = Some t
          \<and> token_validator (dv_decode V) (dv_auth_authority V) ''discovery'' t)"

definition loop_http ::
  "('s, 'e, 'k) discovery_service \<Rightarrow> datetime \<Rightarrow> header_map \<Rightarrow> string \<Rightarrow> (nat \<Rightarrow> string) \<Rightarrow> (json_error \<Rightarrow> string)
     \<Rightarrow> (io_error \<Rightarrow> string) \<Rightarrow> 's discovery_http" where
  "loop_http V now defaults base show_status show_json show_io =
     \<lparr>dh_client = loop_client defaults base (discovery_router V now),
      dh_discovery_url = base @ ''/discovery'', dh_health_check_url = base @ ''/health'',
      dh_json = dv_json V, dh_hex = dv_hex V, dh_show_status = show_status,
      dh_show_json_error = show_json, dh_show_io_error = show_io\<rparr>"

text \<open>The error that the client makes of an error of the store behind the service.\<close>

definition remote_error :: "service_error_source \<Rightarrow> service_error_source" where
  "remote_error es = (if es = Downstream then Downstream else Upstream)"

lemma general_error_source:
  "dse_esource (discovery_general_error H (to_http_status es) ctx) = remote_error es"
  by (cases es) (simp_all add: discovery_general_error_def remote_error_def is_success_def is_client_error_def
      discovery_error_defs)

lemma slash_discovery: "CHR ''/'' \<notin> set ''discovery''"
  by simp

lemma loop_path_key:
  assumes "loop_ok V defaults"
  shows "url_path base (discovery_public_key_url (loop_http V now defaults base ss sj si) k)
    = Some [''discovery'', jl_show_key (dv_json V) k]"
proof -
  have "CHR ''/'' \<notin> set (jl_show_key (dv_json V) k)"
    using assms by (simp add: loop_ok_def)
  from url_path_two [OF slash_discovery this, of base] show ?thesis
    by (simp add: discovery_public_key_url_def loop_http_def)
qed

lemma loop_path_all: "url_path base (base @ ''/discovery'') = Some [''discovery'']"
  using url_path_one [OF slash_discovery, of base] by simp

lemma loop_auth:
  assumes "loop_ok V defaults"
    and "path = [''discovery''] \<or> (\<exists>k. path = [''discovery'', jl_show_key (dv_json V) k])"
  shows "discovery_router V now \<lparr>rq_method = m, rq_path = path, rq_query = q, rq_headers = hs @ defaults, rq_body = bd\<rparr> s
    = discovery_routes V now \<lparr>rq_method = m, rq_path = path, rq_query = q, rq_headers = hs @ defaults, rq_body = bd\<rparr> s"
proof -
  obtain t where "dv_bearer V (hs @ defaults) = Some t"
      "token_validator (dv_decode V) (dv_auth_authority V) ''discovery'' t"
    using assms(1) unfolding loop_ok_def by blast
  moreover have "\<And>k. jl_show_key (dv_json V) k \<noteq> []"
    using assms(1) by (simp add: loop_ok_def)
  ultimately show ?thesis
    using assms(2) by (auto simp: discovery_router_def bearer_auth_call_def)
qed

text \<open>The result of a store operation as the client reports it.\<close>

definition remote_result ::
  "'w discovery_http \<Rightarrow> ('s, 'e) discovery_ops \<Rightarrow> string \<Rightarrow> 'e + 'a \<Rightarrow> discovery_store_error + 'a" where
  "remote_result H S ctx r =
     map_err (\<lambda>e. discovery_general_error H (to_http_status (do_esource S e)) ctx) r"

lemma to_http_status_not_success [simp]:
  "to_http_status es \<noteq> 200" "to_http_status es \<noteq> 201" "to_http_status es \<noteq> 204" "to_http_status es \<noteq> 304"
  "to_http_status es \<noteq> 404" "to_http_status es \<noteq> 409"
  by (cases es; simp)+

lemma loop_http_simps [simp]:
  "dh_client (loop_http V now defaults base ss sj si) = loop_client defaults base (discovery_router V now)"
  "dh_discovery_url (loop_http V now defaults base ss sj si) = base @ ''/discovery''"
  "dh_json (loop_http V now defaults base ss sj si) = dv_json V"
  "dh_hex (loop_http V now defaults base ss sj si) = dv_hex V"
  by (simp_all add: loop_http_def)

lemma loop_execute:
  assumes "loop_ok V defaults" and "url_path base url = Some path"
    and "path = [''discovery''] \<or> (\<exists>k. path = [''discovery'', jl_show_key (dv_json V) k])"
  shows "client_send (loop_client defaults base (discovery_router V now)) m url hs s
      = apfst Inr (discovery_routes V now \<lparr>rq_method = m, rq_path = path, rq_query = [],
                     rq_headers = hs @ defaults, rq_body = None\<rparr> s)"
    and "client_send_json (loop_client defaults base (discovery_router V now)) sh m url (Inr v) s
      = apfst Inr (discovery_routes V now \<lparr>rq_method = m, rq_path = path, rq_query = [],
                     rq_headers = defaults, rq_body = Some v\<rparr> s)"
  using assms loop_auth [OF assms(1,3), where hs = "[]"]
  by (simp_all add: client_send_def client_send_json_def loop_client_def loop_auth)

lemma loop_execute_key:
  assumes "loop_ok V defaults" and "H = loop_http V now defaults base ss sj si"
  shows "client_send (loop_client defaults base (discovery_router V now)) m (discovery_public_key_url H k) hs s
      = apfst Inr (discovery_routes V now \<lparr>rq_method = m, rq_path = [''discovery'', jl_show_key (dv_json V) k],
                     rq_query = [], rq_headers = hs @ defaults, rq_body = None\<rparr> s)"
    and "client_send_json (loop_client defaults base (discovery_router V now)) sh m (discovery_public_key_url H k) (Inr v) s
      = apfst Inr (discovery_routes V now \<lparr>rq_method = m, rq_path = [''discovery'', jl_show_key (dv_json V) k],
                     rq_query = [], rq_headers = defaults, rq_body = Some v\<rparr> s)"
  using loop_execute [OF assms(1) loop_path_key [OF assms(1), of base now ss sj si k]] assms(2) by blast+

lemma loop_execute_all:
  assumes "loop_ok V defaults"
  shows "client_send (loop_client defaults base (discovery_router V now)) m (base @ ''/discovery'') hs s
      = apfst Inr (discovery_routes V now \<lparr>rq_method = m, rq_path = [''discovery''],
                     rq_query = [], rq_headers = hs @ defaults, rq_body = None\<rparr> s)"
    and "client_send_json (loop_client defaults base (discovery_router V now)) sh m (base @ ''/discovery'') (Inr v) s
      = apfst Inr (discovery_routes V now \<lparr>rq_method = m, rq_path = [''discovery''],
                     rq_query = [], rq_headers = defaults, rq_body = Some v\<rparr> s)"
  using loop_execute [OF assms loop_path_all] by blast+

lemma loop_key:
  assumes "loop_ok V defaults"
  shows "jl_parse_key (dv_json V) (jl_show_key (dv_json V) k) = Inr k"
  using assms by (simp add: loop_ok_def key_codec_def)

lemma loop_put:
  assumes ok: "loop_ok V defaults" and H: "H = loop_http V now defaults base ss sj si"
    and "wire_sparse (dv_json V) (backend b)"
  shows "http_put H b s =
    apfst (remote_result H (dv_ops V) (''put backend '' @ discovery_public_key_url H (public_key b)))
      (do_put (dv_ops V) now b s)"
proof -
  obtain v where v: "sparse_to_json (dv_json V) (backend b) = Inr v" "sparse_from_json (dv_json V) v = Inr (backend b)"
    using sparse_json_round_trip [OF assms(3)] by blast
  obtain r s' where r: "do_put (dv_ops V) now b s = (r, s')" by fastforce
  have eta: "\<lparr>public_key = public_key b, backend = backend b\<rparr> = b" by simp
  show ?thesis
    unfolding H http_put_def Let_def
    by (cases r) (simp_all add: loop_execute_key(2) [OF ok refl] v discovery_routes_def Let_def
        with_json_body_def h_put_backend_def loop_key [OF ok] eta r crud_defs remote_result_def unit_to_json_def)
qed

lemma loop_patch:
  assumes ok: "loop_ok V defaults" and H: "H = loop_http V now defaults base ss sj si"
    and "wire_patch (patch_backend p)"
  shows "http_patch H p s =
    apfst (remote_result H (dv_ops V) (''patch backend '' @ discovery_public_key_url H (patch_public_key p)))
      (do_patch (dv_ops V) p s)"
proof -
  have v: "patch_from_json (patch_to_json (patch_backend p)) = Inr (patch_backend p)"
    using patch_json_round_trip [of "patch_backend p"] assms(3) by (simp add: wire_patch_def)
  obtain r s' where r: "do_patch (dv_ops V) p s = (r, s')" by fastforce
  have eta: "\<lparr>patch_public_key = patch_public_key p, patch_backend = patch_backend p\<rparr> = p" by simp
  show ?thesis
    unfolding H http_patch_def Let_def
    by (cases r) (simp_all add: loop_execute_key(2) [OF ok refl] v discovery_routes_def Let_def
        with_json_body_def h_patch_backend_def loop_key [OF ok] eta r crud_defs remote_result_def unit_to_json_def)
qed

lemma loop_delete:
  assumes ok: "loop_ok V defaults" and H: "H = loop_http V now defaults base ss sj si"
  shows "http_delete H k s =
    apfst (remote_result H (dv_ops V) (''delete backend: '' @ discovery_public_key_url H k))
      (do_delete (dv_ops V) k s)"
proof -
  obtain r s' where r: "do_delete (dv_ops V) k s = (r, s')" by fastforce
  show ?thesis
    unfolding H http_delete_def Let_def
    by (cases r) (simp_all add: loop_execute_key(1) [OF ok refl] discovery_routes_def Let_def
        h_delete_backend_def loop_key [OF ok] r crud_defs remote_result_def unit_to_json_def)
qed

lemma loop_post:
  assumes ok: "loop_ok V defaults" and H: "H = loop_http V now defaults base ss sj si"
    and "wire_sparse (dv_json V) (backend b)"
    and post: "\<And>k s'. do_post (dv_ops V) now b s = (Inr (Some k), s') \<Longrightarrow> k = public_key b"
  shows "http_post H b s =
    apfst (remote_result H (dv_ops V) (''post backend: '' @ jl_show_key (dv_json V) (public_key b) @ '', url: '' @ dh_discovery_url H))
      (do_post (dv_ops V) now b s)"
proof -
  have "key_codec (dv_json V)" using ok by (simp add: loop_ok_def)
  then obtain v where v: "backend_to_json (dv_json V) b = Inr v" "backend_from_json (dv_json V) v = Inr b"
    using backend_json_round_trip assms(3) by blast
  have loc: "header_value (jl_show_key (dv_json V) (public_key b)) = Inr (jl_show_key (dv_json V) (public_key b))"
    using ok by (simp add: loop_ok_def header_value_def)
  obtain r s' where r: "do_post (dv_ops V) now b s = (r, s')" by fastforce
  note eqs = loop_execute_all(2) [OF ok, simplified] v discovery_routes_def Let_def
    with_json_body_def h_post_backend_def loc r crud_defs remote_result_def unit_to_json_def
  show ?thesis
  proof (cases r)
    case (Inl e)
    then show ?thesis unfolding H http_post_def Let_def by (simp add: eqs)
  next
    case (Inr x)
    then show ?thesis
      using post [of "the x" s'] r unfolding H http_post_def Let_def by (cases x) (simp_all add: eqs)
  qed
qed

lemma loop_get:
  assumes ok: "loop_ok V defaults" and H: "H = loop_http V now defaults base ss sj si"
    and "\<And>b. do_get (dv_ops V) s k = Inr (Some b) \<Longrightarrow> wire_sparse (dv_json V) (backend b)"
  shows "http_get H k s =
    (remote_result H (dv_ops V) (''get backend '' @ discovery_public_key_url H k) (do_get (dv_ops V) s k), s)"
proof -
  have codec: "key_codec (dv_json V)" using ok by (simp add: loop_ok_def)
  note eqs = loop_execute_key(1) [OF ok refl] discovery_routes_def Let_def h_get_backend_def loop_key [OF ok]
    crud_defs remote_result_def response_json_def
  show ?thesis
  proof (cases "do_get (dv_ops V) s k")
    case (Inl e)
    then show ?thesis unfolding H http_get_def Let_def by (simp add: eqs)
  next
    case (Inr x)
    show ?thesis
    proof (cases x)
      case None
      then show ?thesis using Inr unfolding H http_get_def Let_def by (simp add: eqs)
    next
      case (Some b)
      then obtain v where "backend_to_json (dv_json V) b = Inr v" "backend_from_json (dv_json V) v = Inr b"
        using backend_json_round_trip [OF codec] assms(3) Inr by blast
      then show ?thesis using Inr Some unfolding H http_get_def Let_def by (simp add: eqs)
    qed
  qed
qed

text \<open>Reading all backends: an error of the store has no entity tag and turns into another one.\<close>

lemma loop_get_all:
  assumes ok: "loop_ok V defaults" and H: "H = loop_http V now defaults base ss sj si"
    and "\<And>ds bs. do_get_all (dv_ops V) s q = Inr ds \<Longrightarrow> backends ds = Some bs
          \<Longrightarrow> \<forall>b \<in> set bs. wire_sparse (dv_json V) (backend b)"
  shows "http_get_all H q s =
    (map_err (\<lambda>_. discovery_internal_error Upstream
        (''parsing etag header response from get all backends '' @ dh_discovery_url H) ''missing expected etag'')
       (do_get_all (dv_ops V) s q), s)"
proof -
  have codec: "key_codec (dv_json V)" "hex_codec (hx_encode (dv_hex V)) (hx_decode (dv_hex V))"
      "header_get ''if-none-match'' defaults = None"
    using ok by (simp_all add: loop_ok_def)
  have vis: "list_all visible_char (hx_encode (dv_hex V) bs)" for bs
    using ok by (simp add: loop_ok_def)
  then have hdr: "list_all header_char (hx_encode (dv_hex V) bs)" for bs
    by (meson list.pred_mono_strong visible_header_char)
  have dec: "etag_from_str (hx_decode (dv_hex V)) (hx_encode (dv_hex V) (to_be_bytes e)) = Inr e" for e
    using codec(2) by (simp add: etag_from_str_def hex_codec_def)
  have etag_request: "opt_transpose
      (map_option
         (\<lambda>h. and_then (map_err (\<lambda>_. crud_bad) (header_to_str h))
            (\<lambda>etag_str. map_err (\<lambda>_. crud_bad) (etag_from_str (hx_decode (dv_hex V)) etag_str)))
         (header_get ''if-none-match''
            ((case q of Some e \<Rightarrow> [(''if-none-match'', hx_encode (dv_hex V) (to_be_bytes e))] | None \<Rightarrow> []) @ defaults)))
      = Inr q"
    using codec(3) by (cases q) (simp_all add: header_get_def header_to_str_def vis dec)
  let ?hdrs = "(case q of Some e \<Rightarrow> [(''if-none-match'', hx_encode (dv_hex V) (to_be_bytes e))] | None \<Rightarrow> []) @ defaults"
  let ?answer = "\<lambda>ds. header_insert ''etag'' (etag_string (hx_encode (dv_hex V)) ds) no_cache_headers"
  have ev: "header_value (etag_string (hx_encode (dv_hex V)) ds) = Inr (etag_string (hx_encode (dv_hex V)) ds)"
      "header_to_str (etag_string (hx_encode (dv_hex V)) ds) = Inr (etag_string (hx_encode (dv_hex V)) ds)"
      "etag_from_str (hx_decode (dv_hex V)) (etag_string (hx_encode (dv_hex V)) ds) = Inr (etag ds)" for ds
    by (simp_all add: header_value_def header_to_str_def etag_string_def vis hdr dec)
  have handler: "h_get_backends (dv_ops V) (dv_hex V) ?hdrs s =
      (case do_get_all (dv_ops V) s q of
         Inl e \<Rightarrow> Inl (crud_from_service_error (do_esource (dv_ops V)) e)
       | Inr ds \<Rightarrow> Inr (case backends ds of None \<Rightarrow> crud_not_modified (?answer ds) | Some bs \<Rightarrow> crud_ok bs (?answer ds)))"
    unfolding h_get_backends_def etag_request by (cases "do_get_all (dv_ops V) s q") (simp_all add: ev Let_def split: option.splits)
  have none: "header_get ''etag'' [] = None" by (simp add: header_get_def)
  note eqs = loop_execute_all(1) [OF ok, simplified] discovery_routes_def Let_def handler none
  show ?thesis
  proof (cases "do_get_all (dv_ops V) s q")
    case (Inl e)
    then show ?thesis unfolding H http_get_all_def Let_def loop_http_simps
      by (simp add: eqs crud_defs)
  next
    case (Inr ds)
    have eta: "\<lparr>etag = etag ds, backends = backends ds\<rparr> = ds" by simp
    show ?thesis
    proof (cases "backends ds")
      case None
      with Inr eta show ?thesis unfolding H http_get_all_def Let_def loop_http_simps
        by (simp add: eqs ev crud_defs)
    next
      case (Some bs)
      then obtain v where "backends_to_json (dv_json V) bs = Inr v" "backends_from_json (dv_json V) v = Inr bs"
        using backends_json_round_trip [OF codec(1)] assms(3) Inr by blast
      with Inr Some eta show ?thesis unfolding H http_get_all_def Let_def loop_http_simps
        by (simp add: eqs ev crud_defs response_json_def)
    qed
  qed
qed

lemma remote_result_Inr [simp]: "remote_result H S ctx (Inr x) = Inr x"
  by (simp add: remote_result_def)

text \<open>Over the memory store every operation is the one of that store.\<close>

lemma loop_memory:
  assumes "loop_ok V defaults" and "dv_ops V = mem_discovery_ops"
    and "H = loop_http V now defaults base ss sj si"
    and "\<And>k b. mem_content s k = Some b \<Longrightarrow> wire_sparse (dv_json V) (backend b)" and "mem_inv s"
  shows "http_get H k s = (mem_get s k, s) \<and> http_get_all H q s = (mem_get_all s q, s)
    \<and> (wire_sparse (dv_json V) (backend b) \<longrightarrow> http_post H b s = mem_post now b s)
    \<and> (wire_sparse (dv_json V) (backend b) \<longrightarrow> http_put H b s = mem_put now b s)
    \<and> (wire_patch (patch_backend p) \<longrightarrow> http_patch H p s = mem_patch p s)
    \<and> http_delete H k s = mem_delete k s"
proof (intro conjI impI)
  have content: "do_get (dv_ops V) s k = Inr (mem_content s k)"
    using mem.get_law [OF assms(5)] by (simp add: assms(2) mem_discovery_ops_def)
  show "http_get H k s = (mem_get s k, s)"
  proof -
    have "wire_sparse (dv_json V) (backend b)" if "do_get (dv_ops V) s k = Inr (Some b)" for b
    proof -
      from that content have "mem_content s k = Some b" by simp
      then show ?thesis by (rule assms(4))
    qed
    from loop_get [OF assms(1,3) this] show ?thesis
      by (simp add: assms(2) mem_discovery_ops_def mem_get_def)
  qed
  have wire: "\<forall>b \<in> set bs. wire_sparse (dv_json V) (backend b)"
    if "do_get_all (dv_ops V) s q = Inr ds" "backends ds = Some bs" for ds bs
  proof -
    have get: "mem_get_all s q = Inr ds" using that(1) by (simp add: assms(2) mem_discovery_ops_def)
    with that(2) have "q \<noteq> Some (md_etag s)" using mem.get_all_same [OF assms(5)] by auto
    then obtain bs' where "mem_get_all s q = Inr \<lparr>etag = md_etag s, backends = Some bs'\<rparr>" "set bs' = ran (mem_content s)"
      using mem.get_all_other [OF assms(5)] by blast
    with get that(2) have "set bs = ran (mem_content s)" by (metis Inr_inject discovery_backends.select_convs(2) option.inject)
    with assms(4) show ?thesis by (auto simp: ran_def)
  qed
  have inr: "\<exists>ds. mem_get_all s q = Inr ds"
    by (simp add: mem_get_all_def Let_def)
  show "http_get_all H q s = (mem_get_all s q, s)"
    using loop_get_all [OF assms(1,3) wire] inr
    by (auto simp: assms(2) mem_discovery_ops_def)
  note ops = assms(2) mem_discovery_ops_def
  show "http_post H b s = mem_post now b s" if "wire_sparse (dv_json V) (backend b)"
    using loop_post [OF assms(1,3) that, of s] by (auto simp: ops mem_post_def split: if_splits)
  show "http_put H b s = mem_put now b s" if "wire_sparse (dv_json V) (backend b)"
    using loop_put [OF assms(1,3) that, of s] by (auto simp: ops mem_put_def Let_def split: prod.splits)
  show "http_patch H p s = mem_patch p s" if "wire_patch (patch_backend p)"
    using loop_patch [OF assms(1,3) that, of s] by (auto simp: ops mem_patch_def Let_def split: option.splits)
  show "http_delete H k s = mem_delete k s"
    using loop_delete [OF assms(1,3), of k s] by (simp add: ops mem_delete_def Let_def)
qed

section \<open>A concrete service for the witnesses\<close>

text \<open>Bytes as pairs of the letters a to p.\<close>

definition nibble_encode :: "u8 list \<Rightarrow> string" where
  "nibble_encode bs =
     concat (map (\<lambda>b. [char_of (97 + unat b div 16), char_of (97 + unat b mod 16)]) bs)"

fun nibble_decode :: "string \<Rightarrow> string + u8 list" where
  "nibble_decode (x # y # s) =
     map_ok (\<lambda>bs. of_nat (16 * (of_char x - 97) + (of_char y - 97)) # bs) (nibble_decode s)"
| "nibble_decode [] = Inr []"
| "nibble_decode [x] = Inl ''odd''"

definition letter :: "char \<Rightarrow> bool" where
  "letter c \<longleftrightarrow> (97::nat) \<le> of_char c \<and> of_char c < (113::nat)"

lemma nibble_codec: "nibble_decode (nibble_encode bs) = Inr bs"
proof (induction bs)
  case (Cons b bs)
  have "unat b < 256" using unsigned_less [of b, where ?'a = nat] by simp
  then have "unat b div 16 < 16" "16 * (unat b div 16) + unat b mod 16 = unat b" by simp_all
  then show ?case using Cons by (simp add: nibble_encode_def)
qed (simp add: nibble_encode_def)

lemma nibble_letters: "c \<in> set (nibble_encode bs) \<Longrightarrow> letter c"
proof -
  have "letter (char_of (97 + unat b div 16))" "letter (char_of (97 + unat b mod 16))" for b :: u8
  proof -
    have "unat b < 256" using unsigned_less [of b, where ?'a = nat] by simp
    then have "unat b div 16 < 16" by simp
    then show "letter (char_of (97 + unat b div 16))" "letter (char_of (97 + unat b mod 16))"
      by (simp_all add: letter_def)
  qed
  then show "c \<in> set (nibble_encode bs) \<Longrightarrow> letter c"
    by (auto simp: nibble_encode_def)
qed

lemma letter_chars: "letter c \<Longrightarrow> visible_char c \<and> header_char c \<and> c \<noteq> CHR ''/''"
  by (auto simp: letter_def visible_char_def header_char_def Let_def)

definition sample_service :: "(mem_discovery, discovery_store_error, unit) discovery_service" where
  "sample_service =
     \<lparr>dv_ops = mem_discovery_ops,
      dv_json = text_lib\<lparr>jl_show_key := (\<lambda>k. ''k'' @ nibble_encode (pk_serialize k)),
                         jl_parse_key := (\<lambda>s. map_ok PublicKey (nibble_decode (tl s)))\<rparr>,
      dv_hex = \<lparr>hx_encode = nibble_encode, hx_decode = nibble_decode\<rparr>,
      dv_auth_authority = (),
      dv_decode = (\<lambda>_ aud t. if t = ''t'' then Inr \<lparr>claim_aud = aud, claim_exp = 0\<rparr> else Inl ''signature''),
      dv_bearer = (\<lambda>hs. if (''authorization'', ''t'') \<in> set hs then Some ''t'' else None),
      dv_unrouted = (\<lambda>_. status_response 404)\<rparr>"

lemma sample_service_loop: "loop_ok sample_service [(''authorization'', ''t'')]"
proof -
  have l: "list_all visible_char (nibble_encode bs)" "list_all header_char (nibble_encode bs)"
      "CHR ''/'' \<notin> set (nibble_encode bs)" for bs
    using letter_chars nibble_letters by (fastforce simp: list_all_iff)+
  have "header_char (CHR ''k'')" by (simp add: header_char_def)
  with l show ?thesis
    by (simp add: loop_ok_def sample_service_def key_codec_def nibble_codec hex_codec_def header_get_def
        token_validator_def validate_token_def)
qed

lemma sample_service_wire: "finite (partitions b) \<Longrightarrow> wire_sparse (dv_json sample_service) b"
  using text_lib_wire [of b] by (simp add: wire_sparse_def sample_service_def)

definition sample_http :: "mem_discovery discovery_http" where
  "sample_http = loop_http sample_service 5 [(''authorization'', ''t'')] ''http://h'' (\<lambda>_. []) (\<lambda>_. []) (\<lambda>_. [])"

section \<open>Properties\<close>



text \<open>
  Errors cross the wire by their class: where the store behind the service fails a
  put, a patch, a delete or a get, the HTTP store fails with a downstream error exactly if the
  store did, and with an upstream error otherwise; an internal error of the service is never
  internal to its client.
\<close>

theorem http_discovery_error_class:
  assumes "loop_ok V defaults" and "H = loop_http V now defaults base ss sj si"
    and "wire_sparse (dv_json V) (backend b)" and "do_put (dv_ops V) now b s = (Inl e, s')"
  shows "\<exists>err. http_put H b s = (Inl err, s') \<and> dse_esource err =
    (if do_esource (dv_ops V) e = Downstream then Downstream else Upstream)"
  using loop_put [OF assms(1-3), of s] assms(4)
  by (auto simp: remote_result_def general_error_source remote_error_def)

theorem http_discovery_error_class_witness:
  "\<exists>err. http_put (loop_http (sample_service\<lparr>dv_ops := mem_discovery_ops\<lparr>do_put := (\<lambda>_ _ s. (Inl (discovery_internal_error Internal [] []), s))\<rparr>\<rparr>)
        5 [(''authorization'', ''t'')] ''http://h'' (\<lambda>_. []) (\<lambda>_. []) (\<lambda>_. [])) sample_backend mem_discovery_new
      = (Inl err, mem_discovery_new) \<and> dse_esource err = Upstream"
proof -
  let ?S = "mem_discovery_ops\<lparr>do_put := (\<lambda>_ _ s. (Inl (discovery_internal_error Internal [] []), s))\<rparr>"
  let ?V = "sample_service\<lparr>dv_ops := ?S\<rparr>"
  have "loop_ok ?V [(''authorization'', ''t'')]"
    using sample_service_loop by (simp add: loop_ok_def)
  moreover have "wire_sparse (dv_json ?V) (backend sample_backend)"
    using sample_service_wire [of "backend sample_backend"] by (simp add: sample_backend_def)
  moreover have "do_put (dv_ops ?V) 5 sample_backend mem_discovery_new = (Inl (discovery_internal_error Internal [] []), mem_discovery_new)"
    by simp
  ultimately show ?thesis
    using http_discovery_error_class [OF _ refl] by (fastforce simp: mem_discovery_ops_def discovery_error_defs)
qed

text \<open>
  Reading all backends loses the class of an error: whatever error the store behind
  the service answers, the HTTP store reports a missing entity tag, because the answer of an
  error carries none and the tag is required before the status is looked at.
\<close>

theorem http_get_all_error_masked:
  assumes "loop_ok V defaults" and "H = loop_http V now defaults base ss sj si"
    and "do_get_all (dv_ops V) s q = Inl e"
  shows "http_get_all H q s = (Inl (discovery_internal_error Upstream
    (''parsing etag header response from get all backends '' @ dh_discovery_url H) ''missing expected etag''), s)"
  using loop_get_all [OF assms(1,2), of s q] assms(3) by simp

theorem http_get_all_error_masked_witness:
  "http_get_all (loop_http (sample_service\<lparr>dv_ops := mem_discovery_ops\<lparr>do_get_all := (\<lambda>_ _. Inl (discovery_invalid_input_error [] []))\<rparr>\<rparr>)
        5 [(''authorization'', ''t'')] ''http://h'' (\<lambda>_. []) (\<lambda>_. []) (\<lambda>_. [])) None mem_discovery_new
    = (Inl (discovery_internal_error Upstream
        (''parsing etag header response from get all backends '' @ ''http://h/discovery'') ''missing expected etag''), mem_discovery_new)"
proof -
  let ?V = "sample_service\<lparr>dv_ops := mem_discovery_ops\<lparr>do_get_all := (\<lambda>_ _. Inl (discovery_invalid_input_error [] []))\<rparr>\<rparr>"
  have "loop_ok ?V [(''authorization'', ''t'')]"
    using sample_service_loop by (simp add: loop_ok_def)
  from http_get_all_error_masked [OF this refl] show ?thesis by simp
qed

text \<open>
  Property C25. A request without a token that the validator of the discovery audience accepts is
  answered with 401 and changes nothing, on every route but the health check.
\<close>

theorem discovery_requires_token:
  assumes "\<And>t. dv_bearer V (rq_headers req) = Some t \<Longrightarrow>
      \<not> token_validator (dv_decode V) (dv_auth_authority V) ''discovery'' t"
    and "rq_path req = [''discovery''] \<or> (\<exists>k. rq_path req = [''discovery'', k] \<and> k \<noteq> [])"
  shows "snd (discovery_router V now req s) = s \<and> rs_status (fst (discovery_router V now req s)) = 401"
proof -
  have "discovery_router V now req s = bearer_auth_call (dv_bearer V)
      (token_validator (dv_decode V) (dv_auth_authority V) ''discovery'') ''discovery'' (discovery_routes V now) req s"
    using assms(2) by (auto simp: discovery_router_def)
  then show ?thesis
    using bearer_auth_unchanged [of "dv_bearer V" req "token_validator (dv_decode V) (dv_auth_authority V) ''discovery''",
        OF assms(1)] by simp
qed

theorem discovery_requires_token_witness:
  "snd (discovery_router sample_service 0 \<lparr>rq_method = DELETE, rq_path = [''discovery'', ''k''], rq_query = [],
      rq_headers = [], rq_body = None\<rparr> mem_discovery_new) = mem_discovery_new"
  using discovery_requires_token [of sample_service "\<lparr>rq_method = DELETE, rq_path = [''discovery'', ''k''],
      rq_query = [], rq_headers = [], rq_body = None\<rparr>"]
  by (simp add: sample_service_def)

end
