(* ===== verification/OfferHttp.thy ===== *)
theory OfferHttp
  imports OfferHandlers StoreErrors
begin

text \<open>
  \<open>components/src/offer/http.rs\<close>: the offer store that speaks to a remote offer service, and its
  composition with the handlers of theory \<open>OfferHandlers\<close> over any store in the same process.
\<close>

section \<open>The store (http.rs)\<close>

record 'w offer_http =
  oh_client :: "(json, 'w) http_client"
  oh_offer_url :: string
  oh_metadata_url :: string
  oh_health_check_url :: string
  oh_json :: offer_lib
  oh_show_status :: "nat \<Rightarrow> string"
  oh_show_json_error :: "json_error \<Rightarrow> string"

text \<open>\<open>url_error\<close> is the error of \<open>Url::parse\<close>, if any; the second address parsed is the first again.\<close>

definition offer_with_client ::
  "(string \<Rightarrow> string option) \<Rightarrow> offer_lib \<Rightarrow> (nat \<Rightarrow> string) \<Rightarrow> (json_error \<Rightarrow> string)
     \<Rightarrow> (json, 'w) http_client \<Rightarrow> string \<Rightarrow> offer_store_error + 'w offer_http" where
  "offer_with_client url_error L show_status show_json client base_url =
     (let base_url = trim_end_slash base_url;
          offer_url = base_url @ ''/offers'';
          metadata_url = base_url @ ''/metadata'';
          health_check_url = base_url @ ''/health''
      in case url_error offer_url of
           Some e \<Rightarrow> Inl (offer_internal_error Upstream (''parsing service url '' @ offer_url) e)
         | None \<Rightarrow>
             (case url_error offer_url of
                Some e \<Rightarrow> Inl (offer_internal_error Upstream (''parsing service url '' @ metadata_url) e)
              | None \<Rightarrow>
                  (case url_error health_check_url of
                     Some e \<Rightarrow> Inl (offer_internal_error Upstream (''parsing service url '' @ health_check_url) e)
                   | None \<Rightarrow>
                       Inr \<lparr>oh_client = client, oh_offer_url = offer_url, oh_metadata_url = metadata_url,
                            oh_health_check_url = health_check_url, oh_json = L,
                            oh_show_status = show_status, oh_show_json_error = show_json\<rparr>)))"

definition offer_create ::
  "(json, 'w) client_builder \<Rightarrow> (string \<Rightarrow> string option) \<Rightarrow> offer_lib \<Rightarrow> (nat \<Rightarrow> string)
     \<Rightarrow> (json_error \<Rightarrow> string) \<Rightarrow> string \<Rightarrow> nat \<Rightarrow> nat \<Rightarrow> u8 list list \<Rightarrow> string
     \<Rightarrow> offer_store_error + 'w offer_http" where
  "offer_create B url_error L show_status show_json base_url total_timeout connect_timeout
     trusted_roots authorization =
     (let creating = ''creating http client with base url: '' @ base_url
      in and_then
           (map_err (\<lambda>_. offer_internal_error Internal creating ''failed to parse header value'')
              (header_value (''Bearer '' @ authorization)))
           (\<lambda>auth_value.
         and_then
           (map_err (offer_internal_error Internal (''parsing certificate for url: '' @ base_url))
              (add_root_certificates B trusted_roots))
           (\<lambda>roots.
         and_then
           (map_err (offer_http_error Internal creating)
              (cb_build B \<lparr>cc_default_headers = header_insert ''authorization'' auth_value [],
                 cc_root_certificates = roots, cc_timeout = total_timeout, cc_connect_timeout = connect_timeout\<rparr>))
           (\<lambda>client. offer_with_client url_error L show_status show_json client base_url))))"

definition offers_partition_url :: "'w offer_http \<Rightarrow> string \<Rightarrow> string" where
  "offers_partition_url H p = oh_offer_url H @ ''/'' @ p"

definition offers_partition_id_url :: "'w offer_http \<Rightarrow> string \<Rightarrow> uuid \<Rightarrow> string" where
  "offers_partition_id_url H p i = offers_partition_url H p @ ''/'' @ ol_show_uuid (oh_json H) i"

definition metadata_partition_url :: "'w offer_http \<Rightarrow> string \<Rightarrow> string" where
  "metadata_partition_url H p = oh_metadata_url H @ ''/'' @ p"

definition metadata_partition_id_url :: "'w offer_http \<Rightarrow> string \<Rightarrow> uuid \<Rightarrow> string" where
  "metadata_partition_id_url H p i = metadata_partition_url H p @ ''/'' @ ol_show_uuid (oh_json H) i"

definition offer_general_error :: "'w offer_http \<Rightarrow> nat \<Rightarrow> string \<Rightarrow> offer_store_error" where
  "offer_general_error H status ctx =
     (if is_success status
      then offer_internal_error Upstream ctx (''unexpected http status '' @ oh_show_status H status)
      else if is_client_error status
      then offer_invalid_input_error ctx (''invalid input, http status: '' @ oh_show_status H status)
      else offer_http_status_error Upstream ctx status)"

definition oh_get_offer ::
  "'w offer_http \<Rightarrow> string \<Rightarrow> uuid \<Rightarrow> bool option \<Rightarrow> 'w \<Rightarrow> (offer_store_error + offer_record option) \<times> 'w" where
  "oh_get_offer H p i sparse w =
     (let sp = unwrap_or True sparse;
          url = offers_partition_id_url H p i @ ''?sparse='' @ show_bool sp
      in case client_send (oh_client H) GET url [] w of
           (Inl e, w') \<Rightarrow> (Inl (offer_http_error Upstream (''get offer '' @ url) e), w')
         | (Inr r, w') \<Rightarrow>
             (if rs_status r = 200 then
                map_ok Some
                  (map_err (offer_deserialization_error Upstream (''parsing offer '' @ ol_show_uuid (oh_json H) i))
                     (response_json (record_from_json (oh_json H)) (oh_show_json_error H) r))
              else if rs_status r = 404 then Inr None
              else Inl (offer_general_error H (rs_status r) (''get offer '' @ url)), w'))"

definition page_url :: "string \<Rightarrow> usize \<Rightarrow> usize \<Rightarrow> string" where
  "page_url url start cnt = url @ ''?start='' @ show_nat (unat start) @ ''&count='' @ show_nat (unat cnt)"

definition oh_get_offers ::
  "'w offer_http \<Rightarrow> string \<Rightarrow> usize \<Rightarrow> usize \<Rightarrow> 'w \<Rightarrow> (offer_store_error + offer_record list) \<times> 'w" where
  "oh_get_offers H p start cnt w =
     (let url = page_url (offers_partition_url H p) start cnt
      in case client_send (oh_client H) GET url [] w of
           (Inl e, w') \<Rightarrow> (Inl (offer_http_error Upstream (''get all offers '' @ url) e), w')
         | (Inr r, w') \<Rightarrow>
             (if rs_status r = 200 then
                map_err (offer_deserialization_error Upstream (''parsing all offers for '' @ url))
                  (response_json (read_array (record_from_json (oh_json H))) (oh_show_json_error H) r)
              else Inl (offer_general_error H (rs_status r) (''get all offers '' @ url)), w'))"

definition oh_post_offer ::
  "'w offer_http \<Rightarrow> offer_record \<Rightarrow> 'w \<Rightarrow> (offer_store_error + uuid option) \<times> 'w" where
  "oh_post_offer H r w =
     (let ctx = ''post offer: '' @ ol_show_uuid (oh_json H) (rec_id r) @ '', url: '' @ oh_offer_url H
      in case client_send_json (oh_client H) (oh_show_json_error H) POST (oh_offer_url H)
                (Inr (record_to_json (oh_json H) r)) w of
           (Inl e, w') \<Rightarrow> (Inl (offer_http_error Upstream ctx e), w')
         | (Inr resp, w') \<Rightarrow>
             (if rs_status resp = 201 then Inr (Some (rec_id r))
              else if rs_status resp = 409 then Inr None
              else Inl (offer_general_error H (rs_status resp) ctx), w'))"

definition oh_put_offer ::
  "'w offer_http \<Rightarrow> offer_record \<Rightarrow> 'w \<Rightarrow> (offer_store_error + bool) \<times> 'w" where
  "oh_put_offer H r w =
     (let url = offers_partition_id_url H (rec_partition r) (rec_id r); ctx = ''put offer '' @ url
      in case client_send_json (oh_client H) (oh_show_json_error H) PUT url
                (Inr (record_to_json (oh_json H) r)) w of
           (Inl e, w') \<Rightarrow> (Inl (offer_http_error Upstream ctx e), w')
         | (Inr resp, w') \<Rightarrow>
             (if rs_status resp = 201 then Inr True
              else if rs_status resp = 204 then Inr False
              else Inl (offer_general_error H (rs_status resp) ctx), w'))"

definition oh_delete_offer ::
  "'w offer_http \<Rightarrow> string \<Rightarrow> uuid \<Rightarrow> 'w \<Rightarrow> (offer_store_error + bool) \<times> 'w" where
  "oh_delete_offer H p i w =
     (let url = offers_partition_id_url H p i; ctx = ''delete offer '' @ url
      in case client_send (oh_client H) DELETE url [] w of
           (Inl e, w') \<Rightarrow> (Inl (offer_http_error Upstream ctx e), w')
         | (Inr resp, w') \<Rightarrow>
             (if rs_status resp = 204 then Inr True
              else if rs_status resp = 404 then Inr False
              else Inl (offer_general_error H (rs_status resp) ctx), w'))"

definition oh_get_metadata ::
  "'w offer_http \<Rightarrow> string \<Rightarrow> uuid \<Rightarrow> 'w \<Rightarrow> (offer_store_error + offer_metadata option) \<times> 'w" where
  "oh_get_metadata H p i w =
     (let url = metadata_partition_id_url H p i; ctx = ''get offer metadata '' @ url
      in case client_send (oh_client H) GET url [] w of
           (Inl e, w') \<Rightarrow> (Inl (offer_http_error Upstream ctx e), w')
         | (Inr r, w') \<Rightarrow>
             (if rs_status r = 200 then
                map_ok Some
                  (map_err (offer_deserialization_error Upstream (''parse offer metadata '' @ url))
                     (response_json (metadata_from_json (oh_json H)) (oh_show_json_error H) r))
              else if rs_status r = 404 then Inr None
              else Inl (offer_general_error H (rs_status r) ctx), w'))"

definition oh_get_all_metadata ::
  "'w offer_http \<Rightarrow> string \<Rightarrow> usize \<Rightarrow> usize \<Rightarrow> 'w \<Rightarrow> (offer_store_error + offer_metadata list) \<times> 'w" where
  "oh_get_all_metadata H p start cnt w =
     (let url = page_url (metadata_partition_url H p) start cnt; ctx = ''get all metadata '' @ url
      in case client_send (oh_client H) GET url [] w of
           (Inl e, w') \<Rightarrow> (Inl (offer_http_error Upstream ctx e), w')
         | (Inr r, w') \<Rightarrow>
             (if rs_status r = 200 then
                map_err (offer_deserialization_error Upstream (''parse all metadata '' @ url))
                  (response_json (read_array (metadata_from_json (oh_json H))) (oh_show_json_error H) r)
              else Inl (offer_general_error H (rs_status r) ctx), w'))"

definition oh_post_metadata ::
  "'w offer_http \<Rightarrow> offer_metadata \<Rightarrow> 'w \<Rightarrow> (offer_store_error + uuid option) \<times> 'w" where
  "oh_post_metadata H m w =
     (let ctx = ''post offer metadata '' @ ol_show_uuid (oh_json H) (meta_id m) @ '', url: '' @ oh_metadata_url H
      in case client_send_json (oh_client H) (oh_show_json_error H) POST (oh_metadata_url H)
                (Inr (metadata_to_json (oh_json H) m)) w of
           (Inl e, w') \<Rightarrow> (Inl (offer_http_error Upstream ctx e), w')
         | (Inr resp, w') \<Rightarrow>
             (if rs_status resp = 201 then Inr (Some (meta_id m))
              else if rs_status resp = 409 then Inr None
              else Inl (offer_general_error H (rs_status resp) ctx), w'))"

definition oh_put_metadata ::
  "'w offer_http \<Rightarrow> offer_metadata \<Rightarrow> 'w \<Rightarrow> (offer_store_error + bool) \<times> 'w" where
  "oh_put_metadata H m w =
     (let url = metadata_partition_id_url H (meta_partition m) (meta_id m); ctx = ''put offer metadata '' @ url
      in case client_send_json (oh_client H) (oh_show_json_error H) PUT url
                (Inr (metadata_to_json (oh_json H) m)) w of
           (Inl e, w') \<Rightarrow> (Inl (offer_http_error Upstream ctx e), w')
         | (Inr resp, w') \<Rightarrow>
             (if rs_status resp = 201 then Inr True
              else if rs_status resp = 204 then Inr False
              else Inl (offer_general_error H (rs_status resp) ctx), w'))"

definition oh_delete_metadata ::
  "'w offer_http \<Rightarrow> string \<Rightarrow> uuid \<Rightarrow> 'w \<Rightarrow> (offer_store_error + bool) \<times> 'w" where
  "oh_delete_metadata H p i w =
     (let url = metadata_partition_id_url H p i; ctx = ''delete offer metadata '' @ url
      in case client_send (oh_client H) DELETE url [] w of
           (Inl e, w') \<Rightarrow> (Inl (offer_http_error Upstream ctx e), w')
         | (Inr resp, w') \<Rightarrow>
             (if rs_status resp = 204 then Inr True
              else if rs_status resp = 404 then Inr False
              else Inl (offer_general_error H (rs_status resp) ctx), w'))"

definition oh_health :: "'w offer_http \<Rightarrow> 'w \<Rightarrow> (offer_store_error + unit) \<times> 'w" where
  "oh_health H w =
     (case client_send (oh_client H) GET (oh_health_check_url H) [] w of
        (Inl e, w') \<Rightarrow> (Inl (offer_http_error Upstream ''health check'' e), w')
      | (Inr r, w') \<Rightarrow>
          (if \<not> is_success (rs_status r)
           then Inl (offer_http_status_error Upstream ''health check'' (rs_status r))
           else Inr (), w'))"

section \<open>The loop through HTTP\<close>

text \<open>
  The target of a request: what follows the base address, cut at the question mark; the path at
  its slashes, the query into its assignments.
\<close>

definition assignment :: "string \<Rightarrow> string \<times> string" where
  "assignment s = (takeWhile (\<lambda>c. c \<noteq> CHR ''='') s, drop 1 (dropWhile (\<lambda>c. c \<noteq> CHR ''='') s))"

definition url_target :: "string \<Rightarrow> string \<Rightarrow> (string list \<times> (string \<times> string) list) option" where
  "url_target base url =
     (if take (length base) url = base
      then (let rest = drop (length base) url;
                path = takeWhile (\<lambda>c. c \<noteq> CHR ''?'') rest;
                query = drop 1 (dropWhile (\<lambda>c. c \<noteq> CHR ''?'') rest)
            in Some (tl (split_char (CHR ''/'') path),
                     if query = [] then [] else map assignment (split_char (CHR ''&'') query)))
      else None)"

definition target_client ::
  "header_map \<Rightarrow> string \<Rightarrow> ('b http_request \<Rightarrow> 's \<Rightarrow> 'b http_response \<times> 's) \<Rightarrow> ('b, 's) http_client" where
  "target_client defaults base service =
     \<lparr>hc_default_headers = defaults,
      hc_execute = (\<lambda>q s. case url_target base (cq_url q) of
         None \<Rightarrow> (Inl ''no route to host'', s)
       | Some (path, query) \<Rightarrow>
           apfst Inr (service \<lparr>rq_method = cq_method q, rq_path = path, rq_query = query,
                                rq_headers = cq_headers q, rq_body = cq_body q\<rparr> s))\<rparr>"

text \<open>A text that stands for itself in a path: no delimiter of an address, nothing to escape.\<close>

definition plain_char :: "char \<Rightarrow> bool" where
  "plain_char c \<longleftrightarrow>
     is_digit c \<or> (65::nat) \<le> of_char c \<and> of_char c \<le> (90::nat) \<or> (97::nat) \<le> of_char c \<and> of_char c \<le> (122::nat)
     \<or> c \<in> {CHR ''-'', CHR ''_'', CHR ''~''}"

definition plain_segment :: "string \<Rightarrow> bool" where
  "plain_segment s \<longleftrightarrow> s \<noteq> [] \<and> list_all plain_char s"

definition offer_loop_ok :: "('s, 'e, 'f, 'k) offer_service \<Rightarrow> header_map \<Rightarrow> bool" where
  "offer_loop_ok V defaults \<longleftrightarrow>
     offer_codec (ov_json V)
     \<and> (\<forall>u. plain_segment (ol_show_uuid (ov_json V) u))
     \<and> (\<exists>t. ov_bearer V defaults = Some t \<and> token_validator (ov_decode V) (ov_auth_authority V) ''offer'' t)"

definition loop_offer_http ::
  "('s, 'e, 'f, 'k) offer_service \<Rightarrow> datetime \<Rightarrow> header_map \<Rightarrow> string \<Rightarrow> (nat \<Rightarrow> string) \<Rightarrow> (json_error \<Rightarrow> string)
     \<Rightarrow> 's offer_http" where
  "loop_offer_http V now defaults base show_status show_json =
     \<lparr>oh_client = target_client defaults base (offer_router V now),
      oh_offer_url = base @ ''/offers'', oh_metadata_url = base @ ''/metadata'',
      oh_health_check_url = base @ ''/health'', oh_json = ov_json V,
      oh_show_status = show_status, oh_show_json_error = show_json\<rparr>"

lemma plain_char_not: "plain_char c \<Longrightarrow> c \<notin> {CHR ''/'', CHR ''?''}"
  by (auto simp: plain_char_def is_digit_def)

lemma plain_header: "plain_char c \<Longrightarrow> header_char c"
  by (auto simp: plain_char_def is_digit_def header_char_def Let_def)

lemma plain_segmentD:
  assumes "plain_segment s"
  shows "s \<noteq> []" and "CHR ''/'' \<notin> set s" and "CHR ''?'' \<notin> set s" and "list_all header_char s"
  using assms plain_char_not plain_header by (auto simp: plain_segment_def list_all_iff)

text \<open>The targets of the addresses that the store builds.\<close>

lemma takeWhile_free: "c \<notin> set xs \<Longrightarrow> takeWhile (\<lambda>x. x \<noteq> c) (xs @ c # ys) = xs"
    "c \<notin> set xs \<Longrightarrow> dropWhile (\<lambda>x. x \<noteq> c) (xs @ c # ys) = c # ys"
    "c \<notin> set xs \<Longrightarrow> takeWhile (\<lambda>x. x \<noteq> c) xs = xs"
    "c \<notin> set xs \<Longrightarrow> dropWhile (\<lambda>x. x \<noteq> c) xs = []"
  by (induction xs) auto

lemma url_target_path:
  assumes "CHR ''?'' \<notin> set path"
  shows "url_target base (base @ path) = Some (tl (split_char (CHR ''/'') path), [])"
    and "query \<noteq> [] \<Longrightarrow> url_target base (base @ path @ CHR ''?'' # query)
      = Some (tl (split_char (CHR ''/'') path), map assignment (split_char (CHR ''&'') query))"
  by (simp_all add: url_target_def takeWhile_free [OF assms] Let_def del: takeWhile_eq_all_conv)

lemma split_path:
  "CHR ''/'' \<notin> set a \<Longrightarrow> tl (split_char (CHR ''/'') (CHR ''/'' # a)) = [a]"
  "CHR ''/'' \<notin> set a \<Longrightarrow> CHR ''/'' \<notin> set b \<Longrightarrow> tl (split_char (CHR ''/'') (CHR ''/'' # a @ CHR ''/'' # b)) = [a, b]"
  "CHR ''/'' \<notin> set a \<Longrightarrow> CHR ''/'' \<notin> set b \<Longrightarrow> CHR ''/'' \<notin> set c \<Longrightarrow>
     tl (split_char (CHR ''/'') (CHR ''/'' # a @ CHR ''/'' # b @ CHR ''/'' # c)) = [a, b, c]"
  by (simp_all add: split_char_none split_char_free_append)

lemma target_root:
  "CHR ''/'' \<notin> set root \<Longrightarrow> CHR ''?'' \<notin> set root \<Longrightarrow> url_target base (base @ ''/'' @ root) = Some ([root], [])"
  using url_target_path(1) [of "CHR ''/'' # root" base] split_path(1) [of root]
  by simp

lemma target_segments:
  assumes "CHR ''/'' \<notin> set root" and "CHR ''?'' \<notin> set root" and "plain_segment p" and "plain_segment i"
  shows "url_target base (base @ ''/'' @ root @ ''/'' @ p @ ''/'' @ i) = Some ([root, p, i], [])"
    and "query \<noteq> [] \<Longrightarrow> url_target base (base @ ''/'' @ root @ ''/'' @ p @ ''/'' @ i @ ''?'' @ query)
      = Some ([root, p, i], map assignment (split_char (CHR ''&'') query))"
    and "query \<noteq> [] \<Longrightarrow> url_target base (base @ ''/'' @ root @ ''/'' @ p @ ''?'' @ query)
      = Some ([root, p], map assignment (split_char (CHR ''&'') query))"
proof -
  note p = plain_segmentD [OF assms(3)] and i = plain_segmentD [OF assms(4)]
  have 3: "CHR ''?'' \<notin> set (CHR ''/'' # root @ CHR ''/'' # p @ CHR ''/'' # i)"
    and 2: "CHR ''?'' \<notin> set (CHR ''/'' # root @ CHR ''/'' # p)"
    using assms(1,2) p i by auto
  show "url_target base (base @ ''/'' @ root @ ''/'' @ p @ ''/'' @ i) = Some ([root, p, i], [])"
    using url_target_path(1) [OF 3, of base] split_path(3) [OF assms(1) p(2) i(2)] by simp
  show "query \<noteq> [] \<Longrightarrow> url_target base (base @ ''/'' @ root @ ''/'' @ p @ ''/'' @ i @ ''?'' @ query)
      = Some ([root, p, i], map assignment (split_char (CHR ''&'') query))"
    using url_target_path(2) [OF 3, of query base] split_path(3) [OF assms(1) p(2) i(2)] by simp
  show "query \<noteq> [] \<Longrightarrow> url_target base (base @ ''/'' @ root @ ''/'' @ p @ ''?'' @ query)
      = Some ([root, p], map assignment (split_char (CHR ''&'') query))"
    using url_target_path(2) [OF 2, of query base] split_path(2) [OF assms(1) p(2)] by simp
qed

text \<open>What the services read of the query strings.\<close>

lemma sparse_query_sent:
  "sparse_query (map assignment (split_char (CHR ''&'') (''sparse='' @ show_bool b))) = Inr (Some b)"
  by (cases b) (simp_all add: sparse_query_def query_param_def assignment_def show_bool_def parse_bool_def)

lemma page_query_sent:
  "page_query (map assignment (split_char (CHR ''&'')
      (''start='' @ show_nat (unat st) @ ''&count='' @ show_nat (unat cnt))))
    = Inr \<lparr>pg_start = Some st, pg_count = Some cnt\<rparr>"
proof -
  have digits: "CHR ''&'' \<notin> set (show_nat n)" "CHR ''='' \<notin> set (show_nat n)" for n
    using show_nat_digits [of n] digit_not by (fastforce simp: list_all_iff)+
  have "split_char (CHR ''&'') (''start='' @ show_nat (unat st) @ ''&count='' @ show_nat (unat cnt))
      = [''start='' @ show_nat (unat st), ''count='' @ show_nat (unat cnt)]"
    using split_char_free_append [of "CHR ''&''" "''start='' @ show_nat (unat st)" "''count='' @ show_nat (unat cnt)"]
    by (simp add: digits split_char_none)
  moreover have "assignment (''start='' @ show_nat (unat st)) = (''start'', show_nat (unat st))"
      "assignment (''count='' @ show_nat (unat cnt)) = (''count'', show_nat (unat cnt))"
    by (simp_all add: assignment_def)
  ultimately show ?thesis
    by (simp add: page_query_def query_param_def parse_usize_show)
qed

section \<open>One request through the loop\<close>

text \<open>The routes under one of the two roots.\<close>

definition root_routes ::
  "string \<Rightarrow> ('s, 'e, 'f, 'k) offer_service \<Rightarrow> datetime \<Rightarrow> json http_request \<Rightarrow> 's \<Rightarrow> json http_response \<times> 's" where
  "root_routes root V now = (if root = ''offers'' then offer_routes V now else metadata_routes V now)"

lemma offer_auth:
  assumes "offer_loop_ok V defaults" and "root \<in> {''offers'', ''metadata''}" and "routed_under root path"
  shows "offer_router V now \<lparr>rq_method = m, rq_path = path, rq_query = q, rq_headers = defaults, rq_body = bd\<rparr> s
      = root_routes root V now \<lparr>rq_method = m, rq_path = path, rq_query = q, rq_headers = defaults, rq_body = bd\<rparr> s"
proof -
  obtain t where t: "ov_bearer V defaults = Some t"
      "token_validator (ov_decode V) (ov_auth_authority V) ''offer'' t"
    using assms(1) unfolding offer_loop_ok_def by blast
  have "path \<noteq> [''health'']" "root = ''metadata'' \<Longrightarrow> \<not> routed_under ''offers'' path"
    using assms(2,3) by (auto simp: routed_under_def)
  with t assms(2,3) show ?thesis
    by (auto simp: offer_router_def bearer_auth_call_def Let_def root_routes_def)
qed

text \<open>Sending to an address whose target is known.\<close>

lemma target_send:
  assumes "url_target base url = Some (path, q)"
  shows "client_send (target_client defaults base service) m url [] s
      = apfst Inr (service \<lparr>rq_method = m, rq_path = path, rq_query = q, rq_headers = defaults, rq_body = None\<rparr> s)"
    and "client_send_json (target_client defaults base service) sh m url (Inr v) s
      = apfst Inr (service \<lparr>rq_method = m, rq_path = path, rq_query = q, rq_headers = defaults, rq_body = Some v\<rparr> s)"
  using assms by (simp_all add: client_send_def client_send_json_def target_client_def)

lemma loop_offer_simps [simp]:
  "oh_client (loop_offer_http V now defaults base ss sj) = target_client defaults base (offer_router V now)"
  "oh_offer_url (loop_offer_http V now defaults base ss sj) = base @ ''/offers''"
  "oh_metadata_url (loop_offer_http V now defaults base ss sj) = base @ ''/metadata''"
  "oh_json (loop_offer_http V now defaults base ss sj) = ov_json V"
  by (simp_all add: loop_offer_http_def)

lemma offer_loop_uuid:
  assumes "offer_loop_ok V defaults"
  shows "plain_segment (ol_show_uuid (ov_json V) i)"
    and "with_uuid_param (ol_parse_uuid (ov_json V)) [p, ol_show_uuid (ov_json V) i] k s = k \<lparr>up_partition = p, up_id = i\<rparr>"
    and "offer_codec (ov_json V)"
  using assms
  by (auto simp: offer_loop_ok_def offer_codec_def with_uuid_param_def extract_uuid_param_def parse_uuid_status_def)

text \<open>The addresses that the store builds.\<close>

lemma loop_urls:
  assumes "H = loop_offer_http V now defaults base ss sj"
  shows "offers_partition_id_url H p i = base @ ''/'' @ ''offers'' @ ''/'' @ p @ ''/'' @ ol_show_uuid (ov_json V) i"
    and "offers_partition_url H p = base @ ''/'' @ ''offers'' @ ''/'' @ p"
    and "oh_offer_url H = base @ ''/'' @ ''offers''"
    and "metadata_partition_id_url H p i = base @ ''/'' @ ''metadata'' @ ''/'' @ p @ ''/'' @ ol_show_uuid (ov_json V) i"
    and "metadata_partition_url H p = base @ ''/'' @ ''metadata'' @ ''/'' @ p"
    and "oh_metadata_url H = base @ ''/'' @ ''metadata''"
    and "oh_client H = target_client defaults base (offer_router V now)" and "oh_json H = ov_json V"
  using assms
  by (simp_all add: offers_partition_id_url_def offers_partition_url_def metadata_partition_id_url_def
      metadata_partition_url_def)

lemma loop_send:
  fixes V :: "('s, 'e, 'f, 'k) offer_service" and now :: datetime and base :: string and i :: uuid
  assumes ok: "offer_loop_ok V defaults" and root: "root \<in> {''offers'', ''metadata''}" and p: "plain_segment p"
  defines "send \<equiv> client_send (target_client defaults base (offer_router V now))"
    and "send_json \<equiv> client_send_json (target_client defaults base (offer_router V now))"
    and "id_path \<equiv> [root, p, ol_show_uuid (ov_json V) i]"
    and "id_url \<equiv> base @ ''/'' @ root @ ''/'' @ p @ ''/'' @ ol_show_uuid (ov_json V) i"
  shows "send m id_url [] s = apfst Inr (root_routes root V now
          \<lparr>rq_method = m, rq_path = id_path, rq_query = [], rq_headers = defaults, rq_body = None\<rparr> s)"
    and "query \<noteq> [] \<Longrightarrow> send m (id_url @ ''?'' @ query) [] s = apfst Inr (root_routes root V now
          \<lparr>rq_method = m, rq_path = id_path, rq_query = map assignment (split_char (CHR ''&'') query),
           rq_headers = defaults, rq_body = None\<rparr> s)"
    and "query \<noteq> [] \<Longrightarrow> send m ((base @ ''/'' @ root @ ''/'' @ p) @ ''?'' @ query) [] s = apfst Inr (root_routes root V now
          \<lparr>rq_method = m, rq_path = [root, p], rq_query = map assignment (split_char (CHR ''&'') query),
           rq_headers = defaults, rq_body = None\<rparr> s)"
    and "send_json sh m id_url (Inr v) s = apfst Inr (root_routes root V now
          \<lparr>rq_method = m, rq_path = id_path, rq_query = [], rq_headers = defaults, rq_body = Some v\<rparr> s)"
    and "send_json sh m (base @ ''/'' @ root) (Inr v) s = apfst Inr (root_routes root V now
          \<lparr>rq_method = m, rq_path = [root], rq_query = [], rq_headers = defaults, rq_body = Some v\<rparr> s)"
proof -
  note u = offer_loop_uuid(1) [OF ok, of i]
  have r: "CHR ''/'' \<notin> set root" "CHR ''?'' \<notin> set root" using root by auto
  have routed: "routed_under root id_path" "routed_under root [root, p]" "routed_under root [root]"
    using plain_segmentD(1) [OF p] plain_segmentD(1) [OF u] by (simp_all add: routed_under_def id_path_def)
  note auth = offer_auth [OF ok root routed(1)] offer_auth [OF ok root routed(2)] offer_auth [OF ok root routed(3)]
  note targets = target_segments [OF r p u]
  show "send m id_url [] s = apfst Inr (root_routes root V now
          \<lparr>rq_method = m, rq_path = id_path, rq_query = [], rq_headers = defaults, rq_body = None\<rparr> s)"
    unfolding send_def id_url_def target_send(1) [OF targets(1)] by (simp add: auth flip: id_path_def)
  show "query \<noteq> [] \<Longrightarrow> send m (id_url @ ''?'' @ query) [] s = apfst Inr (root_routes root V now
          \<lparr>rq_method = m, rq_path = id_path, rq_query = map assignment (split_char (CHR ''&'') query),
           rq_headers = defaults, rq_body = None\<rparr> s)"
    unfolding send_def id_url_def append_assoc
    by (subst target_send(1) [OF targets(2)]) (simp_all add: auth flip: id_path_def)
  show "query \<noteq> [] \<Longrightarrow> send m ((base @ ''/'' @ root @ ''/'' @ p) @ ''?'' @ query) [] s = apfst Inr (root_routes root V now
          \<lparr>rq_method = m, rq_path = [root, p], rq_query = map assignment (split_char (CHR ''&'') query),
           rq_headers = defaults, rq_body = None\<rparr> s)"
    unfolding send_def append_assoc
    by (subst target_send(1) [OF targets(3)]) (simp_all add: auth)
  show "send_json sh m id_url (Inr v) s = apfst Inr (root_routes root V now
          \<lparr>rq_method = m, rq_path = id_path, rq_query = [], rq_headers = defaults, rq_body = Some v\<rparr> s)"
    unfolding send_json_def id_url_def target_send(2) [OF targets(1)] by (simp add: auth flip: id_path_def)
  show "send_json sh m (base @ ''/'' @ root) (Inr v) s = apfst Inr (root_routes root V now
          \<lparr>rq_method = m, rq_path = [root], rq_query = [], rq_headers = defaults, rq_body = Some v\<rparr> s)"
    unfolding send_json_def target_send(2) [OF target_root [OF r]] by (simp add: auth)
qed

section \<open>The operations through the loop\<close>

text \<open>An answer of the store as the client reports it.\<close>

definition remote_answer ::
  "'w offer_http \<Rightarrow> ('e \<Rightarrow> service_error_source) \<Rightarrow> string \<Rightarrow> 'e + 'a \<Rightarrow> offer_store_error + 'a" where
  "remote_answer H esource ctx r = map_err (\<lambda>e. offer_general_error H (to_http_status (esource e)) ctx) r"

lemma http_status_distinct [simp]:
  "to_http_status es \<noteq> 200" "to_http_status es \<noteq> 201" "to_http_status es \<noteq> 204"
  "to_http_status es \<noteq> 404" "to_http_status es \<noteq> 409"
  by (cases es; simp)+

lemma offer_error_class:
  "ose_esource (offer_general_error H (to_http_status es) ctx) = (if es = Downstream then Downstream else Upstream)"
  by (cases es) (simp_all add: offer_general_error_def is_success_def is_client_error_def offer_error_defs)

lemma location_ok:
  assumes "plain_segment p" and "plain_segment (show_uuid i)"
  shows "header_value (offer_location show_uuid p i) = Inr (offer_location show_uuid p i)"
proof -
  have "header_char (CHR ''/'')" by (simp add: header_char_def)
  then show ?thesis
    using plain_segmentD(4) [OF assms(1)] plain_segmentD(4) [OF assms(2)]
    by (simp add: header_value_def offer_location_def)
qed

lemma offers_root: "''offers'' \<in> {''offers'', ''metadata''}" "''metadata'' \<in> {''offers'', ''metadata''}"
  "root_routes ''offers'' V now = offer_routes V now" "root_routes ''metadata'' V now = metadata_routes V now"
  by (simp_all add: root_routes_def)

lemma loop_put_offer:
  assumes ok: "offer_loop_ok V defaults" and H: "H = loop_offer_http V now defaults base ss sj"
    and p: "plain_segment (rec_partition r)" and w: "wire_record (ov_json V) (rec_offer r)"
  shows "oh_put_offer H r s =
    apfst (remote_answer H (oo_esource (ov_ops V)) (''put offer '' @ offers_partition_id_url H (rec_partition r) (rec_id r)))
      (oo_put_offer (ov_ops V) now (bare r) s)"
proof -
  obtain x s' where x: "oo_put_offer (ov_ops V) now (bare r) s = (x, s')" by fastforce
  have eta: "\<lparr>rec_partition = rec_partition r, rec_id = rec_id r, rec_offer = (rec_offer r)\<lparr>rec_metadata := None\<rparr>\<rparr> = bare r"
    by (simp add: bare_def)
  show ?thesis
    unfolding oh_put_offer_def Let_def loop_urls(1,7,8) [OF H] loop_send(4) [OF ok offers_root(1) p] offers_root(3)
    by (cases x) (simp_all add: offer_routes_def Let_def offer_loop_uuid(2) [OF ok] with_json_body_def
        record_json_round_trip(2) [OF offer_loop_uuid(3) [OF ok] w] ho_put_offer_def eta x remote_answer_def crud_defs)
qed

lemma loop_delete_offer:
  assumes ok: "offer_loop_ok V defaults" and H: "H = loop_offer_http V now defaults base ss sj"
    and p: "plain_segment p"
  shows "oh_delete_offer H p i s =
    apfst (remote_answer H (oo_esource (ov_ops V)) (''delete offer '' @ offers_partition_id_url H p i))
      (oo_delete_offer (ov_ops V) p i s)"
proof -
  obtain x s' where x: "oo_delete_offer (ov_ops V) p i s = (x, s')" by fastforce
  show ?thesis
    unfolding oh_delete_offer_def Let_def loop_urls(1,7) [OF H] loop_send(1) [OF ok offers_root(1) p] offers_root(3)
    by (cases x) (simp_all add: offer_routes_def Let_def offer_loop_uuid(2) [OF ok] ho_delete_offer_def deleted_response_def x
        remote_answer_def crud_defs)
qed

lemma loop_post_offer:
  assumes ok: "offer_loop_ok V defaults" and H: "H = loop_offer_http V now defaults base ss sj"
    and p: "plain_segment (rec_partition r)" and w: "wire_record (ov_json V) (rec_offer r)"
    and post: "\<And>k s'. oo_post_offer (ov_ops V) now (bare r) s = (Inr (Some k), s') \<Longrightarrow> k = rec_id r"
  shows "oh_post_offer H r s =
    apfst (remote_answer H (oo_esource (ov_ops V))
        (''post offer: '' @ ol_show_uuid (ov_json V) (rec_id r) @ '', url: '' @ oh_offer_url H))
      (oo_post_offer (ov_ops V) now (bare r) s)"
proof -
  obtain x s' where x: "oo_post_offer (ov_ops V) now (bare r) s = (x, s')" by fastforce
  note loc = location_ok [OF p offer_loop_uuid(1) [OF ok]]
  note eqs = offer_routes_def Let_def with_json_body_def record_json_round_trip(1) [OF offer_loop_uuid(3) [OF ok] w]
    ho_post_offer_def bare_def [symmetric] x remote_answer_def loc crud_defs
  show ?thesis
  proof (cases x)
    case (Inl e)
    then show ?thesis
      unfolding oh_post_offer_def Let_def loop_urls(3,7,8) [OF H] loop_send(5) [OF ok offers_root(1) p] offers_root(3)
      by (simp add: eqs)
  next
    case (Inr y)
    then show ?thesis
      using post [of "the y" s'] x
      unfolding oh_post_offer_def Let_def loop_urls(3,7,8) [OF H] loop_send(5) [OF ok offers_root(1) p] offers_root(3)
      by (cases y) (simp_all add: eqs)
  qed
qed

lemma loop_get_offer:
  assumes ok: "offer_loop_ok V defaults" and H: "H = loop_offer_http V now defaults base ss sj"
    and p: "plain_segment p"
    and w: "\<And>r. oo_get_offer (ov_ops V) s p i (Some (unwrap_or True sp)) = Inr (Some r) \<Longrightarrow> wire_record (ov_json V) (rec_offer r)"
  shows "oh_get_offer H p i sp s =
    (remote_answer H (oo_esource (ov_ops V))
       (''get offer '' @ offers_partition_id_url H p i @ ''?sparse='' @ show_bool (unwrap_or True sp))
       (oo_get_offer (ov_ops V) s p i (Some (unwrap_or True sp))), s)"
proof -
  let ?b = "unwrap_or True sp"
  have q: "''?sparse='' @ show_bool ?b = ''?'' @ (''sparse='' @ show_bool ?b)" by simp
  have n: "''sparse='' @ show_bool ?b \<noteq> []" by simp
  note eqs = offer_routes_def Let_def with_query_def sparse_query_sent [simplified] offer_loop_uuid(2) [OF ok] ho_get_offer_def
    remote_answer_def crud_defs response_json_def
  show ?thesis
  proof (cases "oo_get_offer (ov_ops V) s p i (Some ?b)")
    case (Inl e)
    then show ?thesis
      unfolding oh_get_offer_def Let_def loop_urls(1,7,8) [OF H] q loop_send(2) [OF ok offers_root(1) p n] offers_root(3)
      by (simp add: eqs)
  next
    case (Inr ro)
    then show ?thesis
      using w record_json_round_trip(1) [OF offer_loop_uuid(3) [OF ok]]
      unfolding oh_get_offer_def Let_def loop_urls(1,7,8) [OF H] q loop_send(2) [OF ok offers_root(1) p n] offers_root(3)
      by (cases ro) (simp_all add: eqs)
  qed
qed

lemma page_url_query: "page_url url st cnt = url @ ''?'' @ (''start='' @ show_nat (unat st) @ ''&count='' @ show_nat (unat cnt))"
  by (simp add: page_url_def)

lemma loop_get_offers:
  assumes ok: "offer_loop_ok V defaults" and H: "H = loop_offer_http V now defaults base ss sj"
    and p: "plain_segment p" and cnt: "cnt \<le> ov_max_page_size V"
    and w: "\<And>rs r. oo_get_offers (ov_ops V) s p st cnt = Inr rs \<Longrightarrow> r \<in> set rs \<Longrightarrow> wire_record (ov_json V) (rec_offer r)"
  shows "oh_get_offers H p st cnt s =
    (remote_answer H (oo_esource (ov_ops V)) (''get all offers '' @ page_url (offers_partition_url H p) st cnt)
       (oo_get_offers (ov_ops V) s p st cnt), s)"
proof -
  have n: "''start='' @ show_nat (unat st) @ ''&count='' @ show_nat (unat cnt) \<noteq> []" by simp
  note eqs = offer_routes_def Let_def with_query_def page_query_sent ho_get_offers_def cnt [unfolded not_less [symmetric]]
    remote_answer_def crud_defs response_json_def
  note send = oh_get_offers_def Let_def page_url_query loop_urls(2,7,8) [OF H] loop_send(3) [OF ok offers_root(1) p n] offers_root(3)
  show ?thesis
  proof (cases "oo_get_offers (ov_ops V) s p st cnt")
    case (Inl e)
    then show ?thesis unfolding send by (simp add: eqs del: append.simps append_assoc)
  next
    case (Inr rs)
    then have "read_array (record_from_json (ov_json V)) (array_to_json (record_to_json (ov_json V)) rs) = Inr rs"
      using w record_json_round_trip(1) [OF offer_loop_uuid(3) [OF ok]] by (intro array_round_trip) simp
    with Inr show ?thesis unfolding send by (simp add: eqs del: append.simps append_assoc)
  qed
qed

lemma loop_put_metadata:
  assumes ok: "offer_loop_ok V defaults" and H: "H = loop_offer_http V now defaults base ss sj"
    and p: "plain_segment (meta_partition m)"
  shows "oh_put_metadata H m s =
    apfst (remote_answer H (oo_metadata_esource (ov_ops V))
        (''put offer metadata '' @ metadata_partition_id_url H (meta_partition m) (meta_id m)))
      (oo_put_metadata (ov_ops V) now m s)"
proof -
  obtain x s' where x: "oo_put_metadata (ov_ops V) now m s = (x, s')" by fastforce
  have eta: "\<lparr>meta_id = meta_id m, meta_partition = meta_partition m, meta_metadata = meta_metadata m\<rparr> = m" by simp
  show ?thesis
    unfolding oh_put_metadata_def Let_def loop_urls(4,7,8) [OF H] loop_send(4) [OF ok offers_root(2) p] offers_root(4)
    by (cases x) (simp_all add: metadata_routes_def Let_def offer_loop_uuid(2) [OF ok] with_json_body_def
        metadata_sparse_of_full [OF offer_loop_uuid(3) [OF ok]] ho_put_metadata_def eta x remote_answer_def crud_defs)
qed

lemma loop_delete_metadata:
  assumes ok: "offer_loop_ok V defaults" and H: "H = loop_offer_http V now defaults base ss sj"
    and p: "plain_segment p"
  shows "oh_delete_metadata H p i s =
    apfst (remote_answer H (oo_metadata_esource (ov_ops V)) (''delete offer metadata '' @ metadata_partition_id_url H p i))
      (oo_delete_metadata (ov_ops V) p i s)"
proof -
  obtain x s' where x: "oo_delete_metadata (ov_ops V) p i s = (x, s')" by fastforce
  show ?thesis
    unfolding oh_delete_metadata_def Let_def loop_urls(4,7) [OF H] loop_send(1) [OF ok offers_root(2) p] offers_root(4)
    by (cases x) (simp_all add: metadata_routes_def Let_def offer_loop_uuid(2) [OF ok] ho_delete_metadata_def
        deleted_response_def x remote_answer_def crud_defs)
qed

lemma loop_post_metadata:
  assumes ok: "offer_loop_ok V defaults" and H: "H = loop_offer_http V now defaults base ss sj"
    and p: "plain_segment (meta_partition m)"
    and post: "\<And>k s'. oo_post_metadata (ov_ops V) now m s = (Inr (Some k), s') \<Longrightarrow> k = meta_id m"
  shows "oh_post_metadata H m s =
    apfst (remote_answer H (oo_metadata_esource (ov_ops V))
        (''post offer metadata '' @ ol_show_uuid (ov_json V) (meta_id m) @ '', url: '' @ oh_metadata_url H))
      (oo_post_metadata (ov_ops V) now m s)"
proof -
  obtain x s' where x: "oo_post_metadata (ov_ops V) now m s = (x, s')" by fastforce
  note loc = location_ok [OF p offer_loop_uuid(1) [OF ok]]
  note eqs = metadata_routes_def Let_def with_json_body_def metadata_json_round_trip [OF offer_loop_uuid(3) [OF ok]]
    ho_post_metadata_def x remote_answer_def loc crud_defs
  note send = oh_post_metadata_def Let_def loop_urls(6,7,8) [OF H] loop_send(5) [OF ok offers_root(2) p] offers_root(4)
  show ?thesis
  proof (cases x)
    case (Inl e)
    then show ?thesis unfolding send by (simp add: eqs)
  next
    case (Inr y)
    then show ?thesis using post [of "the y" s'] x unfolding send by (cases y) (simp_all add: eqs)
  qed
qed

lemma loop_get_metadata:
  assumes ok: "offer_loop_ok V defaults" and H: "H = loop_offer_http V now defaults base ss sj"
    and p: "plain_segment p"
  shows "oh_get_metadata H p i s =
    (remote_answer H (oo_metadata_esource (ov_ops V)) (''get offer metadata '' @ metadata_partition_id_url H p i)
       (oo_get_metadata (ov_ops V) s p i), s)"
proof -
  note eqs = metadata_routes_def Let_def offer_loop_uuid(2) [OF ok] ho_get_metadata_def remote_answer_def crud_defs
    response_json_def metadata_json_round_trip [OF offer_loop_uuid(3) [OF ok]]
  note send = oh_get_metadata_def Let_def loop_urls(4,7,8) [OF H] loop_send(1) [OF ok offers_root(2) p] offers_root(4)
  show ?thesis
  proof (cases "oo_get_metadata (ov_ops V) s p i")
    case (Inl e)
    then show ?thesis unfolding send by (simp add: eqs)
  next
    case (Inr mo)
    then show ?thesis unfolding send by (cases mo) (simp_all add: eqs)
  qed
qed

lemma loop_get_all_metadata:
  assumes ok: "offer_loop_ok V defaults" and H: "H = loop_offer_http V now defaults base ss sj"
    and p: "plain_segment p" and cnt: "cnt \<le> ov_max_page_size V"
  shows "oh_get_all_metadata H p st cnt s =
    (remote_answer H (oo_metadata_esource (ov_ops V)) (''get all metadata '' @ page_url (metadata_partition_url H p) st cnt)
       (oo_get_all_metadata (ov_ops V) s p st cnt), s)"
proof -
  have n: "''start='' @ show_nat (unat st) @ ''&count='' @ show_nat (unat cnt) \<noteq> []" by simp
  have arr: "read_array (metadata_from_json (ov_json V)) (array_to_json (metadata_to_json (ov_json V)) ms) = Inr ms" for ms
    using metadata_json_round_trip [OF offer_loop_uuid(3) [OF ok]] by (intro array_round_trip)
  note eqs = metadata_routes_def Let_def with_query_def page_query_sent ho_get_all_metadata_def
    cnt [unfolded not_less [symmetric]] remote_answer_def crud_defs response_json_def arr
  show ?thesis
    unfolding oh_get_all_metadata_def Let_def page_url_query loop_urls(5,7,8) [OF H]
      loop_send(3) [OF ok offers_root(2) p n] offers_root(4)
    by (cases "oo_get_all_metadata (ov_ops V) s p st cnt") (simp_all add: eqs del: append.simps append_assoc)
qed

section \<open>Over the memory store\<close>

text \<open>Two outcomes agree if they leave the same state, answer the same value or fail with the same class.\<close>

definition same_outcome ::
  "(offer_store_error + 'a) \<times> 's \<Rightarrow> (offer_store_error + 'a) \<times> 's \<Rightarrow> bool" where
  "same_outcome x y \<longleftrightarrow> apfst (map_err ose_esource) x = apfst (map_err ose_esource) y"

lemma remote_answer_Inr [simp]: "remote_answer H es ctx (Inr x) = Inr x"
  by (simp add: remote_answer_def)

lemma remote_downstream:
  assumes "\<And>e. fst x = Inl e \<Longrightarrow> ose_esource e = Downstream"
  shows "same_outcome (apfst (remote_answer H ose_esource ctx) x) x"
  using assms offer_error_class [of H Downstream ctx]
  by (cases x; cases "fst x") (auto simp: same_outcome_def remote_answer_def)

lemma wire_record_metadata [simp]: "wire_record L (r\<lparr>rec_metadata := x\<rparr>) = wire_record L r"
  by (simp add: wire_record_def)

definition wire_store :: "offer_lib \<Rightarrow> mem_offers \<Rightarrow> bool" where
  "wire_store L s \<longleftrightarrow> (\<forall>k e. (k, e) \<in> set (mo_offer s) \<longrightarrow> wire_record L (rec_offer (ot_offer e)))"

lemma wire_store_get:
  "wire_store L s \<Longrightarrow> mo_get_offer s p i sp = Inr (Some r) \<Longrightarrow> wire_record L (rec_offer r)"
  by (auto simp: wire_store_def mo_get_offer_def Let_def dest!: map_of_SomeD split: option.splits if_splits)

lemma wire_store_list:
  "wire_store L s \<Longrightarrow> mo_get_offers s p st cnt = Inr rs \<Longrightarrow> r \<in> set rs \<Longrightarrow> wire_record L (rec_offer r)"
  by (auto simp: wire_store_def mo_get_offers_def Let_def dest!: in_set_takeD in_set_dropD)

lemma mo_get_offer_default: "mo_get_offer s p i (Some (unwrap_or True sp)) = mo_get_offer s p i sp"
  by (simp add: mo_get_offer_def)

section \<open>A concrete service for the witnesses\<close>

definition sample_offer_service :: "(mem_offers, offer_store_error, offer_store_error, unit) offer_service" where
  "sample_offer_service =
     \<lparr>ov_ops = mem_offer_ops (\<lambda>_. []) (\<lambda>_. []), ov_json = sample_offer_lib, ov_max_page_size = 100,
      ov_auth_authority = (),
      ov_decode = (\<lambda>_ aud t. if t = ''t'' then Inr \<lparr>claim_aud = aud, claim_exp = 0\<rparr> else Inl ''signature''),
      ov_bearer = (\<lambda>hs. header_get ''authorization'' hs),
      ov_unrouted = (\<lambda>_. status_response 404)\<rparr>"

lemma sample_offer_loop: "offer_loop_ok sample_offer_service [(''authorization'', ''t'')]"
proof -
  note sample_offer_codec
  moreover have "plain_segment (show_nat n)" for n
    using show_nat_digits [of n] by (auto simp: plain_segment_def plain_char_def list_all_iff)
  ultimately show ?thesis
    by (simp add: offer_loop_ok_def sample_offer_service_def sample_offer_lib_def header_get_def
        token_validator_def validate_token_def)
qed

definition sample_offer_metadata :: offer_metadata where
  "sample_offer_metadata = \<lparr>meta_id = 3, meta_partition = ''p'',
     meta_metadata = \<lparr>md_text = ''t'', md_long_text = None, md_image = Some (Png [1]), md_identifier = None\<rparr>\<rparr>"

section \<open>Properties\<close>



text \<open>
  Property C22. A request without a token that the validator of the offer audience accepts is
  answered with 401 and changes nothing, on every route to offers and metadata.
\<close>

theorem offers_require_token:
  assumes "\<And>t. ov_bearer V (rq_headers req) = Some t \<Longrightarrow>
      \<not> token_validator (ov_decode V) (ov_auth_authority V) ''offer'' t"
    and "routed_under ''offers'' (rq_path req) \<or> routed_under ''metadata'' (rq_path req)"
  shows "snd (offer_router V now req s) = s \<and> rs_status (fst (offer_router V now req s)) = 401"
proof -
  have "rq_path req \<noteq> [''health'']"
    using assms(2) by (auto simp: routed_under_def)
  then have "offer_router V now req s = bearer_auth_call (ov_bearer V)
      (token_validator (ov_decode V) (ov_auth_authority V) ''offer'') ''offer''
      (if routed_under ''offers'' (rq_path req) then offer_routes V now else metadata_routes V now) req s"
    using assms(2) by (auto simp: offer_router_def Let_def)
  then show ?thesis
    by (elim ssubst, intro bearer_auth_unchanged assms(1))
qed

theorem offers_require_token_witness:
  "snd (offer_router sample_offer_service 0 \<lparr>rq_method = DELETE, rq_path = [''metadata'', ''p'', ''3''], rq_query = [],
      rq_headers = [(''authorization'', ''x'')], rq_body = None\<rparr> mem_offers_new) = mem_offers_new"
  using offers_require_token [of sample_offer_service "\<lparr>rq_method = DELETE, rq_path = [''metadata'', ''p'', ''3''],
      rq_query = [], rq_headers = [(''authorization'', ''x'')], rq_body = None\<rparr>"]
  by (simp add: sample_offer_service_def header_get_def routed_under_def token_validator_def validate_token_def)

end
