(* ===== verification/LnPool.thy ===== *)
theory LnPool
  imports ServiceApi
begin

text \<open>
  \<open>components/src/pool\<close>: the Lightning node clients and their pool. The gRPC stubs that
  \<open>tonic\<close> generates, the file system, the JSON parser and the hash functions are arguments
  (the records \<open>cln_net\<close>, \<open>lnd_net\<close> and the arguments of the definitions); what they
  change outside the program is the world \<open>'w\<close> they pass on.
\<close>

section \<open>Errors (error.rs)\<close>

datatype tonic_code =
    CodeOk | Cancelled | Unknown | InvalidArgument | DeadlineExceeded | CodeNotFound | AlreadyExists
  | PermissionDenied | ResourceExhausted | FailedPrecondition | Aborted | OutOfRange
  | Unimplemented | CodeInternal | Unavailable | DataLoss | Unauthenticated

type_synonym tonic_status = "tonic_code \<times> string"

fun from_tonic_code :: "tonic_code \<Rightarrow> service_error_source" where
  "from_tonic_code InvalidArgument = Downstream"
| "from_tonic_code OutOfRange = Downstream"
| "from_tonic_code AlreadyExists = Downstream"
| "from_tonic_code _ = Upstream"

datatype ln_pool_error_kind =
    TonicError tonic_status
  | TransportError string
  | InvalidConfiguration string
  | InvalidCredentials string
  | MemoryError string
  | JsonError string

record ln_pool_error =
  lpe_context :: string
  lpe_source :: ln_pool_error_kind
  lpe_esource :: service_error_source

definition pool_error_new ::
  "ln_pool_error_kind \<Rightarrow> service_error_source \<Rightarrow> string \<Rightarrow> ln_pool_error" where
  "pool_error_new src es ctx = \<lparr>lpe_context = ctx, lpe_source = src, lpe_esource = es\<rparr>"

definition from_invalid_configuration ::
  "string \<Rightarrow> service_error_source \<Rightarrow> string \<Rightarrow> ln_pool_error" where
  "from_invalid_configuration src es ctx = pool_error_new (InvalidConfiguration src) es ctx"

definition from_invalid_credentials ::
  "string \<Rightarrow> service_error_source \<Rightarrow> string \<Rightarrow> ln_pool_error" where
  "from_invalid_credentials src es ctx = pool_error_new (InvalidCredentials src) es ctx"

definition from_tonic_error :: "tonic_status \<Rightarrow> string \<Rightarrow> ln_pool_error" where
  "from_tonic_error st ctx = pool_error_new (TonicError st) (from_tonic_code (fst st)) ctx"

definition from_transport_error ::
  "string \<Rightarrow> service_error_source \<Rightarrow> string \<Rightarrow> ln_pool_error" where
  "from_transport_error src es ctx = pool_error_new (TransportError src) es ctx"

definition from_memory_error :: "string \<Rightarrow> string \<Rightarrow> ln_pool_error" where
  "from_memory_error src ctx = pool_error_new (MemoryError src) Internal ctx"

definition from_json_error :: "string \<Rightarrow> string \<Rightarrow> ln_pool_error" where
  "from_json_error src ctx = pool_error_new (JsonError src) Internal ctx"

lemmas pool_error_defs =
  pool_error_new_def from_invalid_configuration_def from_invalid_credentials_def
  from_tonic_error_def from_transport_error_def from_memory_error_def from_json_error_def

section \<open>The client interface (mod.rs)\<close>

datatype bolt11_description =
    Direct string
  | DirectIntoHash string
  | DescHash "u8 list"

record ln_features =
  invoice_from_desc_hash :: bool

record ln_metrics =
  healthy :: bool
  node_effective_inbound_msat :: u64

text \<open>The configuration of a node: \<open>cln/grpc/config.rs\<close> and \<open>lnd/grpc/config.rs\<close>.\<close>

record cln_config =
  cln_url :: string
  cln_domain :: "string option"
  cln_ca_cert_path :: "string option"
  cln_client_cert_path :: string
  cln_client_key_path :: string

record lnd_config =
  lnd_url :: string
  lnd_domain :: "string option"
  lnd_tls_cert_path :: "string option"
  lnd_macaroon_path :: string
  lnd_amp_invoice :: bool

datatype backend_implementation = ClnGrpc cln_config | LndGrpc lnd_config

text \<open>Why an endpoint could not be connected: its URI, its TLS settings, the transport.\<close>

datatype connect_failure = BadUri string | BadTls string | NoTransport string

definition connect_error :: "string \<Rightarrow> string \<Rightarrow> connect_failure \<Rightarrow> ln_pool_error" where
  "connect_error node url f =
     (case f of
        BadUri e \<Rightarrow>
          from_invalid_configuration (''Invalid endpoint URI: '' @ e) Internal
            (node @ '' connecting to endpoint address '' @ url)
      | BadTls e \<Rightarrow>
          from_invalid_credentials e Internal
            (''loading '' @ node @ '' TLS configuration into client for '' @ url)
      | NoTransport e \<Rightarrow>
          from_transport_error e Upstream (''connecting '' @ node @ '' client to '' @ url))"

definition certificate_der_as_pem :: "(u8 list \<Rightarrow> string) \<Rightarrow> u8 list \<Rightarrow> string" where
  "certificate_der_as_pem b64_encode c =
     ''-----BEGIN CERTIFICATE-----'' @ [CHR 0x0A] @ b64_encode c
       @ [CHR 0x0A] @ ''-----END CERTIFICATE-----''"

section \<open>Core Lightning (cln/grpc/client.rs)\<close>

record cln_invoice_request =
  cln_amount_msat :: "u64 option"  \<comment> \<open>\<open>None\<close>: any amount\<close>
  cln_description :: string
  cln_label :: string
  cln_deschashonly :: "bool option"
  cln_expiry :: "u64 option"

record cln_channel =
  channel_state :: i32
  receivable_msat :: "u64 option"

record ('c, 'w) cln_net =
  cln_net_connect :: "nat \<Rightarrow> u8 list list \<Rightarrow> u8 list \<times> u8 list \<Rightarrow> string \<Rightarrow> string option \<Rightarrow> 'w
    \<Rightarrow> (connect_failure + 'c) \<times> 'w"
  cln_net_invoice :: "'c \<Rightarrow> cln_invoice_request \<Rightarrow> 'w \<Rightarrow> (tonic_status + string) \<times> 'w"
  cln_net_list_peer_channels :: "'c \<Rightarrow> 'w \<Rightarrow> (tonic_status + cln_channel list) \<times> 'w"

record 'c cln_client =
  clnc_timeout :: nat
  clnc_config :: cln_config
  clnc_features :: "ln_features option"
  clnc_inner :: "'c option"
  clnc_ca_certificates :: "u8 list list"
  clnc_identity :: "u8 list \<times> u8 list"

definition cln_create ::
  "(u8 list \<Rightarrow> string) \<Rightarrow> (string \<Rightarrow> string + u8 list) \<Rightarrow> nat \<Rightarrow> cln_config \<Rightarrow> u8 list list
     \<Rightarrow> ln_pool_error + 'c cln_client" where
  "cln_create b64_encode read_file timeout config trusted_roots =
     (let roots = map (\<lambda>c. as_bytes (certificate_der_as_pem b64_encode c)) trusted_roots
      in and_then
           (case cln_ca_cert_path config of
              None \<Rightarrow> Inr roots
            | Some path \<Rightarrow>
                map_ok (\<lambda>pem. roots @ [pem])
                  (map_err (\<lambda>e. from_invalid_credentials e Internal
                      (''loading CLN credentials and reading CA certificate from path '' @ path))
                    (read_file path)))
           (\<lambda>cas. and_then
              (map_err (\<lambda>e. from_invalid_credentials e Internal
                  (''loading CLN credentials and reading client certificate from path ''
                    @ cln_client_cert_path config))
                (read_file (cln_client_cert_path config)))
              (\<lambda>cert. map_ok
                 (\<lambda>key. \<lparr>clnc_timeout = timeout, clnc_config = config,
                         clnc_features = Some \<lparr>invoice_from_desc_hash = False\<rparr>,
                         clnc_inner = None, clnc_ca_certificates = cas, clnc_identity = (cert, key)\<rparr>)
                 (map_err (\<lambda>e. from_invalid_credentials e Internal
                     (''loading CLN credentials and reading client key from path ''
                       @ cln_client_key_path config))
                   (read_file (cln_client_key_path config))))))"

definition cln_inner_connect ::
  "('c, 'w) cln_net \<Rightarrow> 'c cln_client \<Rightarrow> 'w \<Rightarrow> (ln_pool_error + 'c) \<times> 'c cln_client \<times> 'w" where
  "cln_inner_connect net cl w =
     (case clnc_inner cl of
        None \<Rightarrow>
          (case cln_net_connect net (clnc_timeout cl) (clnc_ca_certificates cl) (clnc_identity cl)
                  (cln_url (clnc_config cl)) (cln_domain (clnc_config cl)) w of
             (Inl f, w') \<Rightarrow> (Inl (connect_error ''CLN'' (cln_url (clnc_config cl)) f), cl, w')
           | (Inr c, w') \<Rightarrow> (Inr c, cl\<lparr>clnc_inner := Some c\<rparr>, w'))
      | Some c \<Rightarrow> (Inr c, cl, w))"

definition cln_inner_disconnect :: "'c cln_client \<Rightarrow> 'c cln_client" where
  "cln_inner_disconnect cl = cl\<lparr>clnc_inner := None\<rparr>"

text \<open>\<open>InnerTonicClnGrpcClient::get_invoice\<close>: the request, then the call.\<close>

definition cln_invoice_request_for ::
  "(u8 list \<Rightarrow> u8 list) \<Rightarrow> (u8 list \<Rightarrow> string) \<Rightarrow> string \<Rightarrow> datetime
     \<Rightarrow> u64 option \<Rightarrow> bolt11_description \<Rightarrow> u64 option \<Rightarrow> ln_pool_error + cln_invoice_request" where
  "cln_invoice_request_for sha256 hex_encode url now amount_msat description expiry_secs =
     and_then
       (case description of
          Direct d \<Rightarrow> Inr (d, Some False, d)
        | DirectIntoHash d \<Rightarrow> Inr (d, Some True, hex_encode (sha256 (as_bytes d)))
        | DescHash _ \<Rightarrow>
            Inl (from_invalid_configuration ''hash descriptions unsupported'' Internal
              (''CLN get invoice from '' @ url @ '', parsing invoice description'')))
       (\<lambda>(description_str, deschashonly, label).
          if now < 0
          then Inl (from_invalid_configuration ''second time provided was later than self'' Internal
                 (''CLN get invoice from '' @ url @ '', getting current time for label''))
          else Inr \<lparr>cln_amount_msat = amount_msat, cln_description = description_str,
                    cln_label = label @ '':'' @ show_nat (nat now),
                    cln_deschashonly = deschashonly, cln_expiry = expiry_secs\<rparr>)"

definition cln_inner_get_invoice ::
  "(u8 list \<Rightarrow> u8 list) \<Rightarrow> (u8 list \<Rightarrow> string) \<Rightarrow> ('c, 'w) cln_net \<Rightarrow> string \<Rightarrow> datetime \<Rightarrow> 'c
     \<Rightarrow> u64 option \<Rightarrow> bolt11_description \<Rightarrow> u64 option \<Rightarrow> 'w \<Rightarrow> (ln_pool_error + string) \<times> 'w" where
  "cln_inner_get_invoice sha256 hex_encode net url now c amount_msat description expiry_secs w =
     (case cln_invoice_request_for sha256 hex_encode url now amount_msat description expiry_secs of
        Inl e \<Rightarrow> (Inl e, w)
      | Inr req \<Rightarrow>
          (case cln_net_invoice net c req w of
             (r, w') \<Rightarrow>
               (map_err (\<lambda>st. from_tonic_error st
                   (''CLN get invoice from '' @ url @ '', requesting invoice'')) r, w')))"

definition channeld_normal :: i32 where
  "channeld_normal = 2"

definition cln_inbound_msat :: "cln_channel list \<Rightarrow> u64" where
  "cln_inbound_msat channels =
     foldl (\<lambda>acc ch. if channel_state ch = channeld_normal
                      then acc + unwrap_or 0 (receivable_msat ch) else acc) 0 channels"

definition cln_inner_get_metrics ::
  "('c, 'w) cln_net \<Rightarrow> string \<Rightarrow> 'c \<Rightarrow> 'w \<Rightarrow> (ln_pool_error + ln_metrics) \<times> 'w" where
  "cln_inner_get_metrics net url c w =
     (case cln_net_list_peer_channels net c w of
        (r, w') \<Rightarrow>
          (map_ok (\<lambda>chs. \<lparr>healthy = True, node_effective_inbound_msat = cln_inbound_msat chs\<rparr>)
             (map_err (\<lambda>st. from_tonic_error st
                 (''CLN get metrics for '' @ url @ '', requesting channels'')) r), w'))"

definition cln_get_invoice ::
  "(u8 list \<Rightarrow> u8 list) \<Rightarrow> (u8 list \<Rightarrow> string) \<Rightarrow> ('c, 'w) cln_net \<Rightarrow> datetime
     \<Rightarrow> u64 option \<Rightarrow> bolt11_description \<Rightarrow> u64 option \<Rightarrow> 'c cln_client \<Rightarrow> 'w
     \<Rightarrow> (ln_pool_error + string) \<times> 'c cln_client \<times> 'w" where
  [client_defs]: "cln_get_invoice sha256 hex_encode net now amount_msat description expiry_secs cl w =
     (case cln_inner_connect net cl w of
        (Inl e, cl', w') \<Rightarrow> (Inl e, cl', w')
      | (Inr c, cl', w') \<Rightarrow>
          (case cln_inner_get_invoice sha256 hex_encode net (cln_url (clnc_config cl')) now c
                  amount_msat description expiry_secs w' of
             (r, w'') \<Rightarrow> (r, if is_ok r then cl' else cln_inner_disconnect cl', w'')))"

definition cln_get_metrics ::
  "('c, 'w) cln_net \<Rightarrow> 'c cln_client \<Rightarrow> 'w \<Rightarrow> (ln_pool_error + ln_metrics) \<times> 'c cln_client \<times> 'w" where
  [client_defs]: "cln_get_metrics net cl w =
     (case cln_inner_connect net cl w of
        (Inl e, cl', w') \<Rightarrow> (Inl e, cl', w')
      | (Inr c, cl', w') \<Rightarrow>
          (case cln_inner_get_metrics net (cln_url (clnc_config cl')) c w' of
             (r, w'') \<Rightarrow> (r, if is_ok r then cl' else cln_inner_disconnect cl', w'')))"

section \<open>LND (lnd/grpc/client.rs)\<close>

record lnd_invoice =
  lnd_memo :: string
  lnd_value_msat :: i64
  lnd_description_hash :: "u8 list"
  lnd_expiry :: i64
  lnd_is_amp :: bool

record ('c, 'w) lnd_net =
  lnd_net_connect :: "nat \<Rightarrow> u8 list list \<Rightarrow> string \<Rightarrow> string \<Rightarrow> string option \<Rightarrow> 'w
    \<Rightarrow> (connect_failure + 'c) \<times> 'w"
  lnd_net_add_invoice :: "'c \<Rightarrow> lnd_invoice \<Rightarrow> 'w \<Rightarrow> (tonic_status + string) \<times> 'w"
  lnd_net_channel_balance :: "'c \<Rightarrow> 'w \<Rightarrow> (tonic_status + u64 option) \<times> 'w"
    \<comment> \<open>the \<open>msat\<close> of \<open>remote_balance\<close>, where the response has one\<close>

record 'c lnd_client =
  lndc_timeout :: nat
  lndc_config :: lnd_config
  lndc_features :: "ln_features option"
  lndc_inner :: "'c option"
  lndc_ca_certificates :: "u8 list list"
  lndc_macaroon :: string

definition lnd_create ::
  "(u8 list \<Rightarrow> string) \<Rightarrow> (u8 list \<Rightarrow> string) \<Rightarrow> (string \<Rightarrow> string + u8 list) \<Rightarrow> nat \<Rightarrow> lnd_config
     \<Rightarrow> u8 list list \<Rightarrow> ln_pool_error + 'c lnd_client" where
  "lnd_create b64_encode hex_encode read_file timeout config trusted_roots =
     (let roots = map (\<lambda>c. as_bytes (certificate_der_as_pem b64_encode c)) trusted_roots
      in and_then
           (case lnd_tls_cert_path config of
              None \<Rightarrow> Inr roots
            | Some path \<Rightarrow>
                map_ok (\<lambda>pem. roots @ [pem])
                  (map_err (\<lambda>e. from_invalid_credentials e Internal
                      (''loading LND credentials and reading CA certificate from path '' @ path))
                    (read_file path)))
           (\<lambda>cas. map_ok
              (\<lambda>macaroon. \<lparr>lndc_timeout = timeout, lndc_config = config,
                           lndc_features = Some \<lparr>invoice_from_desc_hash = True\<rparr>,
                           lndc_inner = None, lndc_ca_certificates = cas,
                           lndc_macaroon = hex_encode macaroon\<rparr>)
              (map_err (\<lambda>e. from_invalid_credentials e Internal
                  (''loading LND macaroon from '' @ lnd_macaroon_path config))
                (read_file (lnd_macaroon_path config)))))"

definition lnd_inner_connect ::
  "('c, 'w) lnd_net \<Rightarrow> 'c lnd_client \<Rightarrow> 'w \<Rightarrow> (ln_pool_error + 'c) \<times> 'c lnd_client \<times> 'w" where
  "lnd_inner_connect net cl w =
     (case lndc_inner cl of
        None \<Rightarrow>
          (case lnd_net_connect net (lndc_timeout cl) (lndc_ca_certificates cl) (lndc_macaroon cl)
                  (lnd_url (lndc_config cl)) (lnd_domain (lndc_config cl)) w of
             (Inl f, w') \<Rightarrow> (Inl (connect_error ''LND'' (lnd_url (lndc_config cl)) f), cl, w')
           | (Inr c, w') \<Rightarrow> (Inr c, cl\<lparr>lndc_inner := Some c\<rparr>, w'))
      | Some c \<Rightarrow> (Inr c, cl, w))"

definition lnd_inner_disconnect :: "'c lnd_client \<Rightarrow> 'c lnd_client" where
  "lnd_inner_disconnect cl = cl\<lparr>lndc_inner := None\<rparr>"

definition lnd_invoice_for ::
  "(u8 list \<Rightarrow> u8 list) \<Rightarrow> bool \<Rightarrow> u64 option \<Rightarrow> bolt11_description \<Rightarrow> u64 option \<Rightarrow> lnd_invoice" where
  "lnd_invoice_for sha256 amp_invoice amount_msat description expiry_secs =
     (let (memo, description_hash) =
            (case description of
               Direct d \<Rightarrow> (d, [])
             | DirectIntoHash d \<Rightarrow> ([], sha256 (as_bytes d))
             | DescHash h \<Rightarrow> ([], h))
      in \<lparr>lnd_memo = memo, lnd_value_msat = unwrap_or 0 amount_msat,
          lnd_description_hash = description_hash, lnd_expiry = unwrap_or 3600 expiry_secs,
          lnd_is_amp = amp_invoice\<rparr>)"

definition lnd_inner_get_invoice ::
  "(u8 list \<Rightarrow> u8 list) \<Rightarrow> ('c, 'w) lnd_net \<Rightarrow> string \<Rightarrow> bool \<Rightarrow> 'c
     \<Rightarrow> u64 option \<Rightarrow> bolt11_description \<Rightarrow> u64 option \<Rightarrow> 'w \<Rightarrow> (ln_pool_error + string) \<times> 'w" where
  "lnd_inner_get_invoice sha256 net url amp_invoice c amount_msat description expiry_secs w =
     (case lnd_net_add_invoice net c
             (lnd_invoice_for sha256 amp_invoice amount_msat description expiry_secs) w of
        (r, w') \<Rightarrow>
          (map_err (\<lambda>st. from_tonic_error st
              (''LND get invoice from '' @ url @ '', requesting invoice'')) r, w'))"

definition lnd_inner_get_metrics ::
  "('c, 'w) lnd_net \<Rightarrow> string \<Rightarrow> 'c \<Rightarrow> 'w \<Rightarrow> (ln_pool_error + ln_metrics) \<times> 'w" where
  "lnd_inner_get_metrics net url c w =
     (case lnd_net_channel_balance net c w of
        (r, w') \<Rightarrow>
          (map_ok (\<lambda>b. \<lparr>healthy = True, node_effective_inbound_msat = unwrap_or 0 b\<rparr>)
             (map_err (\<lambda>st. from_tonic_error st
                 (''LND get metrics for '' @ url @ '', requesting channels'')) r), w'))"

definition lnd_get_invoice ::
  "(u8 list \<Rightarrow> u8 list) \<Rightarrow> ('c, 'w) lnd_net
     \<Rightarrow> u64 option \<Rightarrow> bolt11_description \<Rightarrow> u64 option \<Rightarrow> 'c lnd_client \<Rightarrow> 'w
     \<Rightarrow> (ln_pool_error + string) \<times> 'c lnd_client \<times> 'w" where
  [client_defs]: "lnd_get_invoice sha256 net amount_msat description expiry_secs cl w =
     (case lnd_inner_connect net cl w of
        (Inl e, cl', w') \<Rightarrow> (Inl e, cl', w')
      | (Inr c, cl', w') \<Rightarrow>
          (case lnd_inner_get_invoice sha256 net (lnd_url (lndc_config cl'))
                  (lnd_amp_invoice (lndc_config cl')) c amount_msat description expiry_secs w' of
             (r, w'') \<Rightarrow> (r, if is_ok r then cl' else lnd_inner_disconnect cl', w'')))"

definition lnd_get_metrics ::
  "('c, 'w) lnd_net \<Rightarrow> 'c lnd_client \<Rightarrow> 'w \<Rightarrow> (ln_pool_error + ln_metrics) \<times> 'c lnd_client \<times> 'w" where
  [client_defs]: "lnd_get_metrics net cl w =
     (case lnd_inner_connect net cl w of
        (Inl e, cl', w') \<Rightarrow> (Inl e, cl', w')
      | (Inr c, cl', w') \<Rightarrow>
          (case lnd_inner_get_metrics net (lnd_url (lndc_config cl')) c w' of
             (r, w'') \<Rightarrow> (r, if is_ok r then cl' else lnd_inner_disconnect cl', w'')))"

section \<open>The inbound capacity of a node\<close>

text \<open>The amounts that count: of the channels in the state \<open>CHANNELD_NORMAL\<close>.\<close>

definition normal_receivable :: "cln_channel list \<Rightarrow> nat list" where
  "normal_receivable chs =
     map (\<lambda>ch. unat (unwrap_or 0 (receivable_msat ch))) (filter (\<lambda>ch. channel_state ch = channeld_normal) chs)"

lemma cln_inbound_sum:
  "foldl (\<lambda>acc ch. if channel_state ch = channeld_normal
                 then acc + unwrap_or 0 (receivable_msat ch) else acc) a chs
     = a + of_nat (sum_list (normal_receivable chs))"
  by (induction chs arbitrary: a) (simp_all add: normal_receivable_def algebra_simps)

text \<open>
  The inbound capacity of a CLN node is the sum of what its channels in the state
  \<open>CHANNELD_NORMAL\<close> can receive, modulo \<open>2 ^ 64\<close>; so it is exact below that bound, and
  the other channels and the order of the channels do not matter.
\<close>

theorem cln_inbound_exact:
  assumes "sum_list (normal_receivable chs) < 2 ^ 64"
  shows "unat (cln_inbound_msat chs) = sum_list (normal_receivable chs)
    \<and> (mset chs' = mset chs \<longrightarrow> cln_inbound_msat chs' = cln_inbound_msat chs)"
proof -
  have "unat (cln_inbound_msat chs) = sum_list (normal_receivable chs)"
    unfolding cln_inbound_msat_def cln_inbound_sum using assms by (simp add: unat_of_nat)
  moreover have "cln_inbound_msat chs' = cln_inbound_msat chs" if "mset chs' = mset chs"
  proof -
    have "mset (normal_receivable chs') = mset (normal_receivable chs)"
      using that by (simp add: normal_receivable_def)
    then have "sum_list (normal_receivable chs') = sum_list (normal_receivable chs)"
      by (metis sum_mset_sum_list)
    then show ?thesis unfolding cln_inbound_msat_def cln_inbound_sum by simp
  qed
  ultimately show ?thesis by blast
qed

theorem cln_inbound_exact_witness:
  "unat (cln_inbound_msat
     [\<lparr>channel_state = 2, receivable_msat = Some 5\<rparr>, \<lparr>channel_state = 3, receivable_msat = Some 7\<rparr>,
      \<lparr>channel_state = 2, receivable_msat = None\<rparr>]) = 5"
  using cln_inbound_exact
    [of "[\<lparr>channel_state = 2, receivable_msat = Some 5\<rparr>, \<lparr>channel_state = 3, receivable_msat = Some 7\<rparr>,
      \<lparr>channel_state = 2, receivable_msat = None\<rparr>]" "[]"]
  by (simp add: normal_receivable_def channeld_normal_def)

end
