(* ===== verification/ClientPool.thy ===== *)
theory ClientPool
  imports LnPool
begin

text \<open>
  \<open>components/src/pool/client_pool.rs\<close>: the pool of node clients and its metrics cache, with
  the contract of one client (\<open>trait LnRpcClient\<close>) as a locale that both node kinds
  interpret. A client is shared (\<open>Arc\<close>); a call of the pool is one transition here, so the
  entry a call leaves behind is the client it used. The two \<open>std::sync::Mutex\<close> cells have
  their poison flag as a field.
\<close>

section \<open>What a node client guarantees about its connection\<close>

datatype client_call =
    CallInvoice "u64 option" bolt11_description "u64 option"
  | CallMetrics

text \<open>
  \<open>call\<close> runs a request; \<open>connected\<close> says whether the client keeps an open channel. The
  clients reconnect lazily: a failed request drops the channel, a successful one keeps it.
\<close>

locale node_client =
  fixes call :: "client_call \<Rightarrow> 'cl \<Rightarrow> 'w \<Rightarrow> bool \<times> 'cl \<times> 'w"
    and connected :: "'cl \<Rightarrow> bool"
    and features :: "'cl \<Rightarrow> ln_features option"
  assumes call_connected: "call x cl w = (ok, cl', w') \<Longrightarrow> connected cl' \<longleftrightarrow> ok"
    and call_features: "call x cl w = (ok, cl', w') \<Longrightarrow> features cl' = features cl"
begin

fun calls :: "client_call list \<Rightarrow> 'cl \<Rightarrow> 'w \<Rightarrow> bool list \<times> 'cl \<times> 'w" where
  "calls [] cl w = ([], cl, w)"
| "calls (x # xs) cl w =
     (case call x cl w of (ok, cl', w') \<Rightarrow>
        (case calls xs cl' w' of (oks, cl'', w'') \<Rightarrow> (ok # oks, cl'', w'')))"

text \<open>After any requests the client is connected exactly if the last one succeeded.\<close>

lemma calls_connected:
  "calls xs cl w = (oks, cl', w') \<Longrightarrow>
     connected cl' \<longleftrightarrow> (if oks = [] then connected cl else last oks)"
proof (induction xs arbitrary: cl w oks)
  case Nil
  then show ?case by simp
next
  case (Cons x xs)
  obtain ok cl1 w1 where 1: "call x cl w = (ok, cl1, w1)" by (cases "call x cl w") auto
  obtain oks' where 2: "calls xs cl1 w1 = (oks', cl', w')" and oks: "oks = ok # oks'"
    using Cons.prems 1 by (auto split: prod.splits)
  from Cons.IH [OF 2] call_connected [OF 1] show ?case
    by (simp add: oks)
qed

lemma calls_features: "calls xs cl w = (oks, cl', w') \<Longrightarrow> features cl' = features cl"
proof (induction xs arbitrary: cl w oks)
  case (Cons x xs)
  obtain ok cl1 w1 where 1: "call x cl w = (ok, cl1, w1)" by (cases "call x cl w") auto
  then show ?case
    using Cons.prems Cons.IH [of cl1 w1] call_features [OF 1] by (auto split: prod.splits)
qed simp

end

subsection \<open>Both node kinds keep it\<close>

definition cln_call ::
  "(u8 list \<Rightarrow> u8 list) \<Rightarrow> (u8 list \<Rightarrow> string) \<Rightarrow> ('c, 'w) cln_net \<Rightarrow> datetime
     \<Rightarrow> client_call \<Rightarrow> 'c cln_client \<Rightarrow> 'w \<Rightarrow> bool \<times> 'c cln_client \<times> 'w" where
  "cln_call sha256 hex_encode net now x cl w =
     (case x of
        CallInvoice a d e \<Rightarrow> apfst is_ok (cln_get_invoice sha256 hex_encode net now a d e cl w)
      | CallMetrics \<Rightarrow> apfst is_ok (cln_get_metrics net cl w))"

definition lnd_call ::
  "(u8 list \<Rightarrow> u8 list) \<Rightarrow> ('c, 'w) lnd_net
     \<Rightarrow> client_call \<Rightarrow> 'c lnd_client \<Rightarrow> 'w \<Rightarrow> bool \<times> 'c lnd_client \<times> 'w" where
  "lnd_call sha256 net x cl w =
     (case x of
        CallInvoice a d e \<Rightarrow> apfst is_ok (lnd_get_invoice sha256 net a d e cl w)
      | CallMetrics \<Rightarrow> apfst is_ok (lnd_get_metrics net cl w))"

lemma cln_inner_connect_cases:
  obtains (connected) c cl' w' where "cln_inner_connect net cl w = (Inr c, cl', w')"
      and "clnc_inner cl' = Some c" and "clnc_features cl' = clnc_features cl"
      and "clnc_config cl' = clnc_config cl"
  | (failed) e w' where "cln_inner_connect net cl w = (Inl e, cl, w')" and "clnc_inner cl = None"
proof (cases "clnc_inner cl")
  case None
  obtain r w' where "cln_net_connect net (clnc_timeout cl) (clnc_ca_certificates cl) (clnc_identity cl)
      (cln_url (clnc_config cl)) (cln_domain (clnc_config cl)) w = (r, w')"
    by fastforce
  with None show thesis
    using connected failed by (cases r) (simp_all add: cln_inner_connect_def)
next
  case (Some c)
  then show thesis
    using connected by (simp add: cln_inner_connect_def)
qed

lemma lnd_inner_connect_cases:
  obtains (connected) c cl' w' where "lnd_inner_connect net cl w = (Inr c, cl', w')"
      and "lndc_inner cl' = Some c" and "lndc_features cl' = lndc_features cl"
      and "lndc_config cl' = lndc_config cl"
  | (failed) e w' where "lnd_inner_connect net cl w = (Inl e, cl, w')" and "lndc_inner cl = None"
proof (cases "lndc_inner cl")
  case None
  obtain r w' where "lnd_net_connect net (lndc_timeout cl) (lndc_ca_certificates cl) (lndc_macaroon cl)
      (lnd_url (lndc_config cl)) (lnd_domain (lndc_config cl)) w = (r, w')"
    by fastforce
  with None show thesis
    using connected failed by (cases r) (simp_all add: lnd_inner_connect_def)
next
  case (Some c)
  then show thesis
    using connected by (simp add: lnd_inner_connect_def)
qed

interpretation cln: node_client "cln_call sha256 hex_encode net now" "\<lambda>cl. clnc_inner cl \<noteq> None"
  clnc_features
  for sha256 hex_encode net now
proof (unfold_locales, goal_cases)
  case (1 x cl w ok cl' w')
  then show ?case
    by (cases rule: cln_inner_connect_cases [of net cl w]; cases x)
      (auto simp: cln_call_def client_defs cln_inner_disconnect_def split: prod.splits if_splits)
next
  case (2 x cl w ok cl' w')
  then show ?case
    by (cases rule: cln_inner_connect_cases [of net cl w]; cases x)
      (auto simp: cln_call_def client_defs cln_inner_disconnect_def split: prod.splits if_splits)
qed

interpretation lnd: node_client "lnd_call sha256 net" "\<lambda>cl. lndc_inner cl \<noteq> None" lndc_features
  for sha256 net
proof (unfold_locales, goal_cases)
  case (1 x cl w ok cl' w')
  then show ?case
    by (cases rule: lnd_inner_connect_cases [of net cl w]; cases x)
      (auto simp: lnd_call_def client_defs lnd_inner_disconnect_def split: prod.splits if_splits)
next
  case (2 x cl w ok cl' w')
  then show ?case
    by (cases rule: lnd_inner_connect_cases [of net cl w]; cases x)
      (auto simp: lnd_call_def client_defs lnd_inner_disconnect_def split: prod.splits if_splits)
qed

section \<open>The pool\<close>

text \<open>\<open>Box<dyn LnRpcClient>\<close>: one of the two clients, and the calls dispatched to it.\<close>

datatype ('c, 'd) pool_client = Cln "'c cln_client" | Lnd "'d lnd_client"

record ('k, 'c, 'd, 'w) pool_env =
  env_sha256 :: "u8 list \<Rightarrow> u8 list"
  env_hex_encode :: "u8 list \<Rightarrow> string"
  env_b64_encode :: "u8 list \<Rightarrow> string"
  env_read_file :: "string \<Rightarrow> string + u8 list"
  env_parse_impl :: "u8 list \<Rightarrow> string + backend_implementation"
  env_cln_net :: "('c, 'w) cln_net"
  env_lnd_net :: "('d, 'w) lnd_net"
  env_show_key :: "'k \<Rightarrow> string"

record ('k, 'c, 'd) ln_client_pool =
  pool_timeout :: nat
  pool_clients :: "'k \<Rightarrow> ('c, 'd) pool_client option"
  pool_poisoned :: bool
  pool_metrics_cache :: "'k \<Rightarrow> ln_metrics option"
  pool_cache_poisoned :: bool
  pool_trusted_roots :: "u8 list list"

definition pool_new :: "nat \<Rightarrow> u8 list list \<Rightarrow> ('k, 'c, 'd) ln_client_pool" where
  "pool_new timeout trusted_roots =
     \<lparr>pool_timeout = timeout, pool_clients = Map.empty, pool_poisoned = False,
      pool_metrics_cache = Map.empty, pool_cache_poisoned = False,
      pool_trusted_roots = trusted_roots\<rparr>"

fun client_features :: "('c, 'd) pool_client \<Rightarrow> ln_features option" where
  "client_features (Cln cl) = clnc_features cl"
| "client_features (Lnd cl) = lndc_features cl"

fun client_get_invoice ::
  "('k, 'c, 'd, 'w) pool_env \<Rightarrow> datetime \<Rightarrow> u64 option \<Rightarrow> bolt11_description \<Rightarrow> u64 option
     \<Rightarrow> ('c, 'd) pool_client \<Rightarrow> 'w \<Rightarrow> (ln_pool_error + string) \<times> ('c, 'd) pool_client \<times> 'w" where
  "client_get_invoice env now a d e (Cln cl) w =
     apsnd (apfst Cln) (cln_get_invoice (env_sha256 env) (env_hex_encode env) (env_cln_net env) now a d e cl w)"
| "client_get_invoice env now a d e (Lnd cl) w =
     apsnd (apfst Lnd) (lnd_get_invoice (env_sha256 env) (env_lnd_net env) a d e cl w)"

fun client_get_metrics ::
  "('k, 'c, 'd, 'w) pool_env \<Rightarrow> ('c, 'd) pool_client \<Rightarrow> 'w
     \<Rightarrow> (ln_pool_error + ln_metrics) \<times> ('c, 'd) pool_client \<times> 'w" where
  "client_get_metrics env (Cln cl) w = apsnd (apfst Cln) (cln_get_metrics (env_cln_net env) cl w)"
| "client_get_metrics env (Lnd cl) w = apsnd (apfst Lnd) (lnd_get_metrics (env_lnd_net env) cl w)"

definition pool_get_client ::
  "('k \<Rightarrow> string) \<Rightarrow> ('k, 'c, 'd) ln_client_pool \<Rightarrow> 'k \<Rightarrow> ln_pool_error + ('c, 'd) pool_client" where
  "pool_get_client show_key p key =
     (let ctx = ''fetching client from pool for key: '' @ show_key key
      in if pool_poisoned p then Inl (from_memory_error ''poisoned lock'' ctx)
         else ok_or (from_invalid_configuration
                (''client for key: '' @ show_key key @ '' not found in pool'') Internal ctx)
              (pool_clients p key))"

definition pool_description :: "('c, 'd) pool_client \<Rightarrow> offer \<Rightarrow> bolt11_description" where
  "pool_description client ofr =
     (if (case client_features client of None \<Rightarrow> False | Some c \<Rightarrow> invoice_from_desc_hash c)
      then DescHash (metadata_json_hash ofr)
      else DirectIntoHash (metadata_json_string ofr))"

definition pool_get_invoice ::
  "('k, 'c, 'd, 'w) pool_env \<Rightarrow> datetime \<Rightarrow> offer \<Rightarrow> 'k \<Rightarrow> u64 option \<Rightarrow> u64 option
     \<Rightarrow> ('k, 'c, 'd) ln_client_pool \<Rightarrow> 'w \<Rightarrow> (ln_pool_error + string) \<times> ('k, 'c, 'd) ln_client_pool \<times> 'w" where
  "pool_get_invoice env now ofr key amount_msat expiry_secs p w =
     (case pool_get_client (env_show_key env) p key of
        Inl e \<Rightarrow> (Inl e, p, w)
      | Inr client \<Rightarrow>
          (case client_get_invoice env now amount_msat (pool_description client ofr) expiry_secs client w of
             (r, client', w') \<Rightarrow> (r, p\<lparr>pool_clients := (pool_clients p)(key \<mapsto> client')\<rparr>, w')))"

definition pool_get_metrics ::
  "('k, 'c, 'd, 'w) pool_env \<Rightarrow> 'k \<Rightarrow> ('k, 'c, 'd) ln_client_pool \<Rightarrow> 'w
     \<Rightarrow> (ln_pool_error + ln_metrics) \<times> ('k, 'c, 'd) ln_client_pool \<times> 'w" where
  "pool_get_metrics env key p w =
     (case pool_get_client (env_show_key env) p key of
        Inl e \<Rightarrow> (Inl e, p, w)
      | Inr client \<Rightarrow>
          (case client_get_metrics env client w of
             (r, client', w') \<Rightarrow>
               (let p' = p\<lparr>pool_clients := (pool_clients p)(key \<mapsto> client')\<rparr>
                in (case r of
                      Inl e \<Rightarrow> (Inl e, p', w')
                    | Inr metrics \<Rightarrow>
                        if pool_cache_poisoned p'
                        then (Inl (from_memory_error ''poisoned lock''
                               (''get node metrics key: '' @ env_show_key env key)), p', w')
                        else (Inr metrics,
                              p'\<lparr>pool_metrics_cache := (pool_metrics_cache p')(key \<mapsto> metrics)\<rparr>, w')))))"

definition pool_connect ::
  "('k, 'c, 'd, 'w) pool_env \<Rightarrow> 'k \<Rightarrow> discovery_backend \<Rightarrow> ('k, 'c, 'd) ln_client_pool
     \<Rightarrow> (ln_pool_error + unit) \<times> ('k, 'c, 'd) ln_client_pool" where
  "pool_connect env key b p =
     (case map_err (\<lambda>e. from_json_error e ''parsing backend implementation'')
             (env_parse_impl env (implementation (backend b))) of
        Inl e \<Rightarrow> (Inl e, p)
      | Inr impl \<Rightarrow>
          (case (case impl of
                   ClnGrpc c \<Rightarrow> map_ok Cln (cln_create (env_b64_encode env) (env_read_file env)
                       (pool_timeout p) c (pool_trusted_roots p))
                 | LndGrpc c \<Rightarrow> map_ok Lnd (lnd_create (env_b64_encode env) (env_hex_encode env)
                       (env_read_file env) (pool_timeout p) c (pool_trusted_roots p))) of
             Inl e \<Rightarrow> (Inl e, p)
           | Inr client \<Rightarrow>
               if pool_poisoned p
               then (Inl (from_memory_error ''poisoned lock''
                      (''connecting ln client '' @ env_show_key env key)), p)
               else (Inr (), p\<lparr>pool_clients := (pool_clients p)(key \<mapsto> client)\<rparr>)))"

definition pool_get_cached_metrics :: "('k, 'c, 'd) ln_client_pool \<Rightarrow> 'k \<Rightarrow> ln_metrics option" where
  "pool_get_cached_metrics p key =
     (if pool_cache_poisoned p then None else pool_metrics_cache p key)"

section \<open>Invariant: every client reports the features of its kind\<close>

fun client_wf :: "('c, 'd) pool_client \<Rightarrow> bool" where
  "client_wf (Cln cl) \<longleftrightarrow> clnc_features cl = Some \<lparr>invoice_from_desc_hash = False\<rparr>"
| "client_wf (Lnd cl) \<longleftrightarrow> lndc_features cl = Some \<lparr>invoice_from_desc_hash = True\<rparr>"

definition pool_wf :: "('k, 'c, 'd) ln_client_pool \<Rightarrow> bool" where
  "pool_wf p \<longleftrightarrow> (\<forall>k c. pool_clients p k = Some c \<longrightarrow> client_wf c)"

lemma pool_wf_upd:
  "pool_wf p \<Longrightarrow> client_wf c \<Longrightarrow> pool_wf (p\<lparr>pool_clients := (pool_clients p)(k \<mapsto> c)\<rparr>)"
  by (simp add: pool_wf_def)

lemma pool_wf_cache [simp]: "pool_wf (p\<lparr>pool_metrics_cache := m\<rparr>) = pool_wf p"
  by (simp add: pool_wf_def)

lemma client_get_invoice_wf:
  assumes "client_wf cl" and "client_get_invoice env now a d e cl w = (r, cl', w')"
  shows "client_wf cl'"
proof (cases cl)
  case (Cln c)
  then obtain c' where c': "cl' = Cln c'"
      "cln_get_invoice (env_sha256 env) (env_hex_encode env) (env_cln_net env) now a d e c w = (r, c', w')"
    using assms(2) by (auto simp: apsnd_def apfst_def map_prod_def split: prod.splits)
  then have "cln_call (env_sha256 env) (env_hex_encode env) (env_cln_net env) now (CallInvoice a d e) c w
      = (is_ok r, c', w')"
    by (simp add: cln_call_def)
  from cln.call_features [OF this] assms(1) Cln c'(1) show ?thesis by simp
next
  case (Lnd c)
  then obtain c' where c': "cl' = Lnd c'"
      "lnd_get_invoice (env_sha256 env) (env_lnd_net env) a d e c w = (r, c', w')"
    using assms(2) by (auto simp: apsnd_def apfst_def map_prod_def split: prod.splits)
  then have "lnd_call (env_sha256 env) (env_lnd_net env) (CallInvoice a d e) c w = (is_ok r, c', w')"
    by (simp add: lnd_call_def)
  from lnd.call_features [OF this] assms(1) Lnd c'(1) show ?thesis by simp
qed

lemma client_get_metrics_wf:
  assumes "client_wf cl" and "client_get_metrics env cl w = (r, cl', w')"
  shows "client_wf cl'"
proof (cases cl)
  case (Cln c)
  then obtain c' where c': "cl' = Cln c'" "cln_get_metrics (env_cln_net env) c w = (r, c', w')"
    using assms(2) by (auto simp: apsnd_def apfst_def map_prod_def split: prod.splits)
  then have "cln_call id undefined (env_cln_net env) 0 CallMetrics c w = (is_ok r, c', w')"
    by (simp add: cln_call_def)
  from cln.call_features [OF this] assms(1) Cln c'(1) show ?thesis by simp
next
  case (Lnd c)
  then obtain c' where c': "cl' = Lnd c'" "lnd_get_metrics (env_lnd_net env) c w = (r, c', w')"
    using assms(2) by (auto simp: apsnd_def apfst_def map_prod_def split: prod.splits)
  then have "lnd_call id (env_lnd_net env) CallMetrics c w = (is_ok r, c', w')"
    by (simp add: lnd_call_def)
  from lnd.call_features [OF this] assms(1) Lnd c'(1) show ?thesis by simp
qed

lemma pool_get_client_wf: "pool_wf p \<Longrightarrow> pool_get_client sk p k = Inr c \<Longrightarrow> client_wf c"
  by (auto simp: pool_get_client_def pool_wf_def Let_def result_simps split: if_splits)

lemma pool_new_wf [simp]: "pool_wf (pool_new t rs)"
  by (simp add: pool_wf_def pool_new_def)

lemma pool_get_invoice_wf:
  assumes "pool_wf p" and "pool_get_invoice env now ofr k a e p w = (r, p', w')"
  shows "pool_wf p'"
  using assms
  by (auto simp: pool_get_invoice_def intro!: pool_wf_upd
      dest: pool_get_client_wf client_get_invoice_wf split: sum.splits prod.splits)

lemma pool_get_metrics_wf:
  assumes "pool_wf p" and "pool_get_metrics env k p w = (r, p', w')"
  shows "pool_wf p'"
  using assms
  by (auto simp: pool_get_metrics_def Let_def intro!: pool_wf_upd
      intro: client_get_metrics_wf [OF pool_get_client_wf] split: sum.splits prod.splits if_splits)

lemma cln_create_wf: "cln_create be rf t c rs = Inr cl \<Longrightarrow> client_wf (Cln cl) \<and> clnc_inner cl = None"
  by (auto simp: cln_create_def Let_def result_simps split: option.splits)

lemma lnd_create_wf: "lnd_create be he rf t c rs = Inr cl \<Longrightarrow> client_wf (Lnd cl) \<and> lndc_inner cl = None"
  by (auto simp: lnd_create_def Let_def result_simps split: option.splits)

lemma pool_connect_wf:
  assumes "pool_wf p" and "pool_connect env k b p = (r, p')"
  shows "pool_wf p'"
  using assms
  by (auto simp: pool_connect_def result_simps intro!: pool_wf_upd dest!: cln_create_wf lnd_create_wf
      split: sum.splits backend_implementation.splits if_splits)

section \<open>Properties\<close>

text \<open>
  Property C30. Clients reconnect: after any requests, invoices and metrics in any order, a client
  of either kind keeps an open channel exactly if its last request succeeded, so the next request
  after a failure connects again, and it reports the features it was created with.
\<close>

theorem clients_reconnect:
  shows "(node_client.calls (cln_call sha256 hex_encode cnet now) xs cl w = (oks, cl', w') \<longrightarrow>
      (clnc_inner cl' \<noteq> None \<longleftrightarrow> (if oks = [] then clnc_inner cl \<noteq> None else last oks))
      \<and> clnc_features cl' = clnc_features cl)
    \<and> (node_client.calls (lnd_call sha256 lnet) ys ld v = (oks2, ld', v') \<longrightarrow>
      (lndc_inner ld' \<noteq> None \<longleftrightarrow> (if oks2 = [] then lndc_inner ld \<noteq> None else last oks2))
      \<and> lndc_features ld' = lndc_features ld)"
  using cln.calls_connected [of sha256 hex_encode cnet now xs cl w oks cl' w']
    cln.calls_features [of sha256 hex_encode cnet now xs cl w oks cl' w']
    lnd.calls_connected [of sha256 lnet ys ld v oks2 ld' v']
    lnd.calls_features [of sha256 lnet ys ld v oks2 ld' v']
  by blast

text \<open>A CLN node that answers the first request and fails the second.\<close>

definition flaky_cln :: "(unit, nat) cln_net" where
  "flaky_cln =
     \<lparr>cln_net_connect = (\<lambda>_ _ _ _ _ n. (Inr (), n)),
      cln_net_invoice = (\<lambda>_ _ n. (Inr ''lnbc'', n)),
      cln_net_list_peer_channels =
        (\<lambda>_ n. if n = 0 then (Inr [], Suc n) else (Inl (Unavailable, ''down''), Suc n))\<rparr>"

definition idle_cln :: "unit cln_client" where
  "idle_cln =
     \<lparr>clnc_timeout = 2,
      clnc_config = \<lparr>cln_url = ''u'', cln_domain = None, cln_ca_cert_path = None,
                     cln_client_cert_path = ''c'', cln_client_key_path = ''k''\<rparr>,
      clnc_features = Some \<lparr>invoice_from_desc_hash = False\<rparr>, clnc_inner = None,
      clnc_ca_certificates = [], clnc_identity = ([], [])\<rparr>"

definition idle_lnd :: "unit lnd_client" where
  "idle_lnd =
     \<lparr>lndc_timeout = 2,
      lndc_config = \<lparr>lnd_url = ''u'', lnd_domain = None, lnd_tls_cert_path = None,
                     lnd_macaroon_path = ''m'', lnd_amp_invoice = False\<rparr>,
      lndc_features = Some \<lparr>invoice_from_desc_hash = True\<rparr>, lndc_inner = None,
      lndc_ca_certificates = [], lndc_macaroon = []\<rparr>"

theorem clients_reconnect_witness:
  "fst (node_client.calls (cln_call id (\<lambda>_. []) flaky_cln 0) [CallMetrics, CallMetrics] idle_cln 0) = [True, False]
    \<and> clnc_inner (fst (snd (node_client.calls (cln_call id (\<lambda>_. []) flaky_cln 0) [CallMetrics, CallMetrics] idle_cln 0))) = None"
proof -
  obtain oks cl' w' where c: "node_client.calls (cln_call id (\<lambda>_. []) flaky_cln 0) [CallMetrics, CallMetrics] idle_cln 0 = (oks, cl', w')"
    by (cases "node_client.calls (cln_call id (\<lambda>_. []) flaky_cln 0) [CallMetrics, CallMetrics] idle_cln 0") auto
  have oks: "oks = [True, False]"
    using c by (simp add: cln.calls.simps cln_call_def cln_get_metrics_def cln_inner_connect_def
        cln_inner_get_metrics_def cln_inner_disconnect_def flaky_cln_def idle_cln_def)
  from clients_reconnect [of id "\<lambda>_. []" flaky_cln 0 "[CallMetrics, CallMetrics]" idle_cln 0 oks cl' w',
      THEN conjunct1, THEN mp, OF c] oks
  show ?thesis unfolding c by (cases "clnc_inner cl'") simp_all
qed

text \<open>The calls of the pool, as the balancer and the discovery make them.\<close>

datatype 'k pool_call =
    PoolConnect 'k discovery_backend
  | PoolInvoice datetime offer 'k "u64 option" "u64 option"
  | PoolMetrics 'k

fun pool_turn ::
  "('k, 'c, 'd, 'w) pool_env \<Rightarrow> 'k pool_call \<Rightarrow> ('k, 'c, 'd) ln_client_pool \<times> 'w \<Rightarrow> ('k, 'c, 'd) ln_client_pool \<times> 'w" where
  "pool_turn env (PoolConnect k b) (p, w) = (snd (pool_connect env k b p), w)"
| "pool_turn env (PoolInvoice now ofr k a e) (p, w) = snd (pool_get_invoice env now ofr k a e p w)"
| "pool_turn env (PoolMetrics k) (p, w) = snd (pool_get_metrics env k p w)"

lemma pool_turn_wf:
  assumes "pool_wf (fst s)"
  shows "pool_wf (fst (pool_turn env x s))"
proof -
  obtain p w where s: "s = (p, w)" by fastforce
  with assms show ?thesis
    by (cases x)
      (simp_all add: pool_connect_wf [OF _ surjective_pairing]
        pool_get_invoice_wf [where w' = "snd (snd r)" and p' = "fst (snd r)" and r = "fst r" for r]
        pool_get_metrics_wf [where w' = "snd (snd r)" and p' = "fst (snd r)" and r = "fst r" for r])
qed

lemma pool_run_wf: "pool_wf (fst s) \<Longrightarrow> pool_wf (fst (fold (pool_turn env) xs s))"
  by (induction xs arbitrary: s) (simp_all add: pool_turn_wf)

text \<open>
  The pool describes invoices the way the node can: whatever calls were made of a
  new pool, the description of an offer that is sent to a client of CLN is the metadata text for
  the node to hash, and to a client of LND the digest of the metadata.
\<close>

theorem pool_describes_by_kind:
  assumes "(p, w') = fold (pool_turn env) xs (pool_new timeout roots, w)"
    and "pool_get_client show_key p k = Inr client"
  shows "pool_description client ofr =
    (case client of Cln _ \<Rightarrow> DirectIntoHash (metadata_json_string ofr) | Lnd _ \<Rightarrow> DescHash (metadata_json_hash ofr))"
proof -
  have "pool_wf p"
    using pool_run_wf [of "(pool_new timeout roots, w)" env xs] assms(1) [symmetric] by simp
  then have "client_wf client"
    using assms(2) by (rule pool_get_client_wf)
  then show ?thesis
    by (cases client) (simp_all add: pool_description_def)
qed

definition sample_env :: "(nat, unit, unit, nat) pool_env" where
  "sample_env =
     \<lparr>env_sha256 = id, env_hex_encode = (\<lambda>_. []), env_b64_encode = (\<lambda>_. []),
      env_read_file = (\<lambda>_. Inr []),
      env_parse_impl = (\<lambda>bs. if bs = [] then Inr (LndGrpc (lndc_config idle_lnd)) else Inr (ClnGrpc (clnc_config idle_cln))),
      env_cln_net = flaky_cln,
      env_lnd_net = \<lparr>lnd_net_connect = (\<lambda>_ _ _ _ _ n. (Inr (), n)),
                     lnd_net_add_invoice = (\<lambda>_ _ n. (Inr ''lnbc'', n)),
                     lnd_net_channel_balance = (\<lambda>_ n. (Inr None, n))\<rparr>,
      env_show_key = (\<lambda>_. ''k'')\<rparr>"

definition sample_lnd_node :: discovery_backend where
  "sample_lnd_node = \<lparr>public_key = PublicKey [1],
     backend = \<lparr>name = None, partitions = {''p''}, weight = 1, enabled = True, implementation = []\<rparr>\<rparr>"

definition sample_invoice_offer :: offer where
  "sample_invoice_offer = \<lparr>partition = ''p'', offer_id = 7, max_sendable = 9, min_sendable = 1,
     metadata_json_string = ''[]'', metadata_json_hash = [1, 2], timestamp = 0, expires = None\<rparr>"

theorem pool_describes_by_kind_witness:
  "\<exists>p client. pool_get_client (\<lambda>_. ''k'') p (4::nat) = Inr (client :: (unit, unit) pool_client)
     \<and> pool_description client sample_invoice_offer = DescHash [1, 2]"
proof -
  have turn: "pool_connect sample_env 4 sample_lnd_node (pool_new 2 [])
      = (Inr (), (pool_new 2 [])\<lparr>pool_clients := Map.empty(4 \<mapsto> Lnd idle_lnd)\<rparr>)"
    by (simp add: pool_connect_def sample_env_def sample_lnd_node_def pool_new_def lnd_create_def idle_lnd_def)
  let ?p = "(pool_new 2 [])\<lparr>pool_clients := Map.empty(4 \<mapsto> Lnd idle_lnd)\<rparr> :: (nat, unit, unit) ln_client_pool"
  have p: "(?p, 0) = fold (pool_turn sample_env) [PoolConnect 4 sample_lnd_node] (pool_new 2 [], 0)"
    by (simp add: turn)
  have c: "pool_get_client (\<lambda>_. ''k'') ?p 4 = Inr (Lnd idle_lnd)"
    by (simp add: pool_get_client_def pool_new_def)
  from pool_describes_by_kind [OF p c, of sample_invoice_offer] c show ?thesis
    by (fastforce simp: sample_invoice_offer_def)
qed

end
