(* ===== verification/PingoraDiscovery.thy ===== *)
theory PingoraDiscovery
  imports DiscoveryMemory ClientPool
begin

text \<open>
  \<open>pingora/src/discovery.rs\<close>, \<open>pool.rs\<close> and \<open>health.rs\<close>: the service discovery that
  turns the backends of the discovery store into the backends of the load balancer, and the
  health check of one backend. The backend provider, the client pool and the hasher of the
  standard library (whose algorithm is unspecified) are arguments.

  Pingora documents that two of its backends with the same address and weight are identical,
  whatever their extension data; \<open>lb_key\<close> is what it compares and hashes.
\<close>

section \<open>Backends of the load balancer\<close>

record ln_backend =
  lb_addr :: "128 word"  \<comment> \<open>the bits of the IPv6 address; the port is always 1\<close>
  lb_weight :: usize
  lb_partitions :: "string set"  \<comment> \<open>\<open>PingoraLnBackendExtension\<close>\<close>

definition lb_key :: "ln_backend \<Rightarrow> 128 word \<times> usize" where
  "lb_key b = (lb_addr b, lb_weight b)"

text \<open>\<open>BTreeSet<Backend>::insert\<close>: an element identical to a present one is dropped.\<close>

definition lb_insert :: "ln_backend \<Rightarrow> ln_backend list \<Rightarrow> ln_backend list" where
  "lb_insert b bs = (if lb_key b \<in> lb_key ` set bs then bs else insort_key lb_key b bs)"

definition to_ln_backend :: "(u8 list \<Rightarrow> u64) \<Rightarrow> discovery_backend \<Rightarrow> ln_backend" where
  "to_ln_backend hash_key b =
     \<lparr>lb_addr = ucast (hash_key (pk_serialize (public_key b))),
      lb_weight = weight (backend b),
      lb_partitions = partitions (backend b)\<rparr>"

text \<open>The derived order of \<open>DiscoveryBackend\<close> and \<open>BTreeSet::from_iter\<close>.\<close>

definition discovery_order_key ::
  "discovery_backend \<Rightarrow> public_key \<times> string option \<times> string list \<times> usize \<times> bool \<times> u8 list" where
  "discovery_order_key b =
     (public_key b, name (backend b), sorted_list_of_set (partitions (backend b)),
      weight (backend b), enabled (backend b), implementation (backend b))"

definition btree_from_iter :: "discovery_backend list \<Rightarrow> discovery_backend list" where
  "btree_from_iter bs = remdups_adj (sort_key discovery_order_key bs)"

lemma set_btree_from_iter [simp]: "set (btree_from_iter bs) = set bs"
  by (simp add: btree_from_iter_def)

lemma set_lb_insert: "set (lb_insert b bs) \<subseteq> insert b (set bs)"
  by (auto simp: lb_insert_def set_insort_key)

lemma lb_key_set_lb_insert [simp]: "lb_key ` set (lb_insert b bs) = insert (lb_key b) (lb_key ` set bs)"
  by (auto simp: lb_insert_def set_insort_key)

lemma lb_insert_wf:
  "sorted (map lb_key bs) \<Longrightarrow> distinct (map lb_key bs) \<Longrightarrow>
     sorted (map lb_key (lb_insert b bs)) \<and> distinct (map lb_key (lb_insert b bs))"
proof -
  assume a: "sorted (map lb_key bs)" "distinct (map lb_key bs)"
  have "mset (map lb_key (insort_key lb_key b bs)) = mset (lb_key b # map lb_key bs)"
    by simp
  then have "distinct (map lb_key (insort_key lb_key b bs)) = distinct (lb_key b # map lb_key bs)"
    by (rule mset_eq_imp_distinct_iff)
  with a show ?thesis
    by (simp add: lb_insert_def sorted_insort_key)
qed

section \<open>Discovery\<close>

datatype pingora_error = InternalErr string | ConnectErr

record ln_discovery =
  ld_partitions :: "string set"
  ld_cache :: "ln_backend list"
  ld_last_etag :: u64

definition ln_discovery_new :: "string set \<Rightarrow> ln_discovery" where
  "ln_discovery_new ps = \<lparr>ld_partitions = ps, ld_cache = [], ld_last_etag = 0\<rparr>"

type_synonym 'p discover_acc = "ln_backend list \<times> (u64 \<Rightarrow> bool option) \<times> 'p"

text \<open>One turn of the loop over the discovered backends.\<close>

definition discover_step ::
  "(u8 list \<Rightarrow> u64) \<Rightarrow> (128 word \<times> usize \<Rightarrow> u64)
     \<Rightarrow> (ln_backend \<Rightarrow> discovery_backend \<Rightarrow> 'p \<Rightarrow> ('e + unit) \<times> 'p)
     \<Rightarrow> string set \<Rightarrow> discovery_backend \<Rightarrow> 'p discover_acc \<Rightarrow> 'p discover_acc" where
  "discover_step hash_key hash_backend connect served b acc =
     (case acc of (bks, enablement, pool) \<Rightarrow>
        if partitions (backend b) \<inter> served = {} then (bks, enablement, pool)
        else
          (let pb = to_ln_backend hash_key b
           in (case connect pb b pool of
                 (Inl _, pool') \<Rightarrow> (bks, enablement, pool')
               | (Inr _, pool') \<Rightarrow>
                   (lb_insert pb bks,
                    enablement(hash_backend (lb_key pb) \<mapsto> enabled (backend b)), pool'))))"

definition discover ::
  "(u8 list \<Rightarrow> u64) \<Rightarrow> (128 word \<times> usize \<Rightarrow> u64)
     \<Rightarrow> (ln_backend \<Rightarrow> discovery_backend \<Rightarrow> 'p \<Rightarrow> ('e + unit) \<times> 'p)
     \<Rightarrow> (u64 option \<Rightarrow> pingora_error + discovery_backends) \<Rightarrow> ln_discovery \<Rightarrow> 'p
     \<Rightarrow> (pingora_error + ln_backend list \<times> (u64 \<Rightarrow> bool option)) \<times> ln_discovery \<times> 'p" where
  "discover hash_key hash_backend connect provider sd pool =
     (case provider (Some (ld_last_etag sd)) of
        Inl e \<Rightarrow> (Inl e, sd, pool)
      | Inr ds \<Rightarrow>
          (case backends ds of
             None \<Rightarrow> (Inr (ld_cache sd, Map.empty), sd, pool)
           | Some bs \<Rightarrow>
               (case fold (discover_step hash_key hash_backend connect (ld_partitions sd))
                       (btree_from_iter bs) ([], Map.empty, pool) of
                  (bks, enablement, pool') \<Rightarrow>
                    (Inr (bks, enablement),
                     sd\<lparr>ld_last_etag := etag ds, ld_cache := bks\<rparr>, pool'))))"

text \<open>\<open>PingoraDiscoveryBackendStoreProvider\<close>: any store, its error wrapped.\<close>

definition store_provider ::
  "('s \<Rightarrow> u64 option \<Rightarrow> 'e + discovery_backends) \<Rightarrow> 's \<Rightarrow> u64 option \<Rightarrow> pingora_error + discovery_backends" where
  "store_provider get_all s q =
     map_err (\<lambda>_. InternalErr ''getting all discovery backends from discovery backend store'') (get_all s q)"

text \<open>\<open>DefaultPingoraLnClientPool\<close>: the client pool under the keys pingora compares.\<close>

definition default_pool_connect ::
  "(128 word \<times> usize, 'c, 'd, 'w) pool_env \<Rightarrow> ln_backend \<Rightarrow> discovery_backend
     \<Rightarrow> (128 word \<times> usize, 'c, 'd) ln_client_pool
     \<Rightarrow> (ln_pool_error + unit) \<times> (128 word \<times> usize, 'c, 'd) ln_client_pool" where
  "default_pool_connect env key b p = pool_connect env (lb_key key) b p"

definition default_pool_get_invoice ::
  "(128 word \<times> usize, 'c, 'd, 'w) pool_env \<Rightarrow> datetime \<Rightarrow> offer \<Rightarrow> ln_backend \<Rightarrow> u64 option \<Rightarrow> u64 option
     \<Rightarrow> (128 word \<times> usize, 'c, 'd) ln_client_pool \<Rightarrow> 'w
     \<Rightarrow> (ln_pool_error + string) \<times> (128 word \<times> usize, 'c, 'd) ln_client_pool \<times> 'w" where
  "default_pool_get_invoice env now ofr key amount expiry p w =
     pool_get_invoice env now ofr (lb_key key) amount expiry p w"

definition default_pool_get_metrics ::
  "(128 word \<times> usize, 'c, 'd, 'w) pool_env \<Rightarrow> ln_backend
     \<Rightarrow> (128 word \<times> usize, 'c, 'd) ln_client_pool \<Rightarrow> 'w
     \<Rightarrow> (ln_pool_error + ln_metrics) \<times> (128 word \<times> usize, 'c, 'd) ln_client_pool \<times> 'w" where
  "default_pool_get_metrics env key p w = pool_get_metrics env (lb_key key) p w"

definition default_pool_get_cached_metrics ::
  "(128 word \<times> usize, 'c, 'd) ln_client_pool \<Rightarrow> ln_backend \<Rightarrow> ln_metrics option" where
  "default_pool_get_cached_metrics p key = pool_get_cached_metrics p (lb_key key)"

section \<open>Health check (health.rs)\<close>

record health_check =
  consecutive_success :: usize
  consecutive_failure :: usize

definition health_verdict :: "'e + ln_metrics \<Rightarrow> pingora_error + unit" where
  "health_verdict r =
     and_then (map_err (\<lambda>_. InternalErr ''health health for backend'') r)
       (\<lambda>m. if healthy m then Inr () else Inl ConnectErr)"

definition health_check_run ::
  "(ln_backend \<Rightarrow> 'p \<Rightarrow> 'w \<Rightarrow> ('e + ln_metrics) \<times> 'p \<times> 'w) \<Rightarrow> ln_backend \<Rightarrow> 'p \<Rightarrow> 'w
     \<Rightarrow> (pingora_error + unit) \<times> 'p \<times> 'w" where
  "health_check_run get_metrics target p w =
     (case get_metrics target p w of (r, p', w') \<Rightarrow> (health_verdict r, p', w'))"

definition health_threshold :: "health_check \<Rightarrow> bool \<Rightarrow> usize" where
  "health_threshold hc success = (if success then consecutive_success hc else consecutive_failure hc)"

section \<open>What discovery computes\<close>

text \<open>The backends that take part: they serve one of the partitions and connect.\<close>

definition connects :: "(ln_backend \<Rightarrow> discovery_backend \<Rightarrow> 'p \<Rightarrow> ('e + unit) \<times> 'p)
    \<Rightarrow> (discovery_backend \<Rightarrow> bool) \<Rightarrow> bool" where
  "connects connect good \<longleftrightarrow> (\<forall>pb b p. is_ok (fst (connect pb b p)) \<longleftrightarrow> good b)"

definition eligible :: "(discovery_backend \<Rightarrow> bool) \<Rightarrow> string set \<Rightarrow> discovery_backend \<Rightarrow> bool" where
  "eligible good served b \<longleftrightarrow> partitions (backend b) \<inter> served \<noteq> {} \<and> good b"

lemma discover_step_eq:
  assumes "connects connect good"
  shows "\<exists>p'. discover_step hk hb connect served b (bks, en, p) =
     (if eligible good served b
      then (lb_insert (to_ln_backend hk b) bks,
            en(hb (lb_key (to_ln_backend hk b)) \<mapsto> enabled (backend b)), p')
      else (bks, en, p'))"
proof -
  obtain r p' where c: "connect (to_ln_backend hk b) b p = (r, p')" by fastforce
  then have "is_ok r \<longleftrightarrow> good b"
    using assms unfolding connects_def by (metis fst_conv)
  with c show ?thesis
    by (cases r) (auto simp: discover_step_def eligible_def Let_def)
qed

text \<open>The invariant of the loop, after the backends \<open>xs\<close>.\<close>

definition discover_inv ::
  "(u8 list \<Rightarrow> u64) \<Rightarrow> (128 word \<times> usize \<Rightarrow> u64) \<Rightarrow> (discovery_backend \<Rightarrow> bool) \<Rightarrow> string set
     \<Rightarrow> discovery_backend set \<Rightarrow> ln_backend list \<Rightarrow> (u64 \<Rightarrow> bool option) \<Rightarrow> bool" where
  "discover_inv hk hb good served xs bks en \<longleftrightarrow>
     lb_key ` set bks = (\<lambda>b. lb_key (to_ln_backend hk b)) ` {b \<in> xs. eligible good served b}
     \<and> set bks \<subseteq> to_ln_backend hk ` {b \<in> xs. eligible good served b}
     \<and> sorted (map lb_key bks) \<and> distinct (map lb_key bks)
     \<and> dom en = (hb \<circ> lb_key) ` set bks
     \<and> (\<forall>h e. en h = Some e \<longrightarrow>
          (\<exists>b \<in> xs. eligible good served b \<and> hb (lb_key (to_ln_backend hk b)) = h \<and> enabled (backend b) = e))"

lemma discover_inv_step:
  assumes "discover_inv hk hb good served xs bks en" and "eligible good served b"
  shows "discover_inv hk hb good served (insert b xs) (lb_insert (to_ln_backend hk b) bks)
    (en(hb (lb_key (to_ln_backend hk b)) \<mapsto> enabled (backend b)))"
proof -
  let ?pb = "to_ln_backend hk b"
  have i: "lb_key ` set bks = (\<lambda>b. lb_key (to_ln_backend hk b)) ` {b \<in> xs. eligible good served b}"
      "set bks \<subseteq> to_ln_backend hk ` {b \<in> xs. eligible good served b}"
      "sorted (map lb_key bks)" "distinct (map lb_key bks)" "dom en = (hb \<circ> lb_key) ` set bks"
      "\<And>h e. en h = Some e \<Longrightarrow>
          \<exists>b \<in> xs. eligible good served b \<and> hb (lb_key (to_ln_backend hk b)) = h \<and> enabled (backend b) = e"
    using assms(1) unfolding discover_inv_def by blast+
  have el: "{c \<in> insert b xs. eligible good served c} = insert b {c \<in> xs. eligible good served c}"
    using assms(2) by auto
  have keys: "lb_key ` set (lb_insert ?pb bks)
      = (\<lambda>b. lb_key (to_ln_backend hk b)) ` {c \<in> insert b xs. eligible good served c}"
    unfolding el image_insert lb_key_set_lb_insert i(1) ..
  have subset: "set (lb_insert ?pb bks) \<subseteq> to_ln_backend hk ` {c \<in> insert b xs. eligible good served c}"
    using set_lb_insert [of ?pb bks] i(2) unfolding el by blast
  have domain: "dom (en(hb (lb_key ?pb) \<mapsto> enabled (backend b))) = (hb \<circ> lb_key) ` set (lb_insert ?pb bks)"
    unfolding image_comp [symmetric] lb_key_set_lb_insert dom_fun_upd
    using i(5) by (simp add: image_comp comp_def)
  have vals: "\<forall>h e. (en(hb (lb_key ?pb) \<mapsto> enabled (backend b))) h = Some e \<longrightarrow>
      (\<exists>c \<in> insert b xs. eligible good served c \<and> hb (lb_key (to_ln_backend hk c)) = h \<and> enabled (backend c) = e)"
    using i(6) assms(2) by auto
  show ?thesis
    unfolding discover_inv_def
    using keys subset lb_insert_wf [OF i(3,4), of ?pb] domain vals by blast
qed

lemma discover_inv_skip:
  "discover_inv hk hb good served xs bks en \<Longrightarrow> \<not> eligible good served b \<Longrightarrow>
     discover_inv hk hb good served (insert b xs) bks en"
proof -
  assume a: "discover_inv hk hb good served xs bks en" "\<not> eligible good served b"
  then have "{c \<in> insert b xs. eligible good served c} = {c \<in> xs. eligible good served c}"
    by auto
  with a show ?thesis unfolding discover_inv_def by auto
qed

lemma discover_fold_inv:
  assumes "connects connect good" and "discover_inv hk hb good served zs bks en"
    and "fold (discover_step hk hb connect served) xs (bks, en, p) = (bks', en', p')"
  shows "discover_inv hk hb good served (zs \<union> set xs) bks' en'"
  using assms(2,3)
proof (induction xs arbitrary: zs bks en p)
  case Nil
  then show ?case by simp
next
  case (Cons b xs)
  obtain q where step: "discover_step hk hb connect served b (bks, en, p) =
     (if eligible good served b
      then (lb_insert (to_ln_backend hk b) bks,
            en(hb (lb_key (to_ln_backend hk b)) \<mapsto> enabled (backend b)), q)
      else (bks, en, q))"
    using discover_step_eq [OF assms(1)] by blast
  show ?case
  proof (cases "eligible good served b")
    case True
    from Cons.prems(2) have "fold (discover_step hk hb connect served) xs
        (lb_insert (to_ln_backend hk b) bks,
         en(hb (lb_key (to_ln_backend hk b)) \<mapsto> enabled (backend b)), q) = (bks', en', p')"
      by (simp add: step True del: fun_upd_apply)
    from Cons.IH [OF discover_inv_step [OF Cons.prems(1) True] this] show ?thesis
      by simp
  next
    case False
    with Cons.prems step show ?thesis
      using Cons.IH [OF discover_inv_skip [OF Cons.prems(1) False]] by simp
  qed
qed

lemma discover_modified_inv:
  assumes "connects connect good"
    and "provider (Some (ld_last_etag sd)) = Inr ds" and "backends ds = Some bs"
    and "discover hk hb connect provider sd pool = (Inr (bks, en), sd', pool')"
  shows "discover_inv hk hb good (ld_partitions sd) (set bs) bks en"
proof -
  have "discover_inv hk hb good (ld_partitions sd) {} [] Map.empty"
    by (simp add: discover_inv_def)
  from discover_fold_inv [OF assms(1) this, of "btree_from_iter bs" pool] assms(2-4)
  show ?thesis
    by (auto simp: discover_def split: prod.splits)
qed

text \<open>Discovery remembers the tag of the answer it got.\<close>

lemma discover_etag:
  assumes "discover hk hb connect (store_provider mem_get_all s) sd pool = (Inr r, sd', pool')"
  shows "ld_last_etag sd' = md_etag s" and "ld_cache sd' = fst r" and "ld_partitions sd' = ld_partitions sd"
  using assms
  by (auto simp: discover_def store_provider_def mem_get_all_def Let_def split: if_splits prod.splits)

section \<open>Discovery follows the store\<close>

text \<open>
  The life of the service discovery over the memory store: operations of the store, and turns of
  the background service that refresh the backends.
\<close>

datatype discovery_event = StoreOp datetime discovery_op | Refresh

record 'p discovery_world =
  dw_store :: mem_discovery
  dw_discovery :: ln_discovery
  dw_pool :: 'p

definition discovery_world_new :: "string set \<Rightarrow> 'p \<Rightarrow> 'p discovery_world" where
  "discovery_world_new served pool =
     \<lparr>dw_store = mem_discovery_new, dw_discovery = ln_discovery_new served, dw_pool = pool\<rparr>"

fun discovery_turn ::
  "(u8 list \<Rightarrow> u64) \<Rightarrow> (128 word \<times> usize \<Rightarrow> u64)
     \<Rightarrow> (ln_backend \<Rightarrow> discovery_backend \<Rightarrow> 'p \<Rightarrow> ('e + unit) \<times> 'p)
     \<Rightarrow> discovery_event \<Rightarrow> 'p discovery_world \<Rightarrow> 'p discovery_world" where
  "discovery_turn hk hb connect (StoreOp now x) w =
     w\<lparr>dw_store := mem_run (now, x) (dw_store w)\<rparr>"
| "discovery_turn hk hb connect Refresh w =
     (case discover hk hb connect (store_provider mem_get_all (dw_store w)) (dw_discovery w) (dw_pool w) of
        (r, sd', pool') \<Rightarrow> w\<lparr>dw_discovery := sd', dw_pool := pool'\<rparr>)"

text \<open>The keys of the backends that take part.\<close>

definition eligible_keys ::
  "(u8 list \<Rightarrow> u64) \<Rightarrow> (discovery_backend \<Rightarrow> bool) \<Rightarrow> string set \<Rightarrow> discovery_content \<Rightarrow> (128 word \<times> usize) set" where
  "eligible_keys hk good served m =
     (\<lambda>b. lb_key (to_ln_backend hk b)) ` {b \<in> ran m. eligible good served b}"

text \<open>
  The invariant: since the last refresh at most \<open>n\<close> operations changed the store, each moved the
  tag by one, and the cache is current if none did.
\<close>

definition discovery_synced ::
  "(u8 list \<Rightarrow> u64) \<Rightarrow> (discovery_backend \<Rightarrow> bool) \<Rightarrow> string set \<Rightarrow> nat \<Rightarrow> 'p discovery_world \<Rightarrow> bool" where
  "discovery_synced hk good served n w \<longleftrightarrow>
     mem_inv (dw_store w) \<and> ld_partitions (dw_discovery w) = served
     \<and> (\<exists>k \<le> n. md_etag (dw_store w) = ld_last_etag (dw_discovery w) + of_nat k
          \<and> (k = 0 \<longrightarrow> lb_key ` set (ld_cache (dw_discovery w)) = eligible_keys hk good served (mem_content (dw_store w))))"

lemma discovery_synced_new: "discovery_synced hk good served 0 (discovery_world_new served pool)"
  by (simp add: discovery_synced_def discovery_world_new_def ln_discovery_new_def mem_inv_new eligible_keys_def)
    (simp add: mem_discovery_new_def mem_content_def)

lemma discovery_synced_store:
  assumes "discovery_synced hk good served n w"
  shows "discovery_synced hk good served (Suc n) (discovery_turn hk hb connect (StoreOp now x) w)"
proof -
  let ?s = "dw_store w"
  obtain k where k: "k \<le> n" "md_etag ?s = ld_last_etag (dw_discovery w) + of_nat k"
      "k = 0 \<longrightarrow> lb_key ` set (ld_cache (dw_discovery w)) = eligible_keys hk good served (mem_content ?s)"
    and inv: "mem_inv ?s" and p: "ld_partitions (dw_discovery w) = served"
    using assms by (auto simp: discovery_synced_def)
  note law = mem.run_law [OF inv, of now x]
  show ?thesis
  proof (cases "op_effect x (mem_content ?s) = None")
    case True
    with law k inv p show ?thesis
      by (auto simp: discovery_synced_def intro!: exI [of _ k])
  next
    case False
    with law k inv p show ?thesis
      by (auto simp: discovery_synced_def intro!: exI [of _ "Suc k"])
  qed
qed

text \<open>A refresh brings the cache up to date, if the tag did not wrap since the last one.\<close>

lemma discovery_refresh_current:
  assumes "connects connect good" and "discovery_synced hk good served n w" and "n < 2 ^ 64"
  shows "lb_key ` set (ld_cache (dw_discovery (discovery_turn hk hb connect Refresh w)))
      = eligible_keys hk good served (mem_content (dw_store w))"
    and "discovery_synced hk good served 0 (discovery_turn hk hb connect Refresh w)"
proof -
  let ?s = "dw_store w" and ?sd = "dw_discovery w"
  obtain k where k: "k \<le> n" "md_etag ?s = ld_last_etag ?sd + of_nat k"
      "k = 0 \<longrightarrow> lb_key ` set (ld_cache ?sd) = eligible_keys hk good served (mem_content ?s)"
    and inv: "mem_inv ?s" and p: "ld_partitions ?sd = served"
    using assms(2) by (auto simp: discovery_synced_def)
  obtain r sd' pool' where d: "discover hk hb connect (store_provider mem_get_all ?s) ?sd (dw_pool w) = (r, sd', pool')"
    by (cases "discover hk hb connect (store_provider mem_get_all ?s) ?sd (dw_pool w)") auto
  obtain bks en where r: "r = Inr (bks, en)"
    using d by (auto simp: discover_def store_provider_def mem_get_all_def Let_def split: if_splits prod.splits)
  note sd' = discover_etag [OF d [unfolded r]]
  have "lb_key ` set bks = eligible_keys hk good served (mem_content ?s)"
  proof (cases "ld_last_etag ?sd = md_etag ?s")
    case True
    have "(of_nat k :: u64) = 0" using k(2) True by simp
    moreover have "k < 2 ^ 64" using k(1) assms(3) by simp
    ultimately have "k = 0" by (simp add: word_of_nat_eq_0_iff dvd_eq_mod_eq_0)
    moreover have "bks = ld_cache ?sd"
      using d r True by (auto simp: discover_def store_provider_def mem.get_all_same [OF inv])
    ultimately show ?thesis using k(3) by simp
  next
    case False
    then obtain bs where bs: "mem_get_all ?s (Some (ld_last_etag ?sd)) = Inr \<lparr>etag = md_etag ?s, backends = Some bs\<rparr>"
        "set bs = ran (mem_content ?s)"
      using mem.get_all_other [OF inv, of "Some (ld_last_etag ?sd)"] by auto
    have "store_provider mem_get_all ?s (Some (ld_last_etag ?sd)) = Inr \<lparr>etag = md_etag ?s, backends = Some bs\<rparr>"
      by (simp add: store_provider_def bs(1))
    from discover_modified_inv [OF assms(1) this _ d [unfolded r]]
    have "lb_key ` set bks = (\<lambda>b. lb_key (to_ln_backend hk b)) ` {b \<in> set bs. eligible good (ld_partitions ?sd) b}"
      by (simp add: discover_inv_def)
    then show ?thesis by (simp add: eligible_keys_def bs(2) p)
  qed
  then show current: "lb_key ` set (ld_cache (dw_discovery (discovery_turn hk hb connect Refresh w)))
      = eligible_keys hk good served (mem_content (dw_store w))"
    using sd'(2) by (simp add: d r)
  show "discovery_synced hk good served 0 (discovery_turn hk hb connect Refresh w)"
    using current sd' p inv by (simp add: discovery_synced_def d)
qed

lemma discovery_synced_run:
  assumes "connects connect good" and "discovery_synced hk good served n w" and "n + length xs < 2 ^ 64"
  shows "discovery_synced hk good served (n + length xs) (fold (discovery_turn hk hb connect) xs w)"
  using assms(2,3)
proof (induction xs arbitrary: n w)
  case (Cons x xs)
  have mono: "discovery_synced hk good served (Suc n) (discovery_turn hk hb connect x w)"
  proof (cases x)
    case (StoreOp now y)
    then show ?thesis using discovery_synced_store [OF Cons.prems(1)] by simp
  next
    case Refresh
    have "n < 2 ^ 64" using Cons.prems(2) by simp
    from discovery_refresh_current(2) [OF assms(1) Cons.prems(1) this] Refresh show ?thesis
      by (auto simp: discovery_synced_def)
  qed
  with Cons.IH [OF mono] Cons.prems(2) show ?case by simp
qed simp

section \<open>Properties\<close>


definition always_connect :: "ln_backend \<Rightarrow> discovery_backend \<Rightarrow> unit \<Rightarrow> (unit + unit) \<times> unit" where
  "always_connect pb b p = (Inr (), ())"


text \<open>
  What one discovery hands to the balancer: the backends ordered and without
  duplicates under what pingora compares, each made of an eligible backend of the answer, and an
  enablement for exactly their hashes, taken from a backend with that hash.
\<close>

theorem discover_result:
  assumes "connects connect good"
    and "provider (Some (ld_last_etag sd)) = Inr ds" and "backends ds = Some bs"
    and "discover hk hb connect provider sd pool = (Inr (bks, en), sd', pool')"
  shows "sorted (map lb_key bks) \<and> distinct (map lb_key bks)
    \<and> set bks \<subseteq> to_ln_backend hk ` {b \<in> set bs. eligible good (ld_partitions sd) b}
    \<and> dom en = (hb \<circ> lb_key) ` set bks
    \<and> (\<forall>b \<in> set bs. eligible good (ld_partitions sd) b \<longrightarrow> lb_key (to_ln_backend hk b) \<in> lb_key ` set bks)
    \<and> (\<forall>b \<in> set bs. eligible good (ld_partitions sd) b \<longrightarrow>
         (\<forall>c \<in> set bs. eligible good (ld_partitions sd) c \<longrightarrow>
            hb (lb_key (to_ln_backend hk c)) = hb (lb_key (to_ln_backend hk b)) \<longrightarrow> c = b) \<longrightarrow>
         en (hb (lb_key (to_ln_backend hk b))) = Some (enabled (backend b)))"
proof -
  have inv: "discover_inv hk hb good (ld_partitions sd) (set bs) bks en"
    by (rule discover_modified_inv) (rule assms)+
  let ?E = "{b \<in> set bs. eligible good (ld_partitions sd) b}"
  have keys: "lb_key ` set bks = (\<lambda>b. lb_key (to_ln_backend hk b)) ` ?E"
    and dom: "dom en = (hb \<circ> lb_key) ` set bks"
    and vals: "\<And>h e. en h = Some e \<Longrightarrow> \<exists>c \<in> ?E. hb (lb_key (to_ln_backend hk c)) = h \<and> enabled (backend c) = e"
    using inv unfolding discover_inv_def by blast+
  have "en (hb (lb_key (to_ln_backend hk b))) = Some (enabled (backend b))"
    if b: "b \<in> ?E" and unique: "\<forall>c \<in> ?E. hb (lb_key (to_ln_backend hk c)) = hb (lb_key (to_ln_backend hk b)) \<longrightarrow> c = b" for b
  proof -
    have "lb_key (to_ln_backend hk b) \<in> lb_key ` set bks" using keys b by blast
    then have "hb (lb_key (to_ln_backend hk b)) \<in> dom en" unfolding dom by auto
    then obtain e where e: "en (hb (lb_key (to_ln_backend hk b))) = Some e" by blast
    from vals [OF this] unique e show ?thesis by auto
  qed
  note enablement = this
  have "\<forall>b \<in> ?E. lb_key (to_ln_backend hk b) \<in> lb_key ` set bks" using keys by blast
  moreover have "sorted (map lb_key bks)" "distinct (map lb_key bks)" "set bks \<subseteq> to_ln_backend hk ` ?E"
    using inv unfolding discover_inv_def by blast+
  ultimately show ?thesis
    using dom enablement by simp
qed

lemma sample_btree: "btree_from_iter [sample_node k] = [sample_node k]"
  by (simp add: btree_from_iter_def)

lemma sample_discover_step:
  "discover_step (\<lambda>_. 9) (\<lambda>_. 0) always_connect {''p''} (sample_node 1) ([], Map.empty, ())
     = ([to_ln_backend (\<lambda>_. 9) (sample_node 1)], [0 \<mapsto> True], ())"
  by (simp add: discover_step_def always_connect_def sample_node_def lb_insert_def)

theorem discover_result_witness:
  "dom (snd (projr (fst (discover (\<lambda>_. 9) (\<lambda>_. 0) always_connect
       (\<lambda>_. Inr \<lparr>etag = 1, backends = Some [sample_node 1]\<rparr>) (ln_discovery_new {''p''}) ())))) = {0}"
proof -
  have c: "connects always_connect (\<lambda>_. True)"
    by (simp add: connects_def always_connect_def)
  have d: "discover (\<lambda>_. 9) (\<lambda>_. 0) always_connect (\<lambda>_. Inr \<lparr>etag = 1, backends = Some [sample_node 1]\<rparr>) (ln_discovery_new {''p''}) ()
    = (Inr ([to_ln_backend (\<lambda>_. 9) (sample_node 1)], [0 \<mapsto> True]),
       \<lparr>ld_partitions = {''p''}, ld_cache = [to_ln_backend (\<lambda>_. 9) (sample_node 1)], ld_last_etag = 1\<rparr>, ())"
    by (simp add: discover_def ln_discovery_new_def sample_btree sample_discover_step)
  have "dom [0 \<mapsto> True] = ((\<lambda>_. 0) \<circ> lb_key) ` set [to_ln_backend (\<lambda>_. 9) (sample_node 1)]"
    using discover_result [OF c _ _ d, of "\<lparr>etag = 1, backends = Some [sample_node 1]\<rparr>" "[sample_node 1]"]
    by simp
  then show ?thesis
    by (simp add: d)
qed

end
