(* ===== verification/Balancer.thy ===== *)
theory Balancer
  imports PingoraDiscovery F64
begin

text \<open>
  \<open>pingora/src/balance.rs\<close>, \<open>backoff.rs\<close> and \<open>error.rs\<close>: the selection of a node for an offer and
  the retry loop around its invoice request. The load balancer of pingora, the client pool with
  its metrics cache and the exponential policy of the crate backoff are arguments that act on
  a state \<open>'w\<close>; the loop may run for ever, so it is a partial function: \<open>None\<close> is the
  loop that never returns.
\<close>

section \<open>Errors (error.rs)\<close>

datatype 'e ln_error_kind = LnErrorMessage string | NoAvailableNodes | LnServiceError 'e

record 'e ln_error =
  lne_context :: string
  lne_source :: "'e ln_error_kind"
  lne_esource :: service_error_source

definition ln_error_new :: "'e ln_error_kind \<Rightarrow> service_error_source \<Rightarrow> string \<Rightarrow> 'e ln_error" where
  "ln_error_new src es ctx = \<lparr>lne_context = ctx, lne_source = src, lne_esource = es\<rparr>"

definition no_available_nodes :: "service_error_source \<Rightarrow> string \<Rightarrow> 'e ln_error" where
  "no_available_nodes es ctx = \<lparr>lne_context = ctx, lne_source = NoAvailableNodes, lne_esource = es\<rparr>"

definition from_service_error :: "('e \<Rightarrow> service_error_source) \<Rightarrow> string \<Rightarrow> 'e \<Rightarrow> 'e ln_error" where
  "from_service_error esource ctx e =
     \<lparr>lne_context = ctx, lne_source = LnServiceError e, lne_esource = esource e\<rparr>"

definition ln_general_error :: "service_error_source \<Rightarrow> string \<Rightarrow> string \<Rightarrow> 'e ln_error" where
  "ln_general_error es ctx msg =
     \<lparr>lne_context = ctx, lne_source = LnErrorMessage msg, lne_esource = es\<rparr>"

section \<open>Backoff (backoff.rs)\<close>

text \<open>
  The crate backoff: \<open>Stop\<close> answers \<open>None\<close> to every \<open>next_backoff\<close>; the exponential policy is
  an argument. A duration is a number of nanoseconds.
\<close>

datatype 'x backoff_instance = StopBackoff | ExponentialBackoff 'x

definition stop_backoff_provider :: "'x backoff_instance" where
  "stop_backoff_provider = StopBackoff"

definition exponential_backoff_provider :: "('c \<Rightarrow> 'x) \<Rightarrow> 'c \<Rightarrow> 'x backoff_instance" where
  "exponential_backoff_provider build builder = ExponentialBackoff (build builder)"

fun next_backoff ::
  "('x \<Rightarrow> nat option \<times> 'x) \<Rightarrow> 'x backoff_instance \<Rightarrow> nat option \<times> 'x backoff_instance" where
  "next_backoff exp_next StopBackoff = (None, StopBackoff)"
| "next_backoff exp_next (ExponentialBackoff x) = apsnd ExponentialBackoff (exp_next x)"

text \<open>The policy gives up after at most \<open>n\<close> pauses.\<close>

fun backoff_stops :: "('x \<Rightarrow> nat option \<times> 'x) \<Rightarrow> nat \<Rightarrow> 'x backoff_instance \<Rightarrow> bool" where
  "backoff_stops exp_next 0 b = (fst (next_backoff exp_next b) = None)"
| "backoff_stops exp_next (Suc n) b =
     (case next_backoff exp_next b of (None, _) \<Rightarrow> True | (Some d, b') \<Rightarrow> backoff_stops exp_next n b')"

section \<open>The number of nodes looked at\<close>

datatype max_iterations_policy =
    RoundRobinMaxIterations
  | RandomMaxIterations
  | ConsistentMaxIterations usize

text \<open>\<open>f64::ceil\<close> and the saturating cast \<open>as usize\<close>.\<close>

fun f64_ceil :: "f64 \<Rightarrow> f64" where
  "f64_ceil (Fin x) = Fin (of_int \<lceil>x\<rceil>)"
| "f64_ceil x = x"

fun f64_to_usize :: "f64 \<Rightarrow> usize" where
  "f64_to_usize (Fin x) =
     (if x \<le> 0 then 0 else if 2 ^ 64 - 1 \<le> x then - 1 else of_int \<lfloor>x\<rfloor>)"
| "f64_to_usize PInf = - 1"
| "f64_to_usize NInf = 0"
| "f64_to_usize NaN = 0"

text \<open>The precision of \<open>f64::ln\<close> is unspecified, so the logarithm is an argument.\<close>

fun max_iterations :: "(f64 \<Rightarrow> f64) \<Rightarrow> max_iterations_policy \<Rightarrow> usize \<Rightarrow> usize" where
  "max_iterations ln_f64 RoundRobinMaxIterations n = n"
| "max_iterations ln_f64 RandomMaxIterations n =
     (if n \<le> 1 then n
      else f64_to_usize (f64_ceil
             (f64_mul (f64_mul (f64_of_u64 n) (ln_f64 (f64_of_u64 n))) (Fin 4))))"
| "max_iterations ln_f64 (ConsistentMaxIterations m) n = m"

section \<open>The balancer\<close>

text \<open>What the balancer calls, as operations on the state \<open>'w\<close>.\<close>

record ('e, 'x, 'w) ln_balancer =
  lb_backends_len :: "'w \<Rightarrow> usize"
  lb_select_with :: "u8 list \<Rightarrow> usize \<Rightarrow> (ln_backend \<Rightarrow> bool \<Rightarrow> bool) \<Rightarrow> 'w \<Rightarrow> ln_backend option \<times> 'w"
  lb_update :: "'w \<Rightarrow> (string + unit) \<times> 'w"
  lb_run_health_check :: "bool \<Rightarrow> 'w \<Rightarrow> 'w"
  bal_get_invoice :: "offer \<Rightarrow> ln_backend \<Rightarrow> u64 option \<Rightarrow> u64 option \<Rightarrow> 'w \<Rightarrow> ('e + string) \<times> 'w"
  bal_esource :: "'e \<Rightarrow> service_error_source"
  bal_get_cached_metrics :: "'w \<Rightarrow> ln_backend \<Rightarrow> ln_metrics option"
  bal_ln_f64 :: "f64 \<Rightarrow> f64"
  bal_exp_next :: "'x \<Rightarrow> nat option \<times> 'x"
  bal_show_offer :: "offer \<Rightarrow> string"
  backoff_provider :: "'x backoff_instance"
  select_max_iterations :: max_iterations_policy
  parallel_health_check :: bool
  selection_capacity_bias :: "f64 option"

text \<open>The closure that \<open>select_with\<close> calls on a backend and its health.\<close>

definition select_accept ::
  "(ln_backend \<Rightarrow> ln_metrics option) \<Rightarrow> offer \<Rightarrow> u64 \<Rightarrow> f64 option \<Rightarrow> ln_backend \<Rightarrow> bool \<Rightarrow> bool" where
  "select_accept metrics ofr amount_msat bias b health =
     (if \<not> health then False
      else if partition ofr \<in> lb_partitions b
      then (case metrics b of
              Some m \<Rightarrow>
                (case bias of
                   Some c \<Rightarrow> within_capacity amount_msat (node_effective_inbound_msat m) c
                 | None \<Rightarrow> True)
            | None \<Rightarrow> False)
      else False)"

definition select_backend ::
  "('e, 'x, 'w) ln_balancer \<Rightarrow> offer \<Rightarrow> u64 \<Rightarrow> u8 list \<Rightarrow> f64 option \<Rightarrow> 'w \<Rightarrow> ln_backend option \<times> 'w" where
  "select_backend B ofr amount_msat key bias w =
     lb_select_with B key
       (max_iterations (bal_ln_f64 B) (select_max_iterations B) (lb_backends_len B w))
       (select_accept (bal_get_cached_metrics B w) ofr amount_msat bias) w"

definition get_invoice_from_backend ::
  "('e, 'x, 'w) ln_balancer \<Rightarrow> (uuid \<Rightarrow> string) \<Rightarrow> offer \<Rightarrow> u64 \<Rightarrow> u64 \<Rightarrow> ln_backend \<Rightarrow> 'w
     \<Rightarrow> ('e ln_error + string) \<times> 'w" where
  "get_invoice_from_backend B show_uuid ofr amount_msat expiry_secs b w =
     apfst (map_err (from_service_error (bal_esource B)
              (''get invoice for offer '' @ partition ofr @ ''/'' @ show_uuid (offer_id ofr))))
       (bal_get_invoice B ofr b (Some amount_msat) (Some expiry_secs) w)"

text \<open>One request, of the backend that was selected or of none.\<close>

definition request_selected ::
  "('e, 'x, 'w) ln_balancer \<Rightarrow> (uuid \<Rightarrow> string) \<Rightarrow> offer \<Rightarrow> u64 \<Rightarrow> u64 \<Rightarrow> ln_backend option \<Rightarrow> 'w
     \<Rightarrow> ('e ln_error + string) \<times> 'w" where
  "request_selected B show_uuid ofr amount_msat expiry_secs sel w =
     (case sel of
        None \<Rightarrow> (Inl (no_available_nodes Upstream
                   (''load balancing invoice request for offer '' @ bal_show_offer B ofr)), w)
      | Some b \<Rightarrow> get_invoice_from_backend B show_uuid ofr amount_msat expiry_secs b w)"

text \<open>The pause: while it sleeps, discovery is updated (an error is logged) and health checked.\<close>

definition retry_refresh :: "('e, 'x, 'w) ln_balancer \<Rightarrow> 'w \<Rightarrow> 'w" where
  "retry_refresh B w = lb_run_health_check B (parallel_health_check B) (snd (lb_update B w))"

partial_function (option) get_invoice_loop ::
  "('e, 'x, 'w) ln_balancer \<Rightarrow> (uuid \<Rightarrow> string) \<Rightarrow> offer \<Rightarrow> u64 \<Rightarrow> u64 \<Rightarrow> u8 list
     \<Rightarrow> f64 option \<Rightarrow> 'x backoff_instance \<Rightarrow> 'w \<Rightarrow> (('e ln_error + string) \<times> 'w) option" where
  "get_invoice_loop B show_uuid ofr amount_msat expiry_secs key bias backoff w =
     (case select_backend B ofr amount_msat key bias w of
        (sel, w1) \<Rightarrow>
          if bias \<noteq> None \<and> sel = None
          then get_invoice_loop B show_uuid ofr amount_msat expiry_secs key None backoff w1
          else
            (case request_selected B show_uuid ofr amount_msat expiry_secs sel w1 of
               (Inr invoice, w2) \<Rightarrow> Some (Inr invoice, w2)
             | (Inl e, w2) \<Rightarrow>
                 if lne_esource e = Downstream then Some (Inl e, w2)
                 else
                   (case next_backoff (bal_exp_next B) backoff of
                      (Some d, backoff') \<Rightarrow>
                        get_invoice_loop B show_uuid ofr amount_msat expiry_secs key None backoff'
                          (retry_refresh B w2)
                    | (None, backoff') \<Rightarrow> Some (Inl e, w2))))"

definition get_invoice ::
  "('e, 'x, 'w) ln_balancer \<Rightarrow> (uuid \<Rightarrow> string) \<Rightarrow> offer \<Rightarrow> u64 \<Rightarrow> u64 \<Rightarrow> u8 list \<Rightarrow> 'w
     \<Rightarrow> (('e ln_error + string) \<times> 'w) option" where
  "get_invoice B show_uuid ofr amount_msat expiry_secs key w =
     get_invoice_loop B show_uuid ofr amount_msat expiry_secs key (selection_capacity_bias B)
       (backoff_provider B) w"

text \<open>\<open>LoadBalancer::select\<close> is \<open>select_with\<close> that accepts every healthy backend.\<close>

definition balancer_health :: "('e, 'x, 'w) ln_balancer \<Rightarrow> 'w \<Rightarrow> ('e ln_error + unit) \<times> 'w" where
  "balancer_health B w =
     (case lb_select_with B [] (max_iterations (bal_ln_f64 B) (select_max_iterations B) (lb_backends_len B w))
             (\<lambda>_ health. health) w of
        (sel, w') \<Rightarrow> (map_ok (\<lambda>_. ()) (ok_or (no_available_nodes Upstream ''health check'') sel), w'))"

section \<open>What the load balancer promises\<close>

text \<open>
  The documentation of \<open>select_with\<close>: it returns a backend on which the accept function
  answered true.
\<close>

definition select_lawful ::
  "(u8 list \<Rightarrow> usize \<Rightarrow> (ln_backend \<Rightarrow> bool \<Rightarrow> bool) \<Rightarrow> 'w \<Rightarrow> ln_backend option \<times> 'w) \<Rightarrow> bool" where
  "select_lawful sel \<longleftrightarrow>
     (\<forall>key n accept w b w'. sel key n accept w = (Some b, w') \<longrightarrow> (\<exists>health. accept b health))"

text \<open>A node that may be asked for an invoice of the offer.\<close>

definition serves :: "(ln_backend \<Rightarrow> ln_metrics option) \<Rightarrow> offer \<Rightarrow> ln_backend \<Rightarrow> bool" where
  "serves metrics ofr b \<longleftrightarrow> partition ofr \<in> lb_partitions b \<and> metrics b \<noteq> None"

lemma select_accept_serves: "select_accept metrics ofr a bias b h \<Longrightarrow> h \<and> serves metrics ofr b"
  by (auto simp: select_accept_def serves_def split: if_splits option.splits)

lemma select_accept_mono:
  "select_accept metrics ofr a bias b h \<Longrightarrow> select_accept metrics ofr a None b h"
  by (auto simp: select_accept_def split: if_splits option.splits)

lemma select_accept_capacity:
  "select_accept metrics ofr a (Some c) b h \<Longrightarrow>
     \<exists>m. metrics b = Some m \<and> within_capacity a (node_effective_inbound_msat m) c"
  by (auto simp: select_accept_def split: if_splits option.splits)

lemma select_backend_serves:
  assumes "select_lawful (lb_select_with B)" and "select_backend B ofr a key bias w = (Some b, w')"
  shows "serves (bal_get_cached_metrics B w) ofr b"
  using assms select_accept_serves unfolding select_lawful_def select_backend_def by blast

lemma request_selected_Inr:
  "request_selected B su ofr a e sel w = (Inr invoice, w') \<Longrightarrow>
     \<exists>b. sel = Some b \<and> bal_get_invoice B ofr b (Some a) (Some e) w = (Inr invoice, w')"
  by (auto simp: request_selected_def get_invoice_from_backend_def apfst_def map_prod_def result_simps
      split: option.splits prod.splits)

section \<open>The loop\<close>

text \<open>Rule induction over the turns of a loop that returned.\<close>

lemma get_invoice_loop_induct [consumes 1, case_names unbiased final retry]:
  assumes "get_invoice_loop B su ofr a e key bias backoff w = Some y"
    and unbiased: "\<And>c backoff w w1. select_backend B ofr a key (Some c) w = (None, w1) \<Longrightarrow>
      Q None backoff w1 y \<Longrightarrow> Q (Some c) backoff w y"
    and final: "\<And>bias backoff w sel w1 r w2. select_backend B ofr a key bias w = (sel, w1) \<Longrightarrow>
      request_selected B su ofr a e sel w1 = (r, w2) \<Longrightarrow>
      (\<And>err. r = Inl err \<Longrightarrow> lne_esource err \<noteq> Downstream \<Longrightarrow>
        fst (next_backoff (bal_exp_next B) backoff) = None) \<Longrightarrow>
      y = (r, w2) \<Longrightarrow> Q bias backoff w y"
    and retry: "\<And>bias backoff w sel w1 err w2 d backoff'. select_backend B ofr a key bias w = (sel, w1) \<Longrightarrow>
      request_selected B su ofr a e sel w1 = (Inl err, w2) \<Longrightarrow> lne_esource err \<noteq> Downstream \<Longrightarrow>
      next_backoff (bal_exp_next B) backoff = (Some d, backoff') \<Longrightarrow>
      Q None backoff' (retry_refresh B w2) y \<Longrightarrow> Q bias backoff w y"
  shows "Q bias backoff w y"
proof -
  let ?P = "\<lambda>B' su' ofr' a' e' key' bias backoff w z.
    (B', su', ofr', a', e', key') = (B, su, ofr, a, e, key) \<and> z = y \<longrightarrow> Q bias backoff w z"
  have "?P B su ofr a e key bias backoff w y"
  proof (rule get_invoice_loop.raw_induct [where P = ?P, OF _ assms(1)], goal_cases)
    case (1 f B' su' ofr' a' e' key' bias backoff w z)
    have IH: "f B su ofr a e key bias' backoff' w' = Some y \<Longrightarrow> Q bias' backoff' w' y" for bias' backoff' w'
      using 1(1) [of B su ofr a e key bias' backoff' w' y] by simp
    obtain sel w1 where sel: "select_backend B ofr a key bias w = (sel, w1)" by fastforce
    obtain r w2 where req: "request_selected B su ofr a e sel w1 = (r, w2)" by fastforce
    obtain d backoff' where nb: "next_backoff (bal_exp_next B) backoff = (d, backoff')" by fastforce
    show ?case
    proof (rule impI)
      assume "(B', su', ofr', a', e', key') = (B, su, ofr, a, e, key) \<and> z = y"
      then have eqs: "B' = B" "su' = su" "ofr' = ofr" "a' = a" "e' = e" "key' = key" "z = y"
        by simp_all
      have "Q bias backoff w y"
      proof (cases "bias \<noteq> None \<and> sel = None")
        case True
        then obtain c where c: "bias = Some c" "sel = None" by auto
        with 1(2) sel have "f B su ofr a e key None backoff w1 = Some y" by (simp add: eqs)
        from unbiased [OF _ IH [OF this]] sel c show ?thesis by simp
      next
        case False
        have z: "(case r of Inr invoice \<Rightarrow> Some (Inr invoice, w2)
          | Inl err \<Rightarrow> if lne_esource err = Downstream then Some (Inl err, w2)
              else (case d of Some d' \<Rightarrow> f B su ofr a e key None backoff' (retry_refresh B w2)
                    | None \<Rightarrow> Some (Inl err, w2))) = Some y"
          using 1(2) unfolding eqs sel prod.case if_not_P [OF False] req nb by (cases r; cases d) simp_all
        show ?thesis
        proof (cases "\<exists>err d'. r = Inl err \<and> lne_esource err \<noteq> Downstream \<and> d = Some d'")
          case True
          then obtain err d' where r: "r = Inl err" "lne_esource err \<noteq> Downstream" "d = Some d'" by blast
          with z have "f B su ofr a e key None backoff' (retry_refresh B w2) = Some y" by simp
          from retry [OF sel _ r(2) _ IH [OF this]] req nb r show ?thesis by simp
        next
          case False
          then have "r = Inl err \<Longrightarrow> lne_esource err \<noteq> Downstream \<Longrightarrow> d = None" for err
            by auto
          moreover from this z have "y = (r, w2)" by (cases r) (auto split: if_splits)
          ultimately show ?thesis using final [OF sel req] nb by simp
        qed
      qed
      then show "Q bias backoff w z" by (simp add: eqs)
    qed
  qed
  then show ?thesis by simp
qed

text \<open>An invoice comes from a turn that selected the node it came from.\<close>

lemma get_invoice_loop_Inr:
  assumes "get_invoice_loop B su ofr a e key bias backoff w = Some (Inr invoice, w')"
  shows "\<exists>b bias w0 w1. select_backend B ofr a key bias w0 = (Some b, w1)
    \<and> bal_get_invoice B ofr b (Some a) (Some e) w1 = (Inr invoice, w')"
  using assms
proof (induction rule: get_invoice_loop_induct)
  case (final bias backoff w sel w1 r w2)
  then show ?case using request_selected_Inr [of B su ofr a e sel w1] by (metis Pair_inject)
qed

text \<open>Every other error than one from downstream is the end of a backoff policy that gave up.\<close>

lemma get_invoice_loop_Inl:
  assumes "get_invoice_loop B su ofr a e key bias backoff w = Some y"
  shows "fst y = Inl err \<Longrightarrow> lne_esource err \<noteq> Downstream \<Longrightarrow> \<exists>n. backoff_stops (bal_exp_next B) n backoff"
  using assms
proof (induction rule: get_invoice_loop_induct)
  case (unbiased c backoff w w1)
  then show ?case by blast
next
  case (final bias backoff w sel w1 r w2)
  then have "backoff_stops (bal_exp_next B) 0 backoff" by simp
  then show ?case by blast
next
  case (retry bias backoff w sel w1 err' w2 d backoff')
  then obtain n where "backoff_stops (bal_exp_next B) n backoff'" by blast
  with retry.hyps have "backoff_stops (bal_exp_next B) (Suc n) backoff" by simp
  then show ?case by blast
qed

section \<open>One turn at a time\<close>

lemma get_invoice_loop_unbiased:
  assumes "select_backend B ofr a key (Some c) w = (None, w1)"
  shows "get_invoice_loop B su ofr a e key (Some c) backoff w
    = get_invoice_loop B su ofr a e key None backoff w1"
  by (subst get_invoice_loop.simps) (simp add: assms)

lemma get_invoice_loop_turn:
  assumes "select_backend B ofr a key bias w = (sel, w1)" and "bias = None \<or> sel \<noteq> None"
    and "request_selected B su ofr a e sel w1 = (r, w2)"
  shows "get_invoice_loop B su ofr a e key bias backoff w =
    (case r of
       Inr invoice \<Rightarrow> Some (r, w2)
     | Inl err \<Rightarrow>
         if lne_esource err = Downstream then Some (r, w2)
         else (case next_backoff (bal_exp_next B) backoff of
                 (Some d, backoff') \<Rightarrow>
                   get_invoice_loop B su ofr a e key None backoff' (retry_refresh B w2)
               | (None, backoff') \<Rightarrow> Some (r, w2)))"
  using assms by (subst get_invoice_loop.simps) (cases r; auto)

text \<open>What counts the invoice requests in the state.\<close>

definition counts_requests :: "('e, 'x, 'w) ln_balancer \<Rightarrow> ('w \<Rightarrow> nat) \<Rightarrow> bool" where
  "counts_requests B calls \<longleftrightarrow>
     (\<forall>key n accept w. calls (snd (lb_select_with B key n accept w)) = calls w)
     \<and> (\<forall>w. calls (retry_refresh B w) = calls w)
     \<and> (\<forall>ofr b a e w. calls (snd (bal_get_invoice B ofr b a e w)) = calls w + 1)"

lemma counts_select:
  "counts_requests B calls \<Longrightarrow> select_backend B ofr a key bias w = (sel, w') \<Longrightarrow> calls w' = calls w"
  unfolding counts_requests_def select_backend_def by (metis snd_conv)

lemma counts_request_selected:
  assumes "counts_requests B calls" and "request_selected B su ofr a e sel w = (r, w')"
  shows "calls w' = calls w + (if sel = None then 0 else 1)"
proof (cases sel)
  case (Some b)
  have "calls (snd (bal_get_invoice B ofr b (Some a) (Some e) w)) = calls w + 1"
    using assms(1) by (simp add: counts_requests_def)
  with assms(2) Some show ?thesis
    by (auto simp: request_selected_def get_invoice_from_backend_def apfst_def map_prod_def
        split: prod.splits)
qed (use assms(2) in \<open>simp add: request_selected_def\<close>)

lemma counts_refresh: "counts_requests B calls \<Longrightarrow> calls (retry_refresh B w) = calls w"
  by (simp add: counts_requests_def)

lemma get_invoice_loop_turn_returns:
  assumes "counts_requests B calls"
    and sel: "select_backend B ofr a key bias w = (sel, w1)" and "bias = None \<or> sel \<noteq> None"
    and "case next_backoff (bal_exp_next B) backoff of
           (None, b') \<Rightarrow> m = calls w + 1
         | (Some d, b') \<Rightarrow> (\<forall>w'. \<exists>r w''. get_invoice_loop B su ofr a e key None b' w' = Some (r, w'')
             \<and> calls w'' \<le> calls w' + (m - calls w - 1)) \<and> calls w + 1 \<le> m"
  shows "\<exists>r w'. get_invoice_loop B su ofr a e key bias backoff w = Some (r, w') \<and> calls w' \<le> m"
proof -
  obtain r w2 where req: "request_selected B su ofr a e sel w1 = (r, w2)" by fastforce
  have calls: "calls w2 \<le> calls w + 1"
    using counts_request_selected [OF assms(1) req] counts_select [OF assms(1) sel] by simp
  obtain d b' where nb: "next_backoff (bal_exp_next B) backoff = (d, b')" by fastforce
  show ?thesis
  proof (cases "d = None \<or> (\<forall>err. r = Inl err \<longrightarrow> lne_esource err = Downstream)")
    case True
    then have "get_invoice_loop B su ofr a e key bias backoff w = Some (r, w2)"
      using get_invoice_loop_turn [OF sel assms(3) req] nb by (auto split: sum.splits)
    moreover have "calls w + 1 \<le> m"
      using assms(4) nb by (auto split: option.splits)
    ultimately show ?thesis using calls by auto
  next
    case False
    then have loop: "get_invoice_loop B su ofr a e key bias backoff w
        = get_invoice_loop B su ofr a e key None b' (retry_refresh B w2)"
      using get_invoice_loop_turn [OF sel assms(3) req] nb by auto
    from assms(4) nb False have
      "\<forall>w'. \<exists>r w''. get_invoice_loop B su ofr a e key None b' w' = Some (r, w'')
         \<and> calls w'' \<le> calls w' + (m - calls w - 1)" and m: "calls w + 1 \<le> m"
      by (auto simp del: diff_diff_left)
    then obtain r' w' where
      "get_invoice_loop B su ofr a e key None b' (retry_refresh B w2) = Some (r', w')"
      "calls w' \<le> calls (retry_refresh B w2) + (m - calls w - 1)"
      by blast
    note m this
    with loop calls counts_refresh [OF assms(1), of w2] show ?thesis by auto
  qed
qed

lemma get_invoice_loop_returns:
  assumes "counts_requests B calls"
  shows "backoff_stops (bal_exp_next B) n backoff \<Longrightarrow>
    \<exists>r w'. get_invoice_loop B su ofr a e key bias backoff w = Some (r, w') \<and> calls w' \<le> calls w + n + 1"
proof (induction n arbitrary: backoff bias w)
  case (0 backoff bias w)
  then have b: "\<exists>b'. next_backoff (bal_exp_next B) backoff = (None, b')"
    by (cases "next_backoff (bal_exp_next B) backoff") auto
  have turn: "\<exists>r w'. get_invoice_loop B su ofr a e key bias backoff w = Some (r, w') \<and> calls w' \<le> calls w + 0 + 1"
    if "bias = None \<or> fst (select_backend B ofr a key bias w) \<noteq> None" for bias w
    by (rule get_invoice_loop_turn_returns [OF assms surjective_pairing that]) (use b in auto)
  show ?case
  proof (cases "bias = None \<or> fst (select_backend B ofr a key bias w) \<noteq> None")
    case False
    then obtain c w1 where c: "bias = Some c" "select_backend B ofr a key (Some c) w = (None, w1)"
      by (metis not_None_eq prod.collapse)
    with turn [of None w1] counts_select [OF assms c(2)] show ?thesis
      by (simp add: get_invoice_loop_unbiased [OF c(2)])
  qed (rule turn)
next
  case (Suc n backoff bias w)
  have turn: "\<exists>r w'. get_invoice_loop B su ofr a e key bias backoff w = Some (r, w') \<and> calls w' \<le> calls w + Suc n + 1"
    if "bias = None \<or> fst (select_backend B ofr a key bias w) \<noteq> None" for bias w
  proof (cases "next_backoff (bal_exp_next B) backoff")
    case (Pair d b')
    show ?thesis
    proof (cases d)
      case None
      have "\<exists>r w'. get_invoice_loop B su ofr a e key bias backoff w = Some (r, w') \<and> calls w' \<le> calls w + 1"
        by (rule get_invoice_loop_turn_returns [OF assms surjective_pairing that]) (use Pair None in auto)
      then show ?thesis by fastforce
    next
      case (Some d')
      show ?thesis
        by (rule get_invoice_loop_turn_returns [OF assms surjective_pairing that])
          (use Suc.IH [of b' None] Suc.prems Pair Some in \<open>auto simp: add.assoc\<close>)
    qed
  qed
  show ?case
  proof (cases "bias = None \<or> fst (select_backend B ofr a key bias w) \<noteq> None")
    case False
    then obtain c w1 where c: "bias = Some c" "select_backend B ofr a key (Some c) w = (None, w1)"
      by (metis not_None_eq prod.collapse)
    with turn [of None w1] counts_select [OF assms c(2)] show ?thesis
      by (simp add: get_invoice_loop_unbiased [OF c(2)])
  qed (rule turn)
qed

text \<open>A policy that never gives up, and states in which no node is ever selected.\<close>

lemma get_invoice_loop_diverges:
  assumes never: "\<And>x. unlimited x \<Longrightarrow> fst (bal_exp_next B x) \<noteq> None \<and> unlimited (snd (bal_exp_next B x))"
    and stuck: "\<And>w. stuck w \<Longrightarrow> fst (select_backend B ofr a key None w) = None
          \<and> stuck (retry_refresh B (snd (select_backend B ofr a key None w)))"
    and "unlimited x" and "stuck w"
  shows "get_invoice_loop B su ofr a e key None (ExponentialBackoff x) w = None"
proof -
  have "bias = None \<Longrightarrow> backoff = ExponentialBackoff x \<Longrightarrow> unlimited x \<Longrightarrow> stuck w \<Longrightarrow> False"
    if "get_invoice_loop B su ofr a e key bias backoff w = Some y" for bias backoff w y x
    using that
  proof (induction arbitrary: x rule: get_invoice_loop_induct)
    case (unbiased c backoff w w1)
    then show ?case by simp
  next
    case (final bias backoff w sel w1 r w2)
    then have "sel = None" using stuck [of w] by simp
    with final have "fst (next_backoff (bal_exp_next B) backoff) = None"
      by (auto simp: request_selected_def no_available_nodes_def)
    with final.prems never [of x] show ?case
      by (cases "bal_exp_next B x") simp
  next
    case (retry bias backoff w sel w1 err w2 d backoff')
    then have "sel = None" "stuck (retry_refresh B w1)" using stuck [of w] by simp_all
    with retry.hyps have "stuck (retry_refresh B w2)" by (simp add: request_selected_def)
    moreover obtain x' where "backoff' = ExponentialBackoff x'" "unlimited x'"
      using retry.hyps retry.prems never [of x] by (cases "bal_exp_next B x") auto
    ultimately show ?case using retry.IH by blast
  qed
  with assms(3,4) show ?thesis by (metis not_None_eq)
qed

text \<open>The bias of the first turn changes nothing.\<close>

lemma get_invoice_loop_diverges_biased:
  assumes never: "\<And>x. unlimited x \<Longrightarrow> fst (bal_exp_next B x) \<noteq> None \<and> unlimited (snd (bal_exp_next B x))"
    and stuck: "\<And>w c. stuck w \<Longrightarrow> fst (select_backend B ofr a key c w) = None \<and> stuck (snd (select_backend B ofr a key c w))"
    and refresh: "\<And>w. stuck w \<Longrightarrow> stuck (retry_refresh B w)"
    and "unlimited x" and "stuck w"
  shows "get_invoice_loop B su ofr a e key bias (ExponentialBackoff x) w = None"
proof -
  have unbiased: "get_invoice_loop B su ofr a e key None (ExponentialBackoff x) w = None" if "stuck w" for w
    by (rule get_invoice_loop_diverges [where unlimited = unlimited and stuck = stuck])
      (use never stuck refresh assms(4) that in auto)
  show ?thesis
  proof (cases bias)
    case (Some c)
    with stuck [OF assms(5), of bias] unbiased show ?thesis
      by (subst get_invoice_loop.simps) (simp add: case_prod_beta)
  qed (simp add: unbiased assms(5))
qed

text \<open>The whole call.\<close>

lemma get_invoice_Inr:
  assumes "select_lawful (lb_select_with B)"
    and "get_invoice B su ofr a e key w = Some (Inr invoice, w')"
  shows "\<exists>b bias w0 w1. select_backend B ofr a key bias w0 = (Some b, w1)
    \<and> serves (bal_get_cached_metrics B w0) ofr b
    \<and> bal_get_invoice B ofr b (Some a) (Some e) w1 = (Inr invoice, w')"
  using get_invoice_loop_Inr [OF assms(2) [unfolded get_invoice_def]] select_backend_serves [OF assms(1)]
  by blast

section \<open>A concrete balancer for the witnesses\<close>

text \<open>
  Two nodes, of which the second serves the partition ''p'' of the offer; the state counts the
  invoice requests. \<open>select_with\<close> takes the first backend that is accepted.
\<close>

definition two_nodes :: "ln_backend list" where
  "two_nodes =
     [\<lparr>lb_addr = 1, lb_weight = 1, lb_partitions = {''q''}\<rparr>, \<lparr>lb_addr = 2, lb_weight = 1, lb_partitions = {''p''}\<rparr>]"

definition sample_offer :: offer where
  "sample_offer =
     \<lparr>partition = ''p'', offer_id = 7, max_sendable = 1000, min_sendable = 1,
      metadata_json_string = ''[]'', metadata_json_hash = [], timestamp = 0, expires = None\<rparr>"

definition first_accepted ::
  "u8 list \<Rightarrow> usize \<Rightarrow> (ln_backend \<Rightarrow> bool \<Rightarrow> bool) \<Rightarrow> nat \<Rightarrow> ln_backend option \<times> nat" where
  "first_accepted key n accept w = (find (\<lambda>b. accept b True) two_nodes, w)"

definition two_node_balancer ::
  "(ln_backend \<Rightarrow> service_error_source + string) \<Rightarrow> unit backoff_instance \<Rightarrow> f64 option
     \<Rightarrow> (service_error_source, unit, nat) ln_balancer" where
  "two_node_balancer answer backoff bias =
     \<lparr>lb_backends_len = (\<lambda>w. 2), lb_select_with = first_accepted,
      lb_update = (\<lambda>w. (Inr (), w)), lb_run_health_check = (\<lambda>_ w. w),
      bal_get_invoice = (\<lambda>ofr b a e w. (answer b, w + 1)), bal_esource = id,
      bal_get_cached_metrics = (\<lambda>w b. Some \<lparr>healthy = True, node_effective_inbound_msat = 100\<rparr>),
      bal_ln_f64 = id, bal_exp_next = (\<lambda>x. (Some 1, x)), bal_show_offer = (\<lambda>ofr. offer.partition ofr),
      backoff_provider = backoff, select_max_iterations = RoundRobinMaxIterations,
      parallel_health_check = True, selection_capacity_bias = bias\<rparr>"

lemma first_accepted_lawful: "select_lawful first_accepted"
  unfolding select_lawful_def first_accepted_def by (auto simp: find_Some_iff)

lemma two_node_balancer_simps [simp]:
  "lb_select_with (two_node_balancer ans bo bias) = first_accepted"
  "bal_exp_next (two_node_balancer ans bo bias) = (\<lambda>x. (Some 1, x))"
  "backoff_provider (two_node_balancer ans bo bias) = bo"
  "selection_capacity_bias (two_node_balancer ans bo bias) = bias"
  "retry_refresh (two_node_balancer ans bo bias) w = w"
  by (simp_all add: two_node_balancer_def retry_refresh_def)

lemma two_node_select:
  "select_backend (two_node_balancer ans bo bias) sample_offer a key None w = (Some (two_nodes ! 1), w)"
  by (simp add: select_backend_def two_node_balancer_def first_accepted_def two_nodes_def
      select_accept_def sample_offer_def)

lemma two_node_counts: "counts_requests (two_node_balancer ans bo bias) id"
  by (simp add: counts_requests_def two_node_balancer_def first_accepted_def retry_refresh_def)

lemma two_node_get_invoice:
  "get_invoice (two_node_balancer (\<lambda>b. Inr ''lnbc1'') StopBackoff None) (\<lambda>_. ''id'') sample_offer 5 60 [] 0
     = Some (Inr ''lnbc1'', 1)"
  unfolding get_invoice_def two_node_balancer_simps
  by (subst get_invoice_loop_turn [OF two_node_select _ surjective_pairing])
    (simp_all add: request_selected_def get_invoice_from_backend_def two_node_balancer_def)

section \<open>Properties\<close>

text \<open>
  Property C1. An invoice that the balancer returns was answered by a node that the load
  balancer selected for this request: the node serves the partition of the offer and its
  metrics are in the cache, and it was asked for the amount and the expiry of the request.
\<close>

theorem invoice_from_serving_node:
  assumes "select_lawful (lb_select_with B)"
    and "get_invoice B su ofr a e key w = Some (Inr invoice, w')"
  shows "\<exists>b bias w0 w1. select_backend B ofr a key bias w0 = (Some b, w1)
    \<and> serves (bal_get_cached_metrics B w0) ofr b
    \<and> bal_get_invoice B ofr b (Some a) (Some e) w1 = (Inr invoice, w')"
  by (rule get_invoice_Inr [OF assms])

theorem invoice_from_serving_node_witness:
  "\<exists>b bias w0 w1. select_backend (two_node_balancer (\<lambda>b. Inr ''lnbc1'') StopBackoff None) sample_offer 5 [] bias w0 = (Some b, w1)
    \<and> serves (bal_get_cached_metrics (two_node_balancer (\<lambda>b. Inr ''lnbc1'') StopBackoff None) w0) sample_offer b
    \<and> bal_get_invoice (two_node_balancer (\<lambda>b. Inr ''lnbc1'') StopBackoff None) sample_offer b (Some 5) (Some 60) w1
        = (Inr ''lnbc1'', 1)"
  by (rule invoice_from_serving_node [OF _ two_node_get_invoice]) (simp add: first_accepted_lawful)

text \<open>
  Property C10. The retry loop returns whenever the backoff policy gives up after at most \<open>n\<close>
  pauses, with a capacity bias or without, and it then has asked the pool for at most
  \<open>n + 1\<close> invoices.
\<close>

theorem get_invoice_returns:
  assumes "counts_requests B calls" and "backoff_stops (bal_exp_next B) n (backoff_provider B)"
  shows "\<exists>r w'. get_invoice B su ofr a e key w = Some (r, w') \<and> calls w' \<le> calls w + n + 1"
  unfolding get_invoice_def by (rule get_invoice_loop_returns [OF assms])

theorem get_invoice_returns_witness:
  "\<exists>r w'. get_invoice (two_node_balancer (\<lambda>b. Inl Upstream) StopBackoff (Some (Fin 0))) (\<lambda>_. ''id'')
      sample_offer 5 60 [] 3 = Some (r, w') \<and> id w' \<le> id 3 + 0 + 1"
  by (rule get_invoice_returns [OF two_node_counts]) simp





text \<open>
  With a policy that never gives up, a request for an offer that no node can be
  selected for, in the present state and after any number of refreshes, never returns.
\<close>

theorem get_invoice_never_returns:
  assumes "selection_capacity_bias B = None" and "backoff_provider B = ExponentialBackoff x"
    and "\<And>x. fst (bal_exp_next B x) \<noteq> None"
    and "\<And>w. stuck w \<Longrightarrow> fst (select_backend B ofr a key None w) = None
          \<and> stuck (retry_refresh B (snd (select_backend B ofr a key None w)))"
    and "stuck w"
  shows "get_invoice B su ofr a e key w = None"
  unfolding get_invoice_def assms(1,2) by (rule get_invoice_loop_diverges [where unlimited = "\<lambda>_. True" and stuck = stuck]) (use assms(3-5) in auto)

theorem get_invoice_never_returns_witness:
  "get_invoice (two_node_balancer (\<lambda>b. Inl Upstream) (ExponentialBackoff ()) None) (\<lambda>_. ''id'')
     (sample_offer\<lparr>offer.partition := ''r''\<rparr>) 5 60 [] 0 = None"
proof (rule get_invoice_never_returns [where stuck = "\<lambda>_. True" and x = "()"])
  show "fst (select_backend (two_node_balancer (\<lambda>b. Inl Upstream) (ExponentialBackoff ()) None)
        (sample_offer\<lparr>offer.partition := ''r''\<rparr>) 5 [] None w) = None \<and> True" for w
    by (simp add: select_backend_def two_node_balancer_def first_accepted_def two_nodes_def select_accept_def
        sample_offer_def)
qed simp_all

text \<open>
  Property C29. While a capacity bias of zero or below is in force, a node is selected only if
  its known inbound capacity covers the amount (amounts and capacities below \<open>2 ^ 53\<close> msat,
  which binary64 represents exactly).
\<close>

theorem biased_selection_within_capacity:
  assumes "select_lawful (lb_select_with B)" and "c \<le> 0"
    and "select_backend B ofr a key (Some (Fin c)) w = (Some b, w')"
    and "f64_exact (unat a)"
    and "\<And>m. bal_get_cached_metrics B w b = Some m \<Longrightarrow> f64_exact (unat (node_effective_inbound_msat m))"
  shows "\<exists>m. bal_get_cached_metrics B w b = Some m \<and> a \<le> node_effective_inbound_msat m"
proof -
  from assms(1,3) obtain h where
    "select_accept (bal_get_cached_metrics B w) ofr a (Some (Fin c)) b h"
    unfolding select_lawful_def select_backend_def by blast
  from select_accept_capacity [OF this] show ?thesis
    using within_capacity_restrictive [OF assms(4) _ assms(2)] assms(5) by blast
qed

theorem biased_selection_within_capacity_witness:
  "\<exists>m. bal_get_cached_metrics (two_node_balancer (\<lambda>b. Inl Upstream) StopBackoff None) 0 (two_nodes ! 1) = Some m
     \<and> 5 \<le> node_effective_inbound_msat m"
proof (rule biased_selection_within_capacity [where c = 0])
  have "within_capacity 5 100 (Fin 0)"
    by (rule within_capacity_permissive) (simp_all add: f64_exact_def)
  then show "select_backend (two_node_balancer (\<lambda>b. Inl Upstream) StopBackoff None) sample_offer 5 [] (Some (Fin 0)) 0
      = (Some (two_nodes ! 1), 0)"
    by (simp add: select_backend_def two_node_balancer_def first_accepted_def two_nodes_def
        select_accept_def sample_offer_def)
qed (simp_all add: first_accepted_lawful f64_exact_def two_node_balancer_def)

text \<open>
  The capacity test turns no usable node away: with a bias of zero or above, a
  healthy node of the partition whose cached inbound capacity covers the amount is accepted, for
  amounts and capacities that \<open>f64\<close> holds exactly (below \<open>2 ^ 53\<close>).
\<close>

theorem capable_node_accepted:
  assumes "partition ofr \<in> lb_partitions b" and "metrics b = Some m"
    and "amount \<le> node_effective_inbound_msat m" and "0 < node_effective_inbound_msat m"
    and "f64_exact (unat amount)" and "f64_exact (unat (node_effective_inbound_msat m))" and "0 \<le> c"
  shows "select_accept metrics ofr amount (Some (Fin c)) b True"
  using within_capacity_permissive [OF assms(5,6,7,3,4)] assms(1,2) by (simp add: select_accept_def)

theorem capable_node_accepted_witness:
  "select_accept (\<lambda>_. Some \<lparr>healthy = True, node_effective_inbound_msat = 100\<rparr>) sample_offer 100 (Some (Fin 0)) (two_nodes ! 1) True"
  by (rule capable_node_accepted [where m = "\<lparr>healthy = True, node_effective_inbound_msat = 100\<rparr>"]) (simp_all add: sample_offer_def two_nodes_def f64_exact_def)

end
