(* ===== verification/Injection.thy ===== *)
theory Injection
  imports ServerConfig Migration DiscoveryHttp OfferHttp Balancer
begin

text \<open>
  \<open>server/src/di\<close>: the delegates, which dispatch to one of the three stores, and the injectors of the
  stores and the balancer. An injector builds its component once and hands out the same one
  afterwards; a store in memory is a handle to a cell of the server, so that all its clones see one
  store. What the stores call outside the process acts on \<open>sv_outside\<close>.
\<close>

section \<open>Store delegates (delegates.rs, macros.rs)\<close>

datatype 'x discovery_delegate =
  DatabaseDiscovery "'x db_discovery" | MemoryDiscovery nat | HttpDiscovery "'x discovery_http"

datatype 'x offer_delegate =
  DatabaseOffer "'x db_offers" | MemoryOffer nat | HttpOffer "'x offer_http"

text \<open>The providers of the backoff policy, over the builder of the crate backoff.\<close>

record exponential_builder =
  eb_initial_interval :: nat
  eb_randomization_factor :: f64
  eb_multiplier :: f64
  eb_max_interval :: nat
  eb_max_elapsed_time :: "nat option"

datatype backoff_delegate = BackoffDelegateStop | BackoffDelegateExponential exponential_builder

definition get_backoff :: "(exponential_builder \<Rightarrow> 'p) \<Rightarrow> backoff_delegate \<Rightarrow> 'p backoff_instance" where
  "get_backoff build d =
     (case d of
        BackoffDelegateStop \<Rightarrow> stop_backoff_provider
      | BackoffDelegateExponential b \<Rightarrow> exponential_backoff_provider build b)"

text \<open>What the balancer is made of.\<close>

record 'x injected_balancer =
  ib_discovery :: "'x discovery_delegate"
  ib_partitions :: "string set"
  ib_client_timeout :: nat
  ib_trusted_roots :: "u8 list list"
  ib_health :: health_check
  ib_health_check_frequency :: nat
  ib_update_frequency :: nat
  ib_lb_parallel :: bool
  ib_backoff :: backoff_delegate
  ib_max_iterations :: max_iterations_policy
  ib_parallel_health_check :: bool
  ib_selection_capacity_bias :: "f64 option"

datatype 'x balancer_delegate =
    RoundRobinBalancer "'x injected_balancer"
  | RandomBalancer "'x injected_balancer"
  | ConsistentBalancer "'x injected_balancer"

fun delegate_balancer :: "'x balancer_delegate \<Rightarrow> 'x injected_balancer" where
  "delegate_balancer (RoundRobinBalancer b) = b"
| "delegate_balancer (RandomBalancer b) = b"
| "delegate_balancer (ConsistentBalancer b) = b"

text \<open>The server: its stores in memory, the cells of the injectors, and what is outside.\<close>

record 'x server_state =
  sv_discovery_stores :: "mem_discovery list"
  sv_offer_stores :: "mem_offers list"
  sv_discovery :: "'x discovery_delegate option option"
  sv_offer :: "'x offer_delegate option option"
  sv_balancer :: "'x balancer_delegate option option"
  sv_outside :: 'x

definition at_outside :: "('x \<Rightarrow> 'r \<times> 'x) \<Rightarrow> 'x server_state \<Rightarrow> 'r \<times> 'x server_state" where
  "at_outside f st = (case f (sv_outside st) of (r, x) \<Rightarrow> (r, st\<lparr>sv_outside := x\<rparr>))"

definition at_discovery :: "nat \<Rightarrow> (mem_discovery \<Rightarrow> 'r \<times> mem_discovery) \<Rightarrow> 'x server_state \<Rightarrow> 'r \<times> 'x server_state" where
  "at_discovery h f st =
     (case f (sv_discovery_stores st ! h) of
        (r, s) \<Rightarrow> (r, st\<lparr>sv_discovery_stores := (sv_discovery_stores st)[h := s]\<rparr>))"

definition at_offers :: "nat \<Rightarrow> (mem_offers \<Rightarrow> 'r \<times> mem_offers) \<Rightarrow> 'x server_state \<Rightarrow> 'r \<times> 'x server_state" where
  "at_offers h f st =
     (case f (sv_offer_stores st ! h) of
        (r, s) \<Rightarrow> (r, st\<lparr>sv_offer_stores := (sv_offer_stores st)[h := s]\<rparr>))"

text \<open>A read that changes nothing.\<close>

definition reading :: "('s \<Rightarrow> 'r) \<Rightarrow> 's \<Rightarrow> 'r \<times> 's" where
  "reading f s = (f s, s)"

subsection \<open>Discovery\<close>

definition delegate_get ::
  "'x discovery_delegate \<Rightarrow> public_key \<Rightarrow> 'x server_state \<Rightarrow> (discovery_store_error + discovery_backend option) \<times> 'x server_state" where
  "delegate_get d k =
     (case d of
        DatabaseDiscovery S \<Rightarrow> at_outside (reading (\<lambda>x. db_get S x k))
      | MemoryDiscovery h \<Rightarrow> at_discovery h (reading (\<lambda>s. mem_get s k))
      | HttpDiscovery H \<Rightarrow> at_outside (http_get H k))"

definition delegate_get_all ::
  "'x discovery_delegate \<Rightarrow> u64 option \<Rightarrow> 'x server_state \<Rightarrow> (discovery_store_error + discovery_backends) \<times> 'x server_state" where
  "delegate_get_all d q =
     (case d of
        DatabaseDiscovery S \<Rightarrow> at_outside (reading (\<lambda>x. db_get_all S x q))
      | MemoryDiscovery h \<Rightarrow> at_discovery h (reading (\<lambda>s. mem_get_all s q))
      | HttpDiscovery H \<Rightarrow> at_outside (http_get_all H q))"

definition delegate_post ::
  "'x discovery_delegate \<Rightarrow> datetime \<Rightarrow> discovery_backend \<Rightarrow> 'x server_state
     \<Rightarrow> (discovery_store_error + public_key option) \<times> 'x server_state" where
  "delegate_post d now b =
     (case d of
        DatabaseDiscovery S \<Rightarrow> at_outside (db_post S now b)
      | MemoryDiscovery h \<Rightarrow> at_discovery h (mem_post now b)
      | HttpDiscovery H \<Rightarrow> at_outside (http_post H b))"

definition delegate_put ::
  "'x discovery_delegate \<Rightarrow> datetime \<Rightarrow> discovery_backend \<Rightarrow> 'x server_state \<Rightarrow> (discovery_store_error + bool) \<times> 'x server_state" where
  "delegate_put d now b =
     (case d of
        DatabaseDiscovery S \<Rightarrow> at_outside (db_put S now b)
      | MemoryDiscovery h \<Rightarrow> at_discovery h (mem_put now b)
      | HttpDiscovery H \<Rightarrow> at_outside (http_put H b))"

definition delegate_patch ::
  "'x discovery_delegate \<Rightarrow> datetime \<Rightarrow> discovery_backend_patch \<Rightarrow> 'x server_state
     \<Rightarrow> (discovery_store_error + bool) \<times> 'x server_state" where
  "delegate_patch d now p =
     (case d of
        DatabaseDiscovery S \<Rightarrow> at_outside (db_patch S now p)
      | MemoryDiscovery h \<Rightarrow> at_discovery h (mem_patch p)
      | HttpDiscovery H \<Rightarrow> at_outside (http_patch H p))"

definition delegate_delete ::
  "'x discovery_delegate \<Rightarrow> public_key \<Rightarrow> 'x server_state \<Rightarrow> (discovery_store_error + bool) \<times> 'x server_state" where
  "delegate_delete d k =
     (case d of
        DatabaseDiscovery S \<Rightarrow> at_outside (db_delete S k)
      | MemoryDiscovery h \<Rightarrow> at_discovery h (mem_delete k)
      | HttpDiscovery H \<Rightarrow> at_outside (http_delete H k))"

subsection \<open>Offers and metadata\<close>

text \<open>The memory store takes the texts of its messages from \<open>show_offer\<close> and \<open>show_uuid\<close>.\<close>

definition delegate_get_offer ::
  "'x offer_delegate \<Rightarrow> string \<Rightarrow> uuid \<Rightarrow> bool option
     \<Rightarrow> 'x server_state \<Rightarrow> (offer_store_error + offer_record option) \<times> 'x server_state" where
  "delegate_get_offer d p i sparse =
     (case d of
        DatabaseOffer S \<Rightarrow> at_outside (reading (\<lambda>x. od_get_offer S x p i sparse))
      | MemoryOffer h \<Rightarrow> at_offers h (reading (\<lambda>s. mo_get_offer s p i sparse))
      | HttpOffer H \<Rightarrow> at_outside (oh_get_offer H p i sparse))"

definition delegate_get_offers ::
  "'x offer_delegate \<Rightarrow> string \<Rightarrow> usize \<Rightarrow> usize
     \<Rightarrow> 'x server_state \<Rightarrow> (offer_store_error + offer_record list) \<times> 'x server_state" where
  "delegate_get_offers d p start cnt =
     (case d of
        DatabaseOffer S \<Rightarrow> at_outside (reading (\<lambda>x. od_get_offers S x p start cnt))
      | MemoryOffer h \<Rightarrow> at_offers h (reading (\<lambda>s. mo_get_offers s p start cnt))
      | HttpOffer H \<Rightarrow> at_outside (oh_get_offers H p start cnt))"

definition delegate_post_offer ::
  "'x offer_delegate \<Rightarrow> (offer_record \<Rightarrow> string) \<Rightarrow> (uuid \<Rightarrow> string) \<Rightarrow> datetime \<Rightarrow> offer_record
     \<Rightarrow> 'x server_state \<Rightarrow> (offer_store_error + uuid option) \<times> 'x server_state" where
  "delegate_post_offer d show_offer show_uuid now r =
     (case d of
        DatabaseOffer S \<Rightarrow> at_outside (od_post_offer S now r)
      | MemoryOffer h \<Rightarrow> at_offers h (mo_post_offer show_offer show_uuid now r)
      | HttpOffer H \<Rightarrow> at_outside (oh_post_offer H r))"

definition delegate_put_offer ::
  "'x offer_delegate \<Rightarrow> (offer_record \<Rightarrow> string) \<Rightarrow> (uuid \<Rightarrow> string) \<Rightarrow> datetime \<Rightarrow> offer_record
     \<Rightarrow> 'x server_state \<Rightarrow> (offer_store_error + bool) \<times> 'x server_state" where
  "delegate_put_offer d show_offer show_uuid now r =
     (case d of
        DatabaseOffer S \<Rightarrow> at_outside (od_put_offer S now r)
      | MemoryOffer h \<Rightarrow> at_offers h (mo_put_offer show_offer show_uuid now r)
      | HttpOffer H \<Rightarrow> at_outside (oh_put_offer H r))"

definition delegate_delete_offer ::
  "'x offer_delegate \<Rightarrow> string \<Rightarrow> uuid
     \<Rightarrow> 'x server_state \<Rightarrow> (offer_store_error + bool) \<times> 'x server_state" where
  "delegate_delete_offer d p i =
     (case d of
        DatabaseOffer S \<Rightarrow> at_outside (od_delete_offer S p i)
      | MemoryOffer h \<Rightarrow> at_offers h (mo_delete_offer p i)
      | HttpOffer H \<Rightarrow> at_outside (oh_delete_offer H p i))"

definition delegate_get_metadata ::
  "'x offer_delegate \<Rightarrow> string \<Rightarrow> uuid
     \<Rightarrow> 'x server_state \<Rightarrow> (offer_store_error + offer_metadata option) \<times> 'x server_state" where
  "delegate_get_metadata d p i =
     (case d of
        DatabaseOffer S \<Rightarrow> at_outside (reading (\<lambda>x. od_get_metadata S x p i))
      | MemoryOffer h \<Rightarrow> at_offers h (reading (\<lambda>s. mo_get_metadata s p i))
      | HttpOffer H \<Rightarrow> at_outside (oh_get_metadata H p i))"

definition delegate_get_all_metadata ::
  "'x offer_delegate \<Rightarrow> string \<Rightarrow> usize \<Rightarrow> usize
     \<Rightarrow> 'x server_state \<Rightarrow> (offer_store_error + offer_metadata list) \<times> 'x server_state" where
  "delegate_get_all_metadata d p start cnt =
     (case d of
        DatabaseOffer S \<Rightarrow> at_outside (reading (\<lambda>x. od_get_all_metadata S x p start cnt))
      | MemoryOffer h \<Rightarrow> at_offers h (reading (\<lambda>s. mo_get_all_metadata s p start cnt))
      | HttpOffer H \<Rightarrow> at_outside (oh_get_all_metadata H p start cnt))"

definition delegate_post_metadata ::
  "'x offer_delegate \<Rightarrow> datetime \<Rightarrow> offer_metadata
     \<Rightarrow> 'x server_state \<Rightarrow> (offer_store_error + uuid option) \<times> 'x server_state" where
  "delegate_post_metadata d now m =
     (case d of
        DatabaseOffer S \<Rightarrow> at_outside (od_post_metadata S now m)
      | MemoryOffer h \<Rightarrow> at_offers h (mo_post_metadata now m)
      | HttpOffer H \<Rightarrow> at_outside (oh_post_metadata H m))"

definition delegate_put_metadata ::
  "'x offer_delegate \<Rightarrow> datetime \<Rightarrow> offer_metadata
     \<Rightarrow> 'x server_state \<Rightarrow> (offer_store_error + bool) \<times> 'x server_state" where
  "delegate_put_metadata d now m =
     (case d of
        DatabaseOffer S \<Rightarrow> at_outside (od_put_metadata S now m)
      | MemoryOffer h \<Rightarrow> at_offers h (mo_put_metadata now m)
      | HttpOffer H \<Rightarrow> at_outside (oh_put_metadata H m))"

definition delegate_delete_metadata ::
  "'x offer_delegate \<Rightarrow> (uuid \<Rightarrow> string) \<Rightarrow> string \<Rightarrow> uuid
     \<Rightarrow> 'x server_state \<Rightarrow> (offer_store_error + bool) \<times> 'x server_state" where
  "delegate_delete_metadata d show_uuid p i =
     (case d of
        DatabaseOffer S \<Rightarrow> at_outside (od_delete_metadata S p i)
      | MemoryOffer h \<Rightarrow> at_offers h (mo_delete_metadata show_uuid p i)
      | HttpOffer H \<Rightarrow> at_outside (oh_delete_metadata H p i))"

section \<open>Injection of the stores (store/discovery.rs, store/offer.rs, store/tls.rs)\<close>

text \<open>
  What an injector calls: the environment of a command with its files and certificates, the builder
  of HTTP clients, \<open>strfmt\<close>, \<open>from_utf8\<close>, and the connections of sea-orm with their migrator.
\<close>

record 'x injection_env =
  ie_command :: "'x server_state command_env"
  ie_builder :: "(json, 'x) client_builder"
  ie_json :: json_lib
  ie_hex :: hex_lib
  ie_offer_lib :: offer_lib
  ie_strfmt :: "string \<Rightarrow> (string, string) hashmap \<Rightarrow> string + string"
  ie_from_utf8 :: "string \<Rightarrow> string + string"
  ie_connect_discovery :: "string \<Rightarrow> u32 \<Rightarrow> 'x \<Rightarrow> (db_err + 'x db_discovery) \<times> 'x"
  ie_connect_offer :: "string \<Rightarrow> u32 \<Rightarrow> 'x \<Rightarrow> (db_err + 'x db_offers) \<times> 'x"
  ie_discovery_up :: "'x db_discovery \<Rightarrow> (ddl list \<times> ddl list) list \<Rightarrow> 'x \<Rightarrow> (db_err + unit) \<times> 'x"
  ie_offer_up :: "'x db_offers \<Rightarrow> (ddl list \<times> ddl list) list \<Rightarrow> 'x \<Rightarrow> (db_err + unit) \<times> 'x"
  ie_show_db :: "db_err \<Rightarrow> string"
  ie_backoff_builder :: exponential_builder  \<comment> \<open>\<open>ExponentialBackoffBuilder::new()\<close>\<close>

definition cmd_update :: "('s \<Rightarrow> 'a \<times> 's) \<Rightarrow> ('s, 'a) command" where
  "cmd_update f w = (case f (cw_remote w) of (x, s') \<Rightarrow> (Inr x, w\<lparr>cw_remote := s'\<rparr>))"

definition new_discovery_store :: "'x server_state \<Rightarrow> 'x discovery_delegate \<times> 'x server_state" where
  "new_discovery_store st =
     (MemoryDiscovery (length (sv_discovery_stores st)),
      st\<lparr>sv_discovery_stores := sv_discovery_stores st @ [mem_discovery_new]\<rparr>)"

definition new_offer_store :: "'x server_state \<Rightarrow> 'x offer_delegate \<times> 'x server_state" where
  "new_offer_store st =
     (MemoryOffer (length (sv_offer_stores st)), st\<lparr>sv_offer_stores := sv_offer_stores st @ [mem_offers_new]\<rparr>)"

text \<open>The token of an HTTP store, and the roots it trusts.\<close>

definition authorization_token :: "'x injection_env \<Rightarrow> string \<Rightarrow> string \<Rightarrow> ('x server_state, string) command" where
  "authorization_token E what path =
     cmd_bind (cmd_context (''reading authorization token for '' @ what @ '' from: '' @ path)
       (cmd_io (fs_read (ce_sys (ie_command E)) path))) (\<lambda>bytes.
     cmd_context (''parsing authorization token for '' @ what @ '' from: '' @ path)
       (cmd_result (map_err foreign (ie_from_utf8 E bytes))))"

fun build_discovery_store ::
  "'x injection_env \<Rightarrow> (string, string) hashmap \<Rightarrow> discovery_store_config \<Rightarrow> ('x server_state, 'x discovery_delegate) command" where
  "build_discovery_store E secrets (DiscoveryStoreDatabase uri max_connections) =
     cmd_bind (cmd_result (map_err (\<lambda>_. ([], CliMessage
         (''Error while inserting secrets for discovery database connection uri. Invalid uri or missing secrets in: '' @ uri)))
       (ie_strfmt E uri secrets))) (\<lambda>uri.
     cmd_bind (cmd_call CliDiscovery (at_outside (db_connect (ie_show_db E) (ie_connect_discovery E) uri max_connections))) (\<lambda>S.
     cmd_bind (cmd_call CliDiscovery (at_outside (db_migrate_up (ie_show_db E) (ie_discovery_up E S)))) (\<lambda>_.
     cmd_return (DatabaseDiscovery S))))"
| "build_discovery_store E secrets DiscoveryStoreMemory = cmd_update new_discovery_store"
| "build_discovery_store E secrets (DiscoveryStoreHttp base_url connect_timeout total_timeout roots authorization) =
     cmd_bind (cmd_context ''loading server certificate for http discovery store'' (load_roots (ie_command E) roots)) (\<lambda>roots.
     cmd_bind (authorization_token E ''http discovery store'' authorization) (\<lambda>token.
     cmd_bind (cmd_duration total_timeout) (\<lambda>total.
     cmd_bind (cmd_duration connect_timeout) (\<lambda>connect.
     cmd_bind (cmd_context ''creating http client for discovery store'' (cmd_result (map_err (\<lambda>e. ([], CliDiscovery e))
       (discovery_create (ie_builder E) (url_error (ie_command E)) (ie_json E) (ie_hex E) (ce_show_status (ie_command E))
          (ce_show_json (ie_command E)) (ce_show_io (ie_command E)) base_url total connect roots token)))) (\<lambda>H.
     cmd_return (HttpDiscovery H))))))"

definition discovery_store_inject ::
  "'x injection_env \<Rightarrow> config_injector \<Rightarrow> ('x server_state, 'x discovery_delegate option) command" where
  "discovery_store_inject E ci =
     cmd_bind (cmd_result (ok_or ([], CliMessage ''discover store enabled but has no config'') (sc_store (ci_config ci)))) (\<lambda>sc.
     cmd_bind (cmd_result (ok_or ([], CliMessage ''discover store enabled but has no config'') (ssc_discover sc))) (\<lambda>cfg.
     cmd_bind (build_discovery_store E (ci_secrets ci) cfg) (\<lambda>store.
     cmd_bind (cmd_update (\<lambda>st. ((), st\<lparr>sv_discovery := Some (Some store)\<rparr>))) (\<lambda>_.
     cmd_return (Some store)))))"

definition discovery_store_get ::
  "'x injection_env \<Rightarrow> config_injector \<Rightarrow> ('x server_state, 'x discovery_delegate option) command" where
  "discovery_store_get E ci w =
     (case sv_discovery (cw_remote w) of
        Some b \<Rightarrow> (Inr b, w)
      | None \<Rightarrow> discovery_store_inject E ci w)"

fun build_offer_store ::
  "'x injection_env \<Rightarrow> (string, string) hashmap \<Rightarrow> offer_store_config \<Rightarrow> ('x server_state, 'x offer_delegate) command" where
  "build_offer_store E secrets (OfferStoreDatabase uri max_connections) =
     cmd_bind (cmd_result (map_err (\<lambda>_. ([], CliMessage
         (''Error while inserting secrets for offer database connection uri. Invalid uri or missing secrets in: '' @ uri)))
       (ie_strfmt E uri secrets))) (\<lambda>uri.
     cmd_bind (cmd_call CliOffer (at_outside (od_connect (ie_show_db E) (ie_connect_offer E) uri max_connections))) (\<lambda>S.
     cmd_bind (cmd_call CliOffer (at_outside (od_migrate_up (ie_show_db E) (ie_offer_up E S)))) (\<lambda>_.
     cmd_return (DatabaseOffer S))))"
| "build_offer_store E secrets OfferStoreMemory = cmd_update new_offer_store"
| "build_offer_store E secrets (OfferStoreHttp base_url connect_timeout total_timeout roots authorization) =
     cmd_bind (cmd_context ''loading server certificates for http offer store'' (load_roots (ie_command E) roots)) (\<lambda>roots.
     cmd_bind (authorization_token E ''http offer store'' authorization) (\<lambda>token.
     cmd_bind (cmd_duration total_timeout) (\<lambda>total.
     cmd_bind (cmd_duration connect_timeout) (\<lambda>connect.
     cmd_bind (cmd_context ''creating http client for offer store'' (cmd_result (map_err (\<lambda>e. ([], CliOffer e))
       (offer_create (ie_builder E) (url_error (ie_command E)) (ie_offer_lib E) (ce_show_status (ie_command E))
          (ce_show_json (ie_command E)) base_url total connect roots token)))) (\<lambda>H.
     cmd_return (HttpOffer H))))))"

definition offer_store_inject ::
  "'x injection_env \<Rightarrow> config_injector \<Rightarrow> ('x server_state, 'x offer_delegate option) command" where
  "offer_store_inject E ci =
     cmd_bind (cmd_result (ok_or ([], CliMessage ''offer store enabled but has no config'') (sc_store (ci_config ci)))) (\<lambda>sc.
     cmd_bind (cmd_result (ok_or ([], CliMessage ''offer store enabled but has no config'') (ssc_offer sc))) (\<lambda>cfg.
     cmd_bind (build_offer_store E (ci_secrets ci) cfg) (\<lambda>store.
     cmd_bind (cmd_update (\<lambda>st. ((), st\<lparr>sv_offer := Some (Some store)\<rparr>))) (\<lambda>_.
     cmd_return (Some store)))))"

definition offer_store_get ::
  "'x injection_env \<Rightarrow> config_injector \<Rightarrow> ('x server_state, 'x offer_delegate option) command" where
  "offer_store_get E ci w =
     (case sv_offer (cw_remote w) of
        Some b \<Rightarrow> (Inr b, w)
      | None \<Rightarrow> offer_store_inject E ci w)"

section \<open>Injection of the balancer (balance.rs)\<close>

definition build_backoff :: "exponential_builder \<Rightarrow> backoff_config \<Rightarrow> ('s, backoff_delegate) command" where
  "build_backoff builder cfg =
     (case cfg of
        BackoffStop \<Rightarrow> cmd_return BackoffDelegateStop
      | BackoffExponential initial factor multiplier max_interval max_elapsed \<Rightarrow>
          cmd_bind (cmd_duration_option initial) (\<lambda>initial.
          cmd_bind (cmd_duration_option max_interval) (\<lambda>max_interval.
          cmd_bind (cmd_duration_option max_elapsed) (\<lambda>max_elapsed.
          cmd_return (BackoffDelegateExponential
            \<lparr>eb_initial_interval = unwrap_or (eb_initial_interval builder) initial,
             eb_randomization_factor = unwrap_or (eb_randomization_factor builder) factor,
             eb_multiplier = unwrap_or (eb_multiplier builder) multiplier,
             eb_max_interval = unwrap_or (eb_max_interval builder) max_interval,
             eb_max_elapsed_time = max_elapsed\<rparr>)))))"

text \<open>The two frequencies of the load balancer, in its order.\<close>

definition create_pingora_load_balancer :: "lnurl_service_config \<Rightarrow> ('s, nat \<times> nat \<times> bool) command" where
  "create_pingora_load_balancer cfg =
     cmd_bind (cmd_duration (lc_health_check_frequency_secs cfg)) (\<lambda>health_check_frequency.
     cmd_bind (cmd_duration (lc_backend_update_frequency_secs cfg)) (\<lambda>update_frequency.
     cmd_return (health_check_frequency, update_frequency, lc_parallel_health_check cfg)))"

definition select_balancer :: "backend_selection_config \<Rightarrow> (max_iterations_policy \<Rightarrow> 'x injected_balancer) \<Rightarrow> 'x balancer_delegate" where
  "select_balancer sel mk =
     (case sel of
        SelectRoundRobin \<Rightarrow> RoundRobinBalancer (mk RoundRobinMaxIterations)
      | SelectRandom \<Rightarrow> RandomBalancer (mk RandomMaxIterations)
      | SelectConsistent n \<Rightarrow> ConsistentBalancer (mk (ConsistentMaxIterations n)))"

definition balancer_inject ::
  "'x injection_env \<Rightarrow> config_injector \<Rightarrow> enablement_injector \<Rightarrow> ('x server_state, 'x balancer_delegate option) command" where
  "balancer_inject E ci en =
     (if \<not> lnurl_enabled en then cmd_update (\<lambda>st. (None, st\<lparr>sv_balancer := Some None\<rparr>))
      else
        cmd_bind (cmd_result (ok_or ([], CliMessage ''lnurl service enabled but has no config'')
          (sc_lnurl_service (ci_config ci)))) (\<lambda>cfg.
        cmd_bind (discovery_store_get E ci) (\<lambda>discovery.
        cmd_bind (cmd_result (ok_or ([], CliMessage ''lnurl service enabled but has no discovery store'') discovery)) (\<lambda>discovery.
        cmd_bind (build_backoff (ie_backoff_builder E) (lc_backoff cfg)) (\<lambda>backoff.
        cmd_bind (load_roots (ie_command E) (lc_ln_trusted_roots cfg)) (\<lambda>roots.
        cmd_bind (cmd_duration (lc_ln_client_timeout_secs cfg)) (\<lambda>timeout.
        cmd_bind (create_pingora_load_balancer cfg) (\<lambda>(health_check_frequency, update_frequency, lb_parallel).
        let balancer =
          select_balancer (lc_backend_selection cfg) (\<lambda>policy.
            \<lparr>ib_discovery = discovery, ib_partitions = lc_partitions cfg, ib_client_timeout = timeout,
             ib_trusted_roots = roots,
             ib_health = \<lparr>consecutive_success = lc_success_to_healthy cfg, consecutive_failure = lc_failure_to_unhealthy cfg\<rparr>,
             ib_health_check_frequency = health_check_frequency, ib_update_frequency = update_frequency,
             ib_lb_parallel = lb_parallel, ib_backoff = backoff, ib_max_iterations = policy,
             ib_parallel_health_check = lc_parallel_health_check cfg,
             ib_selection_capacity_bias = lc_selection_capacity_bias cfg\<rparr>)
        in cmd_bind (cmd_update (\<lambda>st. ((), st\<lparr>sv_balancer := Some (Some balancer)\<rparr>))) (\<lambda>_.
           cmd_return (Some balancer))))))))))"

definition balancer_get ::
  "'x injection_env \<Rightarrow> config_injector \<Rightarrow> enablement_injector \<Rightarrow> ('x server_state, 'x balancer_delegate option) command" where
  "balancer_get E ci en w =
     (case sv_balancer (cw_remote w) of
        Some b \<Rightarrow> (Inr b, w)
      | None \<Rightarrow> balancer_inject E ci en w)"

text \<open>
  The balancer in action: \<open>base\<close> is the load balancer of pingora with the node clients, for each of
  the three algorithms.
\<close>

definition running_balancer ::
  "('x balancer_delegate \<Rightarrow> ('e, 'p, 'w) ln_balancer) \<Rightarrow> (exponential_builder \<Rightarrow> 'p) \<Rightarrow> 'x balancer_delegate
     \<Rightarrow> ('e, 'p, 'w) ln_balancer" where
  "running_balancer base build d =
     (let b = delegate_balancer d
      in (base d)
           \<lparr>backoff_provider := get_backoff build (ib_backoff b), select_max_iterations := ib_max_iterations b,
            parallel_health_check := ib_parallel_health_check b,
            selection_capacity_bias := ib_selection_capacity_bias b\<rparr>)"

definition delegate_get_invoice where
  "delegate_get_invoice base build d = get_invoice (running_balancer base build d)"

definition delegate_health where
  "delegate_health base build d = balancer_health (running_balancer base build d)"

text \<open>
  The service discovery of the balancer: its provider reads the injected store
  (\<open>PingoraDiscoveryBackendStoreProvider\<close> over the delegate), for the configured partitions.
\<close>

definition delegate_provider :: "'x discovery_delegate \<Rightarrow> 'x server_state \<Rightarrow> u64 option \<Rightarrow> pingora_error + discovery_backends" where
  "delegate_provider d = store_provider (\<lambda>st q. fst (delegate_get_all d q st))"

definition injected_discovery :: "'x injected_balancer \<Rightarrow> ln_discovery" where
  "injected_discovery b = ln_discovery_new (ib_partitions b)"

section \<open>What is injected stays injected\<close>

text \<open>Conditions on the state of the server that a command leaves in force.\<close>

definition preserves :: "('x server_state \<Rightarrow> bool) \<Rightarrow> ('x server_state, 'a) command \<Rightarrow> bool" where
  "preserves P m \<longleftrightarrow> (\<forall>w. P (cw_remote w) \<longrightarrow> P (cw_remote (snd (m w))))"

named_theorems preserves_intros \<open>commands that leave a condition in force\<close>

lemma cmd_bind_ok: "cmd_bind (cmd_result (Inr x)) f = f x"
  by (rule ext) (rule cmd_bind_result)

lemma preservesD:
  fixes w :: "'x server_state cli_world"
  shows "preserves P m \<Longrightarrow> m w = (r, w1) \<Longrightarrow> P (cw_remote w) \<Longrightarrow> P (cw_remote w1)"
  unfolding preserves_def by (metis snd_conv)

lemma preservesI:
  fixes P :: "'x server_state \<Rightarrow> bool"
  shows "(\<And>w r w1. m w = (r, w1) \<Longrightarrow> P (cw_remote w) \<Longrightarrow> P (cw_remote w1)) \<Longrightarrow> preserves P m"
  unfolding preserves_def by (metis prod.collapse)

lemma preserves_quiet: "quiet m \<Longrightarrow> preserves P m"
  by (simp add: preserves_def quiet_def)

lemma preserves_bind [preserves_intros]:
  fixes P :: "'x server_state \<Rightarrow> bool"
  assumes "preserves P m" and "\<And>x. preserves P (f x)"
  shows "preserves P (cmd_bind m f)"
  unfolding preserves_def
proof (intro allI impI)
  fix w :: "'x server_state cli_world" assume b: "P (cw_remote w)"
  obtain r w1 where m: "m w = (r, w1)" by fastforce
  then have "P (cw_remote w1)" by (rule preservesD [OF assms(1) _ b])
  with m assms(2) show "P (cw_remote (snd (cmd_bind m f w)))"
    by (cases r) (simp_all add: cmd_bind_def preserves_def)
qed

lemma preserves_context [preserves_intros]: "preserves P m \<Longrightarrow> preserves P (cmd_context ctx m)"
  by (simp add: preserves_def)

lemma preserves_outside [preserves_intros]:
  "(\<And>st x. P st \<Longrightarrow> P (st\<lparr>sv_outside := x\<rparr>)) \<Longrightarrow> preserves P (cmd_call cause (at_outside f))"
  by (simp add: preserves_def cmd_call_def at_outside_def split: prod.splits)

lemma preserves_update [preserves_intros]:
  "(\<And>st. P st \<Longrightarrow> P (snd (f st))) \<Longrightarrow> preserves P (cmd_update f)"
  by (simp add: preserves_def cmd_update_def case_prod_beta)

lemma quiet_load [quiet_intros]:
  "quiet (load_roots C rts)" "quiet (cmd_duration x)" "quiet (cmd_duration_option y)"
  "quiet (cmd_io (fs_read S p))" "quiet (authorization_token E what path)" "quiet (build_backoff builder cfg)"
  "quiet (create_pingora_load_balancer lc)"
proof -
  have roots: "quiet (load_roots C path)" for C :: "'s command_env" and path by (simp add: quiet_def)
  have read: "quiet (cmd_io (fs_read S p))" for S :: "'s cli_sys" and p by (simp add: quiet_def)
  have duration: "quiet (cmd_duration x)" for x by (simp add: cmd_duration_def quiet_intros split: option.split)
  have option: "quiet (cmd_duration_option y)" for y
    unfolding cmd_duration_option_def by (cases y) (auto intro!: quiet_intros duration)
  show "quiet (load_roots C rts)" "quiet (cmd_duration x)" "quiet (cmd_duration_option y)" "quiet (cmd_io (fs_read S p))"
    by (fact roots duration option read)+
  show "quiet (authorization_token E what path)"
    unfolding authorization_token_def by (intro quiet_intros) (simp add: quiet_def)
  show "quiet (build_backoff builder cfg)"
    unfolding build_backoff_def by (cases cfg) (auto intro!: quiet_intros option)
  show "quiet (create_pingora_load_balancer lc)"
    unfolding create_pingora_load_balancer_def by (intro quiet_intros duration)
qed

lemmas preserves_basic [preserves_intros] = quiet_basic [THEN preserves_quiet] quiet_load [THEN preserves_quiet]

lemma preserves_build:
  assumes "\<And>st x. P st \<Longrightarrow> P (st\<lparr>sv_outside := x\<rparr>)"
  shows "(\<And>st ss. P st \<Longrightarrow> P (st\<lparr>sv_discovery_stores := ss\<rparr>)) \<Longrightarrow> preserves P (build_discovery_store E secrets dcfg)"
    and "(\<And>st ss. P st \<Longrightarrow> P (st\<lparr>sv_offer_stores := ss\<rparr>)) \<Longrightarrow> preserves P (build_offer_store E secrets ocfg)"
  by (cases dcfg; simp only: build_discovery_store.simps; intro preserves_intros assms; simp add: new_discovery_store_def assms)
    (cases ocfg; simp only: build_offer_store.simps; intro preserves_intros assms; simp add: new_offer_store_def assms)

text \<open>The injectors fill their own cell and keep the others; \<open>get\<close> keeps its own too.\<close>

lemma inject_preserves:
  "preserves (\<lambda>st. sv_offer st = v) (discovery_store_inject E ci)" "preserves (\<lambda>st. sv_balancer st = b) (discovery_store_inject E ci)"
  "preserves (\<lambda>st. sv_discovery st = d) (offer_store_inject E ci)" "preserves (\<lambda>st. sv_balancer st = b) (offer_store_inject E ci)"
  unfolding discovery_store_inject_def offer_store_inject_def
  by (intro preserves_intros preserves_build; simp)+

lemma preserves_cached:
  "preserves P m \<Longrightarrow> preserves P (\<lambda>w. case cell (cw_remote w) of Some b \<Rightarrow> (Inr b, w) | None \<Rightarrow> m w)"
  "preserves (\<lambda>st. cell st = Some c) (\<lambda>w. case cell (cw_remote w) of Some b \<Rightarrow> (Inr b, w) | None \<Rightarrow> m w)"
  by (simp_all add: preserves_def split: option.split)

lemmas cached_defs = discovery_store_get_def [abs_def] offer_store_get_def [abs_def] balancer_get_def [abs_def]

lemma store_get_preserves [preserves_intros]:
  "preserves (\<lambda>st. sv_discovery st = Some d) (discovery_store_get E ci)" "preserves (\<lambda>st. sv_offer st = v) (discovery_store_get E ci)"
  "preserves (\<lambda>st. sv_balancer st = b) (discovery_store_get E ci)" "preserves (\<lambda>st. sv_discovery st = e) (offer_store_get E ci)"
  "preserves (\<lambda>st. sv_offer st = Some c) (offer_store_get E ci)" "preserves (\<lambda>st. sv_balancer st = b) (offer_store_get E ci)"
  unfolding cached_defs by (intro preserves_cached inject_preserves)+

lemma balancer_get_preserves [preserves_intros]:
  "preserves (\<lambda>st. sv_discovery st = Some d) (balancer_get E ci en)" "preserves (\<lambda>st. sv_offer st = v) (balancer_get E ci en)"
  "preserves (\<lambda>st. sv_balancer st = Some b) (balancer_get E ci en)"
proof -
  have inject: "preserves P (balancer_inject E ci en)"
    if "preserves P (discovery_store_get E ci)" "\<And>st x. P st \<Longrightarrow> P (st\<lparr>sv_balancer := x\<rparr>)" for P
    unfolding balancer_inject_def Let_def using that
    by (auto split del: if_split split: prod.split if_split intro!: preserves_intros)
  note get = balancer_get_def [abs_def]
  show "preserves (\<lambda>st. sv_discovery st = Some d) (balancer_get E ci en)"
    unfolding get by (rule preserves_cached(1)) (rule inject [OF store_get_preserves(1)], simp)
  show "preserves (\<lambda>st. sv_offer st = v) (balancer_get E ci en)"
    unfolding get by (rule preserves_cached(1)) (rule inject [OF store_get_preserves(2)], simp)
  show "preserves (\<lambda>st. sv_balancer st = Some b) (balancer_get E ci en)"
    unfolding get by (rule preserves_cached(2))
qed

text \<open>What an injector hands out is what its cell holds.\<close>

lemma discovery_store_get_cell:
  assumes "discovery_store_get E ci w = (Inr s, w1)"
  shows "sv_discovery (cw_remote w1) = Some s"
proof (cases "sv_discovery (cw_remote w)")
  case None
  with assms have "discovery_store_inject E ci w = (Inr s, w1)" by (simp add: discovery_store_get_def)
  then show ?thesis
    unfolding discovery_store_inject_def
    by (elim cmd_bind_Inr) (auto simp: cmd_update_def cmd_return_def)
qed (use assms in \<open>simp add: discovery_store_get_def\<close>)

lemma offer_store_get_cell:
  assumes "offer_store_get E ci w = (Inr s, w1)"
  shows "sv_offer (cw_remote w1) = Some s"
proof (cases "sv_offer (cw_remote w)")
  case None
  with assms have "offer_store_inject E ci w = (Inr s, w1)" by (simp add: offer_store_get_def)
  then show ?thesis
    unfolding offer_store_inject_def
    by (elim cmd_bind_Inr) (auto simp: cmd_update_def cmd_return_def)
qed (use assms in \<open>simp add: offer_store_get_def\<close>)

lemma balancer_get_cell:
  assumes "balancer_get E ci en w = (Inr s, w1)"
  shows "sv_balancer (cw_remote w1) = Some s"
proof (cases "sv_balancer (cw_remote w)")
  case None
  with assms have "balancer_inject E ci en w = (Inr s, w1)" by (simp add: balancer_get_def)
  then show ?thesis
    unfolding balancer_inject_def Let_def
    by (auto simp: cmd_update_def split: if_splits elim!: cmd_bind_Inr) (auto simp: cmd_return_def)
qed (use assms in \<open>simp add: balancer_get_def\<close>)

section \<open>The balancer reads the store of the server\<close>

text \<open>What of its configuration a balancer takes over.\<close>

definition unlimited_backoff :: "backoff_delegate \<Rightarrow> bool" where
  "unlimited_backoff d \<longleftrightarrow> (\<exists>b. d = BackoffDelegateExponential b \<and> eb_max_elapsed_time b = None)"

definition omits_limit :: "backoff_config \<Rightarrow> bool" where
  "omits_limit cfg \<longleftrightarrow> (\<exists>i f m x. cfg = BackoffExponential i f m x None)"

definition configured_by :: "lnurl_service_config \<Rightarrow> 'x injected_balancer \<Rightarrow> bool" where
  "configured_by cfg b \<longleftrightarrow>
     ib_partitions b = lc_partitions cfg \<and> ib_selection_capacity_bias b = lc_selection_capacity_bias cfg
     \<and> (omits_limit (lc_backoff cfg) \<longrightarrow> unlimited_backoff (ib_backoff b))"

definition wired_cells :: "config_injector \<Rightarrow> 'x server_state \<Rightarrow> bool" where
  "wired_cells ci st \<longleftrightarrow>
     (\<forall>b. sv_balancer st = Some (Some b) \<longrightarrow>
        sv_discovery st = Some (Some (ib_discovery (delegate_balancer b)))
        \<and> (\<exists>cfg. sc_lnurl_service (ci_config ci) = Some cfg \<and> configured_by cfg (delegate_balancer b)))"

text \<open>What holds after a command: \<open>Q\<close> of its value, \<open>R\<close> where it failed.\<close>

definition yields ::
  "('x server_state \<Rightarrow> bool) \<Rightarrow> ('x server_state, 'a) command \<Rightarrow> ('a \<Rightarrow> 'x server_state \<Rightarrow> bool) \<Rightarrow> ('x server_state \<Rightarrow> bool) \<Rightarrow> bool" where
  "yields P m Q R \<longleftrightarrow>
     (\<forall>w. P (cw_remote w) \<longrightarrow>
        (case fst (m w) of Inr x \<Rightarrow> Q x (cw_remote (snd (m w))) | Inl _ \<Rightarrow> R (cw_remote (snd (m w)))))"

lemma yieldsI:
  fixes P :: "'x server_state \<Rightarrow> bool"
  assumes "\<And>w x w1. m w = (Inr x, w1) \<Longrightarrow> P (cw_remote w) \<Longrightarrow> Q x (cw_remote w1)"
    and "\<And>w e w1. m w = (Inl e, w1) \<Longrightarrow> P (cw_remote w) \<Longrightarrow> R (cw_remote w1)"
  shows "yields P m Q R"
  unfolding yields_def
proof (intro allI impI)
  fix w :: "'x server_state cli_world" assume w: "P (cw_remote w)"
  obtain r w1 where m: "m w = (r, w1)" by fastforce
  with assms [of w _ w1] w
  show "case fst (m w) of Inr x \<Rightarrow> Q x (cw_remote (snd (m w))) | Inl _ \<Rightarrow> R (cw_remote (snd (m w)))"
    by (cases r) simp_all
qed

lemma yieldsD:
  fixes P :: "'x server_state \<Rightarrow> bool"
  assumes "yields P m Q R" and "P (cw_remote w)"
  shows "m w = (Inr x, w1) \<Longrightarrow> Q x (cw_remote w1)" and "m w = (Inl e, w1) \<Longrightarrow> R (cw_remote w1)"
proof -
  have "case fst (m w) of Inr x \<Rightarrow> Q x (cw_remote (snd (m w))) | Inl _ \<Rightarrow> R (cw_remote (snd (m w)))"
    using assms unfolding yields_def by blast
  then show "m w = (Inr x, w1) \<Longrightarrow> Q x (cw_remote w1)" and "m w = (Inl e, w1) \<Longrightarrow> R (cw_remote w1)"
    by simp_all
qed

lemma yields_bind:
  assumes "yields P m Q R" and "\<And>x. yields (Q x) (f x) Q' R"
  shows "yields P (cmd_bind m f) Q' R"
proof (rule yieldsI)
  fix w y w2 assume run: "cmd_bind m f w = (Inr y, w2)" and w: "P (cw_remote w)"
  from run obtain x w1 where m: "m w = (Inr x, w1)" "f x w1 = (Inr y, w2)" by (rule cmd_bind_Inr)
  show "Q' y (cw_remote w2)"
    by (rule yieldsD(1) [OF assms(2) yieldsD(1) [OF assms(1) w m(1)] m(2)])
next
  fix w e w2 assume run: "cmd_bind m f w = (Inl e, w2)" and w: "P (cw_remote w)"
  show "R (cw_remote w2)"
  proof (cases "fst (m w)")
    case (Inl e')
    with run have "m w = (Inl e', w2)" by (cases "m w") (simp add: cmd_bind_def)
    then show ?thesis by (rule yieldsD(2) [OF assms(1) w])
  next
    case (Inr x)
    with run obtain w1 where m: "m w = (Inr x, w1)" "f x w1 = (Inl e, w2)" by (cases "m w") (simp add: cmd_bind_def)
    show ?thesis by (rule yieldsD(2) [OF assms(2) yieldsD(1) [OF assms(1) w m(1)] m(2)])
  qed
qed

lemma yields_preserves:
  assumes "preserves P m" and "\<And>st. P st \<Longrightarrow> R st"
  shows "yields P m (\<lambda>_. P) R"
  by (rule yieldsI) (auto intro: preservesD [OF assms(1)] assms(2))

lemma store_gets_wired [preserves_intros]:
  "preserves (wired_cells ci) (discovery_store_get E ci)" "preserves (wired_cells ci) (offer_store_get E ci)"
proof -
  show "preserves (wired_cells ci) (discovery_store_get E ci)"
  proof (rule preservesI)
    fix w r w1 assume run: "discovery_store_get E ci w = (r, w1)" and w: "wired_cells ci (cw_remote w)"
    have "sv_balancer (cw_remote w1) = sv_balancer (cw_remote w)"
      by (rule preservesD [OF store_get_preserves(3) run]) simp
    moreover have "sv_discovery (cw_remote w1) = Some d" if "sv_discovery (cw_remote w) = Some d" for d
      by (rule preservesD [OF store_get_preserves(1) run]) (rule that)
    ultimately show "wired_cells ci (cw_remote w1)" using w by (simp add: wired_cells_def)
  qed
  show "preserves (wired_cells ci) (offer_store_get E ci)"
  proof (rule preservesI)
    fix w r w1 assume run: "offer_store_get E ci w = (r, w1)" and w: "wired_cells ci (cw_remote w)"
    have "sv_balancer (cw_remote w1) = sv_balancer (cw_remote w)"
      by (rule preservesD [OF store_get_preserves(6) run]) simp
    moreover have "sv_discovery (cw_remote w1) = sv_discovery (cw_remote w)"
      by (rule preservesD [OF store_get_preserves(4) run]) simp
    ultimately show "wired_cells ci (cw_remote w1)" using w by (simp add: wired_cells_def)
  qed
qed

lemma select_balancer_parts [simp]:
  "\<exists>p. delegate_balancer (select_balancer sel mk) = mk p"
  by (cases sel) (auto simp: select_balancer_def)

lemma build_backoff_unlimited:
  assumes "build_backoff builder cfg w = (Inr bo, w1)" and "omits_limit cfg"
  shows "unlimited_backoff bo"
proof -
  obtain i f m x where cfg: "cfg = BackoffExponential i f m x None"
    using assms(2) by (auto simp: omits_limit_def)
  show ?thesis
    using assms(1) unfolding build_backoff_def cfg
    by (auto simp: unlimited_backoff_def cmd_duration_option_def cmd_return_def elim!: cmd_bind_Inr)
qed

lemma balancer_inject_wired:
  "yields (\<lambda>st. sv_balancer st = None) (balancer_inject E ci en) (\<lambda>_. wired_cells ci) (wired_cells ci)"
proof -
  have none: "wired_cells ci st" if "sv_balancer st = None" for st :: "'a server_state"
    using that by (simp add: wired_cells_def)
  let ?Q = "\<lambda>d (st :: 'a server_state). sv_balancer st = None \<and> sv_discovery st = Some (Some d)"
  have get: "yields (\<lambda>st. sv_balancer st = None) (discovery_store_get E ci)
      (\<lambda>s st. sv_balancer st = None \<and> sv_discovery st = Some s) (wired_cells ci)"
  proof (rule yieldsI)
    fix w s w1 assume run: "discovery_store_get E ci w = (Inr s, w1)" and w: "sv_balancer (cw_remote w) = None"
    have "sv_balancer (cw_remote w1) = None" by (rule preservesD [OF store_get_preserves(3) run]) (rule w)
    with discovery_store_get_cell [OF run] show "sv_balancer (cw_remote w1) = None \<and> sv_discovery (cw_remote w1) = Some s" by simp
  next
    fix w e w1 assume run: "discovery_store_get E ci w = (Inl e, w1)" and w: "sv_balancer (cw_remote w) = None"
    show "wired_cells ci (cw_remote w1)"
      by (rule none) (rule preservesD [OF store_get_preserves(3) run], rule w)
  qed
  have found: "yields (\<lambda>st. sv_balancer st = None \<and> sv_discovery st = Some s) (cmd_result (ok_or e s)) ?Q (wired_cells ci)" for s e
    by (cases s) (auto simp: yields_def cmd_result_def wired_cells_def)
  have quiet: "yields (\<lambda>st. B \<and> ?Q d st) m (\<lambda>_ st. B \<and> ?Q d st) (wired_cells ci)" if "quiet m" for B d m
    by (rule yields_preserves [OF preserves_quiet [OF that]]) (simp add: wired_cells_def)
  have backoff: "yields (?Q d) (build_backoff builder cfg)
      (\<lambda>bo st. (omits_limit cfg \<longrightarrow> unlimited_backoff bo) \<and> ?Q d st) (wired_cells ci)" for d builder cfg
  proof (rule yieldsI)
    fix w :: "'a server_state cli_world" and bo w1 assume run: "build_backoff builder cfg w = (Inr bo, w1)" and w: "?Q d (cw_remote w)"
    have "?Q d (cw_remote w1)" by (rule preservesD [OF preserves_quiet [OF quiet_load(6)] run]) (rule w)
    with build_backoff_unlimited [OF run]
    show "(omits_limit cfg \<longrightarrow> unlimited_backoff bo) \<and> ?Q d (cw_remote w1)" by simp
  next
    fix w :: "'a server_state cli_world" and e w1 assume run: "build_backoff builder cfg w = (Inl e, w1)" and w: "?Q d (cw_remote w)"
    have "?Q d (cw_remote w1)" by (rule preservesD [OF preserves_quiet [OF quiet_load(6)] run]) (rule w)
    then show "wired_cells ci (cw_remote w1)" by (simp add: none)
  qed
  have last: "yields (\<lambda>st. (omits_limit (lc_backoff cfg) \<longrightarrow> unlimited_backoff bo) \<and> ?Q d st)
      (cmd_bind (cmd_update (\<lambda>st. ((), st\<lparr>sv_balancer := Some (Some b)\<rparr>))) (\<lambda>_. cmd_return (Some b)))
      (\<lambda>_. wired_cells ci) (wired_cells ci)"
    if "sc_lnurl_service (ci_config ci) = Some cfg" "ib_discovery (delegate_balancer b) = d"
      "ib_partitions (delegate_balancer b) = lc_partitions cfg"
      "ib_selection_capacity_bias (delegate_balancer b) = lc_selection_capacity_bias cfg"
      "ib_backoff (delegate_balancer b) = bo" for d b cfg bo
    using that by (simp add: yields_def cmd_bind_def cmd_update_def cmd_return_def wired_cells_def configured_by_def)
  show ?thesis
  proof (cases "lnurl_enabled en")
    case False
    then show ?thesis by (simp add: balancer_inject_def yields_def cmd_update_def wired_cells_def)
  next
    case True
    show ?thesis
    proof (cases "sc_lnurl_service (ci_config ci)")
      case None
      with True show ?thesis
        by (auto simp: balancer_inject_def yields_def cmd_bind_def cmd_result_def wired_cells_def)
    next
      case (Some cfg)
      show ?thesis
        unfolding balancer_inject_def Let_def if_not_P [OF not_not [THEN iffD2, OF True]] Some ok_or.simps cmd_bind_ok
        apply (rule yields_bind [OF get])
        apply (rule yields_bind [OF found])
        apply (rule yields_bind [OF backoff])
        apply (rule yields_bind [OF quiet], rule quiet_load)
        apply (rule yields_bind [OF quiet], rule quiet_load)
        apply (rule yields_bind [OF quiet], rule quiet_load)
        apply (auto split: prod.split intro!: last simp: select_balancer_def Some split: backend_selection_config.split)
        done
    qed
  qed
qed

lemma balancer_get_wired [preserves_intros]: "preserves (wired_cells ci) (balancer_get E ci en)"
proof (rule preservesI)
  fix w r w1 assume run: "balancer_get E ci en w = (r, w1)" and w: "wired_cells ci (cw_remote w)"
  show "wired_cells ci (cw_remote w1)"
  proof (cases "sv_balancer (cw_remote w)")
    case None
    with run have "balancer_inject E ci en w = (r, w1)" by (simp add: balancer_get_def)
    then show ?thesis
      using yieldsD [OF balancer_inject_wired [of E ci en] None] by (cases r) auto
  qed (use w run in \<open>simp add: balancer_get_def\<close>)
qed

text \<open>A store in memory that an injector hands out exists, and is empty until it is served.\<close>

definition fresh_stores :: "'x server_state \<Rightarrow> bool" where
  "fresh_stores st \<longleftrightarrow>
     (\<forall>s \<in> set (sv_discovery_stores st). s = mem_discovery_new)
     \<and> (\<forall>h. sv_discovery st = Some (Some (MemoryDiscovery h)) \<longrightarrow> h < length (sv_discovery_stores st))"

lemma preserves_yields: "yields P m (\<lambda>_. P) P \<Longrightarrow> preserves P m"
  by (auto simp: yields_def preserves_def split: sum.splits)

lemma yields_update:
  "(\<And>st. P st \<Longrightarrow> Q (fst (f st)) (snd (f st))) \<Longrightarrow> yields P (cmd_update f) Q R"
  by (simp add: yields_def cmd_update_def case_prod_beta)

lemma yields_return: "(\<And>st. P st \<Longrightarrow> Q x st) \<Longrightarrow> yields P (cmd_return x) Q R"
  by (simp add: yields_def cmd_return_def)

lemma yields_quiet: "quiet m \<Longrightarrow> (\<And>st. P st \<Longrightarrow> R st) \<Longrightarrow> yields P m (\<lambda>_. P) R"
  by (rule yields_preserves [OF preserves_quiet])

lemma build_discovery_fresh:
  "yields fresh_stores (build_discovery_store E secrets cfg)
     (\<lambda>d st. fresh_stores st \<and> (\<forall>h. d = MemoryDiscovery h \<longrightarrow> h < length (sv_discovery_stores st))) fresh_stores"
proof (cases cfg)
  case (DiscoveryStoreDatabase uri n)
  have outside: "yields fresh_stores (cmd_call cause (at_outside f)) (\<lambda>_. fresh_stores) fresh_stores" for cause f
    by (rule yields_preserves [OF preserves_outside]) (simp_all add: fresh_stores_def)
  show ?thesis
    unfolding DiscoveryStoreDatabase build_discovery_store.simps
    by (intro yields_bind [OF yields_quiet [OF quiet_basic(2)]] yields_bind [OF outside] yields_return) simp_all
next
  case DiscoveryStoreMemory
  have "fresh_stores (st\<lparr>sv_discovery_stores := sv_discovery_stores st @ [mem_discovery_new]\<rparr>)" if "fresh_stores st" for st :: "'a server_state"
    using that by (auto simp: fresh_stores_def)
  then show ?thesis
    unfolding DiscoveryStoreMemory build_discovery_store.simps
    by (intro yields_update) (simp add: new_discovery_store_def)
next
  case (DiscoveryStoreHttp b ct tt rts auth)
  note quiet = yields_quiet [where P = fresh_stores and R = fresh_stores]
  show ?thesis
    unfolding DiscoveryStoreHttp build_discovery_store.simps
    by (intro yields_bind [OF quiet] yields_return quiet_intros) simp_all
qed

lemma discovery_store_get_fresh [preserves_intros]: "preserves fresh_stores (discovery_store_get E ci)"
proof -
  have "preserves fresh_stores (discovery_store_inject E ci)"
    unfolding discovery_store_inject_def
    by (intro preserves_yields yields_bind [OF yields_quiet [OF quiet_basic(2)]] yields_bind [OF build_discovery_fresh]
        yields_bind [OF yields_update [where Q = "\<lambda>_. fresh_stores"]] yields_return) (auto simp: fresh_stores_def)
  then show ?thesis unfolding cached_defs by (rule preserves_cached)
qed

lemma offer_store_get_fresh [preserves_intros]: "preserves fresh_stores (offer_store_get E ci)"
proof -
  have "preserves fresh_stores (offer_store_inject E ci)"
    unfolding offer_store_inject_def
    by (intro preserves_intros preserves_build) (simp_all add: fresh_stores_def)
  then show ?thesis unfolding cached_defs by (rule preserves_cached)
qed

lemma balancer_get_fresh [preserves_intros]: "preserves fresh_stores (balancer_get E ci en)"
proof -
  have "preserves fresh_stores (balancer_inject E ci en)"
    unfolding balancer_inject_def Let_def
    by (auto simp: fresh_stores_def split del: if_split split: prod.split if_split intro!: preserves_intros)
  then show ?thesis unfolding cached_defs by (rule preserves_cached)
qed

section \<open>A server over a store in memory\<close>

fun delegate_run :: "'x discovery_delegate \<Rightarrow> datetime \<times> discovery_op \<Rightarrow> 'x server_state \<Rightarrow> 'x server_state" where
  "delegate_run d (now, DPost b) st = snd (delegate_post d now b st)"
| "delegate_run d (now, DPut b) st = snd (delegate_put d now b st)"
| "delegate_run d (now, DPatch p) st = snd (delegate_patch d now p st)"
| "delegate_run d (now, DDelete k) st = snd (delegate_delete d k st)"

text \<open>
  What happens while the server runs: operations that reach the store through the delegate of a
  service, and refreshes of the balancer through its own delegate.
\<close>

record ('x, 'p) served_world =
  sw_server :: "'x server_state"
  sw_discovery :: ln_discovery
  sw_pool :: 'p

fun served_turn ::
  "(u8 list \<Rightarrow> u64) \<Rightarrow> (128 word \<times> usize \<Rightarrow> u64)
     \<Rightarrow> (ln_backend \<Rightarrow> discovery_backend \<Rightarrow> 'p \<Rightarrow> ('e + unit) \<times> 'p) \<Rightarrow> 'x discovery_delegate \<Rightarrow> 'x discovery_delegate
     \<Rightarrow> discovery_event \<Rightarrow> ('x, 'p) served_world \<Rightarrow> ('x, 'p) served_world" where
  "served_turn hk hb connect service balancer (StoreOp now x) w =
     w\<lparr>sw_server := delegate_run service (now, x) (sw_server w)\<rparr>"
| "served_turn hk hb connect service balancer Refresh w =
     (case discover hk hb connect (delegate_provider balancer (sw_server w)) (sw_discovery w) (sw_pool w) of
        (r, sd', pool') \<Rightarrow> w\<lparr>sw_discovery := sd', sw_pool := pool'\<rparr>)"

text \<open>Over one store in memory it is the life of the service discovery over that store.\<close>

definition memory_view :: "nat \<Rightarrow> ('x, 'p) served_world \<Rightarrow> 'p discovery_world" where
  "memory_view h w =
     \<lparr>dw_store = sv_discovery_stores (sw_server w) ! h, dw_discovery = sw_discovery w, dw_pool = sw_pool w\<rparr>"

lemma delegate_memory:
  "delegate_run (MemoryDiscovery h) (now, x) st =
     st\<lparr>sv_discovery_stores := (sv_discovery_stores st)[h := mem_run (now, x) (sv_discovery_stores st ! h)]\<rparr>"
  "delegate_provider (MemoryDiscovery h) st = store_provider mem_get_all (sv_discovery_stores st ! h)"
  "fst (delegate_get (MemoryDiscovery h) k st) = mem_get (sv_discovery_stores st ! h) k"
  by (cases x) (simp_all add: delegate_post_def delegate_put_def delegate_patch_def delegate_delete_def delegate_get_def
      delegate_get_all_def delegate_provider_def store_provider_def reading_def at_discovery_def case_prod_beta fun_eq_iff)

lemma memory_view_turn:
  assumes "h < length (sv_discovery_stores (sw_server w))"
  shows "memory_view h (served_turn hk hb connect (MemoryDiscovery h) (MemoryDiscovery h) e w)
      = discovery_turn hk hb connect e (memory_view h w)"
    and "length (sv_discovery_stores (sw_server (served_turn hk hb connect (MemoryDiscovery h) (MemoryDiscovery h) e w)))
      = length (sv_discovery_stores (sw_server w))"
  using assms by (cases e; simp add: memory_view_def delegate_memory split: prod.split)+

lemma memory_view_run:
  "h < length (sv_discovery_stores (sw_server w)) \<Longrightarrow>
     memory_view h (fold (served_turn hk hb connect (MemoryDiscovery h) (MemoryDiscovery h)) xs w)
       = fold (discovery_turn hk hb connect) xs (memory_view h w)
     \<and> h < length (sv_discovery_stores (sw_server (fold (served_turn hk hb connect (MemoryDiscovery h) (MemoryDiscovery h)) xs w)))"
proof (induction xs arbitrary: w)
  case (Cons x xs)
  then show ?case using memory_view_turn [OF Cons.prems, of hk hb connect x] by simp
qed simp

text \<open>What a refresh leaves is what the store answers, whatever happened before.\<close>

lemma served_refresh_current:
  assumes "connects connect good" and "length xs < 2 ^ 64"
    and "fresh_stores st" and "sv_discovery st = Some (Some (MemoryDiscovery h))"
    and v: "v = fold (served_turn hk hb connect (MemoryDiscovery h) (MemoryDiscovery h)) xs
        \<lparr>sw_server = st, sw_discovery = ln_discovery_new served, sw_pool = pool\<rparr>"
  shows "lb_key ` set (ld_cache (sw_discovery (served_turn hk hb connect (MemoryDiscovery h) (MemoryDiscovery h) Refresh v)))
    = eligible_keys hk good served (\<lambda>k. projr (fst (delegate_get (MemoryDiscovery h) k (sw_server v))))"
proof -
  let ?w = "\<lparr>sw_server = st, sw_discovery = ln_discovery_new served, sw_pool = pool\<rparr>"
  have h: "h < length (sv_discovery_stores st)" using assms(3,4) by (simp add: fresh_stores_def)
  then have "sv_discovery_stores st ! h = mem_discovery_new" using assms(3) by (simp add: fresh_stores_def)
  then have new: "memory_view h ?w = discovery_world_new served pool"
    by (simp add: memory_view_def discovery_world_new_def)
  have "h < length (sv_discovery_stores (sw_server ?w))" using h by simp
  note run = memory_view_run [OF this, of hk hb connect xs, folded v]
  have synced: "discovery_synced hk good served (length xs) (memory_view h v)"
    using discovery_synced_run [OF assms(1) discovery_synced_new [of hk good served pool], of xs hb] run new assms(2) by simp
  have "sw_discovery (served_turn hk hb connect (MemoryDiscovery h) (MemoryDiscovery h) Refresh v)
      = dw_discovery (discovery_turn hk hb connect Refresh (memory_view h v))"
    using memory_view_turn(1) [of h v hk hb connect Refresh] run by (metis discovery_world.select_convs(2) memory_view_def)
  moreover have "(\<lambda>k. projr (fst (delegate_get (MemoryDiscovery h) k (sw_server v)))) = mem_content (dw_store (memory_view h v))"
    by (simp add: delegate_memory memory_view_def mem_get_def mem_content_def fun_eq_iff)
  ultimately show ?thesis
    using discovery_refresh_current(1) [OF assms(1) synced assms(2), of hb] by simp
qed

end
