(* ===== verification/TokenCommands.thy ===== *)
theory TokenCommands
  imports CommandIo
begin

text \<open>
  \<open>server/src/commands/token.rs\<close>, \<open>discovery/token.rs\<close>, \<open>offer/token.rs\<close>: key pairs, tokens for
  the two services and their verification. The two services differ in the audience of their tokens.
  PEM parsing, signing and verification of a token are arguments (\<open>token_env\<close>); so is what a command
  draws and what its clock shows, in seconds from the epoch (\<open>None\<close> before the epoch).
\<close>

record ('s, 'sk, 'ek, 'dk) token_env =
  te_env :: "'s command_env"
  te_public_pem :: "'sk \<Rightarrow> string + string"
  te_private_pem :: "'sk \<Rightarrow> string + string"
  te_encoding_key :: "string \<Rightarrow> string + 'ek"
  te_decoding_key :: "string \<Rightarrow> string + 'dk"
  te_encode :: "claims \<Rightarrow> 'ek \<Rightarrow> string + string"
  te_decode :: "u64 \<Rightarrow> 'dk \<Rightarrow> string \<Rightarrow> string \<Rightarrow> string + claims"  \<comment> \<open>at a time, for an audience\<close>

section \<open>Claims\<close>

definition token_claims :: "string \<Rightarrow> u64 option \<Rightarrow> u64 \<Rightarrow> anyhow + claims" where
  "token_claims aud clock lifetime =
     map_ok (\<lambda>now. \<lparr>claim_aud = aud, claim_exp = unat (now + lifetime)\<rparr>)
       (ok_or ([], CliMessage ''system clock has invalid time'') clock)"

definition claims_to_json :: "claims \<Rightarrow> json_error + json" where
  "claims_to_json c = Inr (JObj [(''aud'', JStr (claim_aud c)), (''exp'', JNum (int (claim_exp c)))])"

section \<open>Keys and tokens\<close>

definition ecdsa_prime256v1_pkcs8_pem_keypair ::
  "('s, 'sk, 'ek, 'dk) token_env \<Rightarrow> 'sk \<Rightarrow> anyhow + string \<times> string" where
  "ecdsa_prime256v1_pkcs8_pem_keypair E sk =
     map_err foreign
       (and_then (te_public_pem E sk) (\<lambda>public_text.
        map_ok (Pair public_text) (te_private_pem E sk)))"

definition key_pair_io ::
  "('s, 'sk, 'ek, 'dk) token_env \<Rightarrow> string \<Rightarrow> string \<Rightarrow> string \<Rightarrow> string \<Rightarrow> ('s, unit) command" where
  "key_pair_io E public_text private_text public private =
     cmd_bind (cmd_context (''writing public key to: '' @ public)
       (cmd_io (fs_write (ce_sys (te_env E)) public public_text))) (\<lambda>_.
     cmd_context (''writing private key to: '' @ private)
       (cmd_io (fs_write (ce_sys (te_env E)) private private_text)))"

definition key_command :: "('s, 'sk, 'ek, 'dk) token_env \<Rightarrow> 'sk \<Rightarrow> string \<Rightarrow> string \<Rightarrow> ('s, unit) command" where
  "key_command E sk public private =
     cmd_bind (cmd_result (ecdsa_prime256v1_pkcs8_pem_keypair E sk)) (\<lambda>(public_text, private_text).
     key_pair_io E public_text private_text public private)"

definition mint :: "('s, 'sk, 'ek, 'dk) token_env \<Rightarrow> string \<Rightarrow> string option \<Rightarrow> claims \<Rightarrow> ('s, unit) command" where
  "mint E key_path output claims =
     cmd_bind (cmd_context (''reading private key: '' @ key_path)
       (cmd_io (fs_read (ce_sys (te_env E)) key_path))) (\<lambda>pem.
     cmd_bind (cmd_context (''parsing private key: '' @ key_path)
       (cmd_result (map_err foreign (te_encoding_key E pem)))) (\<lambda>ek.
     cmd_bind (cmd_context (''encoding token with private key: '' @ key_path)
       (cmd_result (map_err foreign (te_encode E claims ek)))) (\<lambda>token.
     write_output (te_env E) ''token'' output token)))"

definition mint_for ::
  "('s, 'sk, 'ek, 'dk) token_env \<Rightarrow> string \<Rightarrow> u64 option \<Rightarrow> string \<Rightarrow> u64 \<Rightarrow> string option \<Rightarrow> ('s, unit) command" where
  "mint_for E aud clock key_path lifetime output =
     cmd_bind (cmd_result (token_claims aud clock lifetime)) (mint E key_path output)"

definition mint_all_for ::
  "('s, 'sk, 'ek, 'dk) token_env \<Rightarrow> string \<Rightarrow> u64 option \<Rightarrow> 'sk \<Rightarrow> string \<Rightarrow> string \<Rightarrow> u64 \<Rightarrow> string option
     \<Rightarrow> ('s, unit) command" where
  "mint_all_for E aud clock sk public private lifetime output =
     cmd_bind (cmd_result (ecdsa_prime256v1_pkcs8_pem_keypair E sk)) (\<lambda>(public_text, private_text).
     cmd_bind (cmd_result (map_err foreign (te_encoding_key E private_text))) (\<lambda>ek.
     cmd_bind (cmd_result (token_claims aud clock lifetime)) (\<lambda>claims.
     cmd_bind (cmd_result (map_err foreign (te_encode E claims ek))) (\<lambda>token.
     cmd_bind (key_pair_io E public_text private_text public private) (\<lambda>_.
     write_output (te_env E) ''token'' output token)))))"

definition verify_for ::
  "('s, 'sk, 'ek, 'dk) token_env \<Rightarrow> string \<Rightarrow> u64 \<Rightarrow> string \<Rightarrow> string option \<Rightarrow> string option \<Rightarrow> ('s, unit) command" where
  "verify_for E aud now public token_path output =
     cmd_bind (cmd_context (''reading public key: '' @ public)
       (cmd_io (fs_read (ce_sys (te_env E)) public))) (\<lambda>pem.
     cmd_bind (cmd_context (''decoding public key: '' @ public)
       (cmd_result (map_err foreign (te_decoding_key E pem)))) (\<lambda>dk.
     cmd_bind (read_input (te_env E) ''token'' token_path) (\<lambda>token.
     cmd_bind (cmd_result (map_err foreign (validate_token (te_decode E now) dk aud token))) (\<lambda>claims.
     cmd_bind (cmd_result (pretty_output (te_env E) (claims_to_json claims))) (\<lambda>doc.
     write_output (te_env E) ''token'' output doc)))))"

section \<open>The two services\<close>

definition discovery_mint where "discovery_mint E = mint_for E ''discovery''"
definition discovery_mint_all where "discovery_mint_all E = mint_all_for E ''discovery''"
definition discovery_verify where "discovery_verify E = verify_for E ''discovery''"
definition offer_mint where "offer_mint E = mint_for E ''offer''"
definition offer_mint_all where "offer_mint_all E = mint_all_for E ''offer''"
definition offer_verify where "offer_verify E = verify_for E ''offer''"

lemmas token_command_defs = discovery_mint_def discovery_mint_all_def discovery_verify_def offer_mint_def
  offer_mint_all_def offer_verify_def

text \<open>The subcommands and their dispatch in \<open>server/src/main.rs\<close>.\<close>

datatype token_command =
    TokenMint string u64 "string option"
  | TokenKey string string
  | TokenMintAll string string u64 "string option"
  | TokenVerify string "string option" "string option"

fun run_discovery_token ::
  "('s, 'sk, 'ek, 'dk) token_env \<Rightarrow> u64 option \<Rightarrow> u64 \<Rightarrow> 'sk \<Rightarrow> token_command \<Rightarrow> ('s, unit) command" where
  "run_discovery_token E clock now sk (TokenMint key lifetime output) = discovery_mint E clock key lifetime output"
| "run_discovery_token E clock now sk (TokenKey public private) = key_command E sk public private"
| "run_discovery_token E clock now sk (TokenMintAll public private lifetime output) =
     discovery_mint_all E clock sk public private lifetime output"
| "run_discovery_token E clock now sk (TokenVerify public token output) = discovery_verify E now public token output"

fun run_offer_token ::
  "('s, 'sk, 'ek, 'dk) token_env \<Rightarrow> u64 option \<Rightarrow> u64 \<Rightarrow> 'sk \<Rightarrow> token_command \<Rightarrow> ('s, unit) command" where
  "run_offer_token E clock now sk (TokenMint key lifetime output) = offer_mint E clock key lifetime output"
| "run_offer_token E clock now sk (TokenKey public private) = key_command E sk public private"
| "run_offer_token E clock now sk (TokenMintAll public private lifetime output) =
     offer_mint_all E clock sk public private lifetime output"
| "run_offer_token E clock now sk (TokenVerify public token output) = offer_verify E now public token output"

section \<open>Keys that belong together\<close>

text \<open>
  What \<open>jsonwebtoken\<close> documents of the two halves of a pair: the PEM texts are read, and a token
  signed with the private key is accepted under the public one if its audience is the expected one
  and its expiry, with the leeway of a minute, has not passed.
\<close>

definition jwt_pair :: "('s, 'sk, 'ek, 'dk) token_env \<Rightarrow> 'ek \<Rightarrow> 'dk \<Rightarrow> bool" where
  "jwt_pair E ek dk \<longleftrightarrow>
     (\<forall>c t now aud. te_encode E c ek = Inr t \<longrightarrow>
        (if claim_aud c = aud \<and> unat now \<le> claim_exp c + 60 then te_decode E now dk aud t = Inr c
         else \<not> is_ok (te_decode E now dk aud t)))"

definition jwt_lib :: "('s, 'sk, 'ek, 'dk) token_env \<Rightarrow> bool" where
  "jwt_lib E \<longleftrightarrow>
     (\<forall>sk public private ek. te_public_pem E sk = Inr public \<longrightarrow> te_private_pem E sk = Inr private \<longrightarrow>
        te_encoding_key E private = Inr ek \<longrightarrow>
        (\<exists>dk. te_decoding_key E public = Inr dk \<and> jwt_pair E ek dk))"

lemma fs_write_effect:
  "fs_write S p s w = (Inr (), w1) \<Longrightarrow> w1 = w\<lparr>cw_files := (cw_files w)(p \<mapsto> s)\<rparr>"
  by (auto simp: fs_write_def file_create_def write_all_def emit_def split: option.splits)

lemma key_pair_io_effect:
  assumes "key_pair_io E public_text private_text public private w = (Inr (), w1)"
  shows "w1 = w\<lparr>cw_files := (cw_files w)(public \<mapsto> public_text, private \<mapsto> private_text)\<rparr>"
proof -
  obtain w' where "fs_write (ce_sys (te_env E)) public public_text w = (Inr (), w')"
      "fs_write (ce_sys (te_env E)) private private_text w' = (Inr (), w1)"
    using assms by (auto simp: key_pair_io_def cmd_defs apfst_def map_prod_def result_simps split: prod.splits sum.splits)
  then show ?thesis by (auto dest!: fs_write_effect)
qed

lemma write_output_effect:
  assumes "write_output C what (Some p) s w = (Inr (), w1)" and "p \<noteq> ''-''"
  shows "cw_files w1 = (cw_files w)(p \<mapsto> s)"
proof -
  have "cli_write_all (ce_sys C) (Some p) s w = (Inr (), w1)"
    using assms(1) by (cases "cli_write_all (ce_sys C) (Some p) s w"; cases "fst (cli_write_all (ce_sys C) (Some p) s w)")
      (auto simp: write_output_def cmd_defs)
  then show ?thesis by (rule cli_write_all_file [OF _ assms(2)])
qed

text \<open>What a successful \<open>mint_all\<close> leaves in its files.\<close>

lemma mint_all_files:
  assumes "mint_all_for E aud clock sk public private lifetime (Some tp) w = (Inr (), w1)" and "tp \<noteq> ''-''"
    and "distinct [public, private, tp]"
  obtains pub priv ek now t where "te_public_pem E sk = Inr pub" and "te_private_pem E sk = Inr priv"
    and "te_encoding_key E priv = Inr ek" and "clock = Some now"
    and "te_encode E \<lparr>claim_aud = aud, claim_exp = unat (now + lifetime)\<rparr> ek = Inr t"
    and "cw_files w1 public = Some pub" and "cw_files w1 tp = Some t"
proof -
  obtain pub priv ek now t w' where pair: "te_public_pem E sk = Inr pub" "te_private_pem E sk = Inr priv"
      "te_encoding_key E priv = Inr ek" "clock = Some now"
      "te_encode E \<lparr>claim_aud = aud, claim_exp = unat (now + lifetime)\<rparr> ek = Inr t"
    and io: "key_pair_io E pub priv public private w = (Inr (), w')"
      "write_output (te_env E) ''token'' (Some tp) t w' = (Inr (), w1)"
    using assms(1)
    by (fastforce simp: mint_all_for_def ecdsa_prime256v1_pkcs8_pem_keypair_def token_claims_def cmd_bind_def cmd_result_def
        result_simps split: prod.splits sum.splits)
  have "cw_files w1 = (cw_files w)(public \<mapsto> pub, private \<mapsto> priv, tp \<mapsto> t)"
    using write_output_effect [OF io(2) assms(2)] key_pair_io_effect [OF io(1)] by simp
  with assms(3) pair that show thesis by auto
qed

lemma pair_validates:
  assumes "jwt_pair E ek dk" and "te_encode E c ek = Inr t"
  shows "token_validator (te_decode E now) dk aud t \<longleftrightarrow> claim_aud c = aud \<and> unat now \<le> claim_exp c + 60"
proof -
  have "if claim_aud c = aud \<and> unat now \<le> claim_exp c + 60 then te_decode E now dk aud t = Inr c
      else \<not> is_ok (te_decode E now dk aud t)"
    using assms unfolding jwt_pair_def by blast
  then show ?thesis
    by (cases "te_decode E now dk aud t") (auto simp: token_validator_def validate_token_def split: if_splits)
qed

text \<open>The steps of \<open>verify\<close> on files that can be read.\<close>

lemma verify_steps:
  assumes "readable (te_env E) public w" and "cw_files w public = Some pem" and "te_decoding_key E pem = Inr dk"
    and "readable (te_env E) tp w" and "cw_files w tp = Some t"
  shows "verify_for E aud now public (Some tp) output w =
    (case validate_token (te_decode E now) dk aud t of
       Inl e \<Rightarrow> (Inl (foreign e), w)
     | Inr c \<Rightarrow>
         cmd_bind (cmd_result (pretty_output (te_env E) (claims_to_json c)))
           (write_output (te_env E) ''token'' output) w)"
proof -
  have "fs_read (ce_sys (te_env E)) public w = (Inr pem, w)"
    using assms(1,2) by (simp add: fs_read_def file_open_def read_to_string_def readable_def)
  moreover have "cli_read_to_string (ce_sys (te_env E)) (Some tp) w = (Inr t, w)"
    using assms(4) by (intro cli_read_file assms(5)) (simp_all add: readable_def)
  ultimately show ?thesis
    using assms(3) by (cases "validate_token (te_decode E now) dk aud t") (simp_all add: verify_for_def read_input_def cmd_defs)
qed

section \<open>A concrete library for the witnesses\<close>

definition token_sample_claims :: claims where
  "token_sample_claims = \<lparr>claim_aud = ''offer'', claim_exp = 15\<rparr>"

definition token_sample_env :: "(unit, unit, unit, unit) token_env" where
  "token_sample_env =
     \<lparr>te_env =
        \<lparr>ce_sys = \<lparr>sy_fault = (\<lambda>_ _. None), sy_env = Map.empty\<rparr>,
         ce_from_str = (\<lambda>_. Inl ''EOF''), ce_pretty = (\<lambda>_. Inr ''d''),
         ce_show_json = (\<lambda>_. ''json''), ce_show_io = (\<lambda>_. ''io''), ce_show_status = (\<lambda>_. ''status''),
         ce_parse_url = Inr, ce_pem = (\<lambda>_. []),
         ce_builder = \<lparr>cb_build = (\<lambda>_. Inl ''none''), cb_from_der = (\<lambda>_. None)\<rparr>\<rparr>,
      te_public_pem = (\<lambda>_. Inr ''p''), te_private_pem = (\<lambda>_. Inr ''k''),
      te_encoding_key = (\<lambda>_. Inr ()), te_decoding_key = (\<lambda>_. Inr ()),
      te_encode = (\<lambda>c _. if c = token_sample_claims then Inr ''t'' else Inl ''no''),
      te_decode = (\<lambda>now _ aud t.
        if t = ''t'' \<and> aud = ''offer'' \<and> unat now \<le> 75 then Inr token_sample_claims else Inl ''InvalidToken'')\<rparr>"

definition token_sample_world :: "unit cli_world" where
  "token_sample_world = \<lparr>cw_files = Map.empty, cw_stdin = [], cw_stdout = [], cw_log = [], cw_remote = ()\<rparr>"

definition token_sample_minted :: "unit cli_world" where
  "token_sample_minted =
     token_sample_world\<lparr>cw_files := [''pub'' \<mapsto> ''p'', ''key'' \<mapsto> ''k'', ''tok'' \<mapsto> ''t'']\<rparr>"

lemma token_sample_lib: "jwt_lib token_sample_env"
  by (auto simp: jwt_lib_def jwt_pair_def token_sample_env_def token_sample_claims_def is_ok_def split: if_splits)

lemma token_sample_mint:
  "mint_all_for token_sample_env ''offer'' (Some 5) () ''pub'' ''key'' 10 (Some ''tok'') token_sample_world
     = (Inr (), token_sample_minted)"
  by (simp add: mint_all_for_def ecdsa_prime256v1_pkcs8_pem_keypair_def token_claims_def key_pair_io_def write_output_def
      cmd_defs io_defs token_sample_env_def token_sample_claims_def token_sample_world_def token_sample_minted_def)

section \<open>Properties\<close>

text \<open>
  Property C35. The lifetime of a minted token: what \<open>mint-all\<close> writes is accepted by a service of the
  audience that holds the written public key, and by no other audience, until a minute after the
  sum of the current time and the lifetime. The sum is taken modulo \<open>2 ^ 64\<close>, so that a lifetime
  that is too long yields a token that has expired already.
\<close>

theorem minted_token_lifetime:
  assumes "jwt_lib E"
    and "mint_all_for E aud clock sk public private lifetime (Some tp) w = (Inr (), w1)" and "tp \<noteq> ''-''"
    and "distinct [public, private, tp]"
  shows "\<exists>pem dk t start. clock = Some start \<and> cw_files w1 public = Some pem \<and> te_decoding_key E pem = Inr dk
    \<and> cw_files w1 tp = Some t
    \<and> (\<forall>now aud'. token_validator (te_decode E now) dk aud' t \<longleftrightarrow>
         aud' = aud \<and> unat now \<le> (unat start + unat lifetime) mod 2 ^ 64 + 60)"
proof -
  obtain pub priv ek start t where pair: "te_public_pem E sk = Inr pub" "te_private_pem E sk = Inr priv"
      "te_encoding_key E priv = Inr ek"
    and t: "te_encode E \<lparr>claim_aud = aud, claim_exp = unat (start + lifetime)\<rparr> ek = Inr t"
    and files: "clock = Some start" "cw_files w1 public = Some pub" "cw_files w1 tp = Some t"
    by (rule mint_all_files [OF assms(2-4)])
  obtain dk where dk: "te_decoding_key E pub = Inr dk" "jwt_pair E ek dk"
    using assms(1) pair unfolding jwt_lib_def by blast
  have "unat (start + lifetime) = (unat start + unat lifetime) mod 2 ^ 64"
    by (simp add: unat_word_ariths)
  then have "token_validator (te_decode E now) dk aud' t \<longleftrightarrow>
      aud' = aud \<and> unat now \<le> (unat start + unat lifetime) mod 2 ^ 64 + 60" for now aud'
    by (auto simp: pair_validates [OF dk(2) t])
  with files dk(1) show ?thesis by blast
qed

theorem minted_token_lifetime_witness:
  "\<exists>dk t. cw_files token_sample_minted ''tok'' = Some t
     \<and> token_validator (te_decode token_sample_env 70) dk ''offer'' t
     \<and> \<not> token_validator (te_decode token_sample_env 76) dk ''offer'' t
     \<and> \<not> token_validator (te_decode token_sample_env 70) dk ''discovery'' t"
proof -
  obtain dk t where "cw_files token_sample_minted ''tok'' = Some t"
    and v: "\<forall>now aud'. token_validator (te_decode token_sample_env now) dk aud' t \<longleftrightarrow>
      aud' = ''offer'' \<and> unat now \<le> (unat (5 :: u64) + unat (10 :: u64)) mod 2 ^ 64 + 60"
    using minted_token_lifetime [OF token_sample_lib token_sample_mint] by auto
  then show ?thesis by (intro exI [of _ dk] exI [of _ t] conjI) (simp_all add: v)
qed

text \<open>
  Property C36. The command \<open>verify\<close> and the token layer of a service agree: on files that can be
  read, with an output that can be written, the command succeeds exactly if the layer of the
  service, with the same public key at the same time, lets a request with the token through.
\<close>

theorem verify_agrees_with_service:
  assumes "readable (te_env E) public w" and "cw_files w public = Some pem" and "te_decoding_key E pem = Inr dk"
    and "readable (te_env E) tp w" and "cw_files w tp = Some t"
    and "\<And>c. \<exists>doc. pretty_output (te_env E) (claims_to_json c) = Inr doc
      \<and> is_ok (fst (write_output (te_env E) ''token'' output doc w))"
    and "bearer (rq_headers req) = Some t"
    and "\<And>req s. rs_status (fst (inner req s)) \<noteq> 401"
  shows "is_ok (fst (verify_for E aud now public (Some tp) output w)) \<longleftrightarrow>
    rs_status (fst (bearer_auth_call bearer (token_validator (te_decode E now) dk aud) realm inner req s)) \<noteq> 401"
proof (cases "validate_token (te_decode E now) dk aud t")
  case (Inl e)
  with assms(7) show ?thesis
    by (simp add: verify_steps [OF assms(1-5)] bearer_auth_call_def token_validator_def crud_error_response_def
        crud_unauthorized_def Let_def)
next
  case (Inr c)
  with assms(7,8) show ?thesis
    using assms(6) [of c]
    by (auto simp: verify_steps [OF assms(1-5)] bearer_auth_call_def token_validator_def cmd_bind_result)
qed

theorem verify_agrees_with_service_witness:
  "is_ok (fst (verify_for token_sample_env ''offer'' 70 ''pub'' (Some ''tok'') None token_sample_minted))
     \<and> \<not> is_ok (fst (verify_for token_sample_env ''offer'' 76 ''pub'' (Some ''tok'') None token_sample_minted))"
proof -
  let ?inner = "\<lambda>(_ :: unit http_request) (s :: unit). (status_response 204 :: unit http_response, s)"
  let ?req = "\<lparr>rq_method = GET, rq_path = [''offers''], rq_query = [], rq_headers = [], rq_body = None\<rparr> :: unit http_request"
  have r: "readable (te_env token_sample_env) ''pub'' token_sample_minted" "readable (te_env token_sample_env) ''tok'' token_sample_minted"
    by (simp_all add: readable_def token_sample_env_def)
  have f: "cw_files token_sample_minted ''pub'' = Some ''p''" "cw_files token_sample_minted ''tok'' = Some ''t''"
      "te_decoding_key token_sample_env ''p'' = Inr ()"
    by (simp_all add: token_sample_minted_def token_sample_env_def)
  have out: "\<exists>doc. pretty_output (te_env token_sample_env) (claims_to_json c) = Inr doc
      \<and> is_ok (fst (write_output (te_env token_sample_env) ''token'' None doc token_sample_minted))" for c
    by (simp add: pretty_output_def claims_to_json_def write_output_def cmd_defs io_defs token_sample_env_def)
  have "is_ok (fst (verify_for token_sample_env ''offer'' now ''pub'' (Some ''tok'') None token_sample_minted)) \<longleftrightarrow> unat now \<le> 75"
    for now
  proof -
    have "is_ok (fst (verify_for token_sample_env ''offer'' now ''pub'' (Some ''tok'') None token_sample_minted)) \<longleftrightarrow>
        rs_status (fst (bearer_auth_call (\<lambda>_. Some ''t'') (token_validator (te_decode token_sample_env now) () ''offer'') ''r''
          ?inner ?req ())) \<noteq> 401"
      by (rule verify_agrees_with_service [OF r(1) f(1,3) r(2) f(2) out]) (simp_all add: status_response_def)
    then show ?thesis
      by (simp add: bearer_auth_call_def token_validator_def validate_token_def token_sample_env_def token_sample_claims_def
          crud_error_response_def crud_unauthorized_def status_response_def Let_def)
  qed
  then show ?thesis by simp
qed

end
