(* ===== verification/NodeConfigJson.thy ===== *)
theory NodeConfigJson
  imports LnPool DiscoveryJson
begin

text \<open>
  The JSON form of a node configuration, the implementation of a discovery backend: the serde
  instances of \<open>components/src/pool/mod.rs\<close>, \<open>cln/grpc/config.rs\<close> and \<open>lnd/grpc/config.rs\<close> with
  their camel case names and internally tagged enums. \<open>parse_url\<close> is \<open>Url::parse\<close>, an address being
  its normal text.
\<close>

section \<open>Internally tagged enums\<close>

text \<open>
  An object with one field \<open>type\<close>, or an array that starts with it; the variant is read from the
  rest.
\<close>

definition tagged_to_json :: "string \<Rightarrow> (string \<times> json) list \<Rightarrow> json" where
  "tagged_to_json tag fs = JObj ((''type'', JStr tag) # fs)"

definition read_tagged :: "json \<Rightarrow> json_error + string \<times> json" where
  "read_tagged v =
     (case v of
        JObj fs \<Rightarrow>
          (case filter (\<lambda>(k, _). k = ''type'') fs of
             [] \<Rightarrow> Inl (MissingField ''type'')
           | [(_, t)] \<Rightarrow> map_ok (\<lambda>tag. (tag, JObj (filter (\<lambda>(k, _). k \<noteq> ''type'') fs))) (read_string t)
           | _ \<Rightarrow> Inl DuplicateField)
      | JArr (t # xs) \<Rightarrow> map_ok (\<lambda>tag. (tag, JArr xs)) (read_string t)
      | JArr [] \<Rightarrow> Inl (MissingField ''type'')
      | _ \<Rightarrow> Inl (InvalidType ''internally tagged enum''))"

definition write_option :: "string option \<Rightarrow> json" where
  "write_option v = (case v of None \<Rightarrow> JNull | Some s \<Rightarrow> JStr s)"

definition read_url :: "(string \<Rightarrow> string + string) \<Rightarrow> json \<Rightarrow> json_error + string" where
  "read_url parse_url v = and_then (read_string v) (\<lambda>s. map_err CustomError (parse_url s))"

section \<open>The two kinds of node\<close>

definition cln_auth_to_json :: "cln_config \<Rightarrow> json" where
  "cln_auth_to_json c =
     tagged_to_json ''path''
       [(''caCertPath'', write_option (cln_ca_cert_path c)),
        (''clientCertPath'', JStr (cln_client_cert_path c)),
        (''clientKeyPath'', JStr (cln_client_key_path c))]"

definition lnd_auth_to_json :: "lnd_config \<Rightarrow> json" where
  "lnd_auth_to_json c =
     tagged_to_json ''path''
       [(''tlsCertPath'', write_option (lnd_tls_cert_path c)),
        (''macaroonPath'', JStr (lnd_macaroon_path c))]"

definition implementation_to_json :: "backend_implementation \<Rightarrow> json" where
  "implementation_to_json i =
     (case i of
        ClnGrpc c \<Rightarrow>
          tagged_to_json ''clnGrpc''
            [(''url'', JStr (cln_url c)), (''domain'', write_option (cln_domain c)),
             (''auth'', cln_auth_to_json c)]
      | LndGrpc c \<Rightarrow>
          tagged_to_json ''lndGrpc''
            [(''url'', JStr (lnd_url c)), (''domain'', write_option (lnd_domain c)),
             (''auth'', lnd_auth_to_json c), (''ampInvoice'', JBool (lnd_amp_invoice c))])"

definition cln_auth_from_json :: "json \<Rightarrow> json_error + string option \<times> string \<times> string" where
  "cln_auth_from_json v =
     and_then (read_tagged v) (\<lambda>(tag, v).
       if tag \<noteq> ''path'' then Inl (InvalidType ''variant'')
       else and_then (struct_fields [''caCertPath'', ''clientCertPath'', ''clientKeyPath''] v) (\<lambda>fs.
            and_then (opt_field read_string ''caCertPath'' fs) (\<lambda>ca.
            and_then (req_field read_string ''clientCertPath'' fs) (\<lambda>cert.
            map_ok (\<lambda>key. (ca, cert, key)) (req_field read_string ''clientKeyPath'' fs)))))"

definition lnd_auth_from_json :: "json \<Rightarrow> json_error + string option \<times> string" where
  "lnd_auth_from_json v =
     and_then (read_tagged v) (\<lambda>(tag, v).
       if tag \<noteq> ''path'' then Inl (InvalidType ''variant'')
       else and_then (struct_fields [''tlsCertPath'', ''macaroonPath''] v) (\<lambda>fs.
            and_then (opt_field read_string ''tlsCertPath'' fs) (\<lambda>tls.
            map_ok (Pair tls) (req_field read_string ''macaroonPath'' fs))))"

definition cln_from_json :: "(string \<Rightarrow> string + string) \<Rightarrow> json \<Rightarrow> json_error + cln_config" where
  "cln_from_json parse_url v =
     and_then (struct_fields [''url'', ''domain'', ''auth''] v) (\<lambda>fs.
     and_then (req_field (read_url parse_url) ''url'' fs) (\<lambda>url.
     and_then (opt_field read_string ''domain'' fs) (\<lambda>domain.
     map_ok (\<lambda>(ca, cert, key).
         \<lparr>cln_url = url, cln_domain = domain, cln_ca_cert_path = ca, cln_client_cert_path = cert,
          cln_client_key_path = key\<rparr>)
       (req_field cln_auth_from_json ''auth'' fs))))"

definition lnd_from_json :: "(string \<Rightarrow> string + string) \<Rightarrow> json \<Rightarrow> json_error + lnd_config" where
  "lnd_from_json parse_url v =
     and_then (struct_fields [''url'', ''domain'', ''auth'', ''ampInvoice''] v) (\<lambda>fs.
     and_then (req_field (read_url parse_url) ''url'' fs) (\<lambda>url.
     and_then (opt_field read_string ''domain'' fs) (\<lambda>domain.
     and_then (req_field lnd_auth_from_json ''auth'' fs) (\<lambda>(tls, macaroon).
     map_ok (\<lambda>amp.
         \<lparr>lnd_url = url, lnd_domain = domain, lnd_tls_cert_path = tls, lnd_macaroon_path = macaroon,
          lnd_amp_invoice = amp\<rparr>)
       (req_field read_bool ''ampInvoice'' fs)))))"

definition implementation_from_json ::
  "(string \<Rightarrow> string + string) \<Rightarrow> json \<Rightarrow> json_error + backend_implementation" where
  "implementation_from_json parse_url v =
     and_then (read_tagged v) (\<lambda>(tag, v).
       if tag = ''clnGrpc'' then map_ok ClnGrpc (cln_from_json parse_url v)
       else if tag = ''lndGrpc'' then map_ok LndGrpc (lnd_from_json parse_url v)
       else Inl (InvalidType ''variant''))"

text \<open>\<open>serde_json::to_vec\<close> and \<open>serde_json::from_slice\<close> of an implementation.\<close>

definition print_implementation :: "json_lib \<Rightarrow> backend_implementation \<Rightarrow> string + u8 list" where
  "print_implementation L i = jl_print L (implementation_to_json i)"

definition parse_implementation ::
  "(string \<Rightarrow> string + string) \<Rightarrow> (json_error \<Rightarrow> string) \<Rightarrow> json_lib \<Rightarrow> u8 list \<Rightarrow> string + backend_implementation" where
  "parse_implementation parse_url show_error L bs =
     and_then (jl_parse L bs) (\<lambda>v. map_err show_error (implementation_from_json parse_url v))"

section \<open>Round trip\<close>

fun implementation_url :: "backend_implementation \<Rightarrow> string" where
  "implementation_url (ClnGrpc c) = cln_url c"
| "implementation_url (LndGrpc c) = lnd_url c"

lemma write_option_null [simp]: "write_option v = JNull \<longleftrightarrow> v = None"
  by (simp add: write_option_def split: option.splits)

lemma opt_value_write [simp]: "opt_value read_string (write_option v) = Inr v"
  by (cases v) (simp_all add: write_option_def opt_value_def)

lemma read_tagged_to_json:
  "''type'' \<notin> set (map fst fs) \<Longrightarrow> read_tagged (tagged_to_json t fs) = Inr (t, JObj fs)"
proof -
  assume a: "''type'' \<notin> set (map fst fs)"
  then have "filter (\<lambda>(k, _). k = ''type'') fs = []" "filter (\<lambda>(k, _). k \<noteq> ''type'') fs = fs"
    by (force simp: filter_empty_conv filter_id_conv)+
  then show ?thesis by (simp add: read_tagged_def tagged_to_json_def)
qed

lemma implementation_json_round_trip:
  assumes "parse_url (implementation_url i) = Inr (implementation_url i)"
  shows "implementation_from_json parse_url (implementation_to_json i) = Inr i"
proof (cases i)
  case (ClnGrpc c)
  have "cln_auth_from_json (cln_auth_to_json c) = Inr (cln_ca_cert_path c, cln_client_cert_path c, cln_client_key_path c)"
    by (simp add: cln_auth_from_json_def cln_auth_to_json_def read_tagged_to_json struct_fields_def known_once_def
        req_field_def opt_field_def)
  with assms ClnGrpc show ?thesis
    by (simp add: implementation_from_json_def implementation_to_json_def read_tagged_to_json cln_from_json_def
        struct_fields_def known_once_def req_field_def opt_field_def read_url_def)
next
  case (LndGrpc c)
  have "lnd_auth_from_json (lnd_auth_to_json c) = Inr (lnd_tls_cert_path c, lnd_macaroon_path c)"
    by (simp add: lnd_auth_from_json_def lnd_auth_to_json_def read_tagged_to_json struct_fields_def known_once_def
        req_field_def opt_field_def)
  with assms LndGrpc show ?thesis
    by (simp add: implementation_from_json_def implementation_to_json_def read_tagged_to_json lnd_from_json_def
        struct_fields_def known_once_def req_field_def opt_field_def read_url_def)
qed

lemma parse_print_implementation:
  assumes "print_implementation L i = Inr bs" and "jl_parse L bs = Inr (implementation_to_json i)"
    and "parse_url (implementation_url i) = Inr (implementation_url i)"
  shows "parse_implementation parse_url show_error L bs = Inr i"
  using implementation_json_round_trip [where parse_url = parse_url, OF assms(3)] assms(2)
  by (simp add: parse_implementation_def)

end
