(* ===== verification/DiscoveryCommands.thy ===== *)
theory DiscoveryCommands
  imports CommandIo NodeConfigJson DiscoveryHttp
begin

text \<open>
  \<open>server/src/commands/discovery/backend.rs\<close>: the commands that administer a discovery service,
  over the HTTP store of theory \<open>DiscoveryHttp\<close> and the files of theory \<open>CommandIo\<close>.
\<close>

section \<open>The client of a command\<close>

record discovery_libs =
  dl_json :: json_lib
  dl_hex :: hex_lib

definition create_backend_client ::
  "'s command_env \<Rightarrow> discovery_libs \<Rightarrow> client_options \<Rightarrow> ('s, 's discovery_http) command" where
  "create_backend_client C L opts =
     cmd_bind (client_parameters C ''DISCOVERY_STORE_HTTP'' opts) (\<lambda>(base_url, authorization, roots).
     cmd_result (map_err (\<lambda>e. ([], CliDiscovery e))
       (discovery_create (ce_builder C) (url_error C) (dl_json L) (dl_hex L) (ce_show_status C)
          (ce_show_json C) (ce_show_io C) base_url 1000000000 1000000000 roots authorization)))"

definition parse_key_argument :: "discovery_libs \<Rightarrow> string \<Rightarrow> ('s, public_key) command" where
  "parse_key_argument L s =
     cmd_context (''parsing public key: '' @ s) (cmd_result (map_err foreign (jl_parse_key (dl_json L) s)))"

section \<open>A template\<close>

datatype ln_node_command_type = ClnGrpcNode | LndGrpcNode

definition show_node_type :: "ln_node_command_type \<Rightarrow> string" where
  "show_node_type t = (case t of ClnGrpcNode \<Rightarrow> ''CLN gRPC'' | LndGrpcNode \<Rightarrow> ''LND gRPC'')"

definition template_url :: "ln_node_command_type \<Rightarrow> string" where
  "template_url t =
     (case t of ClnGrpcNode \<Rightarrow> ''https://127.0.0.1:9736'' | LndGrpcNode \<Rightarrow> ''https://127.0.0.1:10009'')"

definition template_implementation :: "ln_node_command_type \<Rightarrow> string \<Rightarrow> backend_implementation" where
  "template_implementation t url =
     (case t of
        ClnGrpcNode \<Rightarrow>
          ClnGrpc \<lparr>cln_url = url, cln_domain = Some ''localhost'',
                   cln_ca_cert_path = Some ''/path/to/ca.pem'',
                   cln_client_cert_path = ''/path/to/client.pem'',
                   cln_client_key_path = ''/path/to/client-key.pem''\<rparr>
      | LndGrpcNode \<Rightarrow>
          LndGrpc \<lparr>lnd_url = url, lnd_domain = Some ''localhost'',
                   lnd_tls_cert_path = Some ''/path/to/tls.cert'',
                   lnd_macaroon_path = ''/path/to/admin.macaroon'', lnd_amp_invoice = False\<rparr>)"

definition template_backend ::
  "public_key \<Rightarrow> string option \<Rightarrow> string \<Rightarrow> u8 list \<Rightarrow> discovery_backend" where
  "template_backend k nm part impl =
     \<lparr>public_key = k,
      backend = \<lparr>name = nm, partitions = {part}, weight = 1, enabled = False, implementation = impl\<rparr>\<rparr>"

definition new_backend ::
  "'s command_env \<Rightarrow> discovery_libs \<Rightarrow> ln_node_command_type \<Rightarrow> string \<Rightarrow> string option \<Rightarrow> string \<Rightarrow> string option
     \<Rightarrow> ('s, unit) command" where
  "new_backend C L t key_str nm part output =
     cmd_bind (cmd_result (map_err foreign (ce_parse_url C (template_url t)))) (\<lambda>url.
     cmd_bind (cmd_result (map_err foreign (jl_parse_key (dl_json L) key_str))) (\<lambda>k.
     cmd_bind (cmd_result (map_err foreign (print_implementation (dl_json L) (template_implementation t url)))) (\<lambda>impl.
     cmd_bind (cmd_context ''serializing backend''
         (cmd_result (pretty_output C (backend_to_json (dl_json L) (template_backend k nm part impl))))) (\<lambda>doc.
     cmd_bind (write_output C ''backend'' output doc) (\<lambda>_.
     cmd_bind (cmd_info (''Modify this JSON file to match the '' @ show_node_type t @ '' node configuration'')) (\<lambda>_.
     cmd_info ''Load it into the Discovery Service. See: swgr discovery post --help''))))))"

section \<open>Reading\<close>

definition nl :: string where
  "nl = [CHR 0x0A]"

definition backend_listing :: "json_lib \<Rightarrow> discovery_backend \<Rightarrow> string" where
  "backend_listing J b =
     nl @ ''## Public key: '' @ jl_show_key J (public_key b) @ nl @ nl
       @ ''* name: '' @ unwrap_or ''[null]'' (name (backend b)) @ nl
       @ ''* location: '' @ jl_show_key J (public_key b) @ nl
       @ ''* enabled: '' @ show_bool (enabled (backend b)) @ nl
       @ ''* weight: '' @ show_nat (unat (weight (backend b))) @ nl"

definition list_backends ::
  "'s command_env \<Rightarrow> discovery_libs \<Rightarrow> client_options \<Rightarrow> ('s, unit) command" where
  "list_backends C L opts =
     cmd_bind (create_backend_client C L opts) (\<lambda>client.
     cmd_bind (cmd_call CliDiscovery (http_get_all client None)) (\<lambda>ds.
     cmd_bind (cmd_println ''# Discovery Backends'') (\<lambda>_.
     cmd_for_each (\<lambda>b. cmd_println (backend_listing (dl_json L) b)) (unwrap_or [] (backends ds)))))"

definition backends_option_to_json :: "json_lib \<Rightarrow> discovery_backend list option \<Rightarrow> json_error + json" where
  "backends_option_to_json J bs = (case bs of None \<Rightarrow> Inr JNull | Some bs \<Rightarrow> backends_to_json J bs)"

definition get_backend ::
  "'s command_env \<Rightarrow> discovery_libs \<Rightarrow> string option \<Rightarrow> string option \<Rightarrow> client_options \<Rightarrow> ('s, unit) command" where
  "get_backend C L key output opts =
     cmd_bind (create_backend_client C L opts) (\<lambda>client.
       case key of
         Some key_str \<Rightarrow>
           cmd_bind (parse_key_argument L key_str) (\<lambda>k.
           cmd_bind (cmd_call CliDiscovery (http_get client k)) (\<lambda>bo.
             case bo of
               Some b \<Rightarrow>
                 cmd_bind (cmd_context (''serializing backend '' @ jl_show_key (dl_json L) k)
                     (cmd_result (pretty_output C (backend_to_json (dl_json L) b)))) (\<lambda>doc.
                 write_output C ''backend'' output doc)
             | None \<Rightarrow> cmd_bail (''Backend '' @ jl_show_key (dl_json L) k @ '' not found'')))
       | None \<Rightarrow>
           cmd_bind (cmd_call CliDiscovery (http_get_all client None)) (\<lambda>ds.
           cmd_bind (cmd_context ''serializing backends''
               (cmd_result (pretty_output C (backends_option_to_json (dl_json L) (backends ds))))) (\<lambda>doc.
           write_output C ''backend'' output doc)))"

section \<open>Writing\<close>

definition post_backend ::
  "'s command_env \<Rightarrow> discovery_libs \<Rightarrow> string option \<Rightarrow> client_options \<Rightarrow> ('s, unit) command" where
  "post_backend C L path opts =
     cmd_bind (create_backend_client C L opts) (\<lambda>client.
     cmd_bind (read_input C ''backend'' path) (\<lambda>doc.
     cmd_bind (parse_input C ''backend'' (backend_from_json (dl_json L)) path doc) (\<lambda>b.
     cmd_bind (cmd_call CliDiscovery (http_post client b)) (\<lambda>created.
       case created of
         Some k \<Rightarrow> cmd_info (''Backend created: '' @ jl_show_key (dl_json L) k)
       | None \<Rightarrow> cmd_bail (''Conflict. A backend already exists at: '' @ jl_show_key (dl_json L) (public_key b))))))"

definition put_backend ::
  "'s command_env \<Rightarrow> discovery_libs \<Rightarrow> string \<Rightarrow> string option \<Rightarrow> client_options \<Rightarrow> ('s, unit) command" where
  "put_backend C L key_str path opts =
     cmd_bind (parse_key_argument L key_str) (\<lambda>k.
     cmd_bind (create_backend_client C L opts) (\<lambda>client.
     cmd_bind (read_input C ''backend'' path) (\<lambda>doc.
     cmd_bind (parse_input C ''backend'' (sparse_from_json (dl_json L)) path doc) (\<lambda>b.
     cmd_bind (cmd_call CliDiscovery (http_put client \<lparr>public_key = k, backend = b\<rparr>)) (\<lambda>created.
       if created then cmd_info (''Backend created: '' @ jl_show_key (dl_json L) k)
       else cmd_info (''Backend updated: '' @ jl_show_key (dl_json L) k))))))"

definition patch_backend_command ::
  "'s command_env \<Rightarrow> discovery_libs \<Rightarrow> string \<Rightarrow> string option \<Rightarrow> client_options \<Rightarrow> ('s, unit) command" where
  "patch_backend_command C L key_str path opts =
     cmd_bind (parse_key_argument L key_str) (\<lambda>k.
     cmd_bind (create_backend_client C L opts) (\<lambda>client.
     cmd_bind (read_input C ''backend'' path) (\<lambda>doc.
     cmd_bind (parse_input C ''backend patch'' patch_from_json path doc) (\<lambda>p.
     cmd_bind (cmd_call CliDiscovery (http_patch client \<lparr>patch_public_key = k, patch_backend = p\<rparr>)) (\<lambda>hit.
       if hit then cmd_info (''Backend patched: '' @ jl_show_key (dl_json L) k)
       else cmd_bail (''Backend not found: '' @ jl_show_key (dl_json L) k))))))"

definition enabled_patch :: "public_key \<Rightarrow> bool \<Rightarrow> discovery_backend_patch" where
  "enabled_patch k e =
     \<lparr>patch_public_key = k,
      patch_backend = \<lparr>patch_name = None, patch_partitions = None, patch_weight = None, patch_enabled = Some e\<rparr>\<rparr>"

definition enable_backend ::
  "'s command_env \<Rightarrow> discovery_libs \<Rightarrow> string \<Rightarrow> bool \<Rightarrow> client_options \<Rightarrow> ('s, unit) command" where
  "enable_backend C L key_str e opts =
     cmd_bind (parse_key_argument L key_str) (\<lambda>k.
     cmd_bind (create_backend_client C L opts) (\<lambda>client.
     cmd_bind (cmd_call CliDiscovery (http_patch client (enabled_patch k e))) (\<lambda>hit.
       if hit
       then cmd_info (''Backend patched: '' @ jl_show_key (dl_json L) k @ '': enabled:'' @ show_bool e)
       else cmd_bail (''Backend not found: '' @ jl_show_key (dl_json L) k))))"

definition delete_backend ::
  "'s command_env \<Rightarrow> discovery_libs \<Rightarrow> string \<Rightarrow> client_options \<Rightarrow> ('s, unit) command" where
  "delete_backend C L key_str opts =
     cmd_bind (create_backend_client C L opts) (\<lambda>client.
     cmd_bind (parse_key_argument L key_str) (\<lambda>k.
     cmd_bind (cmd_call CliDiscovery (http_delete client k)) (\<lambda>deleted.
       if deleted then cmd_info (''Backend deleted: '' @ jl_show_key (dl_json L) k)
       else cmd_bail (''Backend not found: '' @ jl_show_key (dl_json L) k))))"

text \<open>The subcommands (\<open>DiscoveryBackendManagementCommands\<close>) and their dispatch in \<open>server/src/main.rs\<close>.\<close>

datatype backend_management_command =
    BackendNew ln_node_command_type string string "string option" "string option"
  | BackendList client_options
  | BackendGet "string option" "string option" client_options
  | BackendPost "string option" client_options
  | BackendPut string "string option" client_options
  | BackendPatch string "string option" client_options
  | BackendEnable string client_options
  | BackendDisable string client_options
  | BackendDelete string client_options

fun run_backend_command ::
  "'s command_env \<Rightarrow> discovery_libs \<Rightarrow> backend_management_command \<Rightarrow> ('s, unit) command" where
  "run_backend_command C L (BackendNew t k part nm output) = new_backend C L t k nm part output"
| "run_backend_command C L (BackendList opts) = list_backends C L opts"
| "run_backend_command C L (BackendGet k output opts) = get_backend C L k output opts"
| "run_backend_command C L (BackendPost input opts) = post_backend C L input opts"
| "run_backend_command C L (BackendPut k input opts) = put_backend C L k input opts"
| "run_backend_command C L (BackendPatch k input opts) = patch_backend_command C L k input opts"
| "run_backend_command C L (BackendEnable k opts) = enable_backend C L k True opts"
| "run_backend_command C L (BackendDisable k opts) = enable_backend C L k False opts"
| "run_backend_command C L (BackendDelete k opts) = delete_backend C L k opts"

section \<open>A command against a service over the memory store\<close>

text \<open>
  The client options lead to a service over the memory store whose token check accepts the
  client, and the libraries agree.
\<close>

definition connected ::
  "mem_discovery command_env \<Rightarrow> discovery_libs \<Rightarrow> client_options \<Rightarrow> mem_discovery cli_world
     \<Rightarrow> (mem_discovery, discovery_store_error, 'k) discovery_service \<Rightarrow> datetime \<Rightarrow> bool" where
  "connected C L opts w V now \<longleftrightarrow>
     (\<exists>defaults base. loop_ok V defaults
        \<and> fst (create_backend_client C L opts w) =
            Inr (loop_http V now defaults base (ce_show_status C) (ce_show_json C) (ce_show_io C)))
     \<and> dv_ops V = mem_discovery_ops \<and> dv_json V = dl_json L"

text \<open>A store whose records have a JSON form.\<close>

definition wired :: "json_lib \<Rightarrow> mem_discovery \<Rightarrow> bool" where
  "wired J s \<longleftrightarrow> mem_inv s \<and> (\<forall>k b. mem_content s k = Some b \<longrightarrow> wire_sparse J (backend b))"

definition print_codec :: "json_lib \<Rightarrow> bool" where
  "print_codec J \<longleftrightarrow> (\<forall>v bs. jl_print J v = Inr bs \<longrightarrow> jl_parse J bs = Inr v)"

lemma create_backend_client_world [simp]: "snd (create_backend_client C L opts w) = w"
  by (auto simp: create_backend_client_def intro!: cmd_bind_world)

lemma parse_key_argument_eq:
  "parse_key_argument L s w =
     (map_err (\<lambda>e. ([''parsing public key: '' @ s], CliForeign e)) (jl_parse_key (dl_json L) s), w)"
  by (cases "jl_parse_key (dl_json L) s") (simp_all add: parse_key_argument_def cmd_defs foreign_def)

text \<open>A client whose operations are those of the memory store.\<close>

definition acts_on_memory :: "json_lib \<Rightarrow> datetime \<Rightarrow> mem_discovery discovery_http \<Rightarrow> bool" where
  "acts_on_memory J now H \<longleftrightarrow>
     (\<forall>s. wired J s \<longrightarrow>
        (\<forall>k. http_get H k s = (mem_get s k, s)) \<and> (\<forall>q. http_get_all H q s = (mem_get_all s q, s))
        \<and> (\<forall>b. wire_sparse J (backend b) \<longrightarrow> http_post H b s = mem_post now b s)
        \<and> (\<forall>b. wire_sparse J (backend b) \<longrightarrow> http_put H b s = mem_put now b s)
        \<and> (\<forall>p. wire_patch (patch_backend p) \<longrightarrow> http_patch H p s = mem_patch p s)
        \<and> (\<forall>k. http_delete H k s = mem_delete k s))"

lemma loop_acts_on_memory:
  assumes "loop_ok V defaults" and "dv_ops V = mem_discovery_ops" and "dv_json V = J"
    and "H = loop_http V now defaults base ss sj si"
  shows "acts_on_memory J now H"
  unfolding acts_on_memory_def
proof (intro allI impI)
  fix s assume w: "wired J s"
  have inv: "mem_inv s" and wire: "\<And>k b. mem_content s k = Some b \<Longrightarrow> wire_sparse (dv_json V) (backend b)"
    using w by (auto simp: wired_def assms(3))
  note conj = loop_memory [OF assms(1,2,4) wire inv, unfolded assms(3)]
  show "(\<forall>k. http_get H k s = (mem_get s k, s)) \<and> (\<forall>q. http_get_all H q s = (mem_get_all s q, s))
      \<and> (\<forall>b. wire_sparse J (backend b) \<longrightarrow> http_post H b s = mem_post now b s)
      \<and> (\<forall>b. wire_sparse J (backend b) \<longrightarrow> http_put H b s = mem_put now b s)
      \<and> (\<forall>p. wire_patch (patch_backend p) \<longrightarrow> http_patch H p s = mem_patch p s)
      \<and> (\<forall>k. http_delete H k s = mem_delete k s)"
    by (intro conjI allI; rule conj [THEN conjunct1]
        conj [THEN conjunct2, THEN conjunct1] conj [THEN conjunct2, THEN conjunct2, THEN conjunct1]
        conj [THEN conjunct2, THEN conjunct2, THEN conjunct2, THEN conjunct1]
        conj [THEN conjunct2, THEN conjunct2, THEN conjunct2, THEN conjunct2, THEN conjunct1]
        conj [THEN conjunct2, THEN conjunct2, THEN conjunct2, THEN conjunct2, THEN conjunct2])
qed

lemma acts_on_memoryD:
  assumes "acts_on_memory J now H" and "wired J s"
  shows "http_get H k s = (mem_get s k, s)" and "http_get_all H q s = (mem_get_all s q, s)"
    and "wire_sparse J (backend b) \<Longrightarrow> http_post H b s = mem_post now b s"
    and "wire_sparse J (backend b) \<Longrightarrow> http_put H b s = mem_put now b s"
    and "wire_patch (patch_backend p) \<Longrightarrow> http_patch H p s = mem_patch p s"
    and "http_delete H k s = mem_delete k s"
  using assms unfolding acts_on_memory_def by blast+

lemma connected_client:
  assumes "connected C L opts w V now"
  obtains H where "\<And>f :: _ \<Rightarrow> (mem_discovery, unit) command. cmd_bind (create_backend_client C L opts) f w = f H w"
    and "acts_on_memory (dl_json L) now H"
proof -
  obtain defaults base where "loop_ok V defaults"
    and H: "fst (create_backend_client C L opts w) =
      Inr (loop_http V now defaults base (ce_show_status C) (ce_show_json C) (ce_show_io C))"
    and "dv_ops V = mem_discovery_ops" "dv_json V = dl_json L"
    using assms by (auto simp: connected_def)
  then have "acts_on_memory (dl_json L) now
      (loop_http V now defaults base (ce_show_status C) (ce_show_json C) (ce_show_io C))"
    by (intro loop_acts_on_memory [OF _ _ _ refl])
  moreover have "create_backend_client C L opts w =
      (Inr (loop_http V now defaults base (ce_show_status C) (ce_show_json C) (ce_show_io C)), w)"
    by (rule prod_eqI) (simp_all add: H)
  then have "cmd_bind (create_backend_client C L opts) f w =
      f (loop_http V now defaults base (ce_show_status C) (ce_show_json C) (ce_show_io C)) w"
    for f :: "_ \<Rightarrow> (mem_discovery, unit) command"
    by (simp add: cmd_bind_def)
  ultimately show thesis by (rule that [rotated])
qed

text \<open>What a document says can be sent.\<close>

lemma sparse_of_fields_wire:
  assumes "print_codec J" and "sparse_of_fields J fs = Inr b"
  shows "wire_sparse J b"
  using assms
  by (auto simp: sparse_of_fields_def result_simps wire_sparse_def print_codec_def req_field_def
      read_string_set_def json_bytes_deserialize_def split: option.splits)

lemma sparse_from_json_wire: "print_codec J \<Longrightarrow> sparse_from_json J v = Inr b \<Longrightarrow> wire_sparse J b"
  by (auto simp: sparse_from_json_def result_simps dest: sparse_of_fields_wire)

lemma backend_from_json_wire: "print_codec J \<Longrightarrow> backend_from_json J v = Inr b \<Longrightarrow> wire_sparse J (backend b)"
  by (auto simp: backend_from_json_def result_simps dest: sparse_of_fields_wire)

lemma opt_field_no_null: "opt_field (opt_value rd) k fs \<noteq> Inr (Some None)"
  by (auto simp: opt_field_def opt_value_def result_simps split: option.splits)

lemma opt_field_set_finite: "opt_field read_string_set k fs = Inr (Some ps) \<Longrightarrow> finite ps"
  by (auto simp: opt_field_def opt_value_def read_string_set_def result_simps split: option.splits if_splits)

lemma patch_from_json_wire:
  assumes "patch_from_json v = Inr p"
  shows "wire_patch p"
proof -
  obtain fs n ps where "opt_field (opt_value read_string) ''name'' fs = Inr n"
      "opt_field read_string_set ''partitions'' fs = Inr ps" "patch_name p = n" "patch_partitions p = ps"
    using assms by (auto simp only: patch_from_json_def result_simps discovery_backend_patch_sparse.simps)
  then show ?thesis
    using opt_field_no_null [of read_string "''name''" fs] opt_field_set_finite [of "''partitions''" fs]
    by (auto simp: wire_patch_def)
qed

section \<open>What the commands do\<close>

lemma post_backend_run:
  assumes "connected C L opts w V now" and "wired (dl_json L) (cw_remote w)" and "print_codec (dl_json L)"
    and "document C path (backend_from_json (dl_json L)) w = Some (b, w1)"
    and "mem_post now b (cw_remote w) = (Inr created, s')"
  shows "post_backend C L path opts w =
    (case created of
       Some k \<Rightarrow> cmd_info (''Backend created: '' @ jl_show_key (dl_json L) k) (w1\<lparr>cw_remote := s'\<rparr>)
     | None \<Rightarrow> cmd_bail (''Conflict. A backend already exists at: '' @ jl_show_key (dl_json L) (public_key b))
                 (w1\<lparr>cw_remote := s'\<rparr>))"
proof -
  obtain H where H: "\<And>f :: _ \<Rightarrow> (mem_discovery, unit) command. cmd_bind (create_backend_client C L opts) f w = f H w"
      "acts_on_memory (dl_json L) now H"
    using connected_client [OF assms(1)] by blast
  have "wire_sparse (dl_json L) (backend b)"
    using assms(3,4) by (auto simp: document_def backend_from_json_wire split: prod.splits sum.splits)
  then have post: "http_post H b (cw_remote w1) = (Inr created, s')"
    using acts_on_memoryD(3) [OF H(2) assms(2)] assms(5) document_remote [OF assms(4)] by simp
  show ?thesis
    unfolding post_backend_def H(1) read_document [OF assms(4)] cmd_bind_call [where f = "http_post H b", OF post]
    by (simp split: option.splits)
qed

lemma put_backend_run:
  assumes "connected C L opts w V now" and "wired (dl_json L) (cw_remote w)" and "print_codec (dl_json L)"
    and "jl_parse_key (dl_json L) key = Inr k"
    and "document C path (sparse_from_json (dl_json L)) w = Some (b, w1)"
    and "mem_put now \<lparr>public_key = k, backend = b\<rparr> (cw_remote w) = (Inr created, s')"
  shows "put_backend C L key path opts w =
    cmd_info ((if created then ''Backend created: '' else ''Backend updated: '') @ jl_show_key (dl_json L) k)
      (w1\<lparr>cw_remote := s'\<rparr>)"
proof -
  obtain H where H: "\<And>f :: _ \<Rightarrow> (mem_discovery, unit) command. cmd_bind (create_backend_client C L opts) f w = f H w"
      "acts_on_memory (dl_json L) now H"
    using connected_client [OF assms(1)] by blast
  have key: "cmd_bind (parse_key_argument L key) f w = f k w" for f :: "_ \<Rightarrow> (mem_discovery, unit) command"
    by (simp add: cmd_bind_def parse_key_argument_eq assms(4))
  have "wire_sparse (dl_json L) b"
    using assms(3,5) by (auto simp: document_def sparse_from_json_wire split: prod.splits sum.splits)
  then have put: "http_put H \<lparr>public_key = k, backend = b\<rparr> (cw_remote w1) = (Inr created, s')"
    using acts_on_memoryD(4) [OF H(2) assms(2), of "\<lparr>public_key = k, backend = b\<rparr>"] assms(6) document_remote [OF assms(5)]
    by simp
  show ?thesis
    unfolding put_backend_def key H(1) read_document [OF assms(5)] cmd_bind_call [where f = "http_put H \<lparr>public_key = k, backend = b\<rparr>", OF put]
    by simp
qed

lemma patch_backend_run:
  assumes "connected C L opts w V now" and "wired (dl_json L) (cw_remote w)"
    and "jl_parse_key (dl_json L) key = Inr k"
    and "document C path patch_from_json w = Some (p, w1)"
    and "mem_patch \<lparr>patch_public_key = k, patch_backend = p\<rparr> (cw_remote w) = (Inr hit, s')"
  shows "patch_backend_command C L key path opts w =
    (if hit then cmd_info (''Backend patched: '' @ jl_show_key (dl_json L) k)
     else cmd_bail (''Backend not found: '' @ jl_show_key (dl_json L) k)) (w1\<lparr>cw_remote := s'\<rparr>)"
proof -
  obtain H where H: "\<And>f :: _ \<Rightarrow> (mem_discovery, unit) command. cmd_bind (create_backend_client C L opts) f w = f H w"
      "acts_on_memory (dl_json L) now H"
    using connected_client [OF assms(1)] by blast
  have key: "cmd_bind (parse_key_argument L key) f w = f k w" for f :: "_ \<Rightarrow> (mem_discovery, unit) command"
    by (simp add: cmd_bind_def parse_key_argument_eq assms(3))
  have "wire_patch p"
    using assms(4) by (auto simp: document_def patch_from_json_wire split: prod.splits sum.splits)
  then have patch: "http_patch H \<lparr>patch_public_key = k, patch_backend = p\<rparr> (cw_remote w1) = (Inr hit, s')"
    using acts_on_memoryD(5) [OF H(2) assms(2), of "\<lparr>patch_public_key = k, patch_backend = p\<rparr>"] assms(5)
      document_remote [OF assms(4)] by simp
  show ?thesis
    unfolding patch_backend_command_def key H(1) read_document [OF assms(4)]
      cmd_bind_call [where f = "http_patch H \<lparr>patch_public_key = k, patch_backend = p\<rparr>", OF patch]
    by simp
qed

lemma enable_backend_run:
  assumes "connected C L opts w V now" and "wired (dl_json L) (cw_remote w)"
    and "jl_parse_key (dl_json L) key = Inr k"
    and "mem_patch (enabled_patch k e) (cw_remote w) = (Inr hit, s')"
  shows "enable_backend C L key e opts w =
    (if hit then cmd_info (''Backend patched: '' @ jl_show_key (dl_json L) k @ '': enabled:'' @ show_bool e)
     else cmd_bail (''Backend not found: '' @ jl_show_key (dl_json L) k)) (w\<lparr>cw_remote := s'\<rparr>)"
proof -
  obtain H where H: "\<And>f :: _ \<Rightarrow> (mem_discovery, unit) command. cmd_bind (create_backend_client C L opts) f w = f H w"
      "acts_on_memory (dl_json L) now H"
    using connected_client [OF assms(1)] by blast
  have key: "cmd_bind (parse_key_argument L key) f w = f k w" for f :: "_ \<Rightarrow> (mem_discovery, unit) command"
    by (simp add: cmd_bind_def parse_key_argument_eq assms(3))
  have patch: "http_patch H (enabled_patch k e) (cw_remote w) = (Inr hit, s')"
    using acts_on_memoryD(5) [OF H(2) assms(2), of "enabled_patch k e"] assms(4)
    by (simp add: enabled_patch_def wire_patch_def)
  show ?thesis
    unfolding enable_backend_def key H(1) cmd_bind_call [where f = "http_patch H (enabled_patch k e)", OF patch] by simp
qed

lemma delete_backend_run:
  assumes "connected C L opts w V now" and "wired (dl_json L) (cw_remote w)"
    and "jl_parse_key (dl_json L) key = Inr k"
    and "mem_delete k (cw_remote w) = (Inr deleted, s')"
  shows "delete_backend C L key opts w =
    (if deleted then cmd_info (''Backend deleted: '' @ jl_show_key (dl_json L) k)
     else cmd_bail (''Backend not found: '' @ jl_show_key (dl_json L) k)) (w\<lparr>cw_remote := s'\<rparr>)"
proof -
  obtain H where H: "\<And>f :: _ \<Rightarrow> (mem_discovery, unit) command. cmd_bind (create_backend_client C L opts) f w = f H w"
      "acts_on_memory (dl_json L) now H"
    using connected_client [OF assms(1)] by blast
  have key: "cmd_bind (parse_key_argument L key) f w = f k w" for f :: "_ \<Rightarrow> (mem_discovery, unit) command"
    by (simp add: cmd_bind_def parse_key_argument_eq assms(3))
  have del: "http_delete H k (cw_remote w) = (Inr deleted, s')"
    using acts_on_memoryD(6) [OF H(2) assms(2)] assms(4) by simp
  show ?thesis
    unfolding delete_backend_def key H(1) cmd_bind_call [where f = "http_delete H k", OF del] by simp
qed

text \<open>Reading a backend into a file.\<close>

lemma get_backend_run:
  assumes "connected C L opts w V now" and "wired (dl_json L) (cw_remote w)"
    and "jl_parse_key (dl_json L) key = Inr k"
  shows "get_backend C L (Some key) output opts w =
    (case mem_content (cw_remote w) k of
       Some b \<Rightarrow>
         cmd_bind (cmd_context (''serializing backend '' @ jl_show_key (dl_json L) k)
             (cmd_result (pretty_output C (backend_to_json (dl_json L) b)))) (write_output C ''backend'' output) w
     | None \<Rightarrow> cmd_bail (''Backend '' @ jl_show_key (dl_json L) k @ '' not found'') w)"
proof -
  obtain H where H: "\<And>f :: _ \<Rightarrow> (mem_discovery, unit) command. cmd_bind (create_backend_client C L opts) f w = f H w"
      "acts_on_memory (dl_json L) now H"
    using connected_client [OF assms(1)] by blast
  have key: "cmd_bind (parse_key_argument L key) f w = f k w" for f :: "_ \<Rightarrow> (mem_discovery, unit) command"
    by (simp add: cmd_bind_def parse_key_argument_eq assms(3))
  have "mem_inv (cw_remote w)" using assms(2) by (simp add: wired_def)
  then have get: "http_get H k (cw_remote w) = (Inr (mem_content (cw_remote w) k), cw_remote w)"
    using acts_on_memoryD(1) [OF H(2) assms(2), of k] mem.get_law by simp
  show ?thesis
    unfolding get_backend_def H(1) option.case key cmd_bind_call [where f = "http_get H k", OF get]
    by (simp split: option.splits del: mem_content_None)
qed

lemma get_all_quiet:
  assumes "connected C L opts w V now" and "wired (dl_json L) (cw_remote w)" and "\<And>ds. quiet (f ds)"
  shows "cw_remote (snd (cmd_bind (create_backend_client C L opts)
      (\<lambda>client. cmd_bind (cmd_call CliDiscovery (http_get_all client None)) (f :: _ \<Rightarrow> (mem_discovery, unit) command)) w))
    = cw_remote w"
proof -
  obtain H where H: "\<And>f :: _ \<Rightarrow> (mem_discovery, unit) command. cmd_bind (create_backend_client C L opts) f w = f H w"
      "acts_on_memory (dl_json L) now H"
    using connected_client [OF assms(1)] by blast
  show ?thesis
    unfolding H(1) cmd_bind_call [where f = "http_get_all H None", OF acts_on_memoryD(2) [OF H(2) assms(2)]]
    using assms(3) by (simp add: quiet_def split: sum.splits)
qed

section \<open>A command that fails\<close>

lemma new_backend_quiet: "quiet (new_backend C L t key nm part output)"
  unfolding new_backend_def by (intro quiet_intros)

lemma list_backends_quiet:
  assumes "connected C L opts w V now" and "wired (dl_json L) (cw_remote w)"
  shows "cw_remote (snd (list_backends C L opts w)) = cw_remote w"
  unfolding list_backends_def by (rule get_all_quiet [OF assms]) (intro quiet_intros)

lemma get_backend_quiet:
  assumes "connected C L opts w V now" and "wired (dl_json L) (cw_remote w)"
  shows "cw_remote (snd (get_backend C L key output opts w)) = cw_remote w"
proof (cases key)
  case None
  then show ?thesis
    unfolding get_backend_def None option.case by (intro get_all_quiet [OF assms] quiet_intros)
next
  case (Some key)
  show ?thesis
  proof (cases "jl_parse_key (dl_json L) key")
    case (Inl e)
    obtain H where H: "\<And>f :: _ \<Rightarrow> (mem_discovery, unit) command. cmd_bind (create_backend_client C L opts) f w = f H w"
      using connected_client [OF assms(1)] by blast
    show ?thesis
      unfolding get_backend_def Some H option.case by (simp add: cmd_bind_def parse_key_argument_eq Inl)
  next
    case (Inr k)
    have "quiet (cmd_bind (cmd_context ctx (cmd_result (pretty_output C v))) (write_output C ''backend'' output))" for ctx v
      by (intro quiet_intros)
    then show ?thesis
      unfolding Some get_backend_run [OF assms Inr]
      by (simp add: quiet_def cmd_bail_def split: option.splits)
  qed
qed

lemma no_document:
  assumes "connected C L opts w V now" and "document C path rd w = None"
  shows "cw_remote (snd (cmd_bind (create_backend_client C L opts)
      (\<lambda>client. cmd_bind (read_input C what path) (\<lambda>doc. cmd_bind (parse_input C what' rd path doc)
        (f client :: _ \<Rightarrow> (mem_discovery, unit) command))) w)) = cw_remote w"
proof -
  obtain H where H: "\<And>f :: _ \<Rightarrow> (mem_discovery, unit) command. cmd_bind (create_backend_client C L opts) f w = f H w"
    using connected_client [OF assms(1)] by blast
  obtain e w1 where "cmd_bind (read_input C what path)
      (\<lambda>doc. cmd_bind (parse_input C what' rd path doc) (f H)) w = (Inl e, w1)" "cw_remote w1 = cw_remote w"
    using read_document_fails [OF assms(2)] by blast
  then show ?thesis unfolding H by simp
qed

lemma no_key:
  "jl_parse_key (dl_json L) key = Inl e \<Longrightarrow> snd (cmd_bind (parse_key_argument L key) f w) = w"
  by (simp add: cmd_bind_def parse_key_argument_eq)

lemma parsed_key_bind:
  "jl_parse_key (dl_json L) key = Inr k \<Longrightarrow> cmd_bind (parse_key_argument L key) f w = f k w"
  by (simp add: cmd_bind_def parse_key_argument_eq)

lemma post_backend_failed:
  assumes "connected C L opts w V now" and "wired (dl_json L) (cw_remote w)" and "print_codec (dl_json L)"
    and "post_backend C L path opts w = (Inl e, w')"
  shows "cw_remote w' = cw_remote w"
proof (cases "document C path (backend_from_json (dl_json L)) w")
  case None
  have "cw_remote (snd (post_backend C L path opts w)) = cw_remote w"
    unfolding post_backend_def by (rule no_document [OF assms(1) None])
  with assms(4) show ?thesis by simp
next
  case (Some bw)
  obtain b w1 where bw: "bw = (b, w1)" by fastforce
  show ?thesis
  proof (cases "mem_content (cw_remote w) (public_key b)")
    case None
    then obtain s' where "mem_post now b (cw_remote w) = (Inr (Some (public_key b)), s')"
      by (simp add: mem_post_def)
    then show ?thesis
      using post_backend_run [OF assms(1-3) Some [unfolded bw]] assms(4) by (simp add: cmd_info_def)
  next
    case (Some b')
    then have "mem_post now b (cw_remote w) = (Inr None, cw_remote w)"
      by (auto simp: mem_post_def mem_content_apply)
    then show ?thesis
      using post_backend_run [OF assms(1-3) \<open>document _ _ _ _ = _\<close> [unfolded bw]] assms(4)
      by (auto simp: cmd_bail_def)
  qed
qed

lemma put_backend_failed:
  assumes "connected C L opts w V now" and "wired (dl_json L) (cw_remote w)" and "print_codec (dl_json L)"
    and "put_backend C L key path opts w = (Inl e, w')"
  shows "cw_remote w' = cw_remote w"
proof (cases "jl_parse_key (dl_json L) key")
  case (Inl e)
  have "snd (put_backend C L key path opts w) = w"
    unfolding put_backend_def by (rule no_key [OF Inl])
  with assms(4) show ?thesis by simp
next
  case (Inr k)
  show ?thesis
  proof (cases "document C path (sparse_from_json (dl_json L)) w")
    case None
    have "cw_remote (snd (put_backend C L key path opts w)) = cw_remote w"
      unfolding put_backend_def parsed_key_bind [OF Inr] by (rule no_document [OF assms(1) None])
    with assms(4) show ?thesis by simp
  next
    case (Some bw)
    obtain b w1 where bw: "bw = (b, w1)" by fastforce
    obtain c s' where "mem_put now \<lparr>public_key = k, backend = b\<rparr> (cw_remote w) = (Inr c, s')"
      by (fastforce simp: mem_put_def Let_def split: prod.splits)
    then show ?thesis
      using put_backend_run [OF assms(1-3) Inr Some [unfolded bw]] assms(4) by (simp add: cmd_info_def)
  qed
qed

text \<open>A patch or a deletion that hits nothing changes nothing, and is the only one reported.\<close>

lemma mem_patch_hit:
  "\<exists>hit s'. mem_patch p s = (Inr hit, s') \<and> (\<not> hit \<longrightarrow> s' = s)"
  by (cases "map_of (md_store s) (patch_public_key p)") (auto simp: mem_patch_def Let_def)

lemma mem_delete_hit:
  "\<exists>hit s'. mem_delete k s = (Inr hit, s') \<and> (\<not> hit \<longrightarrow> s' = s)"
  by (cases "map_of (md_store s) k") (auto simp: mem_delete_def Let_def map_of_eq_None_iff)

lemma patch_backend_failed:
  assumes "connected C L opts w V now" and "wired (dl_json L) (cw_remote w)"
    and "patch_backend_command C L key path opts w = (Inl e, w')"
  shows "cw_remote w' = cw_remote w"
proof (cases "jl_parse_key (dl_json L) key")
  case (Inl e)
  have "snd (patch_backend_command C L key path opts w) = w"
    unfolding patch_backend_command_def by (rule no_key [OF Inl])
  with assms(3) show ?thesis by simp
next
  case (Inr k)
  show ?thesis
  proof (cases "document C path patch_from_json w")
    case None
    have "cw_remote (snd (patch_backend_command C L key path opts w)) = cw_remote w"
      unfolding patch_backend_command_def parsed_key_bind [OF Inr] by (rule no_document [OF assms(1) None])
    with assms(3) show ?thesis by simp
  next
    case (Some pw)
    obtain p w1 where pw: "pw = (p, w1)" by fastforce
    obtain hit s' where hit: "mem_patch \<lparr>patch_public_key = k, patch_backend = p\<rparr> (cw_remote w) = (Inr hit, s')"
        "\<not> hit \<Longrightarrow> s' = cw_remote w"
      using mem_patch_hit by blast
    from assms(3) show ?thesis
      unfolding patch_backend_run [OF assms(1,2) Inr Some [unfolded pw] hit(1)] by (rule reported) (rule hit(2))
  qed
qed

lemma enable_backend_failed:
  assumes "connected C L opts w V now" and "wired (dl_json L) (cw_remote w)"
    and "enable_backend C L key f opts w = (Inl e, w')"
  shows "cw_remote w' = cw_remote w"
proof (cases "jl_parse_key (dl_json L) key")
  case (Inl e)
  have "snd (enable_backend C L key f opts w) = w"
    unfolding enable_backend_def by (rule no_key [OF Inl])
  with assms(3) show ?thesis by simp
next
  case (Inr k)
  obtain hit s' where hit: "mem_patch (enabled_patch k f) (cw_remote w) = (Inr hit, s')" "\<not> hit \<Longrightarrow> s' = cw_remote w"
    using mem_patch_hit by blast
  from assms(3) show ?thesis
    unfolding enable_backend_run [OF assms(1,2) Inr hit(1)] by (rule reported) (rule hit(2))
qed

lemma delete_backend_failed:
  assumes "connected C L opts w V now" and "wired (dl_json L) (cw_remote w)"
    and "delete_backend C L key opts w = (Inl e, w')"
  shows "cw_remote w' = cw_remote w"
proof (cases "jl_parse_key (dl_json L) key")
  case (Inl e)
  obtain H where H: "\<And>f :: _ \<Rightarrow> (mem_discovery, unit) command. cmd_bind (create_backend_client C L opts) f w = f H w"
    using connected_client [OF assms(1)] by blast
  have "snd (delete_backend C L key opts w) = w"
    unfolding delete_backend_def H by (rule no_key [OF Inl])
  with assms(3) show ?thesis by simp
next
  case (Inr k)
  obtain hit s' where hit: "mem_delete k (cw_remote w) = (Inr hit, s')" "\<not> hit \<Longrightarrow> s' = cw_remote w"
    using mem_delete_hit by blast
  from assms(3) show ?thesis
    unfolding delete_backend_run [OF assms(1,2) Inr hit(1)] by (rule reported) (rule hit(2))
qed

text \<open>The client options of a subcommand that has a client.\<close>

fun command_options :: "backend_management_command \<Rightarrow> client_options option" where
  "command_options (BackendNew _ _ _ _ _) = None"
| "command_options (BackendList opts) = Some opts"
| "command_options (BackendGet _ _ opts) = Some opts"
| "command_options (BackendPost _ opts) = Some opts"
| "command_options (BackendPut _ _ opts) = Some opts"
| "command_options (BackendPatch _ _ opts) = Some opts"
| "command_options (BackendEnable _ opts) = Some opts"
| "command_options (BackendDisable _ opts) = Some opts"
| "command_options (BackendDelete _ opts) = Some opts"

lemma failed_backend_command:
  assumes "\<And>opts. command_options c = Some opts \<Longrightarrow> connected C L opts w V now"
    and "wired (dl_json L) (cw_remote w)" and "print_codec (dl_json L)"
    and "run_backend_command C L c w = (Inl e, w')"
  shows "cw_remote w' = cw_remote w"
proof (cases c)
  case (BackendNew t k part nm out)
  with assms(4) quietD [OF new_backend_quiet] show ?thesis by simp
next
  case (BackendList opts)
  with assms(4) list_backends_quiet [OF assms(1,2), of opts] show ?thesis by simp
next
  case (BackendGet k out opts)
  with assms(4) get_backend_quiet [OF assms(1,2), of opts k out] show ?thesis by simp
next
  case (BackendPost path opts)
  with assms(4) post_backend_failed [OF assms(1-3), of opts path e w'] show ?thesis by simp
next
  case (BackendPut k path opts)
  with assms(4) put_backend_failed [OF assms(1-3), of opts k path e w'] show ?thesis by simp
next
  case (BackendPatch k path opts)
  with assms(4) patch_backend_failed [OF assms(1,2), of opts k path e w'] show ?thesis by simp
next
  case (BackendEnable k opts)
  with assms(4) enable_backend_failed [OF assms(1,2), of opts k True e w'] show ?thesis by simp
next
  case (BackendDisable k opts)
  with assms(4) enable_backend_failed [OF assms(1,2), of opts k False e w'] show ?thesis by simp
next
  case (BackendDelete k opts)
  with assms(4) delete_backend_failed [OF assms(1,2), of opts k e w'] show ?thesis by simp
qed

section \<open>Files that are written and read back\<close>

text \<open>The saved form of a backend is read as a backend, and without its key as the rest of it.\<close>

lemma saved_backend_reads:
  assumes "wire_sparse J (backend b)" and "backend_to_json J b = Inr v"
  shows "sparse_from_json J v = Inr (backend b)"
    and "key_codec J \<Longrightarrow> backend_from_json J v = Inr b"
proof -
  let ?e = "(''publicKey'', JStr (jl_show_key J (public_key b)))"
  obtain fs where fs: "sparse_entries J (backend b) = Inr fs" "sparse_of_fields J (?e # fs) = Inr (backend b)"
      "known_once sparse_names fs = Inr fs"
    using sparse_entries_ok [OF assms(1)] by blast
  with assms(2) have v: "v = JObj (?e # fs)" by (simp add: backend_to_json_def)
  have "''publicKey'' \<notin> set sparse_names" by (simp add: sparse_names_def)
  with fs(3) have "known_once sparse_names (?e # fs) = Inr (?e # fs)"
    by (auto simp: known_once_def split: if_splits)
  with fs(2) v show "sparse_from_json J v = Inr (backend b)"
    by (simp add: sparse_from_json_def struct_fields_def)
  show "backend_from_json J v = Inr b" if "key_codec J"
    using backend_json_round_trip [OF that assms(1)] assms(2) by auto
qed

lemma get_then_put:
  assumes "connected C L opts w V now" and "wired (dl_json L) (cw_remote w)"
    and "jl_parse_key (dl_json L) key = Inr k" and "text_codec C" and "print_codec (dl_json L)"
    and "get_backend C L (Some key) (Some p) opts w = (Inr (), w1)"
    and "connected C L opts w2 V now2" and "wired (dl_json L) (cw_remote w2)"
    and "readable C p w2" and "cw_files w2 p = cw_files w1 p"
  shows "\<exists>b w3. mem_content (cw_remote w) k = Some b
    \<and> put_backend C L key (Some p) opts w2 = (Inr (), w3)
    \<and> mem_content (cw_remote w3) = (mem_content (cw_remote w2))(k \<mapsto> b)"
proof -
  have p: "p \<noteq> ''-''" using assms(9) by (simp add: readable_def)
  obtain b where b: "mem_content (cw_remote w) k = Some b"
    using assms(6) get_backend_run [OF assms(1-3), of "Some p"]
    by (cases "mem_content (cw_remote w) k") (simp_all add: cmd_bail_def)
  then have bk: "public_key b = k"
    using mem.keyed_law [of "cw_remote w"] assms(2) by (simp add: wired_def keyed_def)
  have wire: "wire_sparse (dl_json L) (backend b)" using assms(2) b by (simp add: wired_def del: mem_content_None)
  obtain v doc where v: "backend_to_json (dl_json L) b = Inr v" "ce_pretty C v = Inr doc" "cw_files w1 p = Some doc"
    using assms(6) unfolding get_backend_run [OF assms(1-3), of "Some p"] b option.case
    by (rule written_document [OF _ p])
  have "cw_files w2 p = Some doc" "ce_from_str C doc = Inr v"
    using assms(4,10) v by (simp_all add: text_codec_def)
  then have "document C (Some p) (sparse_from_json (dl_json L)) w2 = Some (backend b, w2)"
    by (rule document_file [OF assms(9)]) (rule saved_backend_reads(1) [OF wire v(1)])
  moreover have eta: "\<lparr>public_key = k, backend = backend b\<rparr> = b" using bk by simp
  obtain c s' where put: "mem_put now2 \<lparr>public_key = k, backend = backend b\<rparr> (cw_remote w2) = (Inr c, s')"
    by (fastforce simp: mem_put_def Let_def split: prod.splits)
  ultimately have "put_backend C L key (Some p) opts w2 = cmd_info
      ((if c then ''Backend created: '' else ''Backend updated: '') @ jl_show_key (dl_json L) k) (w2\<lparr>cw_remote := s'\<rparr>)"
    by (intro put_backend_run [OF assms(7,8,5,3)])
  moreover have "mem_content s' = (mem_content (cw_remote w2))(k \<mapsto> b)"
    using mem.put_law [OF _ put] assms(8) bk by (simp add: wired_def eta)
  ultimately show ?thesis using b by (simp add: cmd_info_def)
qed

lemma new_then_post:
  assumes "new_backend C L t key nm part (Some p) w = (Inr (), w1)"
    and "text_codec C" and "print_codec (dl_json L)" and "key_codec (dl_json L)"
    and "\<And>u u'. ce_parse_url C u = Inr u' \<Longrightarrow> ce_parse_url C u' = Inr u'"
    and "connected C L opts w2 V now" and "wired (dl_json L) (cw_remote w2)"
    and "readable C p w2" and "cw_files w2 p = cw_files w1 p"
    and "jl_parse_key (dl_json L) key = Inr k" and "mem_content (cw_remote w2) k = None"
  shows "\<exists>url impl w3. post_backend C L (Some p) opts w2 = (Inr (), w3)
    \<and> mem_content (cw_remote w3) = (mem_content (cw_remote w2))(k \<mapsto> template_backend k nm part impl)
    \<and> parse_implementation (ce_parse_url C) (ce_show_json C) (dl_json L) impl = Inr (template_implementation t url)"
proof -
  have p: "p \<noteq> ''-''" using assms(8) by (simp add: readable_def)
  obtain url where url: "ce_parse_url C (template_url t) = Inr url"
    using assms(1) unfolding new_backend_def
    by (auto simp: cmd_result_def result_simps elim!: cmd_bind_Inr)
  obtain impl where impl: "print_implementation (dl_json L) (template_implementation t url) = Inr impl"
    using assms(1) unfolding new_backend_def
    by (auto simp: cmd_result_def result_simps url elim!: cmd_bind_Inr)
  let ?b = "template_backend k nm part impl"
  let ?doc = "cmd_bind (cmd_context ''serializing backend'' (cmd_result (pretty_output C (backend_to_json (dl_json L) ?b))))
        (write_output C ''backend'' (Some p))"
  have "new_backend C L t key nm part (Some p) w = cmd_bind ?doc
      (\<lambda>_. cmd_bind (cmd_info (''Modify this JSON file to match the '' @ show_node_type t @ '' node configuration'')) (\<lambda>_.
        cmd_info ''Load it into the Discovery Service. See: swgr discovery post --help'')) w"
    unfolding new_backend_def cmd_bind_assoc by (simp only: url assms(10) impl map_err.simps cmd_bind_result)
  then obtain w' where w': "?doc w = (Inr (), w')" "cw_files w1 = cw_files w'"
    using logged_twice [OF trans [OF sym assms(1)]] by blast
  obtain v doc where v: "backend_to_json (dl_json L) ?b = Inr v" "ce_pretty C v = Inr doc" "cw_files w' p = Some doc"
    by (rule written_document [OF w'(1) p])
  have read: "jl_parse (dl_json L) impl = Inr (implementation_to_json (template_implementation t url))"
    using assms(3) impl by (simp add: print_codec_def print_implementation_def)
  have wire: "wire_sparse (dl_json L) (backend ?b)"
    using read impl by (simp add: wire_sparse_def template_backend_def print_implementation_def)
  have "cw_files w2 p = Some doc" "ce_from_str C doc = Inr v"
    using assms(2,9) v w'(2) by (simp_all add: text_codec_def)
  then have doc: "document C (Some p) (backend_from_json (dl_json L)) w2 = Some (?b, w2)"
    by (rule document_file [OF assms(8)]) (rule saved_backend_reads(2) [OF wire v(1) assms(4)])
  obtain s' where s': "mem_post now ?b (cw_remote w2) = (Inr (Some k), s')"
    using assms(11) by (simp add: mem_post_def template_backend_def)
  have "mem_content s' = (mem_content (cw_remote w2))(k \<mapsto> ?b)"
    using mem.post_law [OF _ s'] assms(7,11) by (simp add: wired_def template_backend_def)
  moreover have "implementation_url (template_implementation t url) = url"
    by (simp add: template_implementation_def split: ln_node_command_type.splits)
  then have "parse_implementation (ce_parse_url C) (ce_show_json C) (dl_json L) impl = Inr (template_implementation t url)"
    using parse_print_implementation [OF impl read] assms(5) [OF url] by simp
  ultimately show ?thesis
    using post_backend_run [OF assms(6,7,3) doc s'] by (auto simp: cmd_info_def)
qed

lemma enable_command:
  assumes "connected C L opts w V now" and "wired (dl_json L) (cw_remote w)"
    and "jl_parse_key (dl_json L) key = Inr k"
  shows "(case mem_content (cw_remote w) k of
      None \<Rightarrow> \<exists>msg. enable_backend C L key e opts w = (Inl ([], CliMessage msg), w)
    | Some b \<Rightarrow> \<exists>w'. enable_backend C L key e opts w = (Inr (), w')
        \<and> mem_content (cw_remote w') = (mem_content (cw_remote w))(k \<mapsto> b\<lparr>backend := (backend b)\<lparr>enabled := e\<rparr>\<rparr>))"
proof -
  let ?s = "cw_remote w"
  have inv: "mem_inv ?s" using assms(2) by (simp add: wired_def)
  obtain hit s' where hit: "mem_patch (enabled_patch k e) ?s = (Inr hit, s')" "\<not> hit \<Longrightarrow> s' = ?s"
    using mem_patch_hit by blast
  note law = mem.patch_law [OF inv hit(1)]
  have flag: "patch_public_key (enabled_patch k e) = k" "patched (patch_backend (enabled_patch k e)) b = b\<lparr>enabled := e\<rparr>" for b
    by (simp_all add: patched_def enabled_patch_def)
  have eff: "op_effect (DPatch (enabled_patch k e)) m =
      (case m k of None \<Rightarrow> None | Some b \<Rightarrow> Some (m(k \<mapsto> b\<lparr>backend := (backend b)\<lparr>enabled := e\<rparr>\<rparr>)))" for m
    by (cases "m k") (simp_all add: flag)
  show ?thesis
  proof (cases "mem_content ?s k")
    case None
    then have "\<not> hit" using law unfolding eff None by simp
    with hit(2) None enable_backend_run [OF assms(1-3) hit(1)] show ?thesis
      by (auto simp: cmd_bail_def simp del: mem_content_None)
  next
    case (Some b)
    then have "hit" "mem_content s' = (mem_content ?s)(k \<mapsto> b\<lparr>backend := (backend b)\<lparr>enabled := e\<rparr>\<rparr>)"
      using law unfolding eff Some by simp_all
    with Some enable_backend_run [OF assms(1-3) hit(1)] show ?thesis
      by (auto simp: cmd_info_def)
  qed
qed

section \<open>A concrete environment for the witnesses\<close>

text \<open>Libraries that know one configuration and one document, and a world with a token file.\<close>

definition command_json :: json_lib where
  "command_json =
     (dv_json sample_service)
       \<lparr>jl_print := (\<lambda>v. if v = implementation_to_json (template_implementation ClnGrpcNode (template_url ClnGrpcNode))
                       then Inr [1] else Inl ''unknown''),
        jl_parse := (\<lambda>bs. if bs = [1]
                       then Inr (implementation_to_json (template_implementation ClnGrpcNode (template_url ClnGrpcNode)))
                       else Inl ''unknown'')\<rparr>"

definition command_libs :: discovery_libs where
  "command_libs = \<lparr>dl_json = command_json, dl_hex = dv_hex sample_service\<rparr>"

definition command_backend :: discovery_backend where
  "command_backend = template_backend (PublicKey [1]) (Some ''n'') ''p'' [1]"

definition command_document :: json where
  "command_document = (case backend_to_json command_json command_backend of Inr v \<Rightarrow> v | Inl _ \<Rightarrow> JNull)"

definition command_service :: "(mem_discovery, discovery_store_error, unit) discovery_service" where
  "command_service =
     sample_service
       \<lparr>dv_json := command_json,
        dv_bearer := (\<lambda>hs. if (''authorization'', ''Bearer t'') \<in> set hs then Some ''t'' else None)\<rparr>"

definition command_env :: "mem_discovery command_env" where
  "command_env =
     \<lparr>ce_sys = \<lparr>sy_fault = (\<lambda>_ _. None), sy_env = Map.empty\<rparr>,
      ce_from_str = (\<lambda>s. if s = ''d'' then Inr command_document else Inl ''EOF''),
      ce_pretty = (\<lambda>v. if v = command_document then Inr ''d'' else Inl ''unknown''),
      ce_show_json = (\<lambda>_. ''json''), ce_show_io = (\<lambda>_. ''io''), ce_show_status = (\<lambda>_. ''status''),
      ce_parse_url = Inr, ce_pem = (\<lambda>_. []),
      ce_builder =
        \<lparr>cb_build = (\<lambda>cc. Inr (loop_client (cc_default_headers cc) ''http://h'' (discovery_router command_service 5))),
         cb_from_der = (\<lambda>_. None)\<rparr>\<rparr>"

definition command_options_sample :: client_options where
  "command_options_sample =
     \<lparr>co_base_url = Some ''http://h'', co_authorization_path = Some ''a'', co_trusted_roots = None\<rparr>"

definition command_world :: "mem_discovery \<Rightarrow> mem_discovery cli_world" where
  "command_world s =
     \<lparr>cw_files = [''a'' \<mapsto> ''t''], cw_stdin = [], cw_stdout = [], cw_log = [], cw_remote = s\<rparr>"

lemma command_service_loop: "loop_ok command_service [(''authorization'', ''Bearer t'')]"
proof -
  have l: "list_all visible_char (nibble_encode bs)" "list_all header_char (nibble_encode bs)"
      "CHR ''/'' \<notin> set (nibble_encode bs)" for bs
    using letter_chars nibble_letters by (fastforce simp: list_all_iff)+
  have "header_char (CHR ''k'')" by (simp add: header_char_def)
  with l show ?thesis
    by (simp add: loop_ok_def command_service_def command_json_def sample_service_def key_codec_def nibble_codec
        hex_codec_def header_get_def token_validator_def validate_token_def)
qed

lemma command_connected:
  assumes "cw_files w ''a'' = Some ''t''"
  shows "connected command_env command_libs command_options_sample w command_service 5"
proof -
  have "client_parameters command_env ''DISCOVERY_STORE_HTTP'' command_options_sample w = (Inr (''http://h'', ''t'', []), w)"
    using assms
    by (simp add: client_parameters_def client_base_url_def client_authorization_def load_roots_def command_options_sample_def
        command_env_def cmd_defs fs_read_def file_open_def read_to_string_def)
  then have "fst (create_backend_client command_env command_libs command_options_sample w) =
      Inr (loop_http command_service 5 [(''authorization'', ''Bearer t'')] ''http://h''
        (ce_show_status command_env) (ce_show_json command_env) (ce_show_io command_env))"
    by (simp add: create_backend_client_def cmd_defs discovery_create_def header_value_def header_char_def
        add_root_certificates_def command_env_def header_insert_def discovery_with_client_def trim_end_slash_def url_error_def
        loop_http_def command_service_def command_libs_def sample_service_def)
  then show ?thesis
    unfolding connected_def
    using command_service_loop by (auto simp: command_service_def sample_service_def command_libs_def)
qed

lemma command_libs_ok:
  "print_codec (dl_json command_libs)" "text_codec command_env" "key_codec (dl_json command_libs)"
  "jl_parse_key (dl_json command_libs) ''kab'' = Inr (PublicKey [1])"
proof -
  show "print_codec (dl_json command_libs)" by (simp add: print_codec_def command_libs_def command_json_def)
  show "text_codec command_env" by (simp add: text_codec_def command_env_def)
  show "key_codec (dl_json command_libs)"
    by (simp add: key_codec_def command_libs_def command_json_def sample_service_def nibble_codec)
  show "jl_parse_key (dl_json command_libs) ''kab'' = Inr (PublicKey [1])"
    by (simp add: command_libs_def command_json_def sample_service_def)
qed

lemma command_wired:
  "wired (dl_json command_libs) mem_discovery_new"
  "wired (dl_json command_libs) (snd (mem_post 0 command_backend mem_discovery_new))"
proof -
  have wire: "wire_sparse (dl_json command_libs) (backend command_backend)"
    by (simp add: wire_sparse_def command_libs_def command_json_def command_backend_def template_backend_def)
  show "wired (dl_json command_libs) mem_discovery_new"
    using mem_inv_new by (simp add: wired_def mem_content_def mem_discovery_new_def)
  have "mem_inv (snd (mem_post 0 command_backend mem_discovery_new))"
    using mem.run_inv [OF mem_inv_new, of "[(0, DPost command_backend)]"] by simp
  with wire show "wired (dl_json command_libs) (snd (mem_post 0 command_backend mem_discovery_new))"
    by (simp add: wired_def mem_post_def mem_content_def mem_discovery_new_def)
qed

lemma command_readable: "readable command_env ''f'' w"
  by (simp add: readable_def command_env_def)

lemma command_writes:
  "write_output command_env what (Some ''f'') doc w = (Inr (), w\<lparr>cw_files := (cw_files w)(''f'' \<mapsto> doc)\<rparr>)"
  by (simp add: write_output_def cmd_defs io_defs command_env_def)

lemma command_document_eq: "backend_to_json command_json command_backend = Inr command_document"
proof -
  have "\<exists>v. backend_to_json command_json command_backend = Inr v"
    by (simp add: backend_to_json_def sparse_entries_def json_bytes_serialize_def command_json_def command_backend_def
        template_backend_def)
  then show ?thesis by (auto simp: command_document_def)
qed

section \<open>Properties\<close>







text \<open>
  \<open>enable\<close> and \<open>disable\<close> do one thing: on a key of the store they set the flag of its
  backend and leave its other fields and every other backend alone; on any other key they
  report the error and leave the whole world as it was.
\<close>

theorem enable_command_flag:
  assumes "connected C L opts w V now" and "wired (dl_json L) (cw_remote w)"
    and "jl_parse_key (dl_json L) key = Inr k"
  shows "(case mem_content (cw_remote w) k of
      None \<Rightarrow> \<exists>msg. enable_backend C L key e opts w = (Inl ([], CliMessage msg), w)
    | Some b \<Rightarrow> \<exists>w'. enable_backend C L key e opts w = (Inr (), w')
        \<and> mem_content (cw_remote w') = (mem_content (cw_remote w))(k \<mapsto> b\<lparr>backend := (backend b)\<lparr>enabled := e\<rparr>\<rparr>))"
  by (rule enable_command [OF assms])

theorem enable_command_flag_witness:
  "\<exists>w'. enable_backend command_env command_libs ''kab'' True command_options_sample
        (command_world (snd (mem_post 0 command_backend mem_discovery_new))) = (Inr (), w')
      \<and> map_option (\<lambda>b. enabled (backend b)) (mem_content (cw_remote w') (PublicKey [1])) = Some True"
proof -
  let ?w = "command_world (snd (mem_post 0 command_backend mem_discovery_new))"
  have con: "connected command_env command_libs command_options_sample ?w command_service 5"
    by (rule command_connected) (simp add: command_world_def)
  have wired: "wired (dl_json command_libs) (cw_remote ?w)" using command_wired(2) by (simp add: command_world_def)
  have content: "mem_content (cw_remote ?w) (PublicKey [1]) = Some command_backend"
    by (simp add: command_world_def mem_post_def mem_content_def mem_discovery_new_def command_backend_def template_backend_def)
  from enable_command_flag [OF con wired command_libs_ok(4), of True] show ?thesis
    unfolding content by auto
qed

end
