(* ===== verification/OfferCommands.thy ===== *)
theory OfferCommands
  imports CommandIo OfferHttp
begin

text \<open>
  \<open>server/src/commands/offer\<close>: the commands that administer the offers and the metadata of an offer
  service, over the HTTP store of theory \<open>OfferHttp\<close> and the files of theory \<open>CommandIo\<close>. A new id
  (\<open>Uuid::new_v4\<close>) is an argument.
\<close>

definition create_offer_client ::
  "'s command_env \<Rightarrow> offer_lib \<Rightarrow> client_options \<Rightarrow> ('s, 's offer_http) command" where
  "create_offer_client C L opts =
     cmd_bind (client_parameters C ''OFFER_STORE_HTTP'' opts) (\<lambda>(base_url, authorization, roots).
     cmd_result (map_err (\<lambda>e. ([], CliOffer e))
       (offer_create (ce_builder C) (url_error C) L (ce_show_status C) (ce_show_json C) base_url
          1000000000 1000000000 roots authorization)))"

definition cmd_offer :: "('s \<Rightarrow> (offer_store_error + 'a) \<times> 's) \<Rightarrow> ('s, 'a) command" where
  "cmd_offer = cmd_call CliOffer"

section \<open>Offers (record.rs)\<close>

text \<open>The template: nothing can be sent, and it expired on the second day of the epoch.\<close>

definition template_offer :: "string \<Rightarrow> uuid \<Rightarrow> uuid \<Rightarrow> offer_record" where
  "template_offer part fresh metadata_id =
     \<lparr>rec_partition = part, rec_id = fresh,
      rec_offer =
        \<lparr>rec_max_sendable = 0, rec_min_sendable = 0, rec_metadata_id = metadata_id, rec_metadata = None,
         rec_timestamp = 0, rec_expires = Some (86400 * 1000000000)\<rparr>\<rparr>"

definition new_offer ::
  "'s command_env \<Rightarrow> offer_lib \<Rightarrow> uuid \<Rightarrow> string \<Rightarrow> uuid \<Rightarrow> string option \<Rightarrow> ('s, unit) command" where
  "new_offer C L fresh part metadata_id output =
     cmd_bind (cmd_result (pretty_output C (Inr (record_to_json L (template_offer part fresh metadata_id))))) (\<lambda>doc.
     cmd_bind (write_output C ''offer'' output doc) (\<lambda>_.
     cmd_bind (cmd_info ''Modify this JSON file to create a unique offer'') (\<lambda>_.
     cmd_info ''Load it into the Offer Service. See: swgr offer post --help'')))"

definition get_offer_command ::
  "'s command_env \<Rightarrow> offer_lib \<Rightarrow> string \<Rightarrow> uuid option \<Rightarrow> usize \<Rightarrow> usize \<Rightarrow> string option \<Rightarrow> client_options
     \<Rightarrow> ('s, unit) command" where
  "get_offer_command C L part i st cnt output opts =
     cmd_bind (create_offer_client C L opts) (\<lambda>client.
       case i of
         Some i \<Rightarrow>
           cmd_bind (cmd_offer (oh_get_offer client part i None)) (\<lambda>ro.
             case ro of
               Some r \<Rightarrow>
                 cmd_bind (cmd_context (''serializing offer '' @ ol_show_uuid L i)
                     (cmd_result (pretty_output C (Inr (record_to_json L r))))) (\<lambda>doc.
                 write_output C ''offer'' output doc)
             | None \<Rightarrow> cmd_bail (''Offer '' @ ol_show_uuid L i @ '' not found''))
       | None \<Rightarrow>
           cmd_bind (cmd_offer (oh_get_offers client part st cnt)) (\<lambda>rs.
           cmd_bind (cmd_context (''serializing offer for '' @ part)
               (cmd_result (pretty_output C (Inr (array_to_json (record_to_json L) rs))))) (\<lambda>doc.
           write_output C ''offer'' output doc)))"

definition post_offer_command ::
  "'s command_env \<Rightarrow> offer_lib \<Rightarrow> string option \<Rightarrow> client_options \<Rightarrow> ('s, unit) command" where
  "post_offer_command C L path opts =
     cmd_bind (create_offer_client C L opts) (\<lambda>client.
     cmd_bind (read_input C ''offer'' path) (\<lambda>doc.
     cmd_bind (parse_input C ''offer'' (record_from_json L) path doc) (\<lambda>r.
     cmd_bind (cmd_offer (oh_post_offer client r)) (\<lambda>created.
       case created of
         Some i \<Rightarrow> cmd_info (''Offer created: '' @ ol_show_uuid L i)
       | None \<Rightarrow> cmd_bail (''Conflict. Offer already exists at: '' @ ol_show_uuid L (rec_id r))))))"

definition put_offer_command ::
  "'s command_env \<Rightarrow> offer_lib \<Rightarrow> string \<Rightarrow> uuid \<Rightarrow> string option \<Rightarrow> client_options \<Rightarrow> ('s, unit) command" where
  "put_offer_command C L part i path opts =
     cmd_bind (create_offer_client C L opts) (\<lambda>client.
     cmd_bind (read_input C ''offer'' path) (\<lambda>doc.
     cmd_bind (parse_input C ''offer'' (record_sparse_from_json L) path doc) (\<lambda>r.
     cmd_bind (cmd_offer (oh_put_offer client \<lparr>rec_partition = part, rec_id = i, rec_offer = r\<rparr>)) (\<lambda>created.
       if created then cmd_info (''Offer created: '' @ ol_show_uuid L i)
       else cmd_info (''Offer updated: '' @ ol_show_uuid L i)))))"

definition delete_offer_command ::
  "'s command_env \<Rightarrow> offer_lib \<Rightarrow> string \<Rightarrow> uuid \<Rightarrow> client_options \<Rightarrow> ('s, unit) command" where
  "delete_offer_command C L part i opts =
     cmd_bind (create_offer_client C L opts) (\<lambda>client.
     cmd_bind (cmd_offer (oh_delete_offer client part i)) (\<lambda>deleted.
       if deleted then cmd_info (''Offer deleted: '' @ ol_show_uuid L i)
       else cmd_bail (''Offer not Found: '' @ ol_show_uuid L i)))"

section \<open>Metadata (metadata.rs)\<close>

definition template_metadata :: "string \<Rightarrow> uuid \<Rightarrow> string \<Rightarrow> offer_metadata" where
  "template_metadata part fresh txt =
     \<lparr>meta_id = fresh, meta_partition = part,
      meta_metadata = \<lparr>md_text = txt, md_long_text = None, md_image = None, md_identifier = None\<rparr>\<rparr>"

definition new_metadata ::
  "'s command_env \<Rightarrow> offer_lib \<Rightarrow> uuid \<Rightarrow> string \<Rightarrow> string \<Rightarrow> string option \<Rightarrow> ('s, unit) command" where
  "new_metadata C L fresh part txt output =
     cmd_bind (cmd_result (pretty_output C (Inr (metadata_to_json L (template_metadata part fresh txt))))) (\<lambda>doc.
     cmd_bind (write_output C ''metadata'' output doc) (\<lambda>_.
     cmd_bind (cmd_info ''Modify this JSON file to create unique offer metadata'') (\<lambda>_.
     cmd_info ''Load it into the Offer Service. See: swgr offer metadata post --help'')))"

definition get_metadata_command ::
  "'s command_env \<Rightarrow> offer_lib \<Rightarrow> string \<Rightarrow> uuid option \<Rightarrow> usize \<Rightarrow> usize \<Rightarrow> string option \<Rightarrow> client_options
     \<Rightarrow> ('s, unit) command" where
  "get_metadata_command C L part i st cnt output opts =
     cmd_bind (create_offer_client C L opts) (\<lambda>client.
       case i of
         Some i \<Rightarrow>
           cmd_bind (cmd_offer (oh_get_metadata client part i)) (\<lambda>mo.
             case mo of
               Some m \<Rightarrow>
                 cmd_bind (cmd_context (''serializing metadata '' @ ol_show_uuid L i)
                     (cmd_result (pretty_output C (Inr (metadata_to_json L m))))) (\<lambda>doc.
                 write_output C ''metadata'' output doc)
             | None \<Rightarrow> cmd_bail (''Metadata '' @ ol_show_uuid L i @ '' not found''))
       | None \<Rightarrow>
           cmd_bind (cmd_offer (oh_get_all_metadata client part st cnt)) (\<lambda>ms.
           cmd_bind (cmd_context (''serializing metadata for '' @ part)
               (cmd_result (pretty_output C (Inr (array_to_json (metadata_to_json L) ms))))) (\<lambda>doc.
           write_output C ''metadata'' output doc)))"

definition post_metadata_command ::
  "'s command_env \<Rightarrow> offer_lib \<Rightarrow> string option \<Rightarrow> client_options \<Rightarrow> ('s, unit) command" where
  "post_metadata_command C L path opts =
     cmd_bind (create_offer_client C L opts) (\<lambda>client.
     cmd_bind (read_input C ''metadata'' path) (\<lambda>doc.
     cmd_bind (parse_input C ''metadata'' (metadata_from_json L) path doc) (\<lambda>m.
     cmd_bind (cmd_offer (oh_post_metadata client m)) (\<lambda>created.
       case created of
         Some i \<Rightarrow> cmd_info (''Created: '' @ ol_show_uuid L i)
       | None \<Rightarrow> cmd_bail (''Conflict. Metadata already exists at: '' @ ol_show_uuid L (meta_id m))))))"

definition put_metadata_command ::
  "'s command_env \<Rightarrow> offer_lib \<Rightarrow> string \<Rightarrow> uuid \<Rightarrow> string option \<Rightarrow> client_options \<Rightarrow> ('s, unit) command" where
  "put_metadata_command C L part i path opts =
     cmd_bind (create_offer_client C L opts) (\<lambda>client.
     cmd_bind (read_input C ''metadata'' path) (\<lambda>doc.
     cmd_bind (parse_input C ''metadata'' (metadata_sparse_from_json L) path doc) (\<lambda>m.
     cmd_bind (cmd_offer (oh_put_metadata client \<lparr>meta_id = i, meta_partition = part, meta_metadata = m\<rparr>)) (\<lambda>created.
       if created then cmd_info (''Created: '' @ ol_show_uuid L i)
       else cmd_info (''Updated: '' @ ol_show_uuid L i)))))"

definition delete_metadata_command ::
  "'s command_env \<Rightarrow> offer_lib \<Rightarrow> string \<Rightarrow> uuid \<Rightarrow> client_options \<Rightarrow> ('s, unit) command" where
  "delete_metadata_command C L part i opts =
     cmd_bind (create_offer_client C L opts) (\<lambda>client.
     cmd_bind (cmd_offer (oh_delete_metadata client part i)) (\<lambda>deleted.
       if deleted then cmd_info (''Deleted: '' @ ol_show_uuid L i)
       else cmd_bail (''Not Found: '' @ ol_show_uuid L i)))"

text \<open>The subcommands and their dispatch in \<open>server/src/main.rs\<close>.\<close>

datatype offer_record_command =
    OfferNew string uuid "string option"
  | OfferGet string "uuid option" usize usize "string option" client_options
  | OfferPost "string option" client_options
  | OfferPut string uuid "string option" client_options
  | OfferDelete string uuid client_options

datatype offer_metadata_command =
    MetadataNew string string "string option"
  | MetadataGet string "uuid option" usize usize "string option" client_options
  | MetadataPost "string option" client_options
  | MetadataPut string uuid "string option" client_options
  | MetadataDelete string uuid client_options

fun run_offer_command ::
  "'s command_env \<Rightarrow> offer_lib \<Rightarrow> uuid \<Rightarrow> offer_record_command \<Rightarrow> ('s, unit) command" where
  "run_offer_command C L fresh (OfferNew part m output) = new_offer C L fresh part m output"
| "run_offer_command C L fresh (OfferGet part i st cnt output opts) = get_offer_command C L part i st cnt output opts"
| "run_offer_command C L fresh (OfferPost input opts) = post_offer_command C L input opts"
| "run_offer_command C L fresh (OfferPut part i input opts) = put_offer_command C L part i input opts"
| "run_offer_command C L fresh (OfferDelete part i opts) = delete_offer_command C L part i opts"

fun run_metadata_command ::
  "'s command_env \<Rightarrow> offer_lib \<Rightarrow> uuid \<Rightarrow> offer_metadata_command \<Rightarrow> ('s, unit) command" where
  "run_metadata_command C L fresh (MetadataNew part txt output) = new_metadata C L fresh part txt output"
| "run_metadata_command C L fresh (MetadataGet part i st cnt output opts) =
     get_metadata_command C L part i st cnt output opts"
| "run_metadata_command C L fresh (MetadataPost input opts) = post_metadata_command C L input opts"
| "run_metadata_command C L fresh (MetadataPut part i input opts) = put_metadata_command C L part i input opts"
| "run_metadata_command C L fresh (MetadataDelete part i opts) = delete_metadata_command C L part i opts"

section \<open>A command against a service over the memory store\<close>

definition offer_connected ::
  "mem_offers command_env \<Rightarrow> offer_lib \<Rightarrow> client_options \<Rightarrow> mem_offers cli_world
     \<Rightarrow> (mem_offers, offer_store_error, offer_store_error, 'k) offer_service \<Rightarrow> datetime \<Rightarrow> bool" where
  "offer_connected C L opts w V now \<longleftrightarrow>
     (\<exists>defaults base. offer_loop_ok V defaults
        \<and> fst (create_offer_client C L opts w) =
            Inr (loop_offer_http V now defaults base (ce_show_status C) (ce_show_json C)))
     \<and> (\<exists>so su. ov_ops V = mem_offer_ops so su) \<and> ov_json V = L"

lemma create_offer_client_world [simp]: "snd (create_offer_client C L opts w) = w"
  by (auto simp: create_offer_client_def intro!: cmd_bind_world)

lemma offer_connected_client:
  assumes "offer_connected C L opts w V now"
  obtains H defaults base so su
  where "\<And>f :: _ \<Rightarrow> (mem_offers, unit) command. cmd_bind (create_offer_client C L opts) f w = f H w"
    and "H = loop_offer_http V now defaults base (ce_show_status C) (ce_show_json C)"
    and "offer_loop_ok V defaults" and "ov_ops V = mem_offer_ops so su" and "ov_json V = L"
proof -
  obtain defaults base where ok: "offer_loop_ok V defaults"
    and H: "fst (create_offer_client C L opts w) =
      Inr (loop_offer_http V now defaults base (ce_show_status C) (ce_show_json C))" (is "_ = Inr ?H")
    using assms by (auto simp: offer_connected_def)
  have "create_offer_client C L opts w = (Inr ?H, w)"
    by (rule prod_eqI) (simp_all add: H)
  then have "cmd_bind (create_offer_client C L opts) f w = f ?H w" for f :: "_ \<Rightarrow> (mem_offers, unit) command"
    by (simp add: cmd_bind_def)
  with ok assms that show thesis unfolding offer_connected_def by blast
qed

lemma get_offer_run:
  assumes "offer_connected C L opts w V now" and "wire_store L (cw_remote w)" and "plain_segment part"
  shows "get_offer_command C L part (Some i) st cnt output opts w =
    (case map_of (mo_offer (cw_remote w)) (part, i) of
       Some o1 \<Rightarrow>
         cmd_bind (cmd_context (''serializing offer '' @ ol_show_uuid L i)
             (cmd_result (pretty_output C (Inr (record_to_json L (ot_offer o1)))))) (write_output C ''offer'' output) w
     | None \<Rightarrow> cmd_bail (''Offer '' @ ol_show_uuid L i @ '' not found'') w)"
proof -
  obtain H defaults base so su
    where H: "\<And>f :: _ \<Rightarrow> (mem_offers, unit) command. cmd_bind (create_offer_client C L opts) f w = f H w"
      and loop: "offer_loop_ok V defaults" "H = loop_offer_http V now defaults base (ce_show_status C) (ce_show_json C)"
      and V: "ov_ops V = mem_offer_ops so su" "ov_json V = L"
    using offer_connected_client [OF assms(1)] by metis
  have ops: "oo_get_offer (ov_ops V) = mo_get_offer" by (simp add: V mem_offer_ops_def)
  have wire: "wire_record (ov_json V) (rec_offer r)"
    if "oo_get_offer (ov_ops V) (cw_remote w) part i (Some (unwrap_or True None)) = Inr (Some r)" for r
    using wire_store_get [OF assms(2)] that by (simp add: V(2) ops)
  have get: "oh_get_offer H part i None (cw_remote w)
      = (Inr (map_option ot_offer (map_of (mo_offer (cw_remote w)) (part, i))), cw_remote w)"
    using loop_get_offer [OF loop assms(3), where s = "cw_remote w" and i = i and sp = None, OF wire]
    by (simp add: ops mo_get_offer_def split: option.splits)
  show ?thesis
    unfolding get_offer_command_def H option.case cmd_offer_def cmd_bind_call [where f = "oh_get_offer H part i None", OF get]
    by (simp split: option.splits)
qed

text \<open>What \<open>put\<close> makes of a document, with the error that the service answers where the metadata is unknown.\<close>

lemma put_offer_run:
  fixes r :: offer_record_sparse and i :: uuid
  assumes "offer_connected C L opts w V now" and "plain_segment part"
    and "document C path (record_sparse_from_json L) w = Some (r, w1)" and "wire_record L r"
  defines "r' \<equiv> bare \<lparr>rec_partition = part, rec_id = i, rec_offer = r\<rparr>"
  shows "if map_of (mo_metadata (cw_remote w)) (part, rec_metadata_id r) = None
    then \<exists>e. put_offer_command C L part i path opts w = (Inl ([], CliOffer e), w1) \<and> ose_esource e = Downstream
    else \<exists>w'. put_offer_command C L part i path opts w = (Inr (), w')
      \<and> mo_metadata (cw_remote w') = mo_metadata (cw_remote w)
      \<and> mo_offer (cw_remote w') = AList.update (part, i) \<lparr>ot_created = now, ot_offer = r'\<rparr> (mo_offer (cw_remote w))"
proof -
  obtain H defaults base so su
    where H: "\<And>f :: _ \<Rightarrow> (mem_offers, unit) command. cmd_bind (create_offer_client C L opts) f w = f H w"
      and loop: "offer_loop_ok V defaults" "H = loop_offer_http V now defaults base (ce_show_status C) (ce_show_json C)"
      and V: "ov_ops V = mem_offer_ops so su" "ov_json V = L"
    using offer_connected_client [OF assms(1)] by metis
  let ?r = "\<lparr>rec_partition = part, rec_id = i, rec_offer = r\<rparr>"
  let ?s = "cw_remote w"
  have remote: "cw_remote w1 = ?s" by (rule document_remote [OF assms(3)])
  have key: "rec_partition r' = part" "rec_id r' = i" "rec_metadata_id (rec_offer r') = rec_metadata_id r"
    by (simp_all add: r'_def)
  obtain ctx where put: "oh_put_offer H ?r ?s = apfst (remote_answer H ose_esource ctx) (mo_put_offer so su now r' ?s)"
    using loop_put_offer [OF loop, of ?r ?s] assms(2,4) by (simp add: V mem_offer_ops_def r'_def)
  have cmd: "put_offer_command C L part i path opts w =
      cmd_bind (cmd_call CliOffer (oh_put_offer H ?r)) (\<lambda>created.
         if created then cmd_info (''Offer created: '' @ ol_show_uuid L i)
         else cmd_info (''Offer updated: '' @ ol_show_uuid L i)) w1"
    unfolding put_offer_command_def H read_document [OF assms(3)] cmd_offer_def ..
  have same: "w1\<lparr>cw_remote := ?s\<rparr> = w1" by (simp add: remote [symmetric])
  show ?thesis
  proof (cases "map_of (mo_metadata ?s) (part, rec_metadata_id r) = None")
    case True
    then obtain e where "mo_put_offer so su now r' ?s = (Inl e, ?s)" "ose_esource e = Downstream"
      by (simp add: mo_put_offer_def key offer_error_defs)
    then obtain e' where "oh_put_offer H ?r (cw_remote w1) = (Inl e', ?s)" "ose_esource e' = Downstream"
      using put offer_error_class [of H Downstream ctx] by (auto simp: remote_answer_def remote)
    with True same show ?thesis
      unfolding cmd by (simp add: cmd_bind_call [where f = "oh_put_offer H ?r"])
  next
    case False
    then have "oh_put_offer H ?r (cw_remote w1) = (Inr (map_of (mo_offer ?s) (part, i) = None),
        ?s\<lparr>mo_offer := AList.update (part, i) \<lparr>ot_created = now, ot_offer = r'\<rparr> (mo_offer ?s)\<rparr>)"
      unfolding remote put by (auto simp: mo_put_offer_def key)
    note run = cmd_bind_call [where f = "oh_put_offer H ?r" and cause = CliOffer, OF this]
    show ?thesis
      unfolding cmd run if_not_P [OF False]
      by (cases "map_of (mo_offer ?s) (part, i) = None") (simp_all add: cmd_info_def)
  qed
qed

lemma offer_get_then_put:
  assumes "offer_connected C L opts w V now" and "wire_store L (cw_remote w)" and "mo_inv (cw_remote w)"
    and "plain_segment part" and "text_codec C"
    and "get_offer_command C L part (Some i) st cnt (Some p) opts w = (Inr (), w1)"
    and "offer_connected C L opts w2 V now2" and "readable C p w2" and "cw_files w2 p = cw_files w1 p"
  shows "\<exists>o1. map_of (mo_offer (cw_remote w)) (part, i) = Some o1
    \<and> (if map_of (mo_metadata (cw_remote w2)) (metadata_key_of (ot_offer o1)) = None
       then \<exists>e. put_offer_command C L part i (Some p) opts w2 = (Inl ([], CliOffer e), w2) \<and> ose_esource e = Downstream
       else \<exists>w3. put_offer_command C L part i (Some p) opts w2 = (Inr (), w3)
         \<and> mo_metadata (cw_remote w3) = mo_metadata (cw_remote w2)
         \<and> mo_offer (cw_remote w3) =
             AList.update (part, i) \<lparr>ot_created = now2, ot_offer = bare (ot_offer o1)\<rparr> (mo_offer (cw_remote w2)))"
proof -
  have p: "p \<noteq> ''-''" using assms(8) by (simp add: readable_def)
  note run = get_offer_run [OF assms(1,2,4), of i st cnt "Some p"]
  obtain o1 where o1: "map_of (mo_offer (cw_remote w)) (part, i) = Some o1"
    using assms(6) run by (cases "map_of (mo_offer (cw_remote w)) (part, i)") (simp_all add: cmd_bail_def)
  have "offer_codec L"
    using offer_connected_client [OF assms(1)] by (metis offer_loop_uuid(3))
  moreover have wire: "wire_record L (rec_offer (ot_offer o1))"
    using assms(2) map_of_SomeD [OF o1] by (auto simp: wire_store_def)
  ultimately have sparse: "record_sparse_from_json L (record_to_json L (ot_offer o1)) = Inr (rec_offer (ot_offer o1))"
    by (rule record_json_round_trip(2))
  have key: "rec_partition (ot_offer o1) = part" "rec_id (ot_offer o1) = i"
    using mo_inv_keys(1) [OF assms(3) o1] by simp_all
  then have eta: "\<lparr>rec_partition = part, rec_id = i, rec_offer = rec_offer (ot_offer o1)\<rparr> = ot_offer o1"
    by (cases "ot_offer o1") simp
  obtain v doc where v: "(Inr (record_to_json L (ot_offer o1)) :: json_error + json) = Inr v" "ce_pretty C v = Inr doc"
      "cw_files w1 p = Some doc"
    using assms(6) unfolding run o1 option.case by (rule written_document [OF _ p])
  have "cw_files w2 p = Some doc" "ce_from_str C doc = Inr (record_to_json L (ot_offer o1))"
    using assms(5,9) v by (simp_all add: text_codec_def)
  then have "document C (Some p) (record_sparse_from_json L) w2 = Some (rec_offer (ot_offer o1), w2)"
    by (rule document_file [OF assms(8)]) (rule sparse)
  note put = put_offer_run [OF assms(7,4) this wire, of i, unfolded eta]
  show ?thesis
    using put by (intro exI [of _ o1] conjI o1) (simp add: metadata_key_of_def key)
qed

section \<open>A concrete environment for the witness\<close>

definition offer_command_service :: "(mem_offers, offer_store_error, offer_store_error, unit) offer_service" where
  "offer_command_service =
     sample_offer_service\<lparr>ov_bearer := (\<lambda>hs. map_option (drop 7) (header_get ''authorization'' hs))\<rparr>"

definition offer_command_env :: "mem_offers command_env" where
  "offer_command_env =
     \<lparr>ce_sys = \<lparr>sy_fault = (\<lambda>_ _. None), sy_env = [''OFFER_STORE_HTTP_BASE_URL'' \<mapsto> ''http://h'']\<rparr>,
      ce_from_str = (\<lambda>s. if s = ''d'' then Inr (record_to_json sample_offer_lib (template_offer ''p'' 7 3)) else Inl ''EOF''),
      ce_pretty = (\<lambda>v. if v = record_to_json sample_offer_lib (template_offer ''p'' 7 3) then Inr ''d'' else Inl ''unknown''),
      ce_show_json = (\<lambda>_. ''json''), ce_show_io = (\<lambda>_. ''io''), ce_show_status = (\<lambda>_. ''status''),
      ce_parse_url = Inr, ce_pem = (\<lambda>_. []),
      ce_builder =
        \<lparr>cb_build = (\<lambda>cc. Inr (target_client (cc_default_headers cc) ''http://h'' (offer_router offer_command_service 5))),
         cb_from_der = (\<lambda>_. None)\<rparr>\<rparr>"

definition offer_command_options :: client_options where
  "offer_command_options =
     \<lparr>co_base_url = None, co_authorization_path = Some ''a'', co_trusted_roots = None\<rparr>"

definition offer_command_store :: mem_offers where
  "offer_command_store =
     \<lparr>mo_offer = [((''p'', 7), \<lparr>ot_created = 1, ot_offer = template_offer ''p'' 7 3\<rparr>)],
      mo_metadata = [((''p'', 3), \<lparr>mt_created = 1, mt_metadata = sample_offer_metadata\<rparr>)]\<rparr>"

definition offer_command_world :: "mem_offers cli_world" where
  "offer_command_world =
     \<lparr>cw_files = [''a'' \<mapsto> ''t''], cw_stdin = [], cw_stdout = [], cw_log = [], cw_remote = offer_command_store\<rparr>"

lemma offer_command_loop: "offer_loop_ok offer_command_service [(''authorization'', ''Bearer t'')]"
  using sample_offer_loop
  by (simp add: offer_loop_ok_def offer_command_service_def sample_offer_service_def header_get_def
      token_validator_def validate_token_def)

lemma offer_command_connected:
  assumes "cw_files w ''a'' = Some ''t''"
  shows "offer_connected offer_command_env sample_offer_lib offer_command_options w offer_command_service 5"
proof -
  have "client_parameters offer_command_env ''OFFER_STORE_HTTP'' offer_command_options w = (Inr (''http://h'', ''t'', []), w)"
    using assms
    by (simp add: client_parameters_def client_base_url_def client_authorization_def load_roots_def offer_command_options_def
        offer_command_env_def cmd_defs fs_read_def file_open_def read_to_string_def env_var_def)
  then have "fst (create_offer_client offer_command_env sample_offer_lib offer_command_options w) =
      Inr (loop_offer_http offer_command_service 5 [(''authorization'', ''Bearer t'')] ''http://h''
        (ce_show_status offer_command_env) (ce_show_json offer_command_env))"
    by (simp add: create_offer_client_def cmd_defs offer_create_def header_value_def header_char_def
        add_root_certificates_def offer_command_env_def header_insert_def offer_with_client_def trim_end_slash_def url_error_def
        loop_offer_http_def offer_command_service_def sample_offer_service_def)
  moreover have "ov_json offer_command_service = sample_offer_lib"
      "ov_ops offer_command_service = mem_offer_ops (\<lambda>_. []) (\<lambda>_. [])"
    by (simp_all add: offer_command_service_def sample_offer_service_def)
  ultimately show ?thesis
    unfolding offer_connected_def using offer_command_loop by blast
qed

lemma offer_command_store_ok:
  "mo_inv offer_command_store" "wire_store sample_offer_lib offer_command_store"
proof -
  show "mo_inv offer_command_store"
    by (simp add: mo_inv_def hm_wf_def offer_command_store_def content_ok_def mo_content_def template_offer_def offer_key_of_def
        metadata_key_of_def meta_key_of_def sample_offer_metadata_def)
  show "wire_store sample_offer_lib offer_command_store"
    using show_nat_digits
    by (simp add: wire_store_def offer_command_store_def template_offer_def wire_record_def wire_time_def sample_offer_lib_def)
qed

lemma offer_command_writes:
  "write_output offer_command_env what (Some ''f'') doc w = (Inr (), w\<lparr>cw_files := (cw_files w)(''f'' \<mapsto> doc)\<rparr>)"
  by (simp add: write_output_def cmd_defs io_defs offer_command_env_def)

section \<open>Properties\<close>

text \<open>
  A saved offer can be restored as long as its metadata exists: the file that \<open>get\<close>
  wrote for an offer, given to \<open>put\<close> under the same partition and id at any later time, makes the
  stored offer what it was (created anew, without embedded metadata) and changes nothing else; where
  the metadata it names is gone the command reports a downstream error and changes nothing.
\<close>

theorem saved_offer_restored:
  assumes "offer_connected C L opts w V now" and "wire_store L (cw_remote w)" and "mo_inv (cw_remote w)"
    and "plain_segment part" and "text_codec C"
    and "get_offer_command C L part (Some i) st cnt (Some p) opts w = (Inr (), w1)"
    and "offer_connected C L opts w2 V now2" and "readable C p w2" and "cw_files w2 p = cw_files w1 p"
  shows "\<exists>o1. map_of (mo_offer (cw_remote w)) (part, i) = Some o1
    \<and> (if map_of (mo_metadata (cw_remote w2)) (metadata_key_of (ot_offer o1)) = None
       then \<exists>e. put_offer_command C L part i (Some p) opts w2 = (Inl ([], CliOffer e), w2) \<and> ose_esource e = Downstream
       else \<exists>w3. put_offer_command C L part i (Some p) opts w2 = (Inr (), w3)
         \<and> mo_metadata (cw_remote w3) = mo_metadata (cw_remote w2)
         \<and> mo_offer (cw_remote w3) =
             AList.update (part, i) \<lparr>ot_created = now2, ot_offer = bare (ot_offer o1)\<rparr> (mo_offer (cw_remote w2)))"
  by (rule offer_get_then_put [OF assms])

theorem saved_offer_restored_witness:
  "\<exists>w1 e. get_offer_command offer_command_env sample_offer_lib ''p'' (Some 7) 0 100 (Some ''f'') offer_command_options
        offer_command_world = (Inr (), w1)
      \<and> put_offer_command offer_command_env sample_offer_lib ''p'' 7 (Some ''f'') offer_command_options
          (w1\<lparr>cw_remote := mem_offers_new\<rparr>) = (Inl ([], CliOffer e), w1\<lparr>cw_remote := mem_offers_new\<rparr>)"
proof -
  have p: "plain_segment ''p''" by (simp add: plain_segment_def plain_char_def is_digit_def)
  have con: "offer_connected offer_command_env sample_offer_lib offer_command_options offer_command_world offer_command_service 5"
    by (rule offer_command_connected) (simp add: offer_command_world_def)
  have remote: "cw_remote offer_command_world = offer_command_store" by (simp add: offer_command_world_def)
  note store = offer_command_store_ok [folded remote]
  note get = get_offer_run [OF con store(2) p, of 7 0 100 "Some ''f''"]
  have o1: "map_of (mo_offer (cw_remote offer_command_world)) (''p'', 7)
      = Some \<lparr>ot_created = 1, ot_offer = template_offer ''p'' 7 3\<rparr>"
    by (simp add: remote offer_command_store_def)
  have pretty: "pretty_output offer_command_env (Inr (record_to_json sample_offer_lib (template_offer ''p'' 7 3))) = Inr ''d''"
    by (simp add: pretty_output_def offer_command_env_def)
  obtain w1 where w1: "get_offer_command offer_command_env sample_offer_lib ''p'' (Some 7) 0 100 (Some ''f'')
        offer_command_options offer_command_world = (Inr (), w1)" "cw_files w1 ''a'' = Some ''t''"
    unfolding get o1 by (simp add: pretty cmd_defs offer_command_writes) (simp add: offer_command_world_def)
  have con2: "offer_connected offer_command_env sample_offer_lib offer_command_options (w1\<lparr>cw_remote := mem_offers_new\<rparr>)
      offer_command_service 5"
    by (rule offer_command_connected) (simp add: w1)
  have codec: "text_codec offer_command_env" by (simp add: text_codec_def offer_command_env_def)
  have readable: "readable offer_command_env ''f'' w" for w by (simp add: readable_def offer_command_env_def)
  from saved_offer_restored [OF con store(2,1) p codec w1(1) con2 readable] show ?thesis
    using w1(1) by (auto simp: mem_offers_new_def)
qed

end
