(* ===== verification/Services.thy ===== *)
theory Services
  imports Injection TokenCommands DiscoveryCommands OfferCommands
begin

text \<open>
  \<open>server/src/di/inject/injectors/service\<close>, \<open>server/src/commands/services.rs\<close> and \<open>main.rs\<close>: the
  services that the server binds, their start in order, the shutdown, and the dispatch of the
  commands. Sockets, keys and the TLS configuration are arguments; a socket is a number.
\<close>

section \<open>Binding the services\<close>

record ('x, 'k, 't) service_env = "'x injection_env" +
  ve_bind :: "string \<Rightarrow> 'x \<Rightarrow> (string + nat) \<times> 'x"  \<comment> \<open>\<open>TcpListener::bind\<close>\<close>
  ve_local_addr :: "nat \<Rightarrow> string + string"
  ve_private_key :: "string \<Rightarrow> string + u8 list option"
  ve_server_config :: "u8 list list \<Rightarrow> u8 list \<Rightarrow> string + 't"
  ve_decoding_key :: "string \<Rightarrow> string + 'k"

record ('s, 't) bound_service =
  bs_listener :: nat
  bs_acceptor :: "'t option"
  bs_state :: 's

record ('x, 'k) discovery_state =
  dst_store :: "'x discovery_delegate"
  dst_auth_authority :: 'k

record ('x, 'k) offer_state =
  ost_offer_store :: "'x offer_delegate"
  ost_metadata_store :: "'x offer_delegate"
  ost_auth_authority :: 'k
  ost_max_page_size :: usize

record 'x lnurl_pay_state =
  pst_partitions :: "string set"
  pst_offer_provider :: "'x offer_delegate"  \<comment> \<open>\<open>StoreOfferProvider\<close> over it\<close>
  pst_balancer :: "'x balancer_delegate"
  pst_invoice_expiry :: u64
  pst_scheme :: string
  pst_allowed_hosts :: "string set"
  pst_comment_allowed :: "u32 option"
  pst_qr_scale :: usize
  pst_qr_light :: u8
  pst_qr_dark :: u8

definition load_server_x509_credentials ::
  "('x, 'k, 't) service_env \<Rightarrow> tls_config \<Rightarrow> ('x server_state, 't) command" where
  "load_server_x509_credentials E tls =
     cmd_bind (load_roots (ie_command E) (Some (tls_cert_path tls))) (\<lambda>cert_chain.
     cmd_bind (cmd_io (fs_read (ce_sys (ie_command E)) (tls_key_path tls))) (\<lambda>pem.
     cmd_bind (cmd_result (map_err foreign (ve_private_key E pem))) (\<lambda>key.
     cmd_bind (cmd_result (ok_or ([], CliMessage ''no private key found in key file'') key)) (\<lambda>key.
     cmd_result (map_err foreign (ve_server_config E cert_chain key))))))"

text \<open>The steps that the three services share: the socket and the TLS acceptor.\<close>

definition bind_listener ::
  "('x, 'k, 't) service_env \<Rightarrow> string \<Rightarrow> string \<Rightarrow> ('x server_state, nat \<times> string) command" where
  "bind_listener E what addr =
     cmd_bind (cmd_context (''binding TCP listener for '' @ what @ '' service to address '' @ addr)
       (cmd_call CliForeign (at_outside (ve_bind E addr)))) (\<lambda>listener.
     cmd_bind (cmd_context (''verifying '' @ what @ '' service address'')
       (cmd_result (map_err foreign (ve_local_addr E listener)))) (\<lambda>local_addr.
     cmd_return (listener, local_addr)))"

definition tls_acceptor ::
  "('x, 'k, 't) service_env \<Rightarrow> string \<Rightarrow> string \<Rightarrow> string \<Rightarrow> tls_config option \<Rightarrow> ('x server_state, 't option) command" where
  "tls_acceptor E what addr local_addr tls =
     (case tls of
        Some tls \<Rightarrow>
          cmd_bind (cmd_context (''loading tls certificate for '' @ what @ '' service '' @ addr)
            (load_server_x509_credentials E tls)) (\<lambda>acceptor.
          cmd_bind (cmd_info (what @ '' service with TLS, listening on: '' @ local_addr)) (\<lambda>_.
          cmd_return (Some acceptor)))
      | None \<Rightarrow>
          cmd_bind (cmd_info (what @ '' service missing TLS, listening on: '' @ local_addr)) (\<lambda>_.
          cmd_return None))"

definition auth_authority :: "('x, 'k, 't) service_env \<Rightarrow> string \<Rightarrow> ('x server_state, 'k) command" where
  "auth_authority E path =
     cmd_bind (cmd_context (''reading auth authority from: '' @ path)
       (cmd_io (fs_read (ce_sys (ie_command E)) path))) (\<lambda>pem.
     cmd_context (''decoding auth authority from: '' @ path) (cmd_result (map_err foreign (ve_decoding_key E pem))))"

text \<open>\<open>DiscoveryServiceInjector::connect\<close>, the record being what the future serves.\<close>

definition discovery_service_connect ::
  "('x, 'k, 't) service_env \<Rightarrow> config_injector \<Rightarrow> enablement_injector
     \<Rightarrow> ('x server_state, (('x, 'k) discovery_state, 't) bound_service option) command" where
  "discovery_service_connect E ci en =
     (if \<not> discovery_enabled en then cmd_return None
      else
        cmd_bind (cmd_result (ok_or ([], CliMessage ''discover service enabled but has no config'')
          (sc_discovery_service (ci_config ci)))) (\<lambda>cfg.
        cmd_bind (discovery_store_get (injection_env.truncate E) ci) (\<lambda>store.
        cmd_bind (cmd_result (ok_or ([], CliMessage ''discover service enabled but has no store'') store)) (\<lambda>store.
        cmd_bind (bind_listener E ''discovery'' (dsc_address cfg)) (\<lambda>(listener, local_addr).
        cmd_bind (tls_acceptor E ''discovery'' (dsc_address cfg) local_addr (dsc_tls cfg)) (\<lambda>acceptor.
        cmd_bind (auth_authority E (dsc_auth_authority cfg)) (\<lambda>key.
        cmd_return (Some
          \<lparr>bs_listener = listener, bs_acceptor = acceptor,
           bs_state = \<lparr>dst_store = store, dst_auth_authority = key\<rparr>\<rparr>))))))))"

definition offer_service_connect ::
  "('x, 'k, 't) service_env \<Rightarrow> config_injector \<Rightarrow> enablement_injector
     \<Rightarrow> ('x server_state, (('x, 'k) offer_state, 't) bound_service option) command" where
  "offer_service_connect E ci en =
     (if \<not> offer_enabled en then cmd_return None
      else
        cmd_bind (cmd_result (ok_or ([], CliMessage ''offer service enabled but has no config'')
          (sc_offer_service (ci_config ci)))) (\<lambda>cfg.
        cmd_bind (offer_store_get (injection_env.truncate E) ci) (\<lambda>store.
        cmd_bind (cmd_result (ok_or ([], CliMessage ''offer service enabled but has no store'') store)) (\<lambda>store.
        cmd_bind (bind_listener E ''offer'' (osc_address cfg)) (\<lambda>(listener, local_addr).
        cmd_bind (tls_acceptor E ''offer'' (osc_address cfg) local_addr (osc_tls cfg)) (\<lambda>acceptor.
        cmd_bind (auth_authority E (osc_auth_authority cfg)) (\<lambda>key.
        cmd_return (Some
          \<lparr>bs_listener = listener, bs_acceptor = acceptor,
           bs_state = \<lparr>ost_offer_store = store, ost_metadata_store = store, ost_auth_authority = key,
                       ost_max_page_size = osc_max_page_size cfg\<rparr>\<rparr>))))))))"

definition balancer_service_connect ::
  "('x, 'k, 't) service_env \<Rightarrow> config_injector \<Rightarrow> enablement_injector
     \<Rightarrow> ('x server_state, ('x lnurl_pay_state, 't) bound_service option) command" where
  "balancer_service_connect E ci en =
     (if \<not> lnurl_enabled en then cmd_return None
      else
        cmd_bind (cmd_result (ok_or ([], CliMessage ''lnurl service enabled but has no config'')
          (sc_lnurl_service (ci_config ci)))) (\<lambda>cfg.
        cmd_bind (balancer_get (injection_env.truncate E) ci en) (\<lambda>balancer.
        cmd_bind (cmd_result (ok_or ([], CliMessage ''lnurl service enabled but has no balancer'') balancer)) (\<lambda>balancer.
        cmd_bind (offer_store_get (injection_env.truncate E) ci) (\<lambda>store.
        cmd_bind (cmd_result (ok_or ([], CliMessage ''lnurl service enabled but has no offer store'') store)) (\<lambda>store.
        cmd_bind (bind_listener E ''lnurl'' (lc_address cfg)) (\<lambda>(listener, local_addr).
        cmd_bind (tls_acceptor E ''lnurl'' (lc_address cfg) local_addr (lc_tls cfg)) (\<lambda>acceptor.
        cmd_return (Some
          \<lparr>bs_listener = listener, bs_acceptor = acceptor,
           bs_state =
             \<lparr>pst_partitions = lc_partitions cfg, pst_offer_provider = store, pst_balancer = balancer,
              pst_invoice_expiry = lc_invoice_expiry_secs cfg,
              pst_scheme = (if acceptor = None then ''http'' else ''https''),
              pst_allowed_hosts = lc_allowed_hosts cfg, pst_comment_allowed = lc_comment_allowed cfg,
              pst_qr_scale = lc_bech32_qr_scale cfg, pst_qr_light = lc_bech32_qr_light cfg,
              pst_qr_dark = lc_bech32_qr_dark cfg\<rparr>\<rparr>)))))))))"

text \<open>\<open>BackgroundBalancerServiceInjector::start\<close>: the balancer whose tasks the future runs.\<close>

definition background_start ::
  "('x, 'k, 't) service_env \<Rightarrow> config_injector \<Rightarrow> enablement_injector \<Rightarrow> ('x server_state, 'x balancer_delegate option) command" where
  "background_start E ci en =
     (if \<not> lnurl_enabled en then cmd_return None
      else
        cmd_bind (balancer_get (injection_env.truncate E) ci en) (\<lambda>balancer.
        cmd_bind (cmd_result (ok_or ([], CliMessage ''lnurl service enabled but has no balancer'') balancer)) (\<lambda>balancer.
        cmd_return (Some balancer))))"

section \<open>Running the services (services.rs)\<close>

record ('x, 'k, 't) running_services =
  run_discovery :: "(('x, 'k) discovery_state, 't) bound_service option"
  run_offer :: "(('x, 'k) offer_state, 't) bound_service option"
  run_lnurl :: "('x lnurl_pay_state, 't) bound_service option"
  run_background :: "'x balancer_delegate option"

text \<open>The part of \<open>execute\<close> up to the running services; \<open>signals\<close> is what \<open>get_signals_fut\<close> returns.\<close>

definition start_services ::
  "'x server_state config_env \<Rightarrow> ('x, 'k, 't) service_env \<Rightarrow> string + unit \<Rightarrow> string \<Rightarrow> service_enablement list
     \<Rightarrow> ('x server_state, ('x, 'k, 't) running_services) command" where
  "start_services C E signals config_path enablement =
     cmd_bind (cmd_info ''starting services'') (\<lambda>_.
     cmd_bind (cmd_result (map_err foreign signals)) (\<lambda>_.
     cmd_bind (config_injector_new C config_path) (\<lambda>ci.
     let en = enablement_new enablement
     in cmd_bind (discovery_service_connect E ci en) (\<lambda>discovery.
        cmd_bind (offer_service_connect E ci en) (\<lambda>offer.
        cmd_bind (balancer_service_connect E ci en) (\<lambda>lnurl.
        cmd_bind (background_start E ci en) (\<lambda>background.
        cmd_return
          \<lparr>run_discovery = discovery, run_offer = offer, run_lnurl = lnurl, run_background = background\<rparr>)))))))"

text \<open>
  What ends the wait: one of the services, a signal, or the end of the signal stream. A service that
  is not enabled is pending for ever.
\<close>

datatype service_event =
  LnurlEnded "string + unit" | DiscoveryEnded "string + unit" | OffersEnded "string + unit" | SignalReceived "i32 option"

fun event_possible :: "('x, 'k, 't) running_services \<Rightarrow> service_event \<Rightarrow> bool" where
  "event_possible R (LnurlEnded r) \<longleftrightarrow> run_lnurl R \<noteq> None"
| "event_possible R (DiscoveryEnded r) \<longleftrightarrow> run_discovery R \<noteq> None"
| "event_possible R (OffersEnded r) \<longleftrightarrow> run_offer R \<noteq> None"
| "event_possible R (SignalReceived s) \<longleftrightarrow> True"

text \<open>\<open>signal_name\<close> is an argument.\<close>

fun event_result :: "(i32 \<Rightarrow> string option) \<Rightarrow> service_event \<Rightarrow> anyhow + string option" where
  "event_result nm (LnurlEnded r) = with_context ''running lnurl HTTP service'' (map_ok (\<lambda>_. None) (map_err foreign r))"
| "event_result nm (DiscoveryEnded r) = with_context ''running discovery HTTP service'' (map_ok (\<lambda>_. None) (map_err foreign r))"
| "event_result nm (OffersEnded r) = with_context ''running offers HTTP service'' (map_ok (\<lambda>_. None) (map_err foreign r))"
| "event_result nm (SignalReceived None) = Inl ([], CliMessage ''monitoring OS signals'')"
| "event_result nm (SignalReceived (Some s)) =
     Inr (Some (''received signal: '' @ unwrap_or ''unknown'' (nm s) @ '', terminating''))"

text \<open>
  The shutdown; \<open>joined\<close> is the end of the background task: a failure to join it, or the result it
  returned, which is not looked at.
\<close>

definition shutdown_services ::
  "(i32 \<Rightarrow> string option) \<Rightarrow> (anyhow list \<Rightarrow> string) \<Rightarrow> service_event \<Rightarrow> string + string + unit \<Rightarrow> ('s, unit) command" where
  "shutdown_services nm debug_errors ev joined =
     (let first = event_result nm ev;
          second = with_context ''waiting for load balancer background services to terminate'' (map_err foreign joined);
          errors = (case first of Inl e \<Rightarrow> [e] | Inr _ \<Rightarrow> []) @ (case second of Inl e \<Rightarrow> [e] | Inr _ \<Rightarrow> [])
      in cmd_bind (case first of Inr (Some line) \<Rightarrow> cmd_info line | _ \<Rightarrow> cmd_return ()) (\<lambda>_.
         cmd_bind (cmd_info ''shutting down load balancer background services'') (\<lambda>_.
         cmd_bind (cmd_info ''load balancer background services shut down'') (\<lambda>_.
         cmd_bind (cmd_info ''signal stream closed'') (\<lambda>_.
         if errors = [] then cmd_info ''server terminated clean''
         else cmd_bail (''server terminated with errors:'' @ [CHR 0x0A] @ debug_errors errors))))))"

definition execute ::
  "'x server_state config_env \<Rightarrow> ('x, 'k, 't) service_env \<Rightarrow> (i32 \<Rightarrow> string option) \<Rightarrow> (anyhow list \<Rightarrow> string) \<Rightarrow> string + unit
     \<Rightarrow> (('x, 'k, 't) running_services \<Rightarrow> service_event) \<Rightarrow> string + string + unit \<Rightarrow> string \<Rightarrow> service_enablement list
     \<Rightarrow> ('x server_state, unit) command" where
  "execute C E nm debug_errors signals next_event joined config_path enablement =
     cmd_bind (start_services C E signals config_path enablement) (\<lambda>R.
     shutdown_services nm debug_errors (next_event R) joined)"

section \<open>What a service is built on\<close>

text \<open>A condition that the injectors leave in force, the services leave in force.\<close>

lemma connect_steps [preserves_intros]:
  assumes "\<And>st x. P st \<Longrightarrow> P (st\<lparr>sv_outside := x\<rparr>)"
  shows "preserves P (bind_listener E what addr)"
  unfolding bind_listener_def by (intro preserves_intros assms)

lemma quiet_connect [quiet_intros]: "quiet (tls_acceptor E what addr local_addr tls)" "quiet (auth_authority E path)"
  unfolding tls_acceptor_def auth_authority_def load_server_x509_credentials_def
  by (cases tls; auto intro!: quiet_intros) (intro quiet_intros)

lemmas preserves_connect [preserves_intros] = quiet_connect [THEN preserves_quiet]

lemma services_preserve:
  assumes "\<And>st x. P st \<Longrightarrow> P (st\<lparr>sv_outside := x\<rparr>)"
  shows "preserves P (discovery_store_get (injection_env.truncate E) ci) \<Longrightarrow> preserves P (discovery_service_connect E ci en)"
    and "preserves P (offer_store_get (injection_env.truncate E) ci) \<Longrightarrow> preserves P (offer_service_connect E ci en)"
    and "preserves P (balancer_get (injection_env.truncate E) ci en) \<Longrightarrow> preserves P (offer_store_get (injection_env.truncate E) ci) \<Longrightarrow>
      preserves P (balancer_service_connect E ci en)"
    and "preserves P (balancer_get (injection_env.truncate E) ci en) \<Longrightarrow> preserves P (background_start E ci en)"
  unfolding discovery_service_connect_def offer_service_connect_def balancer_service_connect_def background_start_def
  by (auto split: prod.split intro!: preserves_intros assms)

text \<open>Errors end the start of the server, so only what holds after success matters.\<close>

abbreviation gives ::
  "('x server_state \<Rightarrow> bool) \<Rightarrow> ('x server_state, 'a) command \<Rightarrow> ('a \<Rightarrow> 'x server_state \<Rightarrow> bool) \<Rightarrow> bool" where
  "gives P m Q \<equiv> yields P m Q (\<lambda>_. True)"

lemma gives_keep: "preserves P m \<Longrightarrow> gives P m (\<lambda>_. P)"
  by (rule yields_preserves) simp_all

lemma gives_found: "gives (P x) (cmd_result (ok_or e x)) (\<lambda>y. P (Some y))"
  by (cases x) (simp_all add: yields_def cmd_result_def)

lemma gives_run: "gives P m Q \<Longrightarrow> m w = (Inr x, w1) \<Longrightarrow> P (cw_remote w) \<Longrightarrow> Q x (cw_remote w1)"
  by (rule yieldsD(1))

lemma gives_stores:
  "gives (\<lambda>_. True) (discovery_store_get I ci) (\<lambda>s st. sv_discovery st = Some s)"
  "preserves P (offer_store_get I ci) \<Longrightarrow> gives P (offer_store_get I ci) (\<lambda>s st. P st \<and> sv_offer st = Some s)"
  "preserves P (balancer_get I ci en) \<Longrightarrow> gives P (balancer_get I ci en) (\<lambda>b st. P st \<and> sv_balancer st = Some b)"
  by (rule yieldsI; auto intro: discovery_store_get_cell offer_store_get_cell balancer_get_cell dest: preservesD)+

lemma discovery_service_cell:
  "gives (\<lambda>_. True) (discovery_service_connect E ci en)
     (\<lambda>r st. (r \<noteq> None \<longleftrightarrow> discovery_enabled en)
        \<and> (\<forall>s. r = Some s \<longrightarrow> sv_discovery st = Some (Some (dst_store (bs_state s)))))"
proof (cases "discovery_enabled en")
  case True
  then show ?thesis
    unfolding discovery_service_connect_def
    by (auto split: prod.split intro!: yields_bind [OF gives_keep] yields_bind [OF gives_stores(1)] yields_bind [OF gives_found]
        yields_return preserves_intros)
qed (simp add: discovery_service_connect_def yields_return)

lemma offer_service_cell:
  "gives (\<lambda>_. True) (offer_service_connect E ci en)
     (\<lambda>r st. (r \<noteq> None \<longleftrightarrow> offer_enabled en)
        \<and> (\<forall>s. r = Some s \<longrightarrow> sv_offer st = Some (Some (ost_offer_store (bs_state s)))
             \<and> ost_metadata_store (bs_state s) = ost_offer_store (bs_state s)))"
proof (cases "offer_enabled en")
  case True
  have get: "gives (\<lambda>_. True) (offer_store_get I ci) (\<lambda>s st. sv_offer st = Some s)" for I
    by (rule yieldsI) (auto intro: offer_store_get_cell)
  from True show ?thesis
    unfolding offer_service_connect_def
    by (auto split: prod.split intro!: yields_bind [OF gives_keep] yields_bind [OF get]
        yields_bind [OF gives_found [where P = "\<lambda>s st. sv_offer st = Some s"]] yields_return preserves_intros)
qed (simp add: offer_service_connect_def yields_return)

text \<open>The pay service: the balancer of the server for the partitions it serves, and its offer store.\<close>

definition pay_state_wired :: "'x lnurl_pay_state \<Rightarrow> 'x server_state \<Rightarrow> bool" where
  "pay_state_wired p st \<longleftrightarrow>
     sv_balancer st = Some (Some (pst_balancer p)) \<and> sv_offer st = Some (Some (pst_offer_provider p))
     \<and> sv_discovery st = Some (Some (ib_discovery (delegate_balancer (pst_balancer p))))
     \<and> ib_partitions (delegate_balancer (pst_balancer p)) = pst_partitions p"

lemma balancer_service_cell:
  fixes E :: "('a, 'k, 't) service_env"
  shows "gives (wired_cells ci) (balancer_service_connect E ci en)
     (\<lambda>r st. (r \<noteq> None \<longleftrightarrow> lnurl_enabled en) \<and> (\<forall>s. r = Some s \<longrightarrow> pay_state_wired (bs_state s) st))"
proof (cases "lnurl_enabled en")
  case True
  let ?I = "injection_env.truncate E"
  let ?W = "\<lambda>b (st :: 'a server_state). wired_cells ci st \<and> sv_balancer st = Some b"
  let ?S = "\<lambda>b s st. ?W b st \<and> sv_offer st = Some s"
  have keep: "preserves (?W b) (offer_store_get ?I ci)" for b
    using store_gets_wired(2) [of ci ?I] store_get_preserves(6) [of "Some b" ?I ci] by (auto simp: preserves_def)
  have listen: "gives (?S b s) (bind_listener E what addr) (\<lambda>_. ?S b s)" for b s what addr
    by (intro gives_keep preserves_intros) (simp add: wired_cells_def)
  have accept: "gives (?S b s) (tls_acceptor E what addr local tls) (\<lambda>_. ?S b s)" for b s what addr local tls
    by (intro gives_keep preserves_intros)
  have last: "gives (\<lambda>st. wired_cells ci st \<and> sv_balancer st = Some (Some b) \<and> sv_offer st = Some (Some s)) (cmd_return (Some p))
      (\<lambda>r st. (\<exists>y. r = Some y) \<and> (\<forall>s. r = Some s \<longrightarrow> pay_state_wired (bs_state s) st))"
    if "pst_balancer (bs_state p) = b" "pst_offer_provider (bs_state p) = s" "pst_partitions (bs_state p) = lc_partitions cfg"
      "sc_lnurl_service (ci_config ci) = Some cfg" for b s cfg and p :: "('a lnurl_pay_state, 't) bound_service"
    using that by (intro yields_return) (auto simp: pay_state_wired_def wired_cells_def configured_by_def)
  show ?thesis
  proof (cases "sc_lnurl_service (ci_config ci)")
    case None
    with True show ?thesis by (simp add: balancer_service_connect_def yields_def cmd_bind_def cmd_result_def)
  next
    case (Some cfg)
    have on: "(\<not> lnurl_enabled en) = False" using True by simp
    show ?thesis
      unfolding balancer_service_connect_def on if_False Some ok_or.simps cmd_bind_ok
      by (auto simp: True split: prod.split
          intro!: yields_bind [OF gives_stores(3) [OF balancer_get_wired]] yields_bind [OF gives_found [where P = ?W]]
            yields_bind [OF gives_stores(2) [OF keep]] yields_bind [OF gives_found [where P = "?S (Some b)" for b]]
            yields_bind [OF listen] yields_bind [OF accept])
        (rule last [OF _ _ _ Some]; simp)+
  qed
qed (simp add: balancer_service_connect_def yields_return)

section \<open>The started server\<close>

definition fresh_server :: "'x server_state \<Rightarrow> bool" where
  "fresh_server st \<longleftrightarrow>
     sv_discovery_stores st = [] \<and> sv_offer_stores st = [] \<and> sv_discovery st = None \<and> sv_offer st = None
     \<and> sv_balancer st = None"

lemma quiet_argument: "(\<And>v. quiet (g v)) \<Longrightarrow> quiet (\<lambda>w. g w w)"
  by (simp add: quiet_def)

lemma quiet_config [quiet_intros]: "quiet (config_injector_new C path)"
proof -
  have secrets: "quiet (load_secrets C p)" for p
  proof (cases p)
    case None
    then show ?thesis by (simp add: load_secrets_def quiet_intros)
  next
    case (Some path)
    show ?thesis unfolding load_secrets_def Some option.case by (rule quiet_argument) (intro quiet_intros)
  qed
  show ?thesis
    unfolding config_injector_new_def by (intro quiet_intros secrets)
qed

lemma background_started:
  assumes "background_start E ci en w = (Inr r, w1)" and "sv_balancer (cw_remote w) = Some (Some b)"
  shows "r = (if lnurl_enabled en then Some b else None)" and "w1 = w"
  using assms by (auto simp: background_start_def balancer_get_def cmd_defs split: if_splits)

lemma background_disabled: "\<not> lnurl_enabled en \<Longrightarrow> background_start E ci en w = (Inr None, w)"
  by (simp add: background_start_def cmd_return_def)

text \<open>What the services of a started server are built on, in terms of its cells.\<close>

definition started :: "enablement_injector \<Rightarrow> ('x, 'k, 't) running_services \<Rightarrow> 'x server_state \<Rightarrow> bool" where
  "started en R st \<longleftrightarrow>
     (run_discovery R \<noteq> None \<longleftrightarrow> discovery_enabled en) \<and> (run_offer R \<noteq> None \<longleftrightarrow> offer_enabled en)
     \<and> (run_lnurl R \<noteq> None \<longleftrightarrow> lnurl_enabled en)
     \<and> (\<forall>d. run_discovery R = Some d \<longrightarrow> sv_discovery st = Some (Some (dst_store (bs_state d))))
     \<and> (\<forall>f. run_offer R = Some f \<longrightarrow> sv_offer st = Some (Some (ost_offer_store (bs_state f)))
          \<and> ost_metadata_store (bs_state f) = ost_offer_store (bs_state f))
     \<and> (\<forall>l. run_lnurl R = Some l \<longrightarrow> pay_state_wired (bs_state l) st)
     \<and> run_background R = map_option (pst_balancer \<circ> bs_state) (run_lnurl R)
     \<and> fresh_stores st"

lemma services_started:
  assumes "start_services C E signals path es w = (Inr R, w1)" and "fresh_server (cw_remote w)"
  shows "started (enablement_new es) R (cw_remote w1)"
proof -
  let ?en = "enablement_new es" and ?I = "injection_env.truncate E"
  from assms(1) obtain u v wa wb ci w2 d w3 f w4 l w5 b where
    i: "cmd_info ''starting services'' w = (Inr u, wa)" "cmd_result (map_err foreign signals) wa = (Inr v, wb)"
      "config_injector_new C path wb = (Inr ci, w2)"
    and d: "discovery_service_connect E ci ?en w2 = (Inr d, w3)"
    and f: "offer_service_connect E ci ?en w3 = (Inr f, w4)"
    and l: "balancer_service_connect E ci ?en w4 = (Inr l, w5)"
    and b: "background_start E ci ?en w5 = (Inr b, w1)"
    and "cmd_return \<lparr>run_discovery = d, run_offer = f, run_lnurl = l, run_background = b\<rparr> w1 = (Inr R, w1)"
    unfolding start_services_def Let_def
    by (elim cmd_bind_Inr) (simp add: cmd_return_def)
  then have R: "R = \<lparr>run_discovery = d, run_offer = f, run_lnurl = l, run_background = b\<rparr>"
    by (simp add: cmd_return_def)
  have start: "cw_remote w2 = cw_remote w"
    using quietD [OF quiet_basic(4) i(1)] quietD [OF quiet_basic(2) i(2)] quietD [OF quiet_config i(3)] by simp
  let ?none = "\<lambda>st :: 'a server_state. sv_balancer st = None" and ?fresh = "fresh_stores :: 'a server_state \<Rightarrow> bool"
  have w2: "?none (cw_remote w2)" "?fresh (cw_remote w2)"
    using assms(2) by (simp_all add: start fresh_server_def fresh_stores_def)
  have none: "\<And>st x. ?none st \<Longrightarrow> ?none (st\<lparr>sv_outside := x\<rparr>)" and fresh: "\<And>st x. ?fresh st \<Longrightarrow> ?fresh (st\<lparr>sv_outside := x\<rparr>)"
    by (simp_all add: fresh_stores_def)
  have w3: "?none (cw_remote w3)" "?fresh (cw_remote w3)"
    using preservesD [OF services_preserve(1) [OF none store_get_preserves(3)] d w2(1)]
      preservesD [OF services_preserve(1) [OF fresh discovery_store_get_fresh] d w2(2)] by simp_all
  have w4: "?none (cw_remote w4)" "?fresh (cw_remote w4)"
    using preservesD [OF services_preserve(2) [OF none store_get_preserves(6)] f w3(1)]
      preservesD [OF services_preserve(2) [OF fresh offer_store_get_fresh] f w3(2)] by simp_all
  have wired: "wired_cells ci (cw_remote w4)" using w4(1) by (simp add: wired_cells_def)
  have w5: "?fresh (cw_remote w5)"
    by (rule preservesD [OF services_preserve(3) [OF fresh balancer_get_fresh offer_store_get_fresh] l w4(2)])
  note cell_d = gives_run [OF discovery_service_cell d TrueI] and cell_f = gives_run [OF offer_service_cell f TrueI]
    and cell_l = gives_run [OF balancer_service_cell l wired]
  have disc: "sv_discovery (cw_remote w5) = Some c" if "sv_discovery (cw_remote w3) = Some c" for c
  proof -
    have out: "\<And>(st :: 'a server_state) x. sv_discovery st = Some c \<Longrightarrow> sv_discovery (st\<lparr>sv_outside := x\<rparr>) = Some c" by simp
    have "sv_discovery (cw_remote w4) = Some c"
      by (rule preservesD [OF services_preserve(2) [OF out store_get_preserves(4)] f that])
    from preservesD [OF services_preserve(3) [OF out balancer_get_preserves(1) store_get_preserves(4)] l this]
    show ?thesis .
  qed
  have offers: "sv_offer (cw_remote w5) = Some c" if "sv_offer (cw_remote w4) = Some c" for c
  proof -
    have out: "\<And>(st :: 'a server_state) x. sv_offer st = Some c \<Longrightarrow> sv_offer (st\<lparr>sv_outside := x\<rparr>) = Some c" by simp
    show ?thesis
      by (rule preservesD [OF services_preserve(3) [OF out balancer_get_preserves(2) store_get_preserves(5)] l that])
  qed
  have background: "b = map_option (pst_balancer \<circ> bs_state) l \<and> w1 = w5"
  proof (cases l)
    case None
    with cell_l have "\<not> lnurl_enabled ?en" by simp
    with b None show ?thesis by (simp add: background_disabled)
  next
    case (Some s)
    with cell_l have "lnurl_enabled ?en" "pay_state_wired (bs_state s) (cw_remote w5)" by simp_all
    with background_started [OF b, of "pst_balancer (bs_state s)"] Some show ?thesis by (simp add: pay_state_wired_def)
  qed
  show ?thesis
    unfolding started_def R using cell_d cell_f cell_l w5 disc offers background by (simp del: enablement_new_simps)
qed

section \<open>A server in memory\<close>

definition sample_lnurl_config :: lnurl_service_config where
  "sample_lnurl_config =
     \<lparr>lc_partitions = {''p''}, lc_address = ''l'', lc_health_check_frequency_secs = Fin 1, lc_parallel_health_check = True,
      lc_success_to_healthy = 1, lc_failure_to_unhealthy = 1, lc_backend_update_frequency_secs = Fin 1,
      lc_invoice_expiry_secs = 60, lc_allowed_hosts = {}, lc_backoff = BackoffExponential None None None None None,
      lc_backend_selection = SelectRoundRobin, lc_tls = None, lc_ln_client_timeout_secs = Fin 2,
      lc_ln_trusted_roots = None, lc_selection_capacity_bias = None, lc_comment_allowed = None,
      lc_bech32_qr_scale = 8, lc_bech32_qr_light = 255, lc_bech32_qr_dark = 0\<rparr>"

definition sample_server_config :: server_config where
  "sample_server_config =
     \<lparr>sc_lnurl_service = Some sample_lnurl_config,
      sc_discovery_service = Some \<lparr>dsc_address = ''d'', dsc_auth_authority = ''k'', dsc_tls = None\<rparr>,
      sc_offer_service = Some \<lparr>osc_address = ''o'', osc_auth_authority = ''k'', osc_tls = None, osc_max_page_size = 10\<rparr>,
      sc_store = Some \<lparr>ssc_offer = Some OfferStoreMemory, ssc_discover = Some DiscoveryStoreMemory\<rparr>, sc_secrets = None\<rparr>"

definition sample_sys :: "'s cli_sys" where
  "sample_sys = \<lparr>sy_fault = (\<lambda>_ _. None), sy_env = Map.empty\<rparr>"

definition sample_config_env :: "'s config_env" where
  "sample_config_env =
     \<lparr>cv_sys = sample_sys, cv_expand = Inr, cv_yaml = (\<lambda>s. if s = ''y'' then Inr sample_server_config else Inl ''yaml''),
      cv_secrets = (\<lambda>_ _. Inr []), cv_debug_path = id, cv_debug_config = (\<lambda>_. [])\<rparr>"

definition sample_service_env :: "(unit, string, unit) service_env" where
  "sample_service_env =
     \<lparr>ie_command =
        \<lparr>ce_sys = sample_sys, ce_from_str = (\<lambda>_. Inl ''EOF''), ce_pretty = (\<lambda>_. Inl ''none''),
         ce_show_json = (\<lambda>_. ''json''), ce_show_io = (\<lambda>_. ''io''), ce_show_status = (\<lambda>_. ''status''),
         ce_parse_url = Inr, ce_pem = (\<lambda>_. []),
         ce_builder = \<lparr>cb_build = (\<lambda>_. Inl ''none''), cb_from_der = (\<lambda>_. None)\<rparr>\<rparr>,
      ie_builder = \<lparr>cb_build = (\<lambda>_. Inl ''none''), cb_from_der = (\<lambda>_. None)\<rparr>,
      ie_json = text_lib, ie_hex = \<lparr>hx_encode = (\<lambda>_. []), hx_decode = (\<lambda>_. Inl ''hex'')\<rparr>, ie_offer_lib = sample_offer_lib,
      ie_strfmt = (\<lambda>s _. Inr s), ie_from_utf8 = Inr,
      ie_connect_discovery = (\<lambda>_ _ w. (Inl (RecordNotFound ''none''), w)), ie_connect_offer = (\<lambda>_ _ w. (Inl (RecordNotFound ''none''), w)),
      ie_discovery_up = (\<lambda>_ _ w. (Inr (), w)), ie_offer_up = (\<lambda>_ _ w. (Inr (), w)), ie_show_db = (\<lambda>_. ''db''),
      ie_backoff_builder = \<lparr>eb_initial_interval = 1, eb_randomization_factor = Fin 0, eb_multiplier = Fin 1,
        eb_max_interval = 1, eb_max_elapsed_time = Some 9\<rparr>,
      ve_bind = (\<lambda>_ w. (Inr 1, w)), ve_local_addr = (\<lambda>_. Inr ''a''), ve_private_key = (\<lambda>_. Inr None),
      ve_server_config = (\<lambda>_ _. Inl ''none''), ve_decoding_key = Inr\<rparr>"

definition sample_server_world :: "unit server_state cli_world" where
  "sample_server_world =
     \<lparr>cw_files = [''c'' \<mapsto> ''y'', ''k'' \<mapsto> ''pem''], cw_stdin = [], cw_stdout = [], cw_log = [],
      cw_remote = \<lparr>sv_discovery_stores = [], sv_offer_stores = [], sv_discovery = None, sv_offer = None,
        sv_balancer = None, sv_outside = ()\<rparr>\<rparr>"

lemma sample_fresh: "fresh_server (cw_remote sample_server_world)"
  by (simp add: fresh_server_def sample_server_world_def)

lemma sample_durations [simp]: "duration_from_secs_f64 (Fin 1) = Some 1000000000" "duration_from_secs_f64 (Fin 2) = Some 2000000000"
proof -
  have "round_even (numeral n) = numeral n" for n
    by (metis of_int_numeral round_even_of_int)
  then show "duration_from_secs_f64 (Fin 1) = Some 1000000000" "duration_from_secs_f64 (Fin 2) = Some 2000000000"
    by simp_all
qed

lemma sample_started:
  "\<exists>d f l b w1. start_services sample_config_env sample_service_env (Inr ()) ''c'' [] sample_server_world
      = (Inr \<lparr>run_discovery = Some d, run_offer = Some f, run_lnurl = Some l, run_background = b\<rparr>, w1)
    \<and> dst_store (bs_state d) = MemoryDiscovery 0 \<and> pst_partitions (bs_state l) = {''p''}
    \<and> pst_offer_provider (bs_state l) = MemoryOffer 0 \<and> pst_allowed_hosts (bs_state l) = {}
    \<and> pst_comment_allowed (bs_state l) = None
    \<and> ib_selection_capacity_bias (delegate_balancer (pst_balancer (bs_state l))) = None"
proof -
  note env = sample_config_env_def sample_service_env_def sample_sys_def sample_server_world_def injection_env.truncate_def
    sample_server_config_def sample_lnurl_config_def
  note config = config_injector_new_def load_secrets_def io_defs
  note stores = discovery_store_get_def discovery_store_inject_def offer_store_get_def offer_store_inject_def
    cmd_update_def new_discovery_store_def new_offer_store_def
  note balancer = balancer_get_def balancer_inject_def build_backoff_def cmd_duration_option_def cmd_duration_def
    load_roots_def create_pingora_load_balancer_def select_balancer_def
  note services = discovery_service_connect_def offer_service_connect_def balancer_service_connect_def background_start_def
    bind_listener_def tls_acceptor_def auth_authority_def at_outside_def
  show ?thesis
    by (simp add: start_services_def Let_def cmd_defs env config stores balancer services
        del: duration_from_secs_f64.simps)
qed

lemma sample_omits: "omits_limit (lc_backoff sample_lnurl_config)"
proof -
  have "lc_backoff sample_lnurl_config = BackoffExponential None None None None None"
    by (simp add: sample_lnurl_config_def)
  then show ?thesis by (simp add: omits_limit_def)
qed

text \<open>A balancer of pingora for the sample: one load balancer with two nodes.\<close>

definition sample_base :: "unit balancer_delegate \<Rightarrow> (service_error_source, unit, nat) ln_balancer" where
  "sample_base d = two_node_balancer (\<lambda>b. Inl Upstream) StopBackoff None"

lemma running_simps [simp]:
  "bal_exp_next (running_balancer base build d) = bal_exp_next (base d)"
  "selection_capacity_bias (running_balancer base build d) = ib_selection_capacity_bias (delegate_balancer d)"
  "backoff_provider (running_balancer base build d) = get_backoff build (ib_backoff (delegate_balancer d))"
  by (simp_all add: running_balancer_def Let_def)

section \<open>Properties\<close>

text \<open>
  Property C13. The services of one server share its stores: each service runs exactly if it is enabled;
  the stores of a started server are the same for the services that manage them and the pay service that
  reads them, the balancer of the pay service is the one whose background tasks run, and it serves the
  partitions that the pay service admits.
\<close>

theorem services_share_stores:
  assumes "start_services C E signals path es w = (Inr R, w1)" and "fresh_server (cw_remote w)"
  shows "(run_discovery R \<noteq> None \<longleftrightarrow> es = [] \<or> EnableAll \<in> set es \<or> EnableDiscovery \<in> set es)
    \<and> (run_offer R \<noteq> None \<longleftrightarrow> es = [] \<or> EnableAll \<in> set es \<or> EnableOffer \<in> set es)
    \<and> (run_lnurl R \<noteq> None \<longleftrightarrow> es = [] \<or> EnableAll \<in> set es \<or> EnableLnUrl \<in> set es)
    \<and> (\<forall>l. run_lnurl R = Some l \<longrightarrow>
         (\<forall>d. run_discovery R = Some d \<longrightarrow>
            ib_discovery (delegate_balancer (pst_balancer (bs_state l))) = dst_store (bs_state d))
         \<and> (\<forall>f. run_offer R = Some f \<longrightarrow>
              pst_offer_provider (bs_state l) = ost_offer_store (bs_state f)
              \<and> ost_metadata_store (bs_state f) = ost_offer_store (bs_state f))
         \<and> ib_partitions (delegate_balancer (pst_balancer (bs_state l))) = pst_partitions (bs_state l))
    \<and> run_background R = map_option (pst_balancer \<circ> bs_state) (run_lnurl R)"
  using services_started [OF assms] by (auto simp: started_def pay_state_wired_def)

theorem services_share_stores_witness:
  "\<exists>R w1 d l. start_services sample_config_env sample_service_env (Inr ()) ''c'' [] sample_server_world = (Inr R, w1)
    \<and> run_discovery R = Some d \<and> run_lnurl R = Some l
    \<and> ib_discovery (delegate_balancer (pst_balancer (bs_state l))) = dst_store (bs_state d)
    \<and> run_background R = Some (pst_balancer (bs_state l))"
proof -
  obtain R w1 d l where s: "start_services sample_config_env sample_service_env (Inr ()) ''c'' [] sample_server_world = (Inr R, w1)"
      "run_discovery R = Some d" "run_lnurl R = Some l"
    using sample_started by fastforce
  with services_share_stores [OF s(1) sample_fresh] show ?thesis by auto
qed



text \<open>
  Property C15. A configuration without \<open>max-elapsed-time-secs\<close>: the balancer built from it retries
  for ever. With a policy of the crate that never stops when it has no limit (which is what it documents),
  a request for an offer that no node can be selected for, now and after any refresh, never returns, although
  the builder that the configuration started from had a limit.
\<close>

theorem omitted_limit_never_returns:
  assumes "balancer_get I ci en w = (Inr (Some d), w1)" and "sv_balancer (cw_remote w) = None"
    and "sc_lnurl_service (ci_config ci) = Some cfg" and "omits_limit (lc_backoff cfg)"
    and "\<And>b. eb_max_elapsed_time b = None \<Longrightarrow> unlimited (build b)"
    and "\<And>x. unlimited x \<Longrightarrow> fst (bal_exp_next (base d) x) \<noteq> None \<and> unlimited (snd (bal_exp_next (base d) x))"
    and "\<And>v c. stuck v \<Longrightarrow> fst (select_backend (running_balancer base build d) ofr a key c v) = None
          \<and> stuck (snd (select_backend (running_balancer base build d) ofr a key c v))"
    and "\<And>v. stuck v \<Longrightarrow> stuck (retry_refresh (running_balancer base build d) v)" and "stuck v"
  shows "delegate_get_invoice base build d su ofr a e key v = None"
proof -
  have "wired_cells ci (cw_remote w)" using assms(2) by (simp add: wired_cells_def)
  then have "wired_cells ci (cw_remote w1)" by (rule preservesD [OF balancer_get_wired assms(1)])
  with balancer_get_cell [OF assms(1)] assms(3,4) obtain b where
    b: "ib_backoff (delegate_balancer d) = BackoffDelegateExponential b" "eb_max_elapsed_time b = None"
    by (auto simp: wired_cells_def configured_by_def unlimited_backoff_def)
  have "get_invoice_loop (running_balancer base build d) su ofr a e key bias (ExponentialBackoff (build b)) v = None" for bias
    by (rule get_invoice_loop_diverges_biased [where unlimited = unlimited and stuck = stuck])
      (simp_all add: assms b)
  then show ?thesis
    by (simp add: delegate_get_invoice_def get_invoice_def get_backoff_def exponential_backoff_provider_def b)
qed

theorem omitted_limit_never_returns_witness:
  "\<exists>d w1. balancer_get (injection_env.truncate sample_service_env) \<lparr>ci_config = sample_server_config, ci_secrets = []\<rparr>
       (enablement_new []) sample_server_world = (Inr (Some d), w1)
     \<and> delegate_get_invoice sample_base (\<lambda>_. ()) d (\<lambda>_. ''id'') (sample_offer\<lparr>offer.partition := ''r''\<rparr>) 5 60 [] 0 = None"
proof -
  obtain d w1 where d: "balancer_get (injection_env.truncate sample_service_env) \<lparr>ci_config = sample_server_config, ci_secrets = []\<rparr>
       (enablement_new []) sample_server_world = (Inr (Some d), w1)"
    unfolding sample_service_env_def sample_server_world_def injection_env.truncate_def sample_server_config_def sample_lnurl_config_def
    by (simp add: balancer_get_def balancer_inject_def discovery_store_get_def discovery_store_inject_def cmd_update_def
        new_discovery_store_def build_backoff_def cmd_duration_option_def cmd_duration_def load_roots_def
        create_pingora_load_balancer_def select_balancer_def Let_def cmd_defs del: duration_from_secs_f64.simps)
  have "fst (select_backend (running_balancer sample_base (\<lambda>_. ()) d) (sample_offer\<lparr>offer.partition := ''r''\<rparr>) 5 [] c v) = None" for c v
    by (simp add: select_backend_def running_balancer_def sample_base_def two_node_balancer_def first_accepted_def two_nodes_def
        select_accept_def sample_offer_def Let_def)
  then have "delegate_get_invoice sample_base (\<lambda>_. ()) d (\<lambda>_. ''id'') (sample_offer\<lparr>offer.partition := ''r''\<rparr>) 5 60 [] 0 = None"
    by (intro omitted_limit_never_returns [where cfg = sample_lnurl_config and unlimited = "\<lambda>_. True" and stuck = "\<lambda>_. True", OF d])
      (simp_all add: sample_server_world_def sample_server_config_def sample_omits sample_base_def)
  with d show ?thesis by blast
qed

end
