(* ===== verification/Entry.thy ===== *)
theory Entry
  imports Services
begin

text \<open>
  \<open>server/src/main.rs\<close>: the commands of the program, their dispatch, and the exit code of the process.
  The loggers, the cryptographic provider, and what the commands call are arguments; a command that
  panics ends the process.
\<close>

section \<open>Commands\<close>

datatype discovery_commands = DiscoveryTokenCommand token_command | DiscoveryBackendCommand backend_management_command

datatype offer_commands =
    OfferTokenCommand token_command
  | OfferRecordCommand offer_record_command
  | OfferMetadataCommand offer_metadata_command

datatype root_commands =
    ServiceCommand string "service_enablement list"
  | OfferCommand offer_commands
  | DiscoveryCommand discovery_commands

text \<open>What a run of the program meets.\<close>

record ('x, 'k, 't, 'sk, 'ek, 'dk) main_env =
  me_install_provider :: bool
  me_config :: "'x server_state config_env"
  me_service :: "('x, 'k, 't) service_env"
  me_signals :: "string + unit"
  me_signal_name :: "i32 \<Rightarrow> string option"
  me_next_event :: "('x, 'k, 't) running_services \<Rightarrow> service_event"
  me_joined :: "string + string + unit"
  me_debug_errors :: "anyhow list \<Rightarrow> string"
  me_command :: "'x server_state command_env"
  me_discovery :: discovery_libs
  me_offer :: offer_lib
  me_fresh_uuid :: uuid
  me_token :: "('x server_state, 'sk, 'ek, 'dk) token_env"
  me_clock :: "u64 option"
  me_now :: u64
  me_signing_key :: 'sk

fun run_offer_commands ::
  "('x, 'k, 't, 'sk, 'ek, 'dk) main_env \<Rightarrow> offer_commands \<Rightarrow> ('x server_state, unit) command" where
  "run_offer_commands M (OfferTokenCommand c) = run_offer_token (me_token M) (me_clock M) (me_now M) (me_signing_key M) c"
| "run_offer_commands M (OfferRecordCommand c) = run_offer_command (me_command M) (me_offer M) (me_fresh_uuid M) c"
| "run_offer_commands M (OfferMetadataCommand c) = run_metadata_command (me_command M) (me_offer M) (me_fresh_uuid M) c"

fun run_discovery_commands ::
  "('x, 'k, 't, 'sk, 'ek, 'dk) main_env \<Rightarrow> discovery_commands \<Rightarrow> ('x server_state, unit) command" where
  "run_discovery_commands M (DiscoveryTokenCommand c) =
     run_discovery_token (me_token M) (me_clock M) (me_now M) (me_signing_key M) c"
| "run_discovery_commands M (DiscoveryBackendCommand c) = run_backend_command (me_command M) (me_discovery M) c"

fun run_root_command ::
  "('x, 'k, 't, 'sk, 'ek, 'dk) main_env \<Rightarrow> root_commands \<Rightarrow> ('x server_state, unit) command" where
  "run_root_command M (ServiceCommand config enablement) =
     execute (me_config M) (me_service M) (me_signal_name M) (me_debug_errors M) (me_signals M) (me_next_event M)
       (me_joined M) config enablement"
| "run_root_command M (OfferCommand c) = run_offer_commands M c"
| "run_root_command M (DiscoveryCommand c) = run_discovery_commands M c"

definition main_body ::
  "('x, 'k, 't, 'sk, 'ek, 'dk) main_env \<Rightarrow> root_commands \<Rightarrow> ('x server_state, unit) command" where
  "main_body M c =
     (if me_install_provider M then run_root_command M c
      else cmd_bail ''failed to stand up rustls encryption platform'')"

section \<open>The process\<close>

datatype exit_code = ExitSuccess | ExitFailure | ExitPanic

text \<open>
  \<open>logger\<close> is what the initialisation of the logger returns: env_logger for the services, a terminal
  logger for the other commands. Its failure and the error of a command are written to the standard
  error, as the log is.
\<close>

definition log_error :: "string \<Rightarrow> 's cli_world \<Rightarrow> 's cli_world" where
  "log_error line w = w\<lparr>cw_log := cw_log w @ [line]\<rparr>"

fun is_service_command :: "root_commands \<Rightarrow> bool" where
  "is_service_command (ServiceCommand _ _) = True"
| "is_service_command _ = False"

definition run_main ::
  "('x, 'k, 't, 'sk, 'ek, 'dk) main_env \<Rightarrow> (anyhow \<Rightarrow> string) \<Rightarrow> string + unit \<Rightarrow> root_commands \<Rightarrow> 'x server_state cli_world
     \<Rightarrow> exit_code \<times> 'x server_state cli_world" where
  "run_main M show_error logger c w =
     (case logger of
        Inl e \<Rightarrow>
          (ExitFailure,
           log_error (''failed to initialize '' @ (if is_service_command c then ''env_logger'' else ''TermLogger'') @ '': '' @ e) w)
      | Inr _ \<Rightarrow>
          (case main_body M c w of
             (Inr _, w1) \<Rightarrow> (ExitSuccess, w1)
           | (Inl (ctx, CliPanic msg), w1) \<Rightarrow> (ExitPanic, log_error msg w1)
           | (Inl e, w1) \<Rightarrow> (ExitFailure, log_error (show_error e) w1)))"

section \<open>How the server ends\<close>

text \<open>The event ended the wait without an error.\<close>

fun event_clean :: "service_event \<Rightarrow> bool" where
  "event_clean (LnurlEnded r) = is_ok r"
| "event_clean (DiscoveryEnded r) = is_ok r"
| "event_clean (OffersEnded r) = is_ok r"
| "event_clean (SignalReceived s) = (s \<noteq> None)"

lemma is_ok_mapped [simp]: "is_ok (map_ok f r) = is_ok r" "is_ok (map_err g r) = is_ok r"
  by (cases r; simp)+

lemma is_ok_context [simp]: "is_ok (with_context ctx r) = is_ok r"
  by (simp add: with_context_def)

lemma is_ok_event [simp]: "is_ok (event_result nm ev) = event_clean ev"
proof (cases ev)
  case (SignalReceived s)
  then show ?thesis by (cases s) simp_all
qed simp_all

text \<open>The errors that the shutdown reports.\<close>

definition shutdown_errors :: "(i32 \<Rightarrow> string option) \<Rightarrow> service_event \<Rightarrow> string + string + unit \<Rightarrow> anyhow list" where
  "shutdown_errors nm ev joined =
     (case event_result nm ev of Inl e \<Rightarrow> [e] | Inr _ \<Rightarrow> [])
     @ (case joined of Inl e \<Rightarrow> [([''waiting for load balancer background services to terminate''], CliForeign e)] | Inr _ \<Rightarrow> [])"

lemma shutdown_errors_empty: "shutdown_errors nm ev joined = [] \<longleftrightarrow> event_clean ev \<and> is_ok joined"
  unfolding is_ok_event [of nm, symmetric]
  by (cases "event_result nm ev"; cases joined; simp add: shutdown_errors_def)

lemma shutdown_result:
  "fst (shutdown_services nm dbg ev joined w) =
     (let es = shutdown_errors nm ev joined
      in if es = [] then Inr ()
         else Inl ([], CliMessage (''server terminated with errors:'' @ [CHR 0x0A] @ dbg es)))"
  unfolding shutdown_services_def shutdown_errors_def
  by (cases "event_result nm ev"; cases joined; simp add: cmd_defs foreign_def Let_def split: option.split)

text \<open>
  Property C31. The exit code of a server that started: success exactly if what ended it was a signal or
  a service that returned without an error, and its background task could be joined. What the background
  task itself returned has no part in it.
\<close>

theorem server_exit_code:
  assumes "start_services (me_config M) (me_service M) (me_signals M) config es w = (Inr R, w1)"
    and "me_install_provider M"
  shows "fst (run_main M show_error (Inr ()) (ServiceCommand config es) w) =
    (if event_clean (me_next_event M R) \<and> is_ok (me_joined M) then ExitSuccess else ExitFailure)"
proof -
  let ?down = "shutdown_services (me_signal_name M) (me_debug_errors M) (me_next_event M R) (me_joined M) w1"
  have body: "main_body M (ServiceCommand config es) w = ?down"
    using assms by (simp add: main_body_def execute_def cmd_bind_def)
  note result = shutdown_result [of "me_signal_name M" "me_debug_errors M" "me_next_event M R" "me_joined M" w1]
  show ?thesis
  proof (cases "shutdown_errors (me_signal_name M) (me_next_event M R) (me_joined M) = []")
    case True
    with result obtain w2 where "?down = (Inr (), w2)" by (cases ?down) simp
    with True body show ?thesis by (simp add: run_main_def shutdown_errors_empty)
  next
    case False
    with result obtain msg w2 where "?down = (Inl ([], CliMessage msg), w2)" by (cases ?down) (simp add: Let_def)
    with False body show ?thesis by (auto simp: run_main_def shutdown_errors_empty)
  qed
qed

definition sample_main :: "service_event \<Rightarrow> (unit, string, unit, unit, unit, unit) main_env" where
  "sample_main ev =
     \<lparr>me_install_provider = True, me_config = sample_config_env, me_service = sample_service_env, me_signals = Inr (),
      me_signal_name = (\<lambda>_. None), me_next_event = (\<lambda>_. ev), me_joined = Inr (Inl ''update''),
      me_debug_errors = (\<lambda>_. []), me_command = ie_command sample_service_env,
      me_discovery = \<lparr>dl_json = text_lib, dl_hex = \<lparr>hx_encode = (\<lambda>_. []), hx_decode = (\<lambda>_. Inl ''hex'')\<rparr>\<rparr>,
      me_offer = sample_offer_lib, me_fresh_uuid = 1,
      me_token =
        \<lparr>te_env = ie_command sample_service_env, te_public_pem = (\<lambda>_. Inl ''none''), te_private_pem = (\<lambda>_. Inl ''none''),
         te_encoding_key = (\<lambda>_. Inl ''none''), te_decoding_key = (\<lambda>_. Inl ''none''), te_encode = (\<lambda>_ _. Inl ''none''),
         te_decode = (\<lambda>_ _ _ _. Inl ''none'')\<rparr>,
      me_clock = Some 5, me_now = 5, me_signing_key = ()\<rparr>"

theorem server_exit_code_witness:
  "fst (run_main (sample_main (SignalReceived (Some 15))) (\<lambda>_. []) (Inr ()) (ServiceCommand ''c'' []) sample_server_world) = ExitSuccess
   \<and> fst (run_main (sample_main (LnurlEnded (Inl ''accept''))) (\<lambda>_. []) (Inr ()) (ServiceCommand ''c'' []) sample_server_world) = ExitFailure"
proof -
  obtain R w1 where s: "start_services sample_config_env sample_service_env (Inr ()) ''c'' [] sample_server_world = (Inr R, w1)"
    using sample_started by blast
  have "start_services (me_config (sample_main ev)) (me_service (sample_main ev)) (me_signals (sample_main ev)) ''c'' [] sample_server_world
      = (Inr R, w1)" for ev
    using s by (simp add: sample_main_def)
  moreover have "me_install_provider (sample_main ev)" for ev by (simp add: sample_main_def)
  ultimately have exit: "fst (run_main (sample_main ev) (\<lambda>_. []) (Inr ()) (ServiceCommand ''c'' []) sample_server_world) =
      (if event_clean (me_next_event (sample_main ev) R) \<and> is_ok (me_joined (sample_main ev)) then ExitSuccess else ExitFailure)" for ev
    by (rule server_exit_code)
  show ?thesis
    by (simp add: exit) (simp add: sample_main_def)
qed

end
