(* ===== verification/OfferProvider.thy ===== *)
theory OfferProvider
  imports OfferMemory ClientPool
begin

text \<open>
  \<open>components/src/offer/provider.rs\<close>: the offer of a payment, built from any offer store, with
  the metadata of LNURL as a JSON text and its hash. \<open>to_json\<close> is \<open>serde_json::to_string\<close> on a
  sequence of pairs, \<open>sha256\<close> the digest of the crate sha2.
\<close>

definition provider_offer ::
  "('s \<Rightarrow> string \<Rightarrow> uuid \<Rightarrow> bool option \<Rightarrow> 'e + offer_record option) \<Rightarrow> (offer_store_error \<Rightarrow> 'e)
     \<Rightarrow> (u8 list \<Rightarrow> string) \<Rightarrow> (string list list \<Rightarrow> string + string) \<Rightarrow> (u8 list \<Rightarrow> u8 list) \<Rightarrow> (uuid \<Rightarrow> string)
     \<Rightarrow> 's \<Rightarrow> string \<Rightarrow> string \<Rightarrow> uuid \<Rightarrow> 'e + offer option" where
  "provider_offer get_offer from_err b64_encode to_json sha256 show_uuid store hostname p i =
     and_then (get_offer store p i (Some False))
       (\<lambda>ro. case ro of
          None \<Rightarrow> Inr None
        | Some r \<Rightarrow>
            (case rec_metadata (rec_offer r) of
               None \<Rightarrow> Inr None
             | Some md \<Rightarrow>
                 and_then
                   (map_err (\<lambda>e. from_err (offer_serialization_error Internal
                        (''building LNURL offer response for offer '' @ show_uuid (rec_id r)) e))
                      (to_json (metadata_serialize b64_encode md)))
                   (\<lambda>json. Inr (Some
                      \<lparr>partition = rec_partition r, offer_id = rec_id r,
                       max_sendable = rec_max_sendable (rec_offer r),
                       min_sendable = rec_min_sendable (rec_offer r),
                       metadata_json_string = json,
                       metadata_json_hash = sha256 (as_bytes json),
                       timestamp = rec_timestamp (rec_offer r),
                       expires = rec_expires (rec_offer r)\<rparr>))))"

text \<open>An offer whose hash is the digest of its metadata text.\<close>

definition hash_ok :: "(u8 list \<Rightarrow> u8 list) \<Rightarrow> offer \<Rightarrow> bool" where
  "hash_ok sha256 ofr \<longleftrightarrow> metadata_json_hash ofr = sha256 (as_bytes (metadata_json_string ofr))"

lemma provider_hash_ok:
  "provider_offer go fe be tj sha su s h p i = Inr (Some ofr) \<Longrightarrow> hash_ok sha ofr"
proof -
  assume a: "provider_offer go fe be tj sha su s h p i = Inr (Some ofr)"
  then obtain ro where "go s p i (Some False) = Inr ro"
    by (auto simp: provider_offer_def result_simps)
  with a show ?thesis
    by (auto simp: provider_offer_def hash_ok_def result_simps split: option.splits)
qed

context offer_store
begin

lemma provider_finds:
  assumes "inv s" and "get_offer s p i None = Inr (Some r)"
    and "get_metadata s p (rec_metadata_id (rec_offer r)) = Inr (Some m)"
    and "tj (metadata_serialize be (meta_metadata m)) = Inr json"
  shows "provider_offer get_offer fe be tj sha su s h p i =
    Inr (Some \<lparr>partition = p, offer_id = i, max_sendable = rec_max_sendable (rec_offer r),
               min_sendable = rec_min_sendable (rec_offer r), metadata_json_string = json,
               metadata_json_hash = sha (as_bytes json), timestamp = rec_timestamp (rec_offer r),
               expires = rec_expires (rec_offer r)\<rparr>)"
proof -
  obtain m' where m': "get_metadata s p (rec_metadata_id (rec_offer r)) = Inr (Some m')"
      "get_offer s p i (Some False) = Inr (Some (with_metadata (meta_metadata m') r))"
    using full_offer_found [OF assms(1,2)] by auto
  have "oc_offers (content s) (p, i) = Some (bare r)"
    using get_sparse [OF assms(1), of None p i] assms(2) by auto
  then have "offer_key_of (bare r) = (p, i)"
    using content_law [OF assms(1)] unfolding content_ok_def by blast
  then have "rec_partition r = p" "rec_id r = i"
    by (simp_all add: offer_key_of_def)
  with m' assms(3,4) show ?thesis
    by (simp add: provider_offer_def, simp add: with_metadata_def)
qed

lemma provider_none_iff:
  assumes "inv s" and "\<And>x. is_ok (tj x)"
  shows "provider_offer get_offer fe be tj sha su s h p i = Inr None \<longleftrightarrow> oc_offers (content s) (p, i) = None"
proof (cases "oc_offers (content s) (p, i)")
  case None
  then show ?thesis by (simp add: provider_offer_def get_full [OF assms(1)])
next
  case (Some r)
  then have "oc_metadata (content s) (metadata_key_of r) \<noteq> None"
    using content_law [OF assms(1)] by (auto simp: content_ok_def)
  then obtain m where "oc_metadata (content s) (metadata_key_of r) = Some m" by auto
  moreover obtain json where "tj (metadata_serialize be (meta_metadata m)) = Inr json"
    using assms(2) by (auto simp: is_ok_iff)
  ultimately show ?thesis
    using Some by (simp add: provider_offer_def get_full [OF assms(1)] with_metadata_def)
qed

end

section \<open>What an invoice commits to\<close>

text \<open>
  The description hash of the invoice that a node makes of a request: LND is given the hash;
  CLN is asked to hash the description itself (\<open>deschashonly\<close>).
\<close>

definition cln_commitment :: "(u8 list \<Rightarrow> u8 list) \<Rightarrow> cln_invoice_request \<Rightarrow> u8 list option" where
  "cln_commitment sha256 req =
     (if cln_deschashonly req = Some True then Some (sha256 (as_bytes (cln_description req))) else None)"

definition lnd_commitment :: "lnd_invoice \<Rightarrow> u8 list option" where
  "lnd_commitment i = (if lnd_description_hash i = [] then None else Some (lnd_description_hash i))"

lemma pool_description_cln:
  "client_wf (Cln cl) \<Longrightarrow> pool_description (Cln cl) ofr = DirectIntoHash (metadata_json_string ofr)"
  by (simp add: pool_description_def)

lemma pool_description_lnd:
  "client_wf (Lnd cl) \<Longrightarrow> pool_description (Lnd cl) ofr = DescHash (metadata_json_hash ofr)"
  by (simp add: pool_description_def)

lemma cln_invoice_committed:
  assumes "client_wf (Cln cl)" and "hash_ok sha ofr"
    and "cln_invoice_request_for sha he url now a (pool_description (Cln cl) ofr) e = Inr req"
  shows "cln_commitment sha req = Some (metadata_json_hash ofr)"
  using assms(2,3)
  by (auto simp: pool_description_cln [OF assms(1)] cln_invoice_request_for_def cln_commitment_def hash_ok_def
      split: if_splits)

lemma lnd_invoice_committed:
  assumes "client_wf (Lnd cl)" and "metadata_json_hash ofr \<noteq> []"
  shows "lnd_commitment (lnd_invoice_for sha amp a (pool_description (Lnd cl) ofr) e) = Some (metadata_json_hash ofr)"
  using assms(2) by (simp add: pool_description_lnd [OF assms(1)] lnd_invoice_for_def lnd_commitment_def)

section \<open>A store for the witnesses\<close>

definition sample_metadata :: offer_metadata where
  "sample_metadata = \<lparr>meta_id = 3, meta_partition = ''p'',
     meta_metadata = \<lparr>md_text = ''t'', md_long_text = None, md_image = None, md_identifier = None\<rparr>\<rparr>"

definition sample_record :: offer_record where
  "sample_record = \<lparr>rec_partition = ''p'', rec_id = 7,
     rec_offer = \<lparr>rec_max_sendable = 1000, rec_min_sendable = 1, rec_metadata_id = 3, rec_metadata = None,
       rec_timestamp = 0, rec_expires = None\<rparr>\<rparr>"

definition sample_store :: mem_offers where
  "sample_store = mo_run (\<lambda>_. []) (\<lambda>_. []) (1, OPost sample_record)
     (mo_run (\<lambda>_. []) (\<lambda>_. []) (0, MPost sample_metadata) mem_offers_new)"

lemma sample_store_eq:
  "sample_store = \<lparr>mo_offer = [((''p'', 7), \<lparr>ot_created = 1, ot_offer = sample_record\<rparr>)],
                   mo_metadata = [((''p'', 3), \<lparr>mt_created = 0, mt_metadata = sample_metadata\<rparr>)]\<rparr>"
  by (simp add: sample_store_def offer_run_def mo_exec_def mo_post_offer_def mo_post_metadata_def
      mem_offers_new_def sample_record_def sample_metadata_def)

lemma sample_store_inv: "mo_inv sample_store"
  unfolding sample_store_def
  using mem_offer.run_inv [of mem_offers_new "\<lambda>_. []" "\<lambda>_. []" "[(0, MPost sample_metadata), (1, OPost sample_record)]"]
  by simp

text \<open>A pool that holds one client of CLN, and one that holds a client of LND.\<close>

definition sample_pool :: "(unit, unit) pool_client \<Rightarrow> (nat, unit, unit) ln_client_pool" where
  "sample_pool c = (pool_new 1 [])\<lparr>pool_clients := Map.empty(0 \<mapsto> c)\<rparr>"

lemma sample_pool_simps [simp]:
  "pool_wf (sample_pool (Cln idle_cln))" "pool_wf (sample_pool (Lnd idle_lnd))"
  "pool_get_client sk (sample_pool c) 0 = Inr c"
  by (simp_all add: sample_pool_def pool_new_def pool_wf_def idle_cln_def idle_lnd_def pool_get_client_def)

lemma sample_provided:
  "provider_offer (\<lambda>_ _ _ _. Inr (Some (with_metadata (meta_metadata sample_metadata) sample_record))) id
     (\<lambda>_. []) (\<lambda>_. Inr ''j'') rev (\<lambda>_. []) () ''h'' ''p'' 7
   = (Inr (Some \<lparr>partition = ''p'', offer_id = 7, max_sendable = 1000, min_sendable = 1, metadata_json_string = ''j'',
        metadata_json_hash = rev (as_bytes ''j''), timestamp = 0, expires = None\<rparr>) :: offer_store_error + offer option)"
  by (simp add: provider_offer_def sample_record_def with_metadata_def)

section \<open>Properties\<close>

text \<open>
  Property C4. Referential integrity of the memory offer store: from the new store, after any
  operations, every offer that a sparse read answers has its metadata in the store, and the full
  read answers that offer with exactly this metadata.
\<close>

theorem mem_offers_integrity:
  assumes "s = fold (mo_run dbg su) xs mem_offers_new"
    and "mo_get_offer s p i None = Inr (Some r)"
  shows "\<exists>m. mo_get_metadata s p (rec_metadata_id (rec_offer r)) = Inr (Some m)
    \<and> mo_get_offer s p i (Some False) = Inr (Some (with_metadata (meta_metadata m) r))"
  using mem_offer.full_offer_found [OF mem_offer.run_inv [OF mo_inv_new]] assms by blast

theorem mem_offers_integrity_witness:
  "\<exists>m. mo_get_metadata sample_store ''p'' (rec_metadata_id (rec_offer sample_record)) = Inr (Some m)
    \<and> mo_get_offer sample_store ''p'' 7 (Some False) = Inr (Some (with_metadata (meta_metadata m) sample_record))"
proof (rule mem_offers_integrity)
  show "sample_store = fold (mo_run (\<lambda>_. []) (\<lambda>_. [])) [(0, MPost sample_metadata), (1, OPost sample_record)] mem_offers_new"
    by (simp add: sample_store_def)
  show "mo_get_offer sample_store ''p'' 7 None = Inr (Some sample_record)"
    by (simp add: sample_store_eq mo_get_offer_def)
qed

text \<open>
  Property C11. The memory offer store implements its abstract content: every operation, refusals
  included, answers and changes the maps as \<open>answer_to\<close> and \<open>offer_effect\<close> say, and keeps the
  store well formed.
\<close>

theorem mem_offers_refines:
  assumes "mo_inv s" and "mo_exec dbg su now x s = (ans, s')"
  shows "mo_inv s' \<and> ans = answer_to x (mo_content s)
    \<and> mo_content s' = unwrap_or (mo_content s) (offer_effect x (mo_content s))"
  by (rule mo_exec_law [OF assms])

theorem mem_offers_refines_witness:
  "ORefused = answer_to (MDelete ''p'' 3) (mo_content sample_store)"
proof -
  have "mo_exec (\<lambda>_. []) (\<lambda>_. []) 2 (MDelete ''p'' 3) sample_store = (ORefused, sample_store)"
    by (simp add: mo_exec_def mo_delete_metadata_def sample_store_eq hm_values_def sample_record_def)
  from mem_offers_refines [OF sample_store_inv this] show ?thesis by blast
qed

text \<open>
  Paging is complete: on one state of the memory store, consecutive pages of any size
  together list every offer of the partition exactly once, in the order of creation.
\<close>

theorem mem_offers_paged:
  assumes "mo_inv s"
  shows "\<exists>rs. distinct (map rec_id rs)
    \<and> bare ` set rs = {r. \<exists>i. oc_offers (mo_content s) (p, i) = Some r}
    \<and> (\<forall>cnt n. n * unat cnt < 2 ^ 64 \<longrightarrow> length rs \<le> n * unat cnt \<longrightarrow>
         concat (map (\<lambda>k. case mo_get_offers s p (of_nat k * cnt) cnt of Inr pg \<Rightarrow> pg | Inl _ \<Rightarrow> []) [0..<n]) = rs)"
  by (rule mem_offer.offers_paged [OF assms])

theorem mem_offers_paged_witness:
  "\<exists>rs. distinct (map rec_id rs)
    \<and> bare ` set rs = {r. \<exists>i. oc_offers (mo_content sample_store) (''p'', i) = Some r}
    \<and> (\<forall>cnt n. n * unat cnt < 2 ^ 64 \<longrightarrow> length rs \<le> n * unat cnt \<longrightarrow>
         concat (map (\<lambda>k. case mo_get_offers sample_store ''p'' (of_nat k * cnt) cnt of Inr pg \<Rightarrow> pg | Inl _ \<Rightarrow> []) [0..<n]) = rs)"
  by (rule mem_offers_paged [OF sample_store_inv])

text \<open>
  The provider over the memory store answers no offer exactly if none is stored
  under the partition and id; otherwise it answers the limits, the timestamps and the serialized
  metadata of the stored offer, with the digest of that text.
\<close>

theorem provider_over_memory:
  assumes "mo_inv s" and "mo_get_offer s p i None = Inr (Some r)"
    and "mo_get_metadata s p (rec_metadata_id (rec_offer r)) = Inr (Some m)"
    and "to_json (metadata_serialize b64_encode (meta_metadata m)) = Inr json"
  shows "provider_offer mo_get_offer id b64_encode to_json sha256 su s h p i =
    Inr (Some \<lparr>partition = p, offer_id = i, max_sendable = rec_max_sendable (rec_offer r),
               min_sendable = rec_min_sendable (rec_offer r), metadata_json_string = json,
               metadata_json_hash = sha256 (as_bytes json), timestamp = rec_timestamp (rec_offer r),
               expires = rec_expires (rec_offer r)\<rparr>)"
  by (rule mem_offer.provider_finds) (rule assms)+

theorem provider_over_memory_witness:
  "provider_offer mo_get_offer id (\<lambda>_. []) (\<lambda>x. Inr (concat (concat x))) rev (\<lambda>_. []) sample_store ''h'' ''p'' 7 =
    Inr (Some \<lparr>partition = ''p'', offer_id = 7, max_sendable = rec_max_sendable (rec_offer sample_record),
               min_sendable = rec_min_sendable (rec_offer sample_record), metadata_json_string = ''text/plaint'',
               metadata_json_hash = rev (as_bytes ''text/plaint''),
               timestamp = rec_timestamp (rec_offer sample_record),
               expires = rec_expires (rec_offer sample_record)\<rparr>)"
proof (rule provider_over_memory [OF sample_store_inv, of _ _ _ sample_metadata])
  show "mo_get_offer sample_store ''p'' 7 None = Inr (Some sample_record)"
    by (simp add: sample_store_eq mo_get_offer_def)
  show "mo_get_metadata sample_store ''p'' (rec_metadata_id (rec_offer sample_record)) = Inr (Some sample_metadata)"
    by (simp add: sample_store_eq mo_get_metadata_def sample_record_def)
  show "Inr (concat (concat (metadata_serialize (\<lambda>_. []) (meta_metadata sample_metadata)))) = Inr ''text/plaint''"
    by (simp add: metadata_serialize_def sample_metadata_def entry_types)
qed

text \<open>
  Property C17. CLN invoices commit to the metadata: whatever client of CLN a well-formed pool
  holds, the request it sends for an offer of the provider makes the node commit to the hash
  of the offer.
\<close>

theorem cln_invoice_commits:
  assumes "pool_wf p" and "pool_get_client show_key p k = Inr client" and "client = Cln cl"
    and "provider_offer go fe be tj sha256 su s h part i = Inr (Some ofr)"
    and "cln_invoice_request_for sha256 hex_encode url now a (pool_description client ofr) e = Inr req"
  shows "cln_commitment sha256 req = Some (metadata_json_hash ofr)"
  using pool_get_client_wf [OF assms(1,2)] provider_hash_ok [OF assms(4)] assms(5) unfolding assms(3)
  by (rule cln_invoice_committed)

theorem cln_invoice_commits_witness:
  "\<exists>req ofr. cln_invoice_request_for rev (\<lambda>_. ''x'') ''u'' 0 None (pool_description (Cln idle_cln :: (unit, unit) pool_client) ofr) None = Inr req
    \<and> cln_commitment rev req = Some (metadata_json_hash ofr)"
proof -
  let ?o = "\<lparr>partition = ''p'', offer_id = 7, max_sendable = 1000, min_sendable = 1, metadata_json_string = ''j'',
        metadata_json_hash = rev (as_bytes ''j''), timestamp = 0, expires = None\<rparr> :: offer"
  obtain req where req: "cln_invoice_request_for rev (\<lambda>_. ''x'') ''u'' 0 None (pool_description (Cln idle_cln :: (unit, unit) pool_client) ?o) None = Inr req"
    by (simp add: cln_invoice_request_for_def pool_description_def idle_cln_def)
  from cln_invoice_commits [OF _ sample_pool_simps(3) refl sample_provided req] req show ?thesis
    by (intro exI [of _ req] exI [of _ ?o]) simp
qed

text \<open>
  Property C18. LND invoices commit to the same hash: the invoice that a client of LND in a
  well-formed pool asks for carries the digest of the metadata text of the offer, and no memo.
\<close>

theorem lnd_invoice_commits:
  assumes "pool_wf p" and "pool_get_client show_key p k = Inr client" and "client = Lnd cl"
    and "provider_offer go fe be tj sha256 su s h part i = Inr (Some ofr)"
  shows "lnd_description_hash (lnd_invoice_for sha256 amp a (pool_description client ofr) e)
      = sha256 (as_bytes (metadata_json_string ofr))
    \<and> lnd_memo (lnd_invoice_for sha256 amp a (pool_description client ofr) e) = []"
  using pool_get_client_wf [OF assms(1,2)] provider_hash_ok [OF assms(4)]
  by (simp add: assms(3) pool_description_lnd lnd_invoice_for_def hash_ok_def)

theorem lnd_invoice_commits_witness:
  "lnd_description_hash (lnd_invoice_for rev False None (pool_description (Lnd idle_lnd :: (unit, unit) pool_client)
       \<lparr>partition = ''p'', offer_id = 7, max_sendable = 1000, min_sendable = 1, metadata_json_string = ''j'',
        metadata_json_hash = rev (as_bytes ''j''), timestamp = 0, expires = None\<rparr>) None) = rev (as_bytes ''j'')"
  using lnd_invoice_commits [OF sample_pool_simps(2,3) refl sample_provided, where amp = False and a = None and e = None] by simp

end
