(* ===== verification/LnUrlPay.thy ===== *)
theory LnUrlPay
  imports HttpTypes OfferProvider Balancer
begin

text \<open>
  \<open>service/src/lnurl\<close>: the LNURL pay service. Its handlers run on an offer provider and a
  balancer, both acting on a state \<open>'w\<close>; a balancer call may never return, and so may the
  invoice handler: its result is an \<open>option\<close>. The clock is read where the code reads it. URL
  parsing, bech32, the QR code and the PNG encoder are arguments.
\<close>

section \<open>Errors (pay/error.rs)\<close>

record pay_error =
  pe_status :: nat
  pe_message :: string

definition pay_not_found :: "string \<Rightarrow> pay_error" where
  "pay_not_found msg = \<lparr>pe_status = 404, pe_message = msg\<rparr>"

definition pay_bad_request :: "string \<Rightarrow> pay_error" where
  "pay_bad_request msg = \<lparr>pe_status = 400, pe_message = msg\<rparr>"

definition pay_internal_error :: "string \<Rightarrow> pay_error" where
  "pay_internal_error msg = \<lparr>pe_status = 500, pe_message = msg\<rparr>"

definition pay_from_service_error :: "('e \<Rightarrow> service_error_source) \<Rightarrow> ('e \<Rightarrow> string) \<Rightarrow> 'e \<Rightarrow> pay_error" where
  "pay_from_service_error esource show_error e =
     \<lparr>pe_status = to_http_status (esource e), pe_message = show_error e\<rparr>"

definition pay_from_invalid_header :: "unit \<Rightarrow> pay_error" where
  "pay_from_invalid_header _ = \<lparr>pe_status = 500, pe_message = ''failed to parse header value''\<rparr>"

text \<open>The bodies of the service; an error answers \<open>{"status": "ERROR", "reason": ..}\<close>.\<close>

record lnurl_offer =
  lo_callback :: string
  lo_max_sendable :: u64
  lo_min_sendable :: u64
  lo_metadata :: string
  lo_comment_allowed :: "u32 option"

datatype pay_body =
    OfferBody lnurl_offer
  | InvoiceBody string "string list"
  | TextBody string
  | PngBody "u8 list"
  | ErrorBody string
  | EmptyArray

definition pay_error_response :: "pay_error \<Rightarrow> pay_body http_response" where
  "pay_error_response e =
     (let reason = (if is_server_error (pe_status e) then ''internal server error'' else pe_message e)
      in \<lparr>rs_status = pe_status e, rs_headers = [], rs_body = Some (ErrorBody reason)\<rparr>)"

definition pay_ok :: "pay_body \<Rightarrow> header_map \<Rightarrow> pay_body http_response" where
  "pay_ok body hs = \<lparr>rs_status = 200, rs_headers = hs, rs_body = Some body\<rparr>"

section \<open>State (pay/state.rs) and what the handlers call\<close>

record ('e, 'f, 'q, 'w) pay_state =
  ps_partitions :: "string set"
  ps_scheme :: string
  ps_offer :: "string \<Rightarrow> string \<Rightarrow> uuid \<Rightarrow> 'w \<Rightarrow> 'e + offer option"
  ps_get_invoice :: "offer \<Rightarrow> u64 \<Rightarrow> u64 \<Rightarrow> u8 list \<Rightarrow> 'w \<Rightarrow> (('f + string) \<times> 'w) option"
  ps_health :: "'w \<Rightarrow> ('f + unit) \<times> 'w"
  ps_invoice_expiry :: u64
  ps_allowed_hosts :: "string set"
  ps_comment_allowed :: "u32 option"
  ps_qr_scale :: usize
  ps_qr_light :: u8
  ps_qr_dark :: u8
  ps_offer_esource :: "'e \<Rightarrow> service_error_source"
  ps_offer_show :: "'e \<Rightarrow> string"
  ps_balancer_esource :: "'f \<Rightarrow> service_error_source"
  ps_balancer_show :: "'f \<Rightarrow> string"
  ps_show_uuid :: "uuid \<Rightarrow> string"
  ps_url_parse :: "string \<Rightarrow> string + string"
  ps_bech32_upper :: "string \<Rightarrow> u8 list \<Rightarrow> string + string"
  ps_qr_new :: "u8 list \<Rightarrow> string + 'q"
  ps_qr_png :: "'q \<Rightarrow> u8 \<Rightarrow> u8 \<Rightarrow> u32 \<Rightarrow> string + u8 list"
  ps_http_date :: "datetime \<Rightarrow> string"

section \<open>Handlers (pay/handler.rs)\<close>

definition pay_offer_not_found :: "('e, 'f, 'q, 'w) pay_state \<Rightarrow> uuid \<Rightarrow> pay_error" where
  "pay_offer_not_found P i = pay_not_found (''offer not found: '' @ ps_show_uuid P i)"

definition pay_get_offer ::
  "('e, 'f, 'q, 'w) pay_state \<Rightarrow> datetime \<Rightarrow> string \<Rightarrow> string \<Rightarrow> uuid \<Rightarrow> 'w \<Rightarrow> pay_error + offer" where
  "pay_get_offer P now hostname p i w =
     and_then (map_err (pay_from_service_error (ps_offer_esource P) (ps_offer_show P)) (ps_offer P hostname p i w))
       (\<lambda>ro. and_then (ok_or (pay_offer_not_found P i) ro)
          (\<lambda>ofr. if is_expired now ofr then Inl (pay_offer_not_found P i) else Inr ofr))"

definition expires_headers ::
  "(datetime \<Rightarrow> string) \<Rightarrow> datetime \<Rightarrow> datetime option \<Rightarrow> pay_error + header_map" where
  "expires_headers http_date now expiry =
     (case expiry of
        None \<Rightarrow> Inr no_cache_headers
      | Some exp_at \<Rightarrow>
          (let expires_in_seconds = nat ((exp_at - now) div 10 ^ 9);
               cache_control_value = ''public, max-age='' @ show_nat expires_in_seconds
           in and_then (map_err pay_from_invalid_header (header_value cache_control_value)) (\<lambda>c.
              map_ok (\<lambda>e. [(''cache-control'', c), (''expires'', e)])
                (map_err pay_from_invalid_header (header_value (http_date exp_at))))))"

definition h_offer ::
  "('e, 'f, 'q, 'w) pay_state \<Rightarrow> datetime \<Rightarrow> datetime \<Rightarrow> string \<Rightarrow> string \<Rightarrow> uuid_param \<Rightarrow> 'w
     \<Rightarrow> pay_error + pay_body http_response" where
  "h_offer P now now' hostname scheme u w =
     and_then (pay_get_offer P now hostname (up_partition u) (up_id u) w) (\<lambda>ofr.
       let callback = scheme @ ''://'' @ hostname @ ''/offers/'' @ up_partition u @ ''/''
             @ ps_show_uuid P (up_id u) @ ''/invoice''
       in and_then (map_err (\<lambda>e. pay_internal_error (e @ '' : when parsing '' @ callback)) (ps_url_parse P callback))
            (\<lambda>url.
              let lnurl_offer =
                    \<lparr>lo_callback = url, lo_max_sendable = max_sendable ofr, lo_min_sendable = min_sendable ofr,
                     lo_metadata = metadata_json_string ofr, lo_comment_allowed = ps_comment_allowed P\<rparr>
              in map_ok (pay_ok (OfferBody lnurl_offer)) (expires_headers (ps_http_date P) now' (expires ofr))))"

record invoice_parameters =
  ip_amount :: u64
  ip_comment :: "string option"

text \<open>The routing key of the request: the bytes of the comment, if it is short enough.\<close>

definition invoice_key :: "u32 option \<Rightarrow> string option \<Rightarrow> pay_error + u8 list" where
  "invoice_key allowed comment =
     (let comment_allowed = unwrap_or 0 allowed
      in case comment of
           None \<Rightarrow> Inr []
         | Some c \<Rightarrow>
             if length c > unat comment_allowed then Inl (pay_bad_request ''invalid comment'') else Inr (as_bytes c))"

definition h_invoice ::
  "('e, 'f, 'q, 'w) pay_state \<Rightarrow> datetime \<Rightarrow> string \<Rightarrow> uuid_param \<Rightarrow> invoice_parameters \<Rightarrow> 'w
     \<Rightarrow> ((pay_error + pay_body http_response) \<times> 'w) option" where
  "h_invoice P now hostname u params w =
     (case invoice_key (ps_comment_allowed P) (ip_comment params) of
        Inl e \<Rightarrow> Some (Inl e, w)
      | Inr key \<Rightarrow>
          (case pay_get_offer P now hostname (up_partition u) (up_id u) w of
             Inl e \<Rightarrow> Some (Inl e, w)
           | Inr ofr \<Rightarrow>
               if ip_amount params < min_sendable ofr \<or> max_sendable ofr < ip_amount params
               then Some (Inl (pay_bad_request
                      (''Amount '' @ show_nat (unat (ip_amount params)) @ '' is outside valid range [''
                         @ show_nat (unat (min_sendable ofr)) @ '', '' @ show_nat (unat (max_sendable ofr)) @ '']'')), w)
               else map_option
                      (\<lambda>(r, w'). (map_ok (\<lambda>pr. pay_ok (InvoiceBody pr []) no_cache_headers)
                         (map_err (pay_from_service_error (ps_balancer_esource P) (ps_balancer_show P)) r), w'))
                      (ps_get_invoice P ofr (ip_amount params) (ps_invoice_expiry P) key w)))"

definition gen_bech32 :: "('e, 'f, 'q, 'w) pay_state \<Rightarrow> string \<Rightarrow> string + string" where
  "gen_bech32 P callback =
     and_then (ps_url_parse P callback) (\<lambda>url. ps_bech32_upper P ''LNURL'' (as_bytes url))"

definition lnurl_of ::
  "('e, 'f, 'q, 'w) pay_state \<Rightarrow> string \<Rightarrow> string \<Rightarrow> uuid_param \<Rightarrow> pay_error + string" where
  "lnurl_of P hostname scheme u =
     (let callback = scheme @ ''://'' @ hostname @ ''/offers/'' @ up_partition u @ ''/'' @ ps_show_uuid P (up_id u)
      in map_err (\<lambda>e. pay_internal_error (e @ '' : when parsing '' @ callback)) (gen_bech32 P callback))"

definition h_bech32 ::
  "('e, 'f, 'q, 'w) pay_state \<Rightarrow> datetime \<Rightarrow> datetime \<Rightarrow> string \<Rightarrow> string \<Rightarrow> uuid_param \<Rightarrow> 'w
     \<Rightarrow> pay_error + pay_body http_response" where
  "h_bech32 P now now' hostname scheme u w =
     and_then (pay_get_offer P now hostname (up_partition u) (up_id u) w) (\<lambda>ofr.
     and_then (lnurl_of P hostname scheme u) (\<lambda>lnurl.
     map_ok (\<lambda>hs. pay_ok (TextBody lnurl) (header_insert ''content-type'' ''text/plain; charset=utf-8'' hs))
       (expires_headers (ps_http_date P) now' (expires ofr))))"

definition h_bech32_qr ::
  "('e, 'f, 'q, 'w) pay_state \<Rightarrow> datetime \<Rightarrow> datetime \<Rightarrow> string \<Rightarrow> string \<Rightarrow> uuid_param \<Rightarrow> 'w
     \<Rightarrow> pay_error + pay_body http_response" where
  "h_bech32_qr P now now' hostname scheme u w =
     and_then (pay_get_offer P now hostname (up_partition u) (up_id u) w) (\<lambda>ofr.
     and_then (lnurl_of P hostname scheme u) (\<lambda>lnurl.
     and_then (map_err (\<lambda>e. pay_internal_error (e @ '' : while generating qr code for '' @ lnurl))
                 (ps_qr_new P (as_bytes lnurl))) (\<lambda>qr.
     and_then (map_err (\<lambda>e. pay_internal_error (e @ '' : while encoding QR code to PNG''))
                 (ps_qr_png P qr (ps_qr_dark P) (ps_qr_light P) (ucast (ps_qr_scale P)))) (\<lambda>png.
     map_ok (\<lambda>hs. pay_ok (PngBody png) (header_insert ''content-type'' ''image/png'' hs))
       (expires_headers (ps_http_date P) now' (expires ofr))))))"

definition h_health_full ::
  "('e, 'f, 'q, 'w) pay_state \<Rightarrow> 'w \<Rightarrow> (pay_error + pay_body http_response) \<times> 'w" where
  "h_health_full P w =
     (case ps_health P w of
        (r, w') \<Rightarrow>
          (map_ok (\<lambda>_. pay_ok EmptyArray [])
             (map_err (pay_from_service_error (ps_balancer_esource P) (ps_balancer_show P)) r), w'))"

definition pay_answer :: "pay_error + pay_body http_response \<Rightarrow> pay_body http_response" where
  "pay_answer r = (case r of Inl e \<Rightarrow> pay_error_response e | Inr ok \<Rightarrow> ok)"

lemmas pay_handler_defs [handler_defs] =
  h_offer_def h_invoice_def h_bech32_def h_bech32_qr_def h_health_full_def

section \<open>Routes (lnurl/service.rs) behind the partition check (axum/partitions.rs)\<close>

text \<open>
  The requests of the service: the host that axum extracts, the four routes under an offer and
  the two health routes. \<open>Query\<close> rejects bad invoice parameters with 400 (\<open>None\<close> here).
\<close>

datatype pay_route =
    BechQr | Bech | Invoice "invoice_parameters option" | OfferRoute | HealthFull | Health

record pay_request =
  pr_route :: pay_route
  pr_params :: "string list"  \<comment> \<open>the path parameters of the route\<close>
  pr_host :: "string option"
  pr_headers :: header_map

definition partitions_call ::
  "string set \<Rightarrow> (string \<Rightarrow> uuid option) \<Rightarrow> (uuid \<Rightarrow> string) \<Rightarrow> string list \<Rightarrow> pay_body http_response option" where
  "partitions_call served parse_uuid show_uuid params =
     (case extract_uuid_param parse_uuid params of
        Inl st \<Rightarrow> Some (status_response st)
      | Inr u \<Rightarrow>
          if up_partition u \<in> served then None
          else Some (pay_error_response (pay_not_found (''offer not found: '' @ show_uuid (up_id u)))))"

definition pay_handler ::
  "('e, 'f, 'q, 'w) pay_state \<Rightarrow> (string \<Rightarrow> uuid option) \<Rightarrow> datetime \<Rightarrow> datetime \<Rightarrow> pay_request \<Rightarrow> 'w
     \<Rightarrow> (pay_body http_response \<times> 'w) option" where
  "pay_handler P parse_uuid now now' req w =
     (case validated_host (ps_allowed_hosts P) (pr_host req) of
        Inl st \<Rightarrow> Some (status_response st, w)
      | Inr hostname \<Rightarrow>
          (let scheme = extract_scheme (pr_headers req) (ps_scheme P)
           in case extract_uuid_param parse_uuid (pr_params req) of
                Inl st \<Rightarrow> Some (status_response st, w)
              | Inr u \<Rightarrow>
                  (case pr_route req of
                     BechQr \<Rightarrow> Some (pay_answer (h_bech32_qr P now now' hostname scheme u w), w)
                   | Bech \<Rightarrow> Some (pay_answer (h_bech32 P now now' hostname scheme u w), w)
                   | Invoice None \<Rightarrow> Some (status_response 400, w)
                   | Invoice (Some params) \<Rightarrow> map_option (apfst pay_answer) (h_invoice P now hostname u params w)
                   | _ \<Rightarrow> Some (pay_answer (h_offer P now now' hostname scheme u w), w))))"

definition pay_router ::
  "('e, 'f, 'q, 'w) pay_state \<Rightarrow> (string \<Rightarrow> uuid option) \<Rightarrow> datetime \<Rightarrow> datetime \<Rightarrow> pay_request \<Rightarrow> 'w
     \<Rightarrow> (pay_body http_response \<times> 'w) option" where
  "pay_router P parse_uuid now now' req w =
     (case pr_route req of
        HealthFull \<Rightarrow> Some (apfst pay_answer (h_health_full P w))
      | Health \<Rightarrow> Some (status_response 200, w)
      | _ \<Rightarrow>
          (case partitions_call (ps_partitions P) parse_uuid (ps_show_uuid P) (pr_params req) of
             Some r \<Rightarrow> Some (r, w)
           | None \<Rightarrow> pay_handler P parse_uuid now now' req w))"

section \<open>What an answer says of the request\<close>

lemma pay_get_offer_Inr_iff:
  "pay_get_offer P now h p i w = Inr ofr \<longleftrightarrow> ps_offer P h p i w = Inr (Some ofr) \<and> \<not> is_expired now ofr"
  by (auto simp: pay_get_offer_def result_simps split: if_splits)

lemma h_invoice_Inr:
  assumes "h_invoice P now h u params w = Some (Inr resp, w')"
  shows "\<exists>ofr key pr. invoice_key (ps_comment_allowed P) (ip_comment params) = Inr key
    \<and> pay_get_offer P now h (up_partition u) (up_id u) w = Inr ofr
    \<and> min_sendable ofr \<le> ip_amount params \<and> ip_amount params \<le> max_sendable ofr
    \<and> ps_get_invoice P ofr (ip_amount params) (ps_invoice_expiry P) key w = Some (Inr pr, w')
    \<and> resp = pay_ok (InvoiceBody pr []) no_cache_headers"
  using assms
  by (auto simp: h_invoice_def result_simps not_less split: sum.splits if_splits)

text \<open>The invoice bodies of the router come from the invoice handler.\<close>

lemma pay_error_not_invoice: "rs_body (pay_error_response e) \<noteq> Some (InvoiceBody pr rs)"
  by (simp add: pay_error_response_def Let_def)

lemma pay_answer_invoice: "rs_body (pay_answer r) = Some (InvoiceBody pr rs) \<Longrightarrow> \<exists>resp. r = Inr resp \<and> rs_body resp = Some (InvoiceBody pr rs)"
  by (cases r) (auto simp: pay_answer_def pay_error_not_invoice)

lemma partitions_call_not_invoice:
  "partitions_call served pu su ps = Some r \<Longrightarrow> rs_body r \<noteq> Some (InvoiceBody pr rs)"
  by (auto simp: partitions_call_def status_response_def pay_error_not_invoice split: sum.splits if_splits)

lemma pay_router_invoice:
  assumes "pay_router P pu now now' req w = Some (resp, w')" and "pr_route req = Invoice q"
    and "rs_body resp = Some (InvoiceBody pr rs)"
  shows "\<exists>params u h ok. q = Some params \<and> extract_uuid_param pu (pr_params req) = Inr u
    \<and> up_partition u \<in> ps_partitions P \<and> validated_host (ps_allowed_hosts P) (pr_host req) = Inr h
    \<and> h_invoice P now h u params w = Some (Inr ok, w') \<and> resp = ok"
proof -
  have none: "partitions_call (ps_partitions P) pu (ps_show_uuid P) (pr_params req) = None"
    using assms partitions_call_not_invoice by (fastforce simp: pay_router_def split: option.splits)
  then obtain u where u: "extract_uuid_param pu (pr_params req) = Inr u" "up_partition u \<in> ps_partitions P"
    by (auto simp: partitions_call_def split: sum.splits if_splits)
  have handler: "pay_handler P pu now now' req w = Some (resp, w')"
    using assms(1,2) none by (simp add: pay_router_def)
  with assms(3) obtain h where h: "validated_host (ps_allowed_hosts P) (pr_host req) = Inr h"
    by (auto simp: pay_handler_def status_response_def split: sum.splits)
  with handler u(1) assms(2,3) obtain params where q: "q = Some params"
    by (cases q) (auto simp: pay_handler_def status_response_def)
  with handler h u(1) assms(2) obtain r where r: "h_invoice P now h u params w = Some (r, w')" "resp = pay_answer r"
    by (auto simp: pay_handler_def apfst_def map_prod_def)
  with assms(3) pay_answer_invoice [of r pr rs] obtain ok where "r = Inr ok" by auto
  with r q u h show ?thesis by (auto simp: pay_answer_def)
qed

text \<open>Answers whose error bodies, if they are server errors, are opaque.\<close>

definition opaque :: "pay_body http_response \<Rightarrow> bool" where
  "opaque r \<longleftrightarrow>
     (\<forall>m. rs_body r = Some (ErrorBody m) \<and> is_server_error (rs_status r) \<longrightarrow> m = ''internal server error'')"

lemma opaque_simps [simp]:
  "opaque (pay_error_response e)" "opaque (status_response st)" "opaque (pay_ok (OfferBody lo) hs)"
  "opaque (pay_ok (InvoiceBody x y) hs)" "opaque (pay_ok (TextBody t) hs)" "opaque (pay_ok (PngBody p) hs)"
  "opaque (pay_ok EmptyArray hs)"
  by (auto simp: opaque_def pay_error_response_def status_response_def pay_ok_def Let_def)

lemma opaque_answer: "(\<And>ok. r = Inr ok \<Longrightarrow> opaque ok) \<Longrightarrow> opaque (pay_answer r)"
  by (cases r) (simp_all add: pay_answer_def)

lemma opaque_handlers:
  "h_offer P now now' h sc u w = Inr ok \<Longrightarrow> opaque ok"
  "h_bech32 P now now' h sc u w = Inr ok \<Longrightarrow> opaque ok"
  "h_bech32_qr P now now' h sc u w = Inr ok \<Longrightarrow> opaque ok"
  "h_health_full P w = (Inr ok, w') \<Longrightarrow> opaque ok"
  "h_invoice P now h u params w = Some (Inr ok, w') \<Longrightarrow> opaque ok"
  by (auto simp: h_offer_def h_bech32_def h_bech32_qr_def h_health_full_def Let_def result_simps
      split: prod.splits dest!: h_invoice_Inr)

lemma opaque_handler:
  assumes "pay_handler P pu now now' req w = Some (resp, w')"
  shows "opaque resp"
proof (cases "validated_host (ps_allowed_hosts P) (pr_host req)")
  case (Inl st)
  with assms show ?thesis by (auto simp: pay_handler_def)
next
  case host: (Inr h)
  show ?thesis
  proof (cases "extract_uuid_param pu (pr_params req)")
    case (Inl st)
    with assms host show ?thesis by (auto simp: pay_handler_def Let_def)
  next
    case (Inr u)
    with assms host show ?thesis
      by (auto simp: pay_handler_def Let_def apfst_def map_prod_def intro!: opaque_answer
          intro: opaque_handlers split: pay_route.splits option.splits)
  qed
qed

lemma opaque_router:
  assumes "pay_router P pu now now' req w = Some (resp, w')"
  shows "opaque resp"
proof -
  have part: "partitions_call served pu su ps = Some r \<Longrightarrow> opaque r" for served su ps r
    by (auto simp: partitions_call_def split: sum.splits if_splits)
  have health: "opaque (pay_answer (fst (h_health_full P w)))"
    by (rule opaque_answer) (metis opaque_handlers(4) prod.collapse)
  show ?thesis
    using assms part opaque_handler health
    by (cases "pr_route req") (auto simp: pay_router_def apfst_def map_prod_def split: option.splits prod.splits)
qed

lemma expires_headers_max_age:
  assumes "expires_headers http_date now (Some expiry) = Inr hs"
  shows "\<exists>n. header_get ''cache-control'' hs = Some (''public, max-age='' @ show_nat n)
    \<and> int n * 10 ^ 9 \<le> max 0 (expiry - now)"
proof -
  let ?n = "nat ((expiry - now) div 10 ^ 9)"
  have "header_get ''cache-control'' hs = Some (''public, max-age='' @ show_nat ?n)"
    using assms
    by (auto simp: expires_headers_def Let_def result_simps header_value_def header_get_def split: if_splits)
  moreover have "int ?n * 10 ^ 9 \<le> max 0 (expiry - now)"
  proof (cases "0 \<le> (expiry - now) div 10 ^ 9")
    case True
    have "(expiry - now) div 10 ^ 9 * 10 ^ 9 \<le> expiry - now"
      by (simp add: minus_mod_eq_div_mult [symmetric])
    with True show ?thesis by simp
  qed simp
  ultimately show ?thesis by blast
qed

lemma show_nat_header: "list_all header_char (show_nat n)"
proof (induction n rule: show_nat.induct)
  case (1 n)
  have "header_char (char_of (48 + k))" if "k < 10" for k :: nat
    using that by (simp add: header_char_def Let_def)
  with 1 show ?case by (subst show_nat.simps) auto
qed

section \<open>A service for the witnesses\<close>

definition sample_pay :: "f64 option \<Rightarrow> (offer_store_error, service_error_source ln_error, unit, nat) pay_state" where
  "sample_pay bias =
     \<lparr>ps_partitions = {''p''}, ps_scheme = ''https'',
      ps_offer = (\<lambda>_ p i _. Inr (if p = ''p'' \<and> i = 7 then Some sample_offer else None)),
      ps_get_invoice = get_invoice (two_node_balancer (\<lambda>b. Inr ''lnbc1'') StopBackoff bias) (\<lambda>_. ''id''),
      ps_health = balancer_health (two_node_balancer (\<lambda>b. Inr ''lnbc1'') StopBackoff bias),
      ps_invoice_expiry = 60, ps_allowed_hosts = {''h''}, ps_comment_allowed = Some 3,
      ps_qr_scale = 8, ps_qr_light = 255, ps_qr_dark = 0,
      ps_offer_esource = ose_esource, ps_offer_show = ose_context,
      ps_balancer_esource = lne_esource, ps_balancer_show = lne_context,
      ps_show_uuid = (\<lambda>_. ''id''), ps_url_parse = Inr, ps_bech32_upper = (\<lambda>_ _. Inr ''LNURL1''),
      ps_qr_new = (\<lambda>_. Inr ()), ps_qr_png = (\<lambda>_ _ _ _. Inr []), ps_http_date = (\<lambda>_. ''Thu'')\<rparr>"

definition sample_pay_request :: pay_request where
  "sample_pay_request =
     \<lparr>pr_route = Invoice (Some \<lparr>ip_amount = 5, ip_comment = None\<rparr>), pr_params = [''p'', ''id''],
      pr_host = Some ''h:80'', pr_headers = []\<rparr>"

lemma sample_offer_current: "\<not> is_expired 0 sample_offer"
  by (simp add: not_is_expired_iff sample_offer_def)

lemma sample_pay_answer:
  "pay_router (sample_pay None) (\<lambda>_. Some 7) 0 0 sample_pay_request 0
     = Some (pay_ok (InvoiceBody ''lnbc1'' []) no_cache_headers, 1)"
proof -
  have "get_invoice (two_node_balancer (\<lambda>b. Inr ''lnbc1'') StopBackoff None) (\<lambda>_. ''id'') sample_offer 5 60 [] 0
     = Some (Inr ''lnbc1'', 1)"
    by (rule two_node_get_invoice)
  moreover have "min_sendable sample_offer = 1" "max_sendable sample_offer = 1000"
    by (simp_all add: sample_offer_def)
  ultimately show ?thesis
    using sample_offer_current
    by (simp add: pay_router_def sample_pay_request_def partitions_call_def extract_uuid_param_def
        parse_uuid_status_def sample_pay_def pay_handler_def validated_host_def host_domain_def h_invoice_def
        invoice_key_def pay_get_offer_def pay_answer_def)
qed

section \<open>Properties\<close>





text \<open>
  Property C26. The service does not tell its clients why it failed: whatever the request, an error
  body of a server error says "internal server error" and nothing else.
\<close>

theorem pay_server_error_opaque:
  assumes "pay_router P parse_uuid now now' req w = Some (resp, w')"
    and "rs_body resp = Some (ErrorBody m)" and "is_server_error (rs_status resp)"
  shows "m = ''internal server error''"
  using opaque_router [OF assms(1)] assms(2,3) by (simp add: opaque_def)

definition failing_pay :: "(offer_store_error, service_error_source ln_error, unit, nat) pay_state" where
  "failing_pay = (sample_pay None)\<lparr>ps_offer := (\<lambda>_ _ _ _. Inl (offer_internal_error Internal ''secret'' []))\<rparr>"

lemma failing_pay_answer:
  "pay_router failing_pay (\<lambda>_. Some 7) 0 0 sample_pay_request 0
      = Some (pay_error_response \<lparr>pe_status = 500, pe_message = ''secret''\<rparr>, 0)"
  by (simp add: failing_pay_def pay_router_def sample_pay_request_def partitions_call_def extract_uuid_param_def
      parse_uuid_status_def sample_pay_def pay_handler_def validated_host_def host_domain_def h_invoice_def
      invoice_key_def pay_get_offer_def pay_answer_def pay_from_service_error_def offer_error_defs)

theorem pay_server_error_opaque_witness:
  "\<exists>m. rs_body (pay_error_response \<lparr>pe_status = 500, pe_message = ''secret''\<rparr>) = Some (ErrorBody m)
     \<and> m = ''internal server error''"
proof -
  obtain m where m: "rs_body (pay_error_response \<lparr>pe_status = 500, pe_message = ''secret''\<rparr>) = Some (ErrorBody m)"
    by (simp add: pay_error_response_def)
  from pay_server_error_opaque [OF failing_pay_answer this] m show ?thesis
    by (simp add: pay_error_response_def is_server_error_def)
qed

text \<open>
  A partition that the service does not serve is answered with 404, whatever the
  route under it, and neither the provider nor the balancer is asked: the state stays as it is.
\<close>

theorem pay_unserved_partition:
  assumes "extract_uuid_param parse_uuid (pr_params req) = Inr u" and "up_partition u \<notin> ps_partitions P"
    and "pr_route req \<notin> {HealthFull, Health}"
  shows "\<exists>resp. pay_router P parse_uuid now now' req w = Some (resp, w) \<and> rs_status resp = 404"
  using assms
  by (cases "pr_route req")
    (auto simp: pay_router_def partitions_call_def pay_error_response_def pay_not_found_def Let_def)

theorem pay_unserved_partition_witness:
  "\<exists>resp. pay_router (sample_pay None) (\<lambda>_. Some 7) 0 0 (sample_pay_request\<lparr>pr_params := [''q'', ''id'']\<rparr>) 0 = Some (resp, 0)
     \<and> rs_status resp = 404"
  by (rule pay_unserved_partition [where u = "\<lparr>up_partition = ''q'', up_id = 7\<rparr>"])
    (simp_all add: extract_uuid_param_def parse_uuid_status_def sample_pay_def sample_pay_request_def)

text \<open>
  The cache lifetime announced with an offer never exceeds the time the offer has
  left, and is zero once it has expired.
\<close>

theorem expires_headers_bounded:
  assumes "expires_headers http_date now (Some expiry) = Inr hs"
  shows "\<exists>n. header_get ''cache-control'' hs = Some (''public, max-age='' @ show_nat n)
    \<and> int n * 10 ^ 9 \<le> max 0 (expiry - now)"
  by (rule expires_headers_max_age [OF assms])

theorem expires_headers_bounded_witness:
  "\<exists>n. header_get ''cache-control'' [(''cache-control'', ''public, max-age='' @ show_nat 2), (''expires'', ''x'')]
      = Some (''public, max-age='' @ show_nat n) \<and> int n * 10 ^ 9 \<le> max 0 (2500000000 - 0)"
proof (rule expires_headers_bounded [of "\<lambda>_. ''x''"])
  show "expires_headers (\<lambda>_. ''x'') 0 (Some 2500000000)
      = Inr [(''cache-control'', ''public, max-age='' @ show_nat 2), (''expires'', ''x'')]"
    using show_nat_header [of 2] by (simp add: expires_headers_def header_value_def header_char_def)
qed

end
