(* ===== verification/ServedPay.thy ===== *)
theory ServedPay
  imports Services LnUrlPay
begin

text \<open>
  The pay service of a started server: the state that \<open>BalancerServiceInjector::connect\<close> hands to the
  routes, put together from the delegates of the server, and what a wallet gets from it.
\<close>

section \<open>The state of the pay service\<close>

text \<open>The parts of other crates that the provider and the handlers call.\<close>

record 'q pay_lib =
  pl_b64_encode :: "u8 list \<Rightarrow> string"
  pl_to_json :: "string list list \<Rightarrow> string + string"
  pl_sha256 :: "u8 list \<Rightarrow> u8 list"
  pl_show_uuid :: "uuid \<Rightarrow> string"
  pl_url_parse :: "string \<Rightarrow> string + string"
  pl_bech32_upper :: "string \<Rightarrow> u8 list \<Rightarrow> string + string"
  pl_qr_new :: "u8 list \<Rightarrow> string + 'q"
  pl_qr_png :: "'q \<Rightarrow> u8 \<Rightarrow> u8 \<Rightarrow> u32 \<Rightarrow> string + u8 list"
  pl_http_date :: "datetime \<Rightarrow> string"

text \<open>\<open>StoreOfferProvider\<close> over the delegate, in a state of the server.\<close>

definition delegate_offer ::
  "'q pay_lib \<Rightarrow> 'x offer_delegate \<Rightarrow> string \<Rightarrow> string \<Rightarrow> uuid \<Rightarrow> 'x server_state \<Rightarrow> offer_store_error + offer option" where
  "delegate_offer L d hostname p i st =
     provider_offer (\<lambda>st p i sparse. fst (delegate_get_offer d p i sparse st)) id (pl_b64_encode L) (pl_to_json L) (pl_sha256 L)
       (pl_show_uuid L) st hostname p i"

text \<open>The stores of the server are the first part of the world, the nodes behind the balancer the second.\<close>

definition served_pay ::
  "'q pay_lib \<Rightarrow> ('x balancer_delegate \<Rightarrow> ('e, 'p, 'w) ln_balancer) \<Rightarrow> (exponential_builder \<Rightarrow> 'p) \<Rightarrow> 'x lnurl_pay_state
     \<Rightarrow> (offer_store_error, 'e ln_error, 'q, 'x server_state \<times> 'w) pay_state" where
  "served_pay L base build s =
     \<lparr>ps_partitions = pst_partitions s, ps_scheme = pst_scheme s,
      ps_offer = (\<lambda>hostname p i w. delegate_offer L (pst_offer_provider s) hostname p i (fst w)),
      ps_get_invoice = (\<lambda>ofr amount_msat expiry_secs key w.
        map_option (\<lambda>(r, nodes). (r, fst w, nodes))
          (delegate_get_invoice base build (pst_balancer s) (pl_show_uuid L) ofr amount_msat expiry_secs key (snd w))),
      ps_health = (\<lambda>w. case delegate_health base build (pst_balancer s) (snd w) of (r, nodes) \<Rightarrow> (r, fst w, nodes)),
      ps_invoice_expiry = pst_invoice_expiry s, ps_allowed_hosts = pst_allowed_hosts s,
      ps_comment_allowed = pst_comment_allowed s, ps_qr_scale = pst_qr_scale s, ps_qr_light = pst_qr_light s,
      ps_qr_dark = pst_qr_dark s, ps_offer_esource = ose_esource, ps_offer_show = ose_context,
      ps_balancer_esource = lne_esource, ps_balancer_show = lne_context, ps_show_uuid = pl_show_uuid L,
      ps_url_parse = pl_url_parse L, ps_bech32_upper = pl_bech32_upper L, ps_qr_new = pl_qr_new L,
      ps_qr_png = pl_qr_png L, ps_http_date = pl_http_date L\<rparr>"

section \<open>What the provider makes of a record\<close>

lemma delegate_offer_found:
  assumes "delegate_offer L d h p i st = Inr (Some ofr)"
  shows "\<exists>r. fst (delegate_get_offer d p i (Some False) st) = Inr (Some r)
    \<and> partition ofr = rec_partition r \<and> offer_id ofr = rec_id r
    \<and> min_sendable ofr = rec_min_sendable (rec_offer r) \<and> max_sendable ofr = rec_max_sendable (rec_offer r)
    \<and> expires ofr = rec_expires (rec_offer r) \<and> hash_ok (pl_sha256 L) ofr"
proof -
  obtain ro where ro: "fst (delegate_get_offer d p i (Some False) st) = Inr ro"
    and found: "(case ro of None \<Rightarrow> Inr None | Some r \<Rightarrow>
        (case rec_metadata (rec_offer r) of None \<Rightarrow> Inr None | Some md \<Rightarrow>
          and_then (map_err (\<lambda>e. offer_serialization_error Internal
              (''building LNURL offer response for offer '' @ pl_show_uuid L (rec_id r)) e)
              (pl_to_json L (metadata_serialize (pl_b64_encode L) md)))
            (\<lambda>json. Inr (Some
               \<lparr>partition = rec_partition r, offer_id = rec_id r, max_sendable = rec_max_sendable (rec_offer r),
                min_sendable = rec_min_sendable (rec_offer r), metadata_json_string = json,
                metadata_json_hash = pl_sha256 L (as_bytes json), timestamp = rec_timestamp (rec_offer r),
                expires = rec_expires (rec_offer r)\<rparr>)))) = Inr (Some ofr)"
    using assms unfolding delegate_offer_def provider_offer_def and_then_Inr_iff id_apply by blast
  then obtain r md where "ro = Some r" "rec_metadata (rec_offer r) = Some md"
    by (auto split: option.splits)
  with found ro show ?thesis
    by (auto simp: result_simps hash_ok_def)
qed

lemma running_nodes [simp]:
  "lb_select_with (running_balancer base build d) = lb_select_with (base d)"
  "bal_get_invoice (running_balancer base build d) = bal_get_invoice (base d)"
  by (simp_all add: running_balancer_def Let_def)

section \<open>A sale\<close>

definition sample_pay_lib :: "unit pay_lib" where
  "sample_pay_lib =
     \<lparr>pl_b64_encode = (\<lambda>_. []), pl_to_json = (\<lambda>x. Inr (concat (concat x))), pl_sha256 = rev, pl_show_uuid = (\<lambda>_. []),
      pl_url_parse = Inr, pl_bech32_upper = (\<lambda>_ _. Inr ''LNURL1''), pl_qr_new = (\<lambda>_. Inr ()),
      pl_qr_png = (\<lambda>_ _ _ _. Inr []), pl_http_date = (\<lambda>_. ''Thu'')\<rparr>"

definition sample_nodes :: "unit balancer_delegate \<Rightarrow> (service_error_source, unit, nat) ln_balancer" where
  "sample_nodes d = two_node_balancer (\<lambda>b. Inr ''lnbc1'') StopBackoff None"

lemma sample_invoice:
  assumes "partition ofr = ''p''" and "ib_selection_capacity_bias (delegate_balancer d) = None"
  shows "delegate_get_invoice sample_nodes build d su ofr a e key 0 = Some (Inr ''lnbc1'', 1)"
proof -
  have sel: "select_backend (running_balancer sample_nodes build d) ofr a key None 0 = (Some (two_nodes ! 1), 0)"
    using assms(1) by (simp add: select_backend_def running_balancer_def sample_nodes_def two_node_balancer_def
        first_accepted_def two_nodes_def select_accept_def Let_def)
  show ?thesis
    unfolding delegate_get_invoice_def get_invoice_def running_simps assms(2)
    by (subst get_invoice_loop_turn [OF sel _ surjective_pairing])
      (simp_all add: request_selected_def get_invoice_from_backend_def sample_nodes_def two_node_balancer_def)
qed

lemma sample_provided_offer:
  assumes "sv_offer_stores st ! 0 = sample_store"
  shows "\<exists>ofr. delegate_offer sample_pay_lib (MemoryOffer 0) h ''p'' 7 st = Inr (Some ofr) \<and> partition ofr = ''p''
    \<and> min_sendable ofr = 1 \<and> max_sendable ofr = 1000 \<and> expires ofr = None \<and> timestamp ofr = 0"
proof -
  have "fst (delegate_get_offer (MemoryOffer 0) p i sparse st) = mo_get_offer sample_store p i sparse" for p i sparse
    by (simp add: delegate_get_offer_def at_offers_def reading_def assms)
  then have "delegate_offer sample_pay_lib (MemoryOffer 0) h ''p'' 7 st
      = provider_offer mo_get_offer id (\<lambda>_. []) (\<lambda>x. Inr (concat (concat x))) rev (\<lambda>_. []) sample_store ''h'' ''p'' 7"
    by (simp add: delegate_offer_def provider_offer_def sample_pay_lib_def)
  with provider_over_memory_witness show ?thesis by (simp add: sample_record_def)
qed

section \<open>Properties\<close>

text \<open>
  Property C3. What a wallet is sold is what is managed: whatever the stores of a started server hold, an
  invoice of its pay service is for an offer that the offer service itself answers with, in a partition that
  the balancer serves, for an amount within the limits of that record while it is not expired; it commits to
  its metadata and comes from a node that serves its partition, and the request changes no store.
\<close>

theorem served_invoice:
  assumes "start_services C E signals path es w = (Inr R, w1)" and "fresh_server (cw_remote w)"
    and "run_offer R = Some f" and "run_lnurl R = Some l"
    and "select_lawful (lb_select_with (base (pst_balancer (bs_state l))))"
    and "pay_router (served_pay L base build (bs_state l)) parse_uuid now now' req (st, nodes) = Some (resp, st', nodes')"
    and "pr_route req = Invoice q" and "rs_body resp = Some (InvoiceBody pr routes)"
  shows "st' = st \<and> (\<exists>params u r ofr b nodes1. q = Some params \<and> extract_uuid_param parse_uuid (pr_params req) = Inr u
    \<and> up_partition u \<in> ib_partitions (delegate_balancer (pst_balancer (bs_state l)))
    \<and> fst (delegate_get_offer (ost_offer_store (bs_state f)) (up_partition u) (up_id u) (Some False) st) = Inr (Some r)
    \<and> rec_min_sendable (rec_offer r) \<le> ip_amount params \<and> ip_amount params \<le> rec_max_sendable (rec_offer r)
    \<and> \<not> is_expired now ofr \<and> expires ofr = rec_expires (rec_offer r)
    \<and> offer_id ofr = rec_id r \<and> partition ofr = rec_partition r \<and> hash_ok (pl_sha256 L) ofr
    \<and> rec_partition r \<in> lb_partitions b
    \<and> bal_get_invoice (base (pst_balancer (bs_state l))) ofr b (Some (ip_amount params))
        (Some (pst_invoice_expiry (bs_state l))) nodes1 = (Inr pr, nodes'))"
proof -
  let ?s = "bs_state l"
  have stores: "pst_offer_provider ?s = ost_offer_store (bs_state f)"
    and served: "ib_partitions (delegate_balancer (pst_balancer ?s)) = pst_partitions ?s"
    using services_started [OF assms(1,2)] assms(3,4) by (auto simp: started_def pay_state_wired_def)
  obtain params u h where req: "q = Some params" "extract_uuid_param parse_uuid (pr_params req) = Inr u"
      "up_partition u \<in> pst_partitions ?s" "h_invoice (served_pay L base build ?s) now h u params (st, nodes) = Some (Inr resp, st', nodes')"
    using pay_router_invoice [OF assms(6-8)] by (auto simp: served_pay_def)
  from h_invoice_Inr [OF req(4)] assms(8) obtain ofr key where
    ofr: "delegate_offer L (pst_offer_provider ?s) h (up_partition u) (up_id u) st = Inr (Some ofr)" "\<not> is_expired now ofr"
      "min_sendable ofr \<le> ip_amount params" "ip_amount params \<le> max_sendable ofr"
    and invoice: "st' = st" "get_invoice (running_balancer base build (pst_balancer ?s)) (pl_show_uuid L) ofr (ip_amount params)
      (pst_invoice_expiry ?s) key nodes = Some (Inr pr, nodes')"
    by (auto simp: served_pay_def pay_get_offer_Inr_iff pay_ok_def delegate_get_invoice_def)
  from delegate_offer_found [OF ofr(1)] obtain r where
    r: "fst (delegate_get_offer (ost_offer_store (bs_state f)) (up_partition u) (up_id u) (Some False) st) = Inr (Some r)"
      "partition ofr = rec_partition r" "offer_id ofr = rec_id r" "min_sendable ofr = rec_min_sendable (rec_offer r)"
      "max_sendable ofr = rec_max_sendable (rec_offer r)" "expires ofr = rec_expires (rec_offer r)" "hash_ok (pl_sha256 L) ofr"
    unfolding stores by blast
  from get_invoice_Inr [OF _ invoice(2)] assms(5) obtain b nodes1 where
    "partition ofr \<in> lb_partitions b" "bal_get_invoice (base (pst_balancer ?s)) ofr b (Some (ip_amount params))
        (Some (pst_invoice_expiry ?s)) nodes1 = (Inr pr, nodes')"
    by (auto simp: serves_def)
  with req(1-3) r ofr invoice(1) show ?thesis unfolding served by metis
qed

theorem served_invoice_witness:
  "\<exists>R w1 f l st r. start_services sample_config_env sample_service_env (Inr ()) ''c'' [] sample_server_world = (Inr R, w1)
    \<and> run_offer R = Some f \<and> run_lnurl R = Some l
    \<and> pay_router (served_pay sample_pay_lib sample_nodes (\<lambda>_. ()) (bs_state l)) (\<lambda>_. Some 7) 0 0 sample_pay_request (st, 0)
        = Some (pay_ok (InvoiceBody ''lnbc1'' []) no_cache_headers, st, 1)
    \<and> fst (delegate_get_offer (ost_offer_store (bs_state f)) ''p'' 7 (Some False) st) = Inr (Some r)"
proof -
  obtain R w1 f l where s: "start_services sample_config_env sample_service_env (Inr ()) ''c'' [] sample_server_world = (Inr R, w1)"
      "run_offer R = Some f" "run_lnurl R = Some l"
    and l: "pst_partitions (bs_state l) = {''p''}" "pst_offer_provider (bs_state l) = MemoryOffer 0"
      "pst_allowed_hosts (bs_state l) = {}" "pst_comment_allowed (bs_state l) = None"
      "ib_selection_capacity_bias (delegate_balancer (pst_balancer (bs_state l))) = None"
    using sample_started by fastforce
  let ?st = "(cw_remote w1)\<lparr>sv_offer_stores := [sample_store]\<rparr>"
  have "sv_offer_stores ?st ! 0 = sample_store" by simp
  from sample_provided_offer [OF this] obtain ofr where
    ofr: "\<And>h. delegate_offer sample_pay_lib (MemoryOffer 0) h ''p'' 7 ?st = Inr (Some ofr)" "partition ofr = ''p''"
      "min_sendable ofr = 1" "max_sendable ofr = 1000" "expires ofr = None" "timestamp ofr = 0"
    by (auto simp: delegate_offer_def provider_offer_def)
  have answer: "pay_router (served_pay sample_pay_lib sample_nodes (\<lambda>_. ()) (bs_state l)) (\<lambda>_. Some 7) 0 0 sample_pay_request (?st, 0)
      = Some (pay_ok (InvoiceBody ''lnbc1'' []) no_cache_headers, ?st, 1)"
    using ofr sample_invoice [OF ofr(2) l(5)] l
    by (simp add: pay_router_def sample_pay_request_def partitions_call_def extract_uuid_param_def parse_uuid_status_def
        served_pay_def pay_handler_def validated_host_def host_domain_def h_invoice_def invoice_key_def pay_get_offer_def
        pay_answer_def not_is_expired_iff)
  have route: "pr_route sample_pay_request = Invoice (Some \<lparr>ip_amount = 5, ip_comment = None\<rparr>)"
    by (simp add: sample_pay_request_def)
  have "select_lawful (lb_select_with (sample_nodes (pst_balancer (bs_state l))))"
    by (simp add: sample_nodes_def first_accepted_lawful)
  from served_invoice [OF s(1) sample_fresh s(2,3) this answer route, of "''lnbc1''" "[]"] obtain r where
    "fst (delegate_get_offer (ost_offer_store (bs_state f)) ''p'' 7 (Some False) ?st) = Inr (Some r)"
    by (auto simp: pay_ok_def sample_pay_request_def extract_uuid_param_def parse_uuid_status_def)
  with s answer show ?thesis by blast
qed

end
