(* ===== verification/AccessLog.thy ===== *)
theory AccessLog
  imports HttpTypes
begin

text \<open>
  \<open>components/src/axum/middleware/logger.rs\<close>: the access log in front of the three services, one line
  of the common log format per answered request. The readers of the proxy headers (the crate
  client-ip), the clock and the printers of the crate http are arguments.
\<close>

section \<open>The parts of a line\<close>

record client_ip_lib =
  ip_cf_connecting :: "header_map \<Rightarrow> string option"
  ip_cloudfront_viewer :: "header_map \<Rightarrow> string option"
  ip_fly_client :: "header_map \<Rightarrow> string option"
  ip_x_real :: "header_map \<Rightarrow> string option"
  ip_true_client :: "header_map \<Rightarrow> string option"
  ip_rightmost_forwarded :: "header_map \<Rightarrow> string option"
  ip_rightmost_x_forwarded_for :: "header_map \<Rightarrow> string option"

datatype http_version = Http09 | Http10 | Http11 | Http2 | Http3 | HttpOther

fun version_text :: "http_version \<Rightarrow> string" where
  "version_text Http09 = ''HTTP/0.9''"
| "version_text Http10 = ''HTTP/1.0''"
| "version_text Http11 = ''HTTP/1.1''"
| "version_text Http2 = ''HTTP/2.0''"
| "version_text Http3 = ''HTTP/3.0''"
| "version_text HttpOther = ''HTTP/1.1''"

text \<open>The chain of \<open>or_else\<close>: the first that is there.\<close>

fun first_some :: "'a option list \<Rightarrow> 'a option" where
  "first_some [] = None"
| "first_some (Some x # xs) = Some x"
| "first_some (None # xs) = first_some xs"

text \<open>The address of the client as a proxy gives it, or else of the peer (\<open>ConnectInfo\<close>).\<close>

definition client_host :: "client_ip_lib \<Rightarrow> header_map \<Rightarrow> string option \<Rightarrow> string" where
  "client_host L hs peer =
     unwrap_or ''-'' (first_some
       [ip_cf_connecting L hs, ip_cloudfront_viewer L hs, ip_fly_client L hs, ip_x_real L hs, ip_true_client L hs,
        ip_rightmost_forwarded L hs, ip_rightmost_x_forwarded_for L hs, peer])"

datatype log_level = LogError | LogWarn | LogInfo

definition access_level :: "nat \<Rightarrow> log_level" where
  "access_level status =
     (if 500 \<le> status \<and> status < 600 then LogError
      else if 400 \<le> status \<and> status < 500 then LogWarn
      else LogInfo)"

definition clf_line :: "string \<Rightarrow> string \<Rightarrow> string \<Rightarrow> string \<Rightarrow> string \<Rightarrow> nat \<Rightarrow> string" where
  "clf_line host stamp method uri version status =
     host @ '' - - '' @ stamp @ '' '' @ method @ '' '' @ uri @ '' '' @ version @ '' '' @ show_nat status @ '' -''"

section \<open>The middleware\<close>

text \<open>What of a request the middleware reads, besides its headers, and what it calls.\<close>

record request_line =
  rl_method :: string
  rl_uri :: string
  rl_version :: http_version
  rl_peer :: "string option"

type_synonym access_log = "(string \<times> log_level \<times> string) list"

definition log_target :: "string \<Rightarrow> string" where
  "log_target service_name = ''clf::'' @ service_name"

definition clf_call ::
  "client_ip_lib \<Rightarrow> string \<Rightarrow> ('s \<Rightarrow> string) \<Rightarrow> request_line
     \<Rightarrow> ('b http_request \<Rightarrow> 's \<Rightarrow> ('e + 'b http_response) \<times> 's)
     \<Rightarrow> 'b http_request \<Rightarrow> 's \<times> access_log \<Rightarrow> ('e + 'b http_response) \<times> 's \<times> access_log" where
  "clf_call L target stamp line inner req = (\<lambda>(s, log).
     let host = client_host L (rq_headers req) (rl_peer line)
     in case inner req s of
          (Inl e, s') \<Rightarrow> (Inl e, s', log)
        | (Inr resp, s') \<Rightarrow>
            (Inr resp, s',
             log @ [(target, access_level (rs_status resp),
                     clf_line host (stamp s') (rl_method line) (rl_uri line) (version_text (rl_version line)) (rs_status resp))]))"

section \<open>The service behind it\<close>

lemma client_host_proxy: "ip_cf_connecting L hs = Some a \<Longrightarrow> client_host L hs peer = a"
  by (simp add: client_host_def)

text \<open>The service behind the log answers and acts as it does without it.\<close>

lemma clf_call_transparent:
  "fst (clf_call L target stamp line inner req (s, log)) = fst (inner req s)"
  "fst (snd (clf_call L target stamp line inner req (s, log))) = snd (inner req s)"
  by (simp_all add: clf_call_def Let_def split: prod.split sum.split)

text \<open>An answered request is one line, at a level above information exactly for an error status.\<close>

lemma clf_call_logged:
  assumes "inner req s = (Inr resp, s')"
  shows "\<exists>text. snd (snd (clf_call L target stamp line inner req (s, log))) = log @ [(target, access_level (rs_status resp), text)]"
    and "access_level (rs_status resp) \<noteq> LogInfo \<longleftrightarrow> 400 \<le> rs_status resp \<and> rs_status resp < 600"
  using assms by (auto simp: clf_call_def access_level_def)

end
