(* ===== verification/Spec2Isabelle.thy ===== *)
theory Spec2Isabelle
  imports OfferLocks Entry ServedPay AccessLog
begin

text \<open>
  Verification library of Switchgear, a load balancer that answers LNURL pay requests with
  invoices of Lightning nodes. All paths below are relative to \<open>src/\<close>.

  \<^bold>\<open>The program.\<close> A wallet asks the LNURL pay service (\<open>service/src/lnurl\<close>) for an offer and then
  for an invoice. The service takes the offer from an offer provider
  (\<open>components/src/offer/provider.rs\<close>), which reads it from an offer store, and hands it to the
  balancer (\<open>pingora/src/balance.rs\<close>). The balancer selects a node among the backends that service
  discovery (\<open>pingora/src/discovery.rs\<close>) takes from a discovery store, asks the node's client
  (\<open>components/src/pool\<close>) for the invoice and retries under a backoff policy
  (\<open>pingora/src/backoff.rs\<close>). Both stores exist three times: in memory, in a database, and as a
  client of the services (\<open>service/src/discovery\<close>, \<open>service/src/offer\<close>) through which the stores are
  administered over HTTP behind a token check (\<open>service/src/axum/auth.rs\<close>). One program
  (\<open>server/src\<close>) starts these services from a configuration file, or, as a client of the two
  administration services, manages backends, offers, metadata and tokens from the command line.

  \<^bold>\<open>Theories, bottom up.\<close>
  \<^item> \<open>Prelude\<close>: machine integers (\<open>u8\<close> to \<open>u64\<close>, \<open>usize\<close> of 64 bits, the wrap-around of the release
    profile), \<open>Result\<close> as a sum, hash maps as association lists with distinct keys whose order is
    that of an iteration, instants as nanoseconds; the collections \<open>result_simps\<close>, \<open>store_defs\<close>,
    \<open>handler_defs\<close> and \<open>client_defs\<close>.
  \<^item> \<open>ServiceApi\<close> (\<open>service-api/src\<close>): error sources and their HTTP status, the records of discovery and
    offers, the entity tag codec, the expiry rule, the LNURL metadata array. \<open>DiscoveryJson\<close> and
    \<open>OfferJson\<close> hold the serde form of the records. \<open>StoreErrors\<close> holds the errors of the stores.
  \<^item> \<open>DiscoveryContract\<close> and \<open>OfferContract\<close>: the store traits as locales (\<open>discovery_store\<close>,
    \<open>offer_store\<close>), each over an abstract content, a map, and with an effect per operation. A client
    of the trait is proved inside the locale (\<open>OfferProvider\<close>) or over its facts.
  \<^item> \<open>DiscoveryMemory\<close> and \<open>OfferMemory\<close> (\<open>components/src/*/memory.rs\<close>): the stores in memory, the
    interpretations of the two locales. A method holds its mutexes from its first to its last line
    and is one transition; \<open>OfferLocks\<close> looks at the order in which the offer store locks its two
    mutexes, as a step relation on tasks.
  \<^item> \<open>Sql\<close>, \<open>DiscoveryDb\<close>, \<open>OfferDb\<close> (\<open>components/src/*/db.rs\<close>, \<open>offer/db_orm\<close>): the stores in a
    database. A statement is a value, the connection an argument, and \<open>sql_lawful\<close> what SQL promises.
  \<^item> \<open>LnPool\<close> and \<open>ClientPool\<close> (\<open>components/src/pool\<close>): the clients of Core Lightning and LND, their
    lazily opened channel, the invoices and metrics they ask for, and the pool with its metrics
    cache. The contract of a client is the locale \<open>node_client\<close>, interpreted for both kinds.
  \<^item> \<open>PingoraDiscovery\<close> (\<open>pingora/src/discovery.rs\<close>, \<open>pool.rs\<close>, \<open>health.rs\<close>), \<open>F64\<close> (the binary64
    arithmetic of the capacity test) and \<open>Balancer\<close> (\<open>pingora/src/balance.rs\<close>, \<open>backoff.rs\<close>,
    \<open>error.rs\<close>). The retry loop has no bound of its own: it is a partial function in the option
    monad, in which \<open>None\<close> is a request that never ends, and whether it ends is a property.
  \<^item> \<open>HttpTypes\<close> (\<open>service/src/axum\<close>), \<open>DiscoveryHandlers\<close> and \<open>OfferHandlers\<close> (the handlers, routes
    and token checks of the two services), \<open>DiscoveryHttp\<close> and \<open>OfferHttp\<close>
    (\<open>components/src/*/http.rs\<close>): the stores over HTTP, closed into a loop with the services.
  \<^item> \<open>LnUrlPay\<close> (\<open>service/src/lnurl\<close>): the pay service over any provider and any balancer. \<open>AccessLog\<close>
    (\<open>components/src/axum/middleware/logger.rs\<close>): the log line in front of every service.
  \<^item> \<open>Migration\<close> (\<open>migration/src\<close>, and \<open>connect\<close> and the migration calls of the two \<open>db.rs\<close>): the tables as
    values, what a data definition statement does to a schema, and a typing of the statements of the
    stores against the tables.
  \<^item> \<open>CommandIo\<close> (\<open>server/src/commands/mod.rs\<close>): the world of a command, with its files, standard streams,
    log and the services it talks to, the errors with their contexts, and the monad \<open>cmd_bind\<close>.
    \<open>NodeConfigJson\<close> (\<open>components/src/pool\<close>, the \<open>config.rs\<close> files), \<open>DiscoveryCommands\<close>, \<open>OfferCommands\<close> and
    \<open>TokenCommands\<close> (\<open>server/src/commands\<close>): every management command.
  \<^item> \<open>ServerConfig\<close> (\<open>server/src/config.rs\<close>, \<open>di/inject/injectors/config.rs\<close>), \<open>Injection\<close> (\<open>di/delegates.rs\<close>, the
    injectors of stores and balancer) and \<open>Services\<close> (the injectors of services, \<open>commands/services.rs\<close>):
    the server as a state \<open>server_state\<close>, whose stores in memory are cells that a delegate refers to
    by number, so that a store that two services share is one store. \<open>ServedPay\<close>: the state that the
    server hands to the pay service. \<open>Entry\<close> (\<open>main.rs\<close>): the dispatch of the commands and the exit code.

  \<^bold>\<open>Correspondence.\<close> A Rust struct is a record, an enum a datatype, a method a definition that takes
  the state and returns its answer with the new state; \<open>?\<close> and \<open>map_err\<close> are the bind and the
  map of the sum type. What a method reads outside the program (clock, file, network) is an argument
  or a step of a world \<open>'w\<close> that is threaded through in the order of the code. A name of the source
  is kept where the logic allows it, with a prefix for the component where two methods share it:
  \<open>mem_\<close>, \<open>db_\<close> and \<open>http_\<close> for the discovery stores, \<open>mo_\<close>, \<open>od_\<close> and \<open>oh_\<close> for the offer stores.

  \<^bold>\<open>What the lemmas show.\<close>
  \<^item> Stores: the memory stores implement their contracts after any history
    (\<open>mem_discovery_refines\<close>, \<open>mem_offers_refines\<close>) and keep referential integrity; the tag protocol
    is sound; the database stores simulate the contract under the laws of SQL, with the weights and
    the partitions of a put as the two exceptions; the HTTP stores are transparent.
  \<^item> Balancer: an answered invoice comes from a selected node that serves the partition of the offer,
    within the capacity bias; which errors are retried; the loop ends exactly when the policy
    gives up or a node answers, and an unbounded policy without a serving node never returns.
  \<^item> Discovery of backends: whatever happened before, a refresh that meets no failure makes the
    backends of the balancer those of the store.
  \<^item> Nodes: an invoice commits to the metadata of its offer, for both kinds of node; a client
    has an open channel exactly if its last call succeeded.
  \<^item> Services: no route answers without an accepted token; the pay service answers only for a
    served partition, an allowed host and an amount in range, and never shows a server error.
  \<^item> Concurrency: the order of the locks admits a deadlock through \<open>delete_metadata\<close>, and none
    without it.
  \<^item> Round trips of the entity tag, the LNURL metadata and the JSON of backends and offers.
  \<^item> Commands: a backend command that fails leaves the store as it was; what \<open>get\<close> saves, \<open>put\<close>
    restores; what \<open>new\<close> writes, \<open>post\<close> loads; a minted token is accepted for its lifetime, the expiry
    being a sum that wraps, and \<open>verify\<close> agrees with the token layer of a service.
  \<^item> Tables: the statements of the stores fit the tables of the migrations, and the migrations can be
    taken back.
  \<^item> Server: conditions on \<open>server_state\<close> that a command leaves in force (\<open>preserves\<close>) or establishes
    (\<open>yields\<close>) are carried through the injectors. The services of one server share its stores, so that an
    invoice sold is for an offer that the offer service manages; the
    backends of the balancer follow what the discovery service answers; a configuration without a limit of
    the backoff gives a balancer that never gives up; the exit code.

  \<^bold>\<open>Arguments and their laws.\<close> Code of other crates is an argument: hex, base64, UUID, email and date
  codecs, \<open>serde_json\<close>, the SHA-256 digest, URL and bech32 parsers, the QR encoder, the hasher, the
  generated gRPC stubs, the load balancer of pingora, the exponential policy of the crate backoff,
  the token validator, the SQL connection,
  the YAML and secrets readers, the faults of the operating system. The laws used are named predicates (\<open>key_codec\<close>,
  \<open>offer_codec\<close>, \<open>text_codec\<close>, \<open>print_codec\<close>, \<open>sql_lawful\<close>, \<open>jwt_lib\<close>): a codec reads what it prints; a statement either fails
  and leaves the tables alone or has the effect SQL gives it; instants are kept to the microsecond;
  a unique violation is reported before a foreign key violation. Each has a concrete instance, at
  which the witnesses evaluate.

  \<^bold>\<open>Bounds.\<close> Integers are words and wrap as the release profile has them. The refinement of the tag
  protocol is stated for histories of fewer than \<open>2 ^ 64\<close> changes, the length at which the
  counter would repeat. Termination of the retry loop is stated for a policy that gives up
  after any number of pauses (\<open>backoff_stops\<close>).

  \<^bold>\<open>Not modelled.\<close> The parsing of arguments by clap, the loggers, the TLS handshake and the loop that
  serves a socket, the operating system behind the stream of signals, the threads on which pingora
  runs its background tasks, the command line of the migrations, the stores and helpers of the test
  suites; in the JSON layer, which of several errors of one document is reported.
\<close>

end
